(* ===== verification/Base.thy ===== *)
theory Base
  imports Main "HOL-Library.Char_ord" "HOL-Library.List_Lexorder"
    "HOL-Library.Product_Lexorder" "HOL-Library.AList" "HOL-Library.Multiset"
begin

text \<open>
  The prelude of the development: the exceptions of the program as values, the sequencing of
  fallible code, Python's text helpers on Latin-1 text, timestamps, dictionaries with insertion
  order, and the collections of rewrite rules the component theories share.
\<close>

named_theorems post_simps \<open>unfolding of the constructors' validation code\<close>
named_theorems lifecycle_simps \<open>the transition tables of the lifecycles\<close>
named_theorems frame_simps \<open>fields an operation leaves alone\<close>

section \<open>Exceptions and fallible code\<close>

text \<open>
  Every exception class the modelled code raises, with its message. The classes below
  \<open>ValueError\<close> in the source (\<open>TaskGraphError\<close>, \<open>BudgetExceededError\<close>,
  \<open>WorkflowTransitionError\<close>, the store errors) keep their own constructor, because handlers
  tell them apart; \<open>is_value_error\<close> is what \<open>except ValueError\<close> catches.
\<close>

datatype error =
    ValueError string
  | TaskGraphError string
  | BudgetExceededError string
  | WorkflowTransitionError string
  | WorkflowStoreError string
  | ResearchMemoryStoreError string
  | WatchlistStoreError string
  | PlannerOutputError string string
  | TypeError string
  | KeyError string
  | AssertionError
  | NotificationAdapterError string
  | OtherException string string

fun is_value_error :: "error \<Rightarrow> bool" where
  "is_value_error (ValueError m) = True"
| "is_value_error (TaskGraphError m) = True"
| "is_value_error (BudgetExceededError m) = True"
| "is_value_error (WorkflowTransitionError m) = True"
| "is_value_error (WorkflowStoreError m) = True"
| "is_value_error (ResearchMemoryStoreError m) = True"
| "is_value_error (WatchlistStoreError m) = True"
| "is_value_error (PlannerOutputError k m) = True"
| "is_value_error _ = False"

text \<open>\<open>str(exc)\<close> and \<open>type(exc).__name__\<close>.\<close>

fun error_text :: "error \<Rightarrow> string" where
  "error_text (ValueError m) = m"
| "error_text (TaskGraphError m) = m"
| "error_text (BudgetExceededError m) = m"
| "error_text (WorkflowTransitionError m) = m"
| "error_text (WorkflowStoreError m) = m"
| "error_text (ResearchMemoryStoreError m) = m"
| "error_text (WatchlistStoreError m) = m"
| "error_text (PlannerOutputError k m) = m"
| "error_text (TypeError m) = m"
| "error_text (KeyError m) = [CHR 0x27] @ m @ [CHR 0x27]"
| "error_text AssertionError = []"
| "error_text (NotificationAdapterError m) = m"
| "error_text (OtherException c m) = m"

fun error_class :: "error \<Rightarrow> string" where
  "error_class (ValueError m) = ''ValueError''"
| "error_class (TaskGraphError m) = ''TaskGraphError''"
| "error_class (BudgetExceededError m) = ''BudgetExceededError''"
| "error_class (WorkflowTransitionError m) = ''WorkflowTransitionError''"
| "error_class (WorkflowStoreError m) = ''WorkflowStoreError''"
| "error_class (ResearchMemoryStoreError m) = ''ResearchMemoryStoreError''"
| "error_class (WatchlistStoreError m) = ''WatchlistStoreError''"
| "error_class (PlannerOutputError k m) = ''PlannerOutputError''"
| "error_class (TypeError m) = ''TypeError''"
| "error_class (KeyError m) = ''KeyError''"
| "error_class AssertionError = ''AssertionError''"
| "error_class (NotificationAdapterError m) = ''NotificationAdapterError''"
| "error_class (OtherException c m) = c"

type_synonym 'a res = "error + 'a"

text \<open>Sequencing: the first exception stops the rest.\<close>

definition and_then :: "'a res \<Rightarrow> ('a \<Rightarrow> 'b res) \<Rightarrow> 'b res" where
  "and_then r f = (case r of Inl e \<Rightarrow> Inl e | Inr x \<Rightarrow> f x)"

lemma and_then_simps [simp]:
  "and_then (Inl e) f = Inl e"
  "and_then (Inr x) f = f x"
  by (simp_all add: and_then_def)

lemma and_then_Inr_iff: "and_then r f = Inr y \<longleftrightarrow> (\<exists>x. r = Inr x \<and> f x = Inr y)"
  by (cases r) auto

lemma and_then_InrE [elim!]:
  assumes "and_then r f = Inr y"
  obtains x where "r = Inr x" "f x = Inr y"
  using assms by (auto simp: and_then_Inr_iff)

lemma and_then_Inl_iff:
  "and_then r f = Inl e \<longleftrightarrow> r = Inl e \<or> (\<exists>x. r = Inr x \<and> f x = Inl e)"
  by (cases r) auto

text \<open>A loop that builds a list and may raise.\<close>

fun map_res :: "('a \<Rightarrow> 'b res) \<Rightarrow> 'a list \<Rightarrow> 'b list res" where
  "map_res f [] = Inr []"
| "map_res f (x # xs) = and_then (f x) (\<lambda>y. and_then (map_res f xs) (\<lambda>ys. Inr (y # ys)))"

lemma map_res_Inr_map:
  "(\<And>x. x \<in> set xs \<Longrightarrow> f x = Inr (g x)) \<Longrightarrow> map_res f xs = Inr (map g xs)"
  by (induction xs) auto

lemma map_res_InrD: "map_res f xs = Inr ys \<Longrightarrow> list_all2 (\<lambda>x y. f x = Inr y) xs ys"
  by (induction xs arbitrary: ys) auto

text \<open>A \<open>for\<close> loop over a list with a state, stopped by the first exception.\<close>

fun fold_res :: "('a \<Rightarrow> 's \<Rightarrow> 's res) \<Rightarrow> 'a list \<Rightarrow> 's \<Rightarrow> 's res" where
  "fold_res f [] s = Inr s"
| "fold_res f (x # xs) s = and_then (f x s) (fold_res f xs)"

text \<open>An invariant of the loop state is kept by the loop.\<close>

lemma fold_res_invariant:
  assumes "fold_res f xs s = Inr s'" and "P s"
    and "\<And>x s s'. x \<in> set xs \<Longrightarrow> P s \<Longrightarrow> f x s = Inr s' \<Longrightarrow> P s'"
  shows "P s'"
  using assms by (induction xs arbitrary: s) auto

section \<open>Text\<close>

text \<open>
  Python strings are modelled on the code points below 256. \<open>ord_char\<close> is \<open>ord\<close>;
  \<open>is_space\<close> is the whitespace of \<open>str.split\<close> and \<open>str.strip\<close> in that range.
\<close>

definition ord_char :: "char \<Rightarrow> nat" where
  "ord_char c = of_char c"

definition is_space :: "char \<Rightarrow> bool" where
  "is_space c \<longleftrightarrow> (let n = ord_char c in
     (9 \<le> n \<and> n \<le> 13) \<or> (28 \<le> n \<and> n \<le> 32) \<or> n = 133 \<or> n = 160)"

text \<open>\<open>any(ord(ch) < 32 for ch in text)\<close>\<close>

definition has_control_chars :: "string \<Rightarrow> bool" where
  "has_control_chars s \<longleftrightarrow> list_ex (\<lambda>c. ord_char c < 32) s"

text \<open>The same tests on the bits of a character, for evaluation.\<close>

lemma ord_char_lt_32: "ord_char c < 32 \<longleftrightarrow> \<not> digit5 c \<and> \<not> digit6 c \<and> \<not> digit7 c"
  by (cases c) (auto simp: ord_char_def split: bool.splits)

lemma has_control_chars_code [code]:
  "has_control_chars s \<longleftrightarrow> list_ex (\<lambda>c. \<not> digit5 c \<and> \<not> digit6 c \<and> \<not> digit7 c) s"
  by (simp add: has_control_chars_def ord_char_lt_32)

lemma is_space_code [code]:
  "is_space (Char b0 b1 b2 b3 b4 b5 b6 b7) \<longleftrightarrow>
     (if b6 then False
      else if b7 then
        (if b5 then \<not> b4 \<and> \<not> b3 \<and> \<not> b2 \<and> \<not> b1 \<and> \<not> b0
         else \<not> b4 \<and> \<not> b3 \<and> b2 \<and> \<not> b1 \<and> b0)
      else if b5 then \<not> b4 \<and> \<not> b3 \<and> \<not> b2 \<and> \<not> b1 \<and> \<not> b0
      else if b4 then b3 \<and> b2
      else b3 \<and> (if b2 then \<not> b1 else b1 \<or> b0))"
  by (cases b0; cases b1; cases b2; cases b3; cases b4; cases b5; cases b6; cases b7)
    (simp_all add: is_space_def ord_char_def)

definition py_strip :: "string \<Rightarrow> string" where
  "py_strip s = rev (dropWhile is_space (rev (dropWhile is_space s)))"

function py_split :: "string \<Rightarrow> string list" where
  "py_split [] = []"
| "py_split (c # cs) =
     (if is_space c then py_split cs
      else (c # takeWhile (\<lambda>x. \<not> is_space x) cs)
           # py_split (dropWhile (\<lambda>x. \<not> is_space x) cs))"
  by pat_completeness auto
termination
  by (relation "measure length") (auto intro: le_imp_less_Suc length_dropWhile_le)

fun py_join :: "string \<Rightarrow> string list \<Rightarrow> string" where
  "py_join sep [] = []"
| "py_join sep [w] = w"
| "py_join sep (w # v # ws) = w @ sep @ py_join sep (v # ws)"

text \<open>\<open>" ".join(text.strip().split())\<close>, the normalisation almost every constructor applies.\<close>

definition norm_text :: "string \<Rightarrow> string" where
  "norm_text s = py_join '' '' (py_split (py_strip s))"

lemma is_space_blank [simp]: "is_space CHR '' ''"
  by (simp add: is_space_def ord_char_def)

definition word :: "string \<Rightarrow> bool" where
  "word w \<longleftrightarrow> w \<noteq> [] \<and> list_all (\<lambda>c. \<not> is_space c) w"

lemma py_split_words: "w \<in> set (py_split s) \<Longrightarrow> word w"
proof (induction s rule: py_split.induct)
  case 1
  then show ?case by simp
next
  case (2 c cs)
  show ?case
  proof (cases "is_space c")
    case True
    with 2 show ?thesis by simp
  next
    case False
    let ?t = "takeWhile (\<lambda>x. \<not> is_space x) cs"
    from 2(3) False have "w = c # ?t \<or> w \<in> set (py_split (dropWhile (\<lambda>x. \<not> is_space x) cs))"
      by simp
    moreover have "word (c # ?t)"
      using False by (auto simp: word_def list_all_iff dest: set_takeWhileD)
    ultimately show ?thesis using 2(2) False by blast
  qed
qed

lemma py_split_word_append:
  assumes "word w" and "rest = [] \<or> is_space (hd rest)"
  shows "py_split (w @ rest) = w # py_split rest"
proof -
  obtain c cs where w: "w = c # cs" "\<not> is_space c" "list_all (\<lambda>x. \<not> is_space x) cs"
    using assms(1) by (cases w) (auto simp: word_def)
  have all: "\<And>x. x \<in> set cs \<Longrightarrow> \<not> is_space x" using w(3) by (simp add: list_all_iff)
  have "takeWhile (\<lambda>x. \<not> is_space x) (cs @ rest) = cs"
    using all assms(2) by (cases rest) (auto simp: takeWhile_append)
  moreover have "dropWhile (\<lambda>x. \<not> is_space x) (cs @ rest) = rest"
    using all assms(2) by (cases rest) (auto simp: dropWhile_append)
  ultimately show ?thesis using w by simp
qed

lemma py_split_join:
  assumes "\<forall>w \<in> set ws. word w"
  shows "py_split (py_join '' '' ws) = ws"
  using assms
proof (induction "'' ''" ws rule: py_join.induct)
  case 1
  show ?case by simp
next
  case (2 w)
  then show ?case using py_split_word_append [of w "[]"] by simp
next
  case (3 w v ws)
  then show ?case
    using py_split_word_append [of w "CHR '' '' # py_join '' '' (v # ws)"] by simp
qed

lemma py_join_head: "\<forall>w \<in> set ws. word w \<Longrightarrow> ws \<noteq> [] \<Longrightarrow>
  py_join '' '' ws \<noteq> [] \<and> \<not> is_space (hd (py_join '' '' ws))"
  by (induction "'' ''" ws rule: py_join.induct) (auto simp: word_def neq_Nil_conv)

lemma py_join_last: "\<forall>w \<in> set ws. word w \<Longrightarrow> ws \<noteq> [] \<Longrightarrow>
  py_join '' '' ws \<noteq> [] \<and> \<not> is_space (last (py_join '' '' ws))"
proof (induction "'' ''" ws rule: py_join.induct)
  case 1
  then show ?case by simp
next
  case (2 w)
  then show ?case by (auto simp: word_def list_all_iff)
next
  case (3 w v ws)
  then show ?case by simp
qed

lemma py_strip_id:
  assumes "s \<noteq> []" "\<not> is_space (hd s)" "\<not> is_space (last s)"
  shows "py_strip s = s"
proof -
  have "dropWhile is_space s = s" using assms(1,2) by (cases s) auto
  moreover have "dropWhile is_space (rev s) = rev s"
    using assms(1,3) by (cases "rev s") (auto simp: hd_rev [symmetric])
  ultimately show ?thesis by (simp add: py_strip_def)
qed

lemma py_strip_Nil [simp]: "py_strip [] = []"
  by (simp add: py_strip_def)

lemma py_strip_join:
  assumes "\<forall>w \<in> set ws. word w"
  shows "py_strip (py_join '' '' ws) = py_join '' '' ws"
proof (cases ws)
  case Nil
  then show ?thesis by simp
next
  case (Cons w vs)
  then show ?thesis
    using py_join_head [OF assms] py_join_last [OF assms] py_strip_id by auto
qed

lemma norm_text_idem [simp]: "norm_text (norm_text s) = norm_text s"
  by (simp add: norm_text_def py_strip_join py_split_join py_split_words)

lemma py_strip_idem [simp]: "py_strip (py_strip s) = py_strip s"
proof (cases "py_strip s = []")
  case True
  then show ?thesis by simp
next
  case False
  let ?d = "dropWhile is_space s"
  let ?r = "dropWhile is_space (rev ?d)"
  have s: "py_strip s = rev ?r" by (simp add: py_strip_def)
  with False have r: "?r \<noteq> []" by simp
  then have lst: "\<not> is_space (last (rev ?r))"
    using hd_dropWhile [of is_space "rev ?d"] by (simp add: last_rev)
  have d: "?d \<noteq> []" using r by (cases "?d") simp_all
  have "?d = rev ?r @ rev (takeWhile is_space (rev ?d))"
    by (metis rev_append rev_rev_ident takeWhile_dropWhile_id)
  then have "hd ?d = hd (rev ?r)" using r by (metis hd_append2 rev_is_Nil_conv)
  moreover have "\<not> is_space (hd ?d)" using hd_dropWhile [OF d] .
  ultimately have "\<not> is_space (hd (rev ?r))" by simp
  then show ?thesis using s False lst py_strip_id by simp
qed

text \<open>Decimal numerals, as f-strings print integers.\<close>

definition digit_char :: "nat \<Rightarrow> char" where
  "digit_char d = char_of (48 + d)"

function nat_text :: "nat \<Rightarrow> string" where
  "nat_text n = (if n < 10 then [digit_char n] else nat_text (n div 10) @ [digit_char (n mod 10)])"
  by pat_completeness auto
termination
  by (relation "measure id") auto

declare nat_text.simps [simp del]

definition int_text :: "int \<Rightarrow> string" where
  "int_text i = (if i < 0 then ''-'' @ nat_text (nat (- i)) else nat_text (nat i))"

text \<open>\<open>f"{n:0kd}"\<close>\<close>

definition pad_text :: "nat \<Rightarrow> nat \<Rightarrow> string" where
  "pad_text k n = (let t = nat_text n in replicate (k - length t) (CHR ''0'') @ t)"

definition py_lower_char :: "char \<Rightarrow> char" where
  "py_lower_char c = (let n = ord_char c in
     if (65 \<le> n \<and> n \<le> 90) \<or> (192 \<le> n \<and> n \<le> 222 \<and> n \<noteq> 215) then char_of (n + 32) else c)"

definition py_lower :: "string \<Rightarrow> string" where
  "py_lower = map py_lower_char"

section \<open>Timestamps\<close>

text \<open>
  A \<open>datetime\<close> with its fields; \<open>dt_offset\<close> is the UTC offset in seconds, \<open>None\<close> for a
  naive timestamp (\<open>tzinfo is None\<close>).
\<close>

record datetime =
  dt_year :: nat
  dt_month :: nat
  dt_day :: nat
  dt_hour :: nat
  dt_minute :: nat
  dt_second :: nat
  dt_micro :: nat
  dt_offset :: "int option"

definition tz_aware :: "datetime \<Rightarrow> bool" where
  "tz_aware d \<longleftrightarrow> dt_offset d \<noteq> None"

definition offset_text :: "int \<Rightarrow> string" where
  "offset_text z = (let a = nat (abs z) in
     (if z < 0 then ''-'' else ''+'') @ pad_text 2 (a div 3600) @ '':'' @
     pad_text 2 (a div 60 mod 60) @
     (if a mod 60 = 0 then [] else '':'' @ pad_text 2 (a mod 60)))"

text \<open>\<open>datetime.isoformat()\<close>\<close>

definition isoformat :: "datetime \<Rightarrow> string" where
  "isoformat d =
     pad_text 4 (dt_year d) @ ''-'' @ pad_text 2 (dt_month d) @ ''-'' @ pad_text 2 (dt_day d) @
     ''T'' @ pad_text 2 (dt_hour d) @ '':'' @ pad_text 2 (dt_minute d) @ '':'' @
     pad_text 2 (dt_second d) @
     (if dt_micro d = 0 then [] else ''.'' @ pad_text 6 (dt_micro d)) @
     (case dt_offset d of None \<Rightarrow> [] | Some z \<Rightarrow> offset_text z)"

text \<open>
  \<open>datetime.astimezone(UTC)\<close>: the wall clock moved by the offset, which is less than a day, with
  the proleptic Gregorian calendar. The overflow of the years 1 and 9999 is not modelled.
\<close>

definition leap_year :: "nat \<Rightarrow> bool" where
  "leap_year y \<longleftrightarrow> y mod 4 = 0 \<and> (y mod 100 \<noteq> 0 \<or> y mod 400 = 0)"

definition days_in_month :: "nat \<Rightarrow> nat \<Rightarrow> nat" where
  "days_in_month y m =
     (if m = 2 then (if leap_year y then 29 else 28) else if m \<in> {4, 6, 9, 11} then 30 else 31)"

definition next_day :: "nat \<times> nat \<times> nat \<Rightarrow> nat \<times> nat \<times> nat" where
  "next_day = (\<lambda>(y, m, d).
     if d < days_in_month y m then (y, m, d + 1)
     else if m < 12 then (y, m + 1, 1) else (y + 1, 1, 1))"

definition previous_day :: "nat \<times> nat \<times> nat \<Rightarrow> nat \<times> nat \<times> nat" where
  "previous_day = (\<lambda>(y, m, d).
     if 1 < d then (y, m, d - 1)
     else if 1 < m then (y, m - 1, days_in_month y (m - 1)) else (y - 1, 12, 31))"

definition to_utc :: "datetime \<Rightarrow> datetime" where
  "to_utc t =
     (case dt_offset t of None \<Rightarrow> t
      | Some z \<Rightarrow>
          let s = int (dt_hour t * 3600 + dt_minute t * 60 + dt_second t) - z;
              (y, m, d) = (if s < 0 then previous_day (dt_year t, dt_month t, dt_day t)
                           else if 86400 \<le> s then next_day (dt_year t, dt_month t, dt_day t)
                           else (dt_year t, dt_month t, dt_day t));
              r = nat (s mod 86400)
          in t\<lparr>dt_year := y, dt_month := m, dt_day := d, dt_hour := r div 3600,
               dt_minute := r div 60 mod 60, dt_second := r mod 60, dt_offset := Some 0\<rparr>)"

lemma tz_aware_to_utc [simp]: "tz_aware (to_utc t) = tz_aware t"
  by (auto simp: tz_aware_def to_utc_def Let_def split: option.splits prod.splits)

section \<open>UUIDs\<close>

text \<open>
  A \<open>uuid.UUID\<close> is its canonical lower-case text; \<open>uuid_is_v4\<close> is \<open>value.version == 4\<close>
  read off the version and variant digits of that text.
\<close>

type_synonym uuid = string

definition uuid_is_v4 :: "uuid \<Rightarrow> bool" where
  "uuid_is_v4 u \<longleftrightarrow> length u = 36 \<and> u ! 14 = CHR ''4'' \<and> u ! 19 \<in> set ''89ab''"

section \<open>Lists\<close>

text \<open>A list of distinct keys has one element per key.\<close>

lemma distinct_map_inj: "distinct (map f xs) \<Longrightarrow> x \<in> set xs \<Longrightarrow> y \<in> set xs \<Longrightarrow> f x = f y \<Longrightarrow> x = y"
  by (auto simp: distinct_map dest: inj_onD)

lemma find_unique:
  assumes "distinct (map f xs)" "x \<in> set xs"
  shows "find (\<lambda>y. f y = f x) xs = Some x"
  using assms by (induction xs) (auto simp: image_iff)

lemma find_None_key: "find (\<lambda>y. f y = k) xs = None \<longleftrightarrow> k \<notin> f ` set xs"
  by (auto simp: find_None_iff)

lemma find_SomeD: "find P xs = Some x \<Longrightarrow> x \<in> set xs \<and> P x"
  by (metis find_Some_iff nth_mem)

text \<open>\<open>dict.fromkeys(xs)\<close> keeps the first occurrence of every element, in order.\<close>

definition dedupe :: "'a list \<Rightarrow> 'a list" where
  "dedupe xs = rev (remdups (rev xs))"

lemma set_dedupe [simp]: "set (dedupe xs) = set xs"
  by (simp add: dedupe_def)

lemma distinct_dedupe [simp]: "distinct (dedupe xs)"
  by (simp add: dedupe_def)

lemma distinct_sort_key [simp]: "distinct (map f (sort_key g xs)) = distinct (map f xs)"
proof -
  have "mset (map f (sort_key g xs)) = mset (map f xs)" by (simp add: mset_map)
  then show ?thesis by (metis mset_eq_imp_distinct_iff)
qed

end
