(* ===== verification/Lifecycle.thy ===== *)
theory Lifecycle
  imports Base
begin

text \<open>
  The interface every lifecycle of the program shares: a transition table \<open>allowed\<close> (the
  dictionaries \<open>_ALLOWED_TRANSITIONS\<close> and \<open>_ALLOWED\<close> of the source) and the states a
  caller may treat as final. Research tasks, research workflows and meta-steps interpret it on
  their own tables.
\<close>

text \<open>A history: each state is reached from the one before by one table entry.\<close>

fun legal_history :: "('s \<Rightarrow> 's set) \<Rightarrow> 's \<Rightarrow> 's list \<Rightarrow> bool" where
  "legal_history allowed s [] = True"
| "legal_history allowed s (t # ts) = (t \<in> allowed s \<and> legal_history allowed t ts)"

fun last_state :: "'s \<Rightarrow> 's list \<Rightarrow> 's" where
  "last_state s [] = s"
| "last_state s (t # ts) = last_state t ts"

lemma legal_history_append:
  "legal_history allowed s (ts @ us) \<longleftrightarrow>
     legal_history allowed s ts \<and> legal_history allowed (last_state s ts) us"
  by (induction ts arbitrary: s) auto

locale lifecycle =
  fixes allowed :: "'s \<Rightarrow> 's set"
    and final :: "'s \<Rightarrow> bool"
  assumes final_iff_stuck: "final s \<longleftrightarrow> allowed s = {}"
begin

lemma final_no_successor: "final s \<Longrightarrow> t \<notin> allowed s"
  by (simp add: final_iff_stuck)

lemma final_history_empty: "final s \<Longrightarrow> legal_history allowed s ts \<Longrightarrow> ts = []"
  by (cases ts) (auto simp: final_iff_stuck)

text \<open>In a legal history a final state can only be the last one.\<close>

lemma final_absorbing:
  assumes "legal_history allowed s (ts @ us)" and "final (last_state s ts)"
  shows "us = []"
  using assms final_history_empty by (simp add: legal_history_append)

end

text \<open>A lifecycle without loops: a rank that every table entry decreases bounds each history.\<close>

locale ranked_lifecycle = lifecycle allowed final
  for allowed :: "'s \<Rightarrow> 's set" and final :: "'s \<Rightarrow> bool" +
  fixes rank :: "'s \<Rightarrow> nat"
  assumes rank_decreases: "t \<in> allowed s \<Longrightarrow> rank t < rank s"
begin

lemma history_bounded: "legal_history allowed s ts \<Longrightarrow> length ts + rank (last_state s ts) \<le> rank s"
proof (induction ts arbitrary: s)
  case Nil
  then show ?case by simp
next
  case (Cons t ts)
  then have "length ts + rank (last_state t ts) \<le> rank t" and "rank t < rank s"
    by (auto intro: rank_decreases)
  then show ?case by simp
qed

lemma history_distinct: "legal_history allowed s ts \<Longrightarrow> s \<notin> set ts"
proof -
  have "t \<in> set ts \<Longrightarrow> legal_history allowed s ts \<Longrightarrow> rank t < rank s" for t s ts
  proof (induction ts arbitrary: s)
    case Nil
    then show ?case by simp
  next
    case (Cons u us)
    then have "rank u < rank s" using rank_decreases by simp
    with Cons show ?case by fastforce
  qed
  then show "legal_history allowed s ts \<Longrightarrow> s \<notin> set ts" by blast
qed

end

end
