(* ===== verification/Tasks.thy ===== *)
theory Tasks
  imports Lifecycle
begin

text \<open>
  Research tasks and their lifecycle (\<open>domain/orchestration/tasks.py\<close>): the task record, its
  constructor's validation, and \<open>with_status\<close>, the only way a task changes state.
\<close>

section \<open>Vocabulary\<close>

datatype task_type =
    Type_COMPANY_RESOLUTION
  | Type_MARKET_INTELLIGENCE
  | Type_FINANCIAL_INTELLIGENCE
  | Type_NEWS_EVENT_INTELLIGENCE
  | Type_INDUSTRY_INTELLIGENCE
  | Type_REGULATORY_INTELLIGENCE

datatype task_status =
    Task_PENDING
  | Task_READY
  | Task_RUNNING
  | Task_SUCCEEDED
  | Task_FAILED
  | Task_SKIPPED
  | Task_BLOCKED

fun task_status_value :: "task_status \<Rightarrow> string" where
  "task_status_value Task_PENDING = ''pending''"
| "task_status_value Task_READY = ''ready''"
| "task_status_value Task_RUNNING = ''running''"
| "task_status_value Task_SUCCEEDED = ''succeeded''"
| "task_status_value Task_FAILED = ''failed''"
| "task_status_value Task_SKIPPED = ''skipped''"
| "task_status_value Task_BLOCKED = ''blocked''"

fun task_allowed :: "task_status \<Rightarrow> task_status set" where
  "task_allowed Task_PENDING = {Task_READY, Task_BLOCKED, Task_SKIPPED}"
| "task_allowed Task_READY = {Task_RUNNING, Task_BLOCKED, Task_SKIPPED, Task_PENDING}"
| "task_allowed Task_RUNNING = {Task_SUCCEEDED, Task_FAILED, Task_BLOCKED, Task_SKIPPED}"
| "task_allowed Task_SUCCEEDED = {}"
| "task_allowed Task_FAILED = {Task_READY}"
| "task_allowed Task_SKIPPED = {}"
| "task_allowed Task_BLOCKED = {Task_READY, Task_SKIPPED}"

text \<open>\<open>TaskId\<close>: a wrapped UUID; its constructor accepts version 4 only.\<close>

datatype task_id = TaskId (task_id_text: uuid)

definition mk_task_id :: "uuid \<Rightarrow> task_id res" where
  "mk_task_id u =
     (if \<not> uuid_is_v4 u then Inl (ValueError ''task_id must be a UUIDv4'') else Inr (TaskId u))"

lemma task_id_text_eq_iff [simp]: "task_id_text a = task_id_text b \<longleftrightarrow> a = b"
  by (cases a; cases b) simp

instantiation task_id :: linorder
begin

definition less_eq_task_id :: "task_id \<Rightarrow> task_id \<Rightarrow> bool" where
  "less_eq_task_id a b \<longleftrightarrow> task_id_text a \<le> task_id_text b"

definition less_task_id :: "task_id \<Rightarrow> task_id \<Rightarrow> bool" where
  "less_task_id a b \<longleftrightarrow> task_id_text a < task_id_text b"

instance
  by standard (auto simp: less_eq_task_id_def less_task_id_def less_le_not_le)

end

section \<open>The task record\<close>

record research_task =
  task_id :: task_id
  task_type :: task_type
  capability_id :: string
  description :: string
  dependencies :: "task_id list"
  task_status :: task_status
  priority :: int
  required :: bool
  attempt_count :: int
  max_attempts :: int
  task_created_at :: "datetime option"
  task_started_at :: "datetime option"
  task_completed_at :: "datetime option"

text \<open>\<open>task.task_id.as_text()\<close>, the key of every dictionary of tasks.\<close>

definition task_key :: "research_task \<Rightarrow> string" where
  "task_key t = task_id_text (task_id t)"

definition dep_keys :: "research_task \<Rightarrow> string list" where
  "dep_keys t = map task_id_text (dependencies t)"

definition naive_stamp :: "datetime option \<Rightarrow> bool" where
  "naive_stamp ts \<longleftrightarrow> (case ts of None \<Rightarrow> False | Some d \<Rightarrow> \<not> tz_aware d)"

lemma naive_stamp_simps [simp]:
  "\<not> naive_stamp None"
  "naive_stamp (Some d) \<longleftrightarrow> \<not> tz_aware d"
  by (simp_all add: naive_stamp_def)

text \<open>
  \<open>ResearchTask.__post_init__\<close>: the checks in the order of the source; the result is the task
  with its normalised fields. \<open>dataclasses.replace\<close> runs it again on the changed fields.
\<close>

definition task_post_init :: "research_task \<Rightarrow> research_task res" where
  "task_post_init t =
     (if py_strip (capability_id t) = [] then Inl (ValueError ''capability_id is required'')
      else
        let desc = norm_text (description t) in
        if desc = [] \<or> length desc > 512
        then Inl (ValueError ''task description empty or exceeds bounds'')
        else if has_control_chars desc
        then Inl (ValueError ''task description must not contain control characters'')
        else if priority t < 1 \<or> priority t > 1000
        then Inl (ValueError ''priority must be between 1 and 1000'')
        else if max_attempts t < 1 \<or> max_attempts t > 10
        then Inl (ValueError ''max_attempts must be between 1 and 10'')
        else if attempt_count t < 0 \<or> attempt_count t > max_attempts t
        then Inl (ValueError ''attempt_count out of bounds'')
        else if task_id t \<in> set (dependencies t)
        then Inl (ValueError ''task cannot depend on itself'')
        else if list_ex naive_stamp [task_created_at t, task_started_at t, task_completed_at t]
        then Inl (ValueError ''task timestamps must be timezone-aware when set'')
        else Inr (t\<lparr>capability_id := py_strip (capability_id t), description := desc\<rparr>))"

definition wf_task :: "research_task \<Rightarrow> bool" where
  "wf_task t \<longleftrightarrow> task_post_init t = Inr t"

text \<open>\<open>ResearchTask.with_status\<close>; \<open>auth\<close> is \<open>authorized_retry\<close>.\<close>

definition with_status ::
    "research_task \<Rightarrow> task_status \<Rightarrow> datetime option \<Rightarrow> bool \<Rightarrow> research_task res" where
  "with_status t new stamp auth =
     (if new \<notin> task_allowed (task_status t)
      then Inl (ValueError (''invalid task transition '' @ task_status_value (task_status t) @
                            '' -> '' @ task_status_value new))
      else if task_status t = Task_FAILED \<and> new = Task_READY \<and> \<not> auth
      then Inl (ValueError ''FAILED -> READY requires authorized_retry=True'')
      else if new = Task_RUNNING \<and> attempt_count t + 1 > max_attempts t
      then Inl (ValueError ''max_attempts exceeded'')
      else task_post_init
        (t\<lparr>task_status := new,
           task_started_at := (if new = Task_RUNNING then stamp else task_started_at t),
           task_completed_at :=
             (if new \<in> {Task_SUCCEEDED, Task_FAILED, Task_SKIPPED} then stamp
              else task_completed_at t),
           attempt_count :=
             (if new = Task_RUNNING then attempt_count t + 1 else attempt_count t)\<rparr>))"

section \<open>Well-formed tasks\<close>

lemma wf_task_iff:
  "wf_task t \<longleftrightarrow>
     capability_id t \<noteq> [] \<and> py_strip (capability_id t) = capability_id t \<and>
     norm_text (description t) = description t \<and> description t \<noteq> [] \<and>
     length (description t) \<le> 512 \<and> \<not> has_control_chars (description t) \<and>
     1 \<le> priority t \<and> priority t \<le> 1000 \<and> 1 \<le> max_attempts t \<and> max_attempts t \<le> 10 \<and>
     0 \<le> attempt_count t \<and> attempt_count t \<le> max_attempts t \<and>
     task_id t \<notin> set (dependencies t) \<and>
     \<not> naive_stamp (task_created_at t) \<and> \<not> naive_stamp (task_started_at t) \<and>
     \<not> naive_stamp (task_completed_at t)"
proof -
  have rec: "t\<lparr>capability_id := c, description := d\<rparr> = t \<longleftrightarrow>
      c = capability_id t \<and> d = description t" for c d
    by (cases t) auto
  show ?thesis
    by (auto simp: wf_task_def task_post_init_def Let_def rec)
qed

text \<open>What the constructor accepts is well formed, and its normalisation is idempotent.\<close>

lemma task_post_init_wf: "task_post_init t = Inr t' \<Longrightarrow> wf_task t'"
  unfolding wf_task_iff
  by (auto simp: task_post_init_def Let_def split: if_splits)

lemma task_post_init_frame:
  assumes "task_post_init t = Inr t'"
  shows "task_id t' = task_id t" "task_type t' = task_type t" "dependencies t' = dependencies t"
    "task_status t' = task_status t" "priority t' = priority t" "required t' = required t"
    "attempt_count t' = attempt_count t" "max_attempts t' = max_attempts t"
  using assms by (auto simp: task_post_init_def Let_def split: if_splits)

text \<open>
  The transition as it acts on a well-formed task: the fields \<open>with_status\<close> writes.
\<close>

definition moved :: "research_task \<Rightarrow> task_status \<Rightarrow> datetime option \<Rightarrow> research_task" where
  "moved t new stamp =
     t\<lparr>task_status := new,
       task_started_at := (if new = Task_RUNNING then stamp else task_started_at t),
       task_completed_at :=
         (if new \<in> {Task_SUCCEEDED, Task_FAILED, Task_SKIPPED} then stamp else task_completed_at t),
       attempt_count := (if new = Task_RUNNING then attempt_count t + 1 else attempt_count t)\<rparr>"

definition may_move :: "research_task \<Rightarrow> task_status \<Rightarrow> bool \<Rightarrow> bool" where
  "may_move t new auth \<longleftrightarrow>
     new \<in> task_allowed (task_status t) \<and>
     (task_status t = Task_FAILED \<and> new = Task_READY \<longrightarrow> auth) \<and>
     (new = Task_RUNNING \<longrightarrow> attempt_count t < max_attempts t)"

lemma moved_frame [simp]:
  "task_id (moved t new stamp) = task_id t"
  "task_type (moved t new stamp) = task_type t"
  "capability_id (moved t new stamp) = capability_id t"
  "description (moved t new stamp) = description t"
  "dependencies (moved t new stamp) = dependencies t"
  "priority (moved t new stamp) = priority t"
  "required (moved t new stamp) = required t"
  "max_attempts (moved t new stamp) = max_attempts t"
  "task_status (moved t new stamp) = new"
  "attempt_count (moved t new stamp) =
     (if new = Task_RUNNING then attempt_count t + 1 else attempt_count t)"
  by (simp_all add: moved_def)

lemma task_key_moved [simp]: "task_key (moved t new stamp) = task_key t"
  by (simp add: task_key_def)

lemma dep_keys_moved [simp]: "dep_keys (moved t new stamp) = dep_keys t"
  by (simp add: dep_keys_def)

lemma wf_moved:
  assumes "wf_task t" "\<not> naive_stamp stamp" "new = Task_RUNNING \<longrightarrow> attempt_count t < max_attempts t"
  shows "wf_task (moved t new stamp)"
  using assms unfolding wf_task_iff moved_def by auto

text \<open>On well-formed tasks \<open>with_status\<close> raises exactly when the move is not allowed.\<close>

lemma with_status_eq:
  assumes "wf_task t" "\<not> naive_stamp stamp"
  shows "may_move t new auth \<Longrightarrow> with_status t new stamp auth = Inr (moved t new stamp)"
    and "\<not> may_move t new auth \<Longrightarrow> \<exists>m. with_status t new stamp auth = Inl (ValueError m)"
proof -
  assume m: "may_move t new auth"
  then have "wf_task (moved t new stamp)"
    using assms wf_moved by (simp add: may_move_def)
  then show "with_status t new stamp auth = Inr (moved t new stamp)"
    using m unfolding with_status_def may_move_def wf_task_def moved_def by auto
next
  assume "\<not> may_move t new auth"
  then show "\<exists>m. with_status t new stamp auth = Inl (ValueError m)"
    unfolding with_status_def may_move_def by auto
qed

lemma with_status_InrD:
  assumes "wf_task t" "\<not> naive_stamp stamp" "with_status t new stamp auth = Inr t'"
  shows "may_move t new auth \<and> t' = moved t new stamp \<and> wf_task t'"
proof -
  have m: "may_move t new auth"
    using with_status_eq(2) [OF assms(1,2)] assms(3) by fastforce
  with with_status_eq(1) [OF assms(1,2) m] assms(3) show ?thesis
    using wf_moved [OF assms(1,2)] by (auto simp: may_move_def)
qed

text \<open>Whatever the task and the arguments: the table, the retry guard and the attempt bound.\<close>

lemma with_status_sound:
  assumes "with_status t new stamp auth = Inr t'"
  shows "new \<in> task_allowed (task_status t)" "task_status t' = new" "wf_task t'"
    "task_id t' = task_id t" "dependencies t' = dependencies t"
    "task_status t = Task_FAILED \<Longrightarrow> auth"
    "attempt_count t' = attempt_count t + (if new = Task_RUNNING then 1 else 0)"
    "attempt_count t' \<le> max_attempts t'" "max_attempts t' = max_attempts t"
proof -
  note s = assms [unfolded with_status_def]
  show "new \<in> task_allowed (task_status t)" using s by (auto split: if_splits)
  obtain u where u: "task_post_init u = Inr t'" "task_status u = new" "task_id u = task_id t"
      "dependencies u = dependencies t" "max_attempts u = max_attempts t"
      "attempt_count u = attempt_count t + (if new = Task_RUNNING then 1 else 0)"
    using s by (auto split: if_splits)
  note f = task_post_init_frame [OF u(1)]
  show "task_status t' = new" "task_id t' = task_id t" "dependencies t' = dependencies t"
    "attempt_count t' = attempt_count t + (if new = Task_RUNNING then 1 else 0)"
    "max_attempts t' = max_attempts t"
    using f u by simp_all
  show wf: "wf_task t'" using u(1) by (rule task_post_init_wf)
  then show "attempt_count t' \<le> max_attempts t'" by (simp add: wf_task_iff)
  show "task_status t = Task_FAILED \<Longrightarrow> auth" using s by (auto split: if_splits)
qed

section \<open>The task lifecycle\<close>

definition task_final :: "task_status \<Rightarrow> bool" where
  "task_final s \<longleftrightarrow> s \<in> {Task_SUCCEEDED, Task_SKIPPED}"

interpretation task_lc: lifecycle task_allowed task_final
proof
  fix s :: task_status
  show "task_final s \<longleftrightarrow> task_allowed s = {}" by (cases s) (auto simp: task_final_def)
qed

text \<open>The tasks a scheduler may still start.\<close>

definition task_open :: "research_task \<Rightarrow> bool" where
  "task_open t \<longleftrightarrow> task_status t \<in> {Task_PENDING, Task_READY}"

lemma may_move_block: "task_open t \<Longrightarrow> may_move t Task_BLOCKED auth"
  and may_move_skip: "task_open t \<Longrightarrow> may_move t Task_SKIPPED auth"
  by (auto simp: task_open_def may_move_def)

end
