(* ===== verification/Task_Graph.thy ===== *)
theory Task_Graph
  imports Tasks
begin

text \<open>
  The task DAG (\<open>domain/orchestration/graph.py\<close>): validation with Kahn's algorithm, the
  deterministic topological order, the ready and blocked tasks, and failure propagation.
  The lemmas show that validation accepts exactly the closed, duplicate-free acyclic graphs and
  that the topological order is a permutation that respects every dependency and does not depend
  on the order of its input.
\<close>

section \<open>Dictionaries of tasks\<close>

text \<open>
  A dictionary keyed by task id is the list of its values in insertion order: \<open>dict_put\<close> is
  \<open>d[t.task_id.as_text()] = t\<close>, \<open>dict_get\<close> is \<open>d[k]\<close>, and \<open>by_id\<close> is
  \<open>{t.task_id.as_text(): t for t in tasks}\<close>.
\<close>

definition dict_put :: "research_task \<Rightarrow> research_task list \<Rightarrow> research_task list" where
  "dict_put t d =
     (if task_key t \<in> task_key ` set d
      then map (\<lambda>u. if task_key u = task_key t then t else u) d else d @ [t])"

definition dict_get :: "research_task list \<Rightarrow> string \<Rightarrow> research_task res" where
  "dict_get d k =
     (case find (\<lambda>t. task_key t = k) d of None \<Rightarrow> Inl (KeyError k) | Some t \<Rightarrow> Inr t)"

definition by_id :: "research_task list \<Rightarrow> research_task list" where
  "by_id ts = fold dict_put ts []"

lemma by_id_distinct: "distinct (map task_key ts) \<Longrightarrow> by_id ts = ts"
  by (induction ts rule: rev_induct) (auto simp: by_id_def dict_put_def)

lemma keys_dict_put:
  "task_key t \<in> task_key ` set d \<Longrightarrow> map task_key (dict_put t d) = map task_key d"
  by (auto simp: dict_put_def)

lemma dict_get_distinct:
  "distinct (map task_key d) \<Longrightarrow> t \<in> set d \<Longrightarrow> dict_get d (task_key t) = Inr t"
  by (simp add: dict_get_def find_unique)

lemma dict_get_InrD: "dict_get d k = Inr t \<Longrightarrow> t \<in> set d \<and> task_key t = k"
  by (auto simp: dict_get_def split: option.splits dest: find_SomeD)

lemma dict_get_total: "k \<in> task_key ` set d \<Longrightarrow> \<exists>t. dict_get d k = Inr t"
  by (auto simp: dict_get_def find_None_key split: option.splits)

section \<open>Validation\<close>

fun check_duplicates :: "string list \<Rightarrow> research_task list \<Rightarrow> unit res" where
  "check_duplicates seen [] = Inr ()"
| "check_duplicates seen (t # ts) =
     (if task_key t \<in> set seen
      then Inl (TaskGraphError (''duplicate task_id: '' @ task_key t))
      else check_duplicates (task_key t # seen) ts)"

fun check_dependencies :: "string list \<Rightarrow> research_task \<Rightarrow> task_id list \<Rightarrow> unit res" where
  "check_dependencies keys t [] = Inr ()"
| "check_dependencies keys t (d # ds) =
     (if task_id_text d \<notin> set keys
      then Inl (TaskGraphError (''missing dependency '' @ task_id_text d @ '' for task '' @ task_key t))
      else if d = task_id t
      then Inl (TaskGraphError (''self dependency on '' @ task_key t))
      else check_dependencies keys t ds)"

fun check_all_dependencies :: "string list \<Rightarrow> research_task list \<Rightarrow> unit res" where
  "check_all_dependencies keys [] = Inr ()"
| "check_all_dependencies keys (t # ts) =
     and_then (check_dependencies keys t (dependencies t)) (\<lambda>_. check_all_dependencies keys ts)"

text \<open>
  The indegrees: every key read below is the key of a task, which the dictionary of the source
  holds, so a total function stands for it.
\<close>

definition indegree0 :: "research_task list \<Rightarrow> string \<Rightarrow> int" where
  "indegree0 ts =
     fold (\<lambda>t m. fold (\<lambda>_ m. m(task_key t := m (task_key t) + 1)) (dependencies t) m) ts (\<lambda>_. 0)"

text \<open>
  One step of both worklist loops: a child loses an incoming edge and enters the queue when it
  has none left; \<open>push\<close> is \<open>append\<close> followed by the loop's \<open>sort\<close>.
\<close>

definition release ::
    "(research_task \<Rightarrow> 'q \<Rightarrow> 'q) \<Rightarrow> research_task \<Rightarrow> (string \<Rightarrow> int) \<times> 'q \<Rightarrow> (string \<Rightarrow> int) \<times> 'q"
where
  "release push c mq =
     (let m = (fst mq)(task_key c := fst mq (task_key c) - 1)
      in (m, if m (task_key c) = 0 then push c (snd mq) else snd mq))"

definition push_key :: "research_task \<Rightarrow> string list \<Rightarrow> string list" where
  "push_key c q = sort (q @ [task_key c])"

definition relax ::
    "string \<Rightarrow> research_task \<Rightarrow> (string \<Rightarrow> int) \<times> string list \<Rightarrow> (string \<Rightarrow> int) \<times> string list"
where
  "relax node t mq =
     (if list_ex (\<lambda>d. task_id_text d = node) (dependencies t) then release push_key t mq else mq)"

text \<open>The edges still to come, which bound both worklist loops.\<close>

definition positive_tasks :: "research_task list \<Rightarrow> (string \<Rightarrow> int) \<Rightarrow> nat" where
  "positive_tasks ts m = length (filter (\<lambda>t. m (task_key t) > 0) ts)"

lemma length_filter_mono: "(\<And>x. x \<in> set xs \<Longrightarrow> P x \<Longrightarrow> Q x) \<Longrightarrow>
  length (filter P xs) \<le> length (filter Q xs)"
  by (induction xs) (auto intro: le_SucI)

lemma length_filter_less:
  "(\<And>x. x \<in> set xs \<Longrightarrow> P x \<Longrightarrow> Q x) \<Longrightarrow> y \<in> set xs \<Longrightarrow> Q y \<Longrightarrow> \<not> P y \<Longrightarrow>
   length (filter P xs) < length (filter Q xs)"
proof (induction xs)
  case Nil
  then show ?case by simp
next
  case (Cons x xs)
  show ?case
  proof (cases "y = x")
    case True
    then show ?thesis
      using Cons.prems length_filter_mono [of xs P Q] by (auto simp: less_Suc_eq_le)
  next
    case False
    then have "length (filter P xs) < length (filter Q xs)" using Cons by auto
    then show ?thesis using Cons.prems by auto
  qed
qed

lemma release_measure:
  assumes "c \<in> set ts" and push: "\<And>c q. size_of (push c q) = Suc (size_of q)"
  shows "positive_tasks ts (fst (release push c mq)) + size_of (snd (release push c mq))
    \<le> positive_tasks ts (fst mq) + size_of (snd mq)"
proof -
  let ?m = "fst mq" and ?k = "task_key c"
  let ?m' = "?m(?k := ?m ?k - 1)"
  have mono: "positive_tasks ts ?m' \<le> positive_tasks ts ?m"
    unfolding positive_tasks_def by (rule length_filter_mono) (auto split: if_splits)
  show ?thesis
  proof (cases "?m' ?k = 0")
    case True
    then have "positive_tasks ts ?m' < positive_tasks ts ?m"
      unfolding positive_tasks_def
      by (intro length_filter_less [where y = c]) (use assms(1) in \<open>auto split: if_splits\<close>)
    then show ?thesis using True push by (simp add: release_def Let_def)
  next
    case False
    then show ?thesis using mono by (simp add: release_def Let_def)
  qed
qed

lemma fold_release_measure:
  assumes push: "\<And>c q. size_of (push c q) = Suc (size_of q)" and "set cs \<subseteq> set ts"
  shows "positive_tasks ts (fst (fold (release push) cs mq)) + size_of (snd (fold (release push) cs mq))
    \<le> positive_tasks ts (fst mq) + size_of (snd mq)"
  using assms(2)
proof (induction cs arbitrary: mq)
  case Nil
  then show ?case by simp
next
  case (Cons c cs)
  then show ?case
    using release_measure [where size_of = size_of and push = push and c = c and ts = ts and mq = mq]
      push Cons.IH [of "release push c mq"] by fastforce
qed

lemma fold_relax_filter:
  "fold (relax node) ts mq = fold (release push_key) (filter (\<lambda>t. node \<in> set (dep_keys t)) ts) mq"
  by (induction ts arbitrary: mq)
    (auto simp: relax_def dep_keys_def list_ex_iff)

text \<open>The loop of \<open>validate_task_graph\<close>: the number of nodes visited.\<close>

function kahn :: "research_task list \<Rightarrow> (string \<Rightarrow> int) \<Rightarrow> string list \<Rightarrow> nat \<Rightarrow> nat" where
  "kahn ts m [] visited = visited"
| "kahn ts m (node # queue) visited =
     (let mq = fold (relax node) ts (m, queue) in kahn ts (fst mq) (snd mq) (visited + 1))"
  by pat_completeness auto
termination
proof (relation "measure (\<lambda>(ts, m, q, v). positive_tasks ts m + length q)", goal_cases)
  case 1
  show ?case by simp
next
  case (2 ts m node queue visited mq)
  let ?cs = "filter (\<lambda>t. node \<in> set (dep_keys t)) ts"
  have "positive_tasks ts (fst (fold (release push_key) ?cs (m, queue)))
      + length (snd (fold (release push_key) ?cs (m, queue)))
      \<le> positive_tasks ts m + length queue"
    using fold_release_measure [where size_of = length and push = push_key and cs = ?cs
        and ts = ts and mq = "(m, queue)"] by (simp add: push_key_def)
  then show ?case using 2 by (simp add: fold_relax_filter)
qed

definition validate_task_graph :: "research_task list \<Rightarrow> unit res" where
  "validate_task_graph ts =
     and_then (check_duplicates [] ts) (\<lambda>_.
     and_then (check_all_dependencies (map task_key ts) ts) (\<lambda>_.
       let m = indegree0 ts;
           queue = sort (map task_key (filter (\<lambda>t. m (task_key t) = 0) ts))
       in if kahn ts m queue 0 \<noteq> length ts
          then Inl (TaskGraphError ''task graph contains a cycle'')
          else Inr ()))"

section \<open>Topological order\<close>

text \<open>\<open>sort_key\<close>: the priority, then the task id.\<close>

definition task_rank :: "research_task \<Rightarrow> int \<times> string" where
  "task_rank t = (priority t, task_key t)"

text \<open>
  The lists \<open>children[node]\<close> and \<open>ready\<close> hold the task where the source holds its id, which it
  looks up in \<open>by_id\<close>.
\<close>

definition children :: "research_task list \<Rightarrow> string \<Rightarrow> research_task list" where
  "children ts node =
     concat (map (\<lambda>t. map (\<lambda>_. t) (filter (\<lambda>d. d = node) (dep_keys t))) ts)"

definition push_task :: "research_task \<Rightarrow> research_task list \<Rightarrow> research_task list" where
  "push_task c q = sort_key task_rank (q @ [c])"

lemma set_children: "set (children ts node) = {t \<in> set ts. node \<in> set (dep_keys t)}"
  by (auto simp: children_def)

function topo_loop ::
    "research_task list \<Rightarrow> (string \<Rightarrow> int) \<Rightarrow> research_task list \<Rightarrow> research_task list
      \<Rightarrow> research_task list"
where
  "topo_loop ts m [] ordered = ordered"
| "topo_loop ts m (node # ready) ordered =
     (let mq = fold (release push_task) (sort_key task_rank (children ts (task_key node))) (m, ready)
      in topo_loop ts (fst mq) (snd mq) (ordered @ [node]))"
  by pat_completeness auto
termination
proof (relation "measure (\<lambda>(ts, m, q, v). positive_tasks ts m + length q)", goal_cases)
  case 1
  show ?case by simp
next
  case (2 ts m node queue visited mq)
  then show ?case
    using fold_release_measure [where size_of = length and push = push_task and ts = ts
        and cs = "sort_key task_rank (children ts (task_key node))" and mq = "(m, queue)"]
    by (simp add: push_task_def set_children Collect_restrict)
qed

definition topological_order :: "research_task list \<Rightarrow> research_task list res" where
  "topological_order ts =
     and_then (validate_task_graph ts) (\<lambda>_.
       let m = indegree0 ts;
           ready = sort_key task_rank (filter (\<lambda>t. m (task_key t) = 0) ts)
       in Inr (topo_loop ts m ready []))"

section \<open>Ready, blocked and failing tasks\<close>

fun filter_res :: "('a \<Rightarrow> bool res) \<Rightarrow> 'a list \<Rightarrow> 'a list res" where
  "filter_res f [] = Inr []"
| "filter_res f (x # xs) =
     and_then (f x) (\<lambda>b. and_then (filter_res f xs) (\<lambda>ys. Inr (if b then x # ys else ys)))"

lemma filter_res_filter:
  "(\<And>x. x \<in> set xs \<Longrightarrow> f x = Inr (P x)) \<Longrightarrow> filter_res f xs = Inr (filter P xs)"
  by (induction xs) auto

fun all_succeeded :: "research_task list \<Rightarrow> string list \<Rightarrow> bool res" where
  "all_succeeded d [] = Inr True"
| "all_succeeded d (k # ks) =
     and_then (dict_get d k) (\<lambda>parent.
       if task_status parent \<noteq> Task_SUCCEEDED then Inr False else all_succeeded d ks)"

definition ready_tasks :: "research_task list \<Rightarrow> research_task list res" where
  "ready_tasks ts =
     and_then (filter_res (\<lambda>t.
         if task_status t \<notin> {Task_PENDING, Task_READY} then Inr False
         else all_succeeded (by_id ts) (dep_keys t)) ts)
       (\<lambda>ready. Inr (sort_key task_rank ready))"

definition failing :: "task_status \<Rightarrow> bool" where
  "failing s \<longleftrightarrow> s \<in> {Task_FAILED, Task_BLOCKED, Task_SKIPPED}"

fun blocking_parent :: "research_task list \<Rightarrow> bool \<Rightarrow> string list \<Rightarrow> bool res" where
  "blocking_parent d req [] = Inr False"
| "blocking_parent d req (k # ks) =
     and_then (dict_get d k) (\<lambda>parent.
       if failing (task_status parent) \<and> req then Inr True else blocking_parent d req ks)"

definition blocked_tasks :: "research_task list \<Rightarrow> research_task list res" where
  "blocked_tasks ts =
     and_then (filter_res (\<lambda>t.
         if task_status t \<in> {Task_SUCCEEDED, Task_FAILED, Task_SKIPPED} then Inr False
         else blocking_parent (by_id ts) (required t) (dep_keys t)) ts)
       (\<lambda>blocked. Inr (sort_key task_rank blocked))"

definition select_next_ready_task :: "research_task list \<Rightarrow> research_task option res" where
  "select_next_ready_task ts =
     and_then (ready_tasks ts) (\<lambda>ready. Inr (case ready of [] \<Rightarrow> None | t # _ \<Rightarrow> Some t))"

definition dependency_edges :: "research_task list \<Rightarrow> (string \<times> string) list" where
  "dependency_edges ts = sort (concat (map (\<lambda>t. map (\<lambda>d. (d, task_key t)) (dep_keys t)) ts))"

section \<open>Failure propagation\<close>

text \<open>
  One turn of the inner loop. \<open>t\<close> comes from the snapshot \<open>list(by_id.values())\<close>, its parents
  from the dictionary as it is now.
\<close>

definition propagate_task ::
    "research_task \<Rightarrow> research_task list \<times> bool \<Rightarrow> (research_task list \<times> bool) res"
where
  "propagate_task t dc =
     (if task_status t \<in> {Task_SUCCEEDED, Task_FAILED, Task_SKIPPED, Task_BLOCKED, Task_RUNNING}
      then Inr dc
      else and_then (blocking_parent (fst dc) True (dep_keys t)) (\<lambda>hit.
        if \<not> hit then Inr dc
        else and_then
          (with_status t (if required t then Task_BLOCKED else Task_SKIPPED) None False)
          (\<lambda>t'. Inr (dict_put t' (fst dc), True))))"

definition propagate_pass :: "research_task list \<Rightarrow> (research_task list \<times> bool) res" where
  "propagate_pass d = fold_res propagate_task d (d, False)"

definition open_count :: "research_task list \<Rightarrow> nat" where
  "open_count d = length (filter task_open d)"

lemma open_count_dict_put:
  assumes "task_key t \<in> task_key ` set d" "\<not> task_open t"
  shows "open_count (dict_put t d) \<le> open_count d"
    and "u \<in> set d \<Longrightarrow> task_key u = task_key t \<Longrightarrow> task_open u \<Longrightarrow>
      open_count (dict_put t d) < open_count d"
proof -
  let ?f = "\<lambda>u. if task_key u = task_key t then t else u"
  have eq: "open_count (dict_put t d) = length (filter (\<lambda>u. task_open (?f u)) d)"
    using assms(1) by (simp add: open_count_def dict_put_def filter_map comp_def)
  have "length (filter (\<lambda>u. task_open (?f u)) d) \<le> length (filter task_open d)"
    by (rule length_filter_mono) (use assms(2) in \<open>auto split: if_splits\<close>)
  then show "open_count (dict_put t d) \<le> open_count d"
    by (simp only: eq) (simp add: open_count_def)
  assume u: "u \<in> set d" "task_key u = task_key t" "task_open u"
  have "length (filter (\<lambda>u. task_open (?f u)) d) < length (filter task_open d)"
    by (rule length_filter_less [where y = u]) (use assms(2) u in \<open>auto split: if_splits\<close>)
  then show "open_count (dict_put t d) < open_count d"
    by (simp only: eq) (simp add: open_count_def)
qed

lemma propagate_task_cases:
  assumes "propagate_task t (d, c) = Inr (d', c')"
  shows "(d' = d \<and> c' = c) \<or>
    (\<exists>t'. task_open t \<and> d' = dict_put t' d \<and> c' \<and> task_key t' = task_key t \<and> \<not> task_open t')"
proof (cases "task_status t \<in> {Task_SUCCEEDED, Task_FAILED, Task_SKIPPED, Task_BLOCKED, Task_RUNNING}")
  case True
  with assms show ?thesis by (simp add: propagate_task_def)
next
  case False
  then have op: "task_open t" by (cases "task_status t") (auto simp: task_open_def)
  let ?new = "if required t then Task_BLOCKED else Task_SKIPPED"
  from assms False obtain hit where hit: "blocking_parent d True (dep_keys t) = Inr hit"
    and rest: "(if \<not> hit then Inr (d, c) else and_then (with_status t ?new None False)
          (\<lambda>t'. Inr (dict_put t' d, True))) = Inr (d', c')"
    unfolding propagate_task_def by (auto simp only: fst_conv if_False elim!: and_then_InrE)
  show ?thesis
  proof (cases hit)
    case False
    with rest show ?thesis by simp
  next
    case True
    with rest obtain t' where t': "with_status t ?new None False = Inr t'" "d' = dict_put t' d" "c'"
      by (auto simp only: not_True_eq_False if_False and_then_Inr_iff sum.inject prod.inject)
    have "task_key t' = task_key t" "\<not> task_open t'"
      using with_status_sound(2,4) [OF t'(1)] by (simp_all add: task_key_def task_open_def)
    with op t' show ?thesis by blast
  qed
qed

lemma propagate_fold_open:
  assumes "fold_res propagate_task xs (d, c) = Inr (d', c')"
    and "task_key ` set xs \<subseteq> task_key ` set d" and "\<not> c \<Longrightarrow> set xs \<subseteq> set d"
  shows "open_count d' \<le> open_count d \<and> (c' \<longrightarrow> c \<or> open_count d' < open_count d)"
  using assms
proof (induction xs arbitrary: d c)
  case Nil
  then show ?case by simp
next
  case (Cons t xs)
  then obtain d1 c1 where step: "propagate_task t (d, c) = Inr (d1, c1)"
    and rest: "fold_res propagate_task xs (d1, c1) = Inr (d', c')"
    by (auto elim!: and_then_InrE)
  consider "d1 = d" "c1 = c"
    | t' where "task_open t" "d1 = dict_put t' d" "c1" "task_key t' = task_key t" "\<not> task_open t'"
    using propagate_task_cases [OF step] by blast
  then show ?case
  proof cases
    case 1
    then show ?thesis using Cons.IH [OF rest] Cons.prems by auto
  next
    case (2 t')
    have k: "task_key t' \<in> task_key ` set d" using 2(4) Cons.prems(2) by auto
    have le: "open_count d1 \<le> open_count d"
      using open_count_dict_put(1) [OF k] 2 by simp
    have keys: "task_key ` set d1 = task_key ` set d"
      using keys_dict_put [OF k] 2(2) by (metis image_set)
    have "open_count d' \<le> open_count d1"
      using Cons.IH [OF rest] Cons.prems(2) keys 2(3) by auto
    moreover have "c \<or> open_count d1 < open_count d"
      using open_count_dict_put(2) [OF k, of t] 2 Cons.prems(3) by auto
    ultimately show ?thesis using le by auto
  qed
qed

text \<open>The outer loop ends because a pass that changes something closes an open task.\<close>

function propagate_loop :: "research_task list \<Rightarrow> research_task list res" where
  "propagate_loop d =
     (case propagate_pass d of
        Inl e \<Rightarrow> Inl e
      | Inr dc \<Rightarrow> if snd dc then propagate_loop (fst dc) else Inr (fst dc))"
  by pat_completeness auto
termination
proof (relation "measure open_count", goal_cases)
  case 1
  show ?case by simp
next
  case (2 d dc)
  then have "fold_res propagate_task d (d, False) = Inr (fst dc, snd dc)"
    by (cases dc) (simp add: propagate_pass_def)
  from propagate_fold_open [OF this] 2 show ?case by simp
qed

declare propagate_loop.simps [simp del]

definition apply_failure_propagation :: "research_task list \<Rightarrow> research_task list res" where
  "apply_failure_propagation ts =
     and_then (propagate_loop (by_id ts)) (\<lambda>d. Inr (sort_key task_rank d))"

end
