(* ===== verification/Graph_Order.thy ===== *)
theory Graph_Order
  imports Task_Graph
begin

text \<open>
  Correctness of graph validation and of the topological order. Both worklist loops keep the
  invariant \<open>kahn_inv\<close>; validation accepts exactly the graphs of \<open>graph_ok\<close>, and the order
  computed for such a graph is a permutation of it in which every dependency comes first.
\<close>

section \<open>The specification\<close>

definition dep_rel :: "research_task list \<Rightarrow> (string \<times> string) set" where
  "dep_rel ts = {(k, task_key t) | k t. t \<in> set ts \<and> k \<in> set (dep_keys t)}"

definition closed_tasks :: "research_task list \<Rightarrow> bool" where
  "closed_tasks ts \<longleftrightarrow>
     distinct (map task_key ts) \<and> (\<forall>t \<in> set ts. set (dep_keys t) \<subseteq> task_key ` set ts)"

definition graph_ok :: "research_task list \<Rightarrow> bool" where
  "graph_ok ts \<longleftrightarrow>
     closed_tasks ts \<and> (\<forall>t \<in> set ts. distinct (dep_keys t)) \<and> acyclic (dep_rel ts)"

text \<open>Every task of the list comes after all its dependencies.\<close>

definition respects_deps :: "research_task list \<Rightarrow> bool" where
  "respects_deps os \<longleftrightarrow>
     (\<forall>i < length os. set (dep_keys (os ! i)) \<subseteq> task_key ` set (take i os))"

lemma respects_deps_snoc:
  "respects_deps (os @ [t]) \<longleftrightarrow> respects_deps os \<and> set (dep_keys t) \<subseteq> task_key ` set os"
  by (auto simp: respects_deps_def nth_append less_Suc_eq)

lemma respects_deps_Nil [simp]: "respects_deps []"
  by (simp add: respects_deps_def)

section \<open>The checks before the loop\<close>

lemma check_duplicates_iff:
  "check_duplicates seen ts = Inr () \<longleftrightarrow>
     distinct (map task_key ts) \<and> set seen \<inter> task_key ` set ts = {}"
  by (induction seen ts rule: check_duplicates.induct) auto

lemma check_dependencies_iff:
  "check_dependencies keys t ds = Inr () \<longleftrightarrow>
     task_id_text ` set ds \<subseteq> set keys \<and> task_id t \<notin> set ds"
  by (induction keys t ds rule: check_dependencies.induct) auto

lemma check_all_dependencies_iff:
  "check_all_dependencies keys ts = Inr () \<longleftrightarrow>
     (\<forall>t \<in> set ts. set (dep_keys t) \<subseteq> set keys \<and> task_key t \<notin> set (dep_keys t))"
  by (induction keys ts rule: check_all_dependencies.induct)
    (auto simp: and_then_Inr_iff check_dependencies_iff dep_keys_def task_key_def)

lemma fold_count: "fold (\<lambda>_ m. m(k := m k + (1::int))) ds m = m(k := m k + int (length ds))"
  by (induction ds arbitrary: m) auto

lemma indegree0_eq: "distinct (map task_key ts) \<Longrightarrow> t \<in> set ts \<Longrightarrow>
  indegree0 ts (task_key t) = int (length (dependencies t))"
proof -
  have gen: "fold (\<lambda>t m. fold (\<lambda>_ m. m(task_key t := m (task_key t) + 1)) (dependencies t) m) ts m k =
      m k + (\<Sum>t\<leftarrow>ts. if task_key t = k then int (length (dependencies t)) else 0)" for ts m k
    by (induction ts arbitrary: m) (auto simp: fold_count)
  have one: "distinct (map task_key ts) \<Longrightarrow> t \<in> set ts \<Longrightarrow>
      (\<Sum>u\<leftarrow>ts. if task_key u = task_key t then int (length (dependencies u)) else 0) =
      int (length (dependencies t))" for ts
  proof (induction ts)
    case Nil
    then show ?case by simp
  next
    case (Cons u us)
    have zero: "(\<Sum>v\<leftarrow>vs. if task_key v = k then int (length (dependencies v)) else 0) = 0"
      if "k \<notin> task_key ` set vs" for vs k
      using that by (induction vs) auto
    from Cons show ?case using zero by (cases "u = t") (auto simp: image_iff)
  qed
  assume "distinct (map task_key ts)" "t \<in> set ts"
  then show ?thesis by (simp add: indegree0_def gen one)
qed

lemma length_dep_keys [simp]: "length (dep_keys t) = length (dependencies t)"
  by (simp add: dep_keys_def)

section \<open>One release of a node's children\<close>

lemma fold_release:
  assumes view: "\<And>c q. view (push c q) = add_mset (task_key c) (view q)"
    and "distinct (map task_key cs)"
    and "fold (release push) cs (m, q) = (m', q')"
  shows "m' = (\<lambda>k. if k \<in> task_key ` set cs then m k - 1 else m k)"
    and "view q' = view q + mset (map task_key (filter (\<lambda>c. m (task_key c) = 1) cs))"
  using assms(2,3)
proof (induction cs arbitrary: m q)
  case Nil
  case 1
  then show ?case by simp
next
  case Nil
  case 2
  then show ?case by simp
next
  case (Cons c cs)
  case (1 m q)
  let ?m1 = "m(task_key c := m (task_key c) - 1)"
  let ?q1 = "if m (task_key c) = 1 then push c q else q"
  have step: "release push c (m, q) = (?m1, ?q1)" by (simp add: release_def Let_def)
  have notin: "task_key c \<notin> task_key ` set cs" using 1(1) by simp
  have rest: "fold (release push) cs (?m1, ?q1) = (m', q')"
    using 1(2) by (simp only: fold_simps step)
  have "m' = (\<lambda>k. if k \<in> task_key ` set cs then ?m1 k - 1 else ?m1 k)"
    using Cons.IH(1) [OF _ rest] 1(1) by simp
  then show ?case using notin by (auto simp: fun_eq_iff)
next
  case (Cons c cs)
  case (2 m q)
  let ?m1 = "m(task_key c := m (task_key c) - 1)"
  let ?q1 = "if m (task_key c) = 1 then push c q else q"
  have step: "release push c (m, q) = (?m1, ?q1)" by (simp add: release_def Let_def)
  have notin: "task_key c \<notin> task_key ` set cs" using 2(1) by simp
  have rest: "fold (release push) cs (?m1, ?q1) = (m', q')"
    using 2(2) by (simp only: fold_simps step)
  have "view q' = view ?q1 + mset (map task_key (filter (\<lambda>c. ?m1 (task_key c) = 1) cs))"
    using Cons.IH(2) [OF _ rest] 2(1) by simp
  moreover have eq: "filter (\<lambda>c. ?m1 (task_key c) = 1) cs = filter (\<lambda>c. m (task_key c) = 1) cs"
    using notin by (intro filter_cong) (auto simp: image_iff)
  ultimately have "view q' = view ?q1 + mset (map task_key (filter (\<lambda>c. m (task_key c) = 1) cs))"
    by (simp only:)
  then show ?case by (simp add: view)
qed

section \<open>The worklist invariant\<close>

text \<open>
  \<open>m\<close> counts, for every task, the dependencies not yet visited; the tasks with none left are
  those in the queue \<open>q\<close> (seen as a multiset of keys) or in \<open>v\<close>, the nodes visited so far, and
  \<open>v\<close> respects the dependencies.
\<close>

definition kahn_inv ::
    "research_task list \<Rightarrow> (string \<Rightarrow> int) \<Rightarrow> string multiset \<Rightarrow> research_task list \<Rightarrow> bool"
where
  "kahn_inv ts m q v \<longleftrightarrow>
     set v \<subseteq> set ts \<and> distinct v \<and> respects_deps v \<and>
     (\<forall>k. count q k \<le> 1) \<and> set_mset q \<subseteq> task_key ` set ts \<and>
     set_mset q \<inter> task_key ` set v = {} \<and>
     (\<forall>t \<in> set ts. m (task_key t) =
        int (length (dependencies t)) - int (card (set (dep_keys t) \<inter> task_key ` set v))) \<and>
     (\<forall>t \<in> set ts. task_key t \<in># q \<or> t \<in> set v \<longleftrightarrow> m (task_key t) = 0)"

lemma count_mset_distinct: "distinct xs \<Longrightarrow> count (mset xs) k \<le> 1"
  by (simp add: distinct_count_atmost_1)

lemma kahn_inv_init:
  assumes "closed_tasks ts" "m = indegree0 ts"
    "q = mset (map task_key (filter (\<lambda>t. m (task_key t) = 0) ts))"
  shows "kahn_inv ts m q []"
proof -
  have d: "distinct (map task_key ts)" using assms(1) by (simp add: closed_tasks_def)
  have "distinct (map task_key (filter (\<lambda>t. m (task_key t) = 0) ts))"
    using d by (simp add: distinct_map_filter)
  then have "count q k \<le> 1" for k
    unfolding assms(3) by (rule count_mset_distinct)
  moreover have "task_key t \<in># q \<longleftrightarrow> m (task_key t) = 0" if "t \<in> set ts" for t
    using that by (auto simp: assms(3) image_iff)
  ultimately show ?thesis
    using assms(2) indegree0_eq [OF d] by (auto simp: kahn_inv_def assms(3))
qed

lemma kahn_inv_step:
  assumes closed: "closed_tasks ts" and inv: "kahn_inv ts m (add_mset (task_key n) q) v"
    and n: "n \<in> set ts"
    and m': "m' = (\<lambda>k. if k \<in> task_key ` {t \<in> set ts. task_key n \<in> set (dep_keys t)}
                       then m k - 1 else m k)"
    and q': "q' = q + mset (map task_key (filter (\<lambda>c. m (task_key c) = 1) cs))"
    and cs: "set cs = {t \<in> set ts. task_key n \<in> set (dep_keys t)}" "distinct (map task_key cs)"
  shows "kahn_inv ts m' q' (v @ [n])"
proof -
  have inj: "\<And>t u. t \<in> set ts \<Longrightarrow> u \<in> set ts \<Longrightarrow> task_key t = task_key u \<longleftrightarrow> t = u"
    using closed distinct_map_inj [of task_key ts] by (auto simp: closed_tasks_def)
  note i = inv [unfolded kahn_inv_def]
  have v: "set v \<subseteq> set ts" using i by simp
  have nv: "n \<notin> set v" using i by auto
  have cnt: "count (add_mset (task_key n) q) k \<le> 1" for k using i by simp
  have nq: "task_key n \<notin># q"
    using cnt [of "task_key n"] by (simp add: count_eq_zero_iff [symmetric])
  have mv: "m (task_key t) = int (length (dependencies t)) -
      int (card (set (dep_keys t) \<inter> task_key ` set v))" if "t \<in> set ts" for t
    using i that by simp
  have z: "\<forall>t \<in> set ts. task_key t \<in># add_mset (task_key n) q \<or> t \<in> set v \<longleftrightarrow> m (task_key t) = 0"
    using i by (elim conjE)
  have zero: "task_key t = task_key n \<or> task_key t \<in># q \<or> t \<in> set v \<longleftrightarrow> m (task_key t) = 0"
    if "t \<in> set ts" for t
    using bspec [OF z that] by (simp add: disj_assoc)
  have kv: "task_key n \<notin> task_key ` set v" using nv v n inj by (auto simp: image_iff)
  have m't: "m' (task_key t) = (if task_key n \<in> set (dep_keys t) then m (task_key t) - 1 else m (task_key t))"
    if "t \<in> set ts" for t
    using that inj by (auto simp: m' image_iff)
  have cards: "int (card (set (dep_keys t) \<inter> task_key ` set (v @ [n]))) =
      int (card (set (dep_keys t) \<inter> task_key ` set v)) +
      (if task_key n \<in> set (dep_keys t) then 1 else 0)" for t
    using kv by (auto simp: Int_insert_right)
  have bound: "0 \<le> m (task_key t)" if "t \<in> set ts" for t
  proof -
    have "card (set (dep_keys t) \<inter> task_key ` set v) \<le> card (set (dep_keys t))"
      by (rule card_mono) auto
    also have "\<dots> \<le> length (dependencies t)"
      by (metis card_length length_dep_keys)
    finally show ?thesis using mv [OF that] by simp
  qed
  have bound': "0 \<le> m' (task_key t)" if "t \<in> set ts" for t
  proof -
    have "card (set (dep_keys t) \<inter> task_key ` set (v @ [n])) \<le> card (set (dep_keys t))"
      by (rule card_mono) auto
    also have "\<dots> \<le> length (dependencies t)"
      by (metis card_length length_dep_keys)
    finally show ?thesis using mv [OF that] m't [OF that] cards [of t] by (auto split: if_splits)
  qed
  have new: "set_mset q' = set_mset q \<union>
      {task_key t | t. t \<in> set ts \<and> task_key n \<in> set (dep_keys t) \<and> m (task_key t) = 1}"
    using cs(1) by (auto simp: q')
  have deps_done: "set (dep_keys n) \<subseteq> task_key ` set v"
  proof -
    have "m (task_key n) = 0" using zero [OF n] by simp
    then have "card (set (dep_keys n) \<inter> task_key ` set v) = length (dependencies n)"
      using mv [OF n] by simp
    moreover have "card (set (dep_keys n)) \<le> length (dependencies n)"
      by (metis card_length length_dep_keys)
    moreover have "card (set (dep_keys n) \<inter> task_key ` set v) \<le> card (set (dep_keys n))"
      by (rule card_mono) auto
    ultimately have "card (set (dep_keys n) \<inter> task_key ` set v) = card (set (dep_keys n))" by simp
    then have "set (dep_keys n) \<inter> task_key ` set v = set (dep_keys n)"
      by (intro card_subset_eq) auto
    then show ?thesis by blast
  qed
  have old_zero: "m (task_key t) = 0" if "t \<in> set ts" "task_key t \<in># q" for t
    using zero [OF that(1)] that(2) by blast
  have q_new: "task_key t \<notin># q \<and> t \<notin> set v \<and> t \<noteq> n"
    if "t \<in> set ts" "m (task_key t) = 1" for t
    using zero [OF that(1)] that(2) by auto
  have cnt': "count q' k \<le> 1" for k
  proof -
    let ?f = "filter (\<lambda>c. m (task_key c) = 1) cs"
    define N where "N = mset (map task_key ?f)"
    have N: "count N k \<le> 1"
      unfolding N_def by (rule count_mset_distinct) (simp add: cs(2) distinct_map_filter)
    have Q: "count q k \<le> 1" using cnt [of k] by (auto split: if_splits)
    have sum: "count q' k = count q k + count N k" by (simp only: q' N_def count_union)
    show ?thesis
    proof (cases "k \<in># q")
      case True
      then have "k \<notin> task_key ` set ?f" using q_new cs(1) by auto
      then have "k \<notin># N" by (simp only: N_def set_mset_mset set_map not_False_eq_True)
      then show ?thesis using Q sum by (simp add: not_in_iff)
    next
      case False
      then show ?thesis using N sum by (simp add: not_in_iff)
    qed
  qed
  have zero': "task_key t \<in># q' \<or> t \<in> set (v @ [n]) \<longleftrightarrow> m' (task_key t) = 0"
    if t: "t \<in> set ts" for t
  proof -
    have "task_key t \<in># q' \<longleftrightarrow> task_key t \<in># q \<or> (task_key n \<in> set (dep_keys t) \<and> m (task_key t) = 1)"
      using new t inj by auto
    moreover have "m' (task_key t) = 0 \<longleftrightarrow>
        m (task_key t) = 0 \<or> (task_key n \<in> set (dep_keys t) \<and> m (task_key t) = 1)"
      using m't [OF t] bound' [OF t] bound [OF t] by auto
    ultimately show ?thesis using zero [OF t] inj [OF t n] by auto
  qed
  have "set_mset q' \<inter> task_key ` set (v @ [n]) = {}"
  proof (rule equals0I, elim IntE)
    fix x assume x: "x \<in># q'" "x \<in> task_key ` set (v @ [n])"
    have old: "set_mset q \<inter> task_key ` set v = {}" using i by auto
    from x(1) new consider "x \<in># q"
      | t where "x = task_key t" "t \<in> set ts" "m (task_key t) = 1" by auto
    then show False
    proof cases
      case 1
      then show False using x(2) old nq by auto
    next
      case (2 t)
      obtain u where u: "u \<in> set v \<or> u = n" "x = task_key u" using x(2) by auto
      then have "u = t" using inj [of u t] v n 2(1,2) by auto
      then show False using q_new [OF 2(2,3)] u(1) by auto
    qed
  qed
  moreover have "set_mset q' \<subseteq> task_key ` set ts" using new i by auto
  moreover have "respects_deps (v @ [n])" using i deps_done by (simp add: respects_deps_snoc)
  ultimately show ?thesis
    unfolding kahn_inv_def
    using v n nv i cnt' zero' mv m't cards by auto
qed

text \<open>When the queue is empty, an acyclic graph has been visited completely.\<close>

lemma kahn_inv_done:
  assumes "graph_ok ts" and inv: "kahn_inv ts m {#} v"
  shows "set v = set ts"
proof (rule ccontr)
  assume ne: "set v \<noteq> set ts"
  note i = inv [unfolded kahn_inv_def]
  have inj: "\<And>t u. t \<in> set ts \<Longrightarrow> u \<in> set ts \<Longrightarrow> task_key t = task_key u \<longleftrightarrow> t = u"
    using assms(1) distinct_map_inj [of task_key ts] by (auto simp: graph_ok_def closed_tasks_def)
  have "finite (dep_rel ts)"
  proof -
    have "dep_rel ts = (\<Union>t \<in> set ts. (\<lambda>k. (k, task_key t)) ` set (dep_keys t))"
      by (auto simp: dep_rel_def)
    then show ?thesis by simp
  qed
  then have wf: "wf (dep_rel ts)" using assms(1) finite_acyclic_wf by (auto simp: graph_ok_def)
  let ?R = "task_key ` (set ts - set v)"
  have "?R \<noteq> {}" using ne i by auto
  then obtain k where k: "k \<in> ?R" "\<And>y. (y, k) \<in> dep_rel ts \<Longrightarrow> y \<notin> ?R"
    using wf by (metis wfE_min ex_in_conv)
  then obtain t where t: "t \<in> set ts" "t \<notin> set v" "k = task_key t" by auto
  have "set (dep_keys t) \<subseteq> task_key ` set v"
  proof
    fix d assume d: "d \<in> set (dep_keys t)"
    then have "(d, k) \<in> dep_rel ts" using t by (auto simp: dep_rel_def)
    then have "d \<notin> ?R" using k(2) by blast
    moreover have "d \<in> task_key ` set ts"
      using assms(1) d t(1) by (auto simp: graph_ok_def closed_tasks_def)
    ultimately show "d \<in> task_key ` set v" by auto
  qed
  then have "set (dep_keys t) \<inter> task_key ` set v = set (dep_keys t)" by blast
  moreover have "card (set (dep_keys t)) = length (dependencies t)"
    using assms(1) t(1) distinct_card by (fastforce simp: graph_ok_def)
  ultimately have "m (task_key t) = 0" using i t(1) by simp
  then show False using i t by auto
qed

text \<open>A complete order that respects the dependencies excludes cycles and repeated dependencies.\<close>

lemma respects_deps_acyclic:
  assumes "respects_deps os" "set os = set ts" "distinct (map task_key ts)"
  shows "acyclic (dep_rel ts)"
proof -
  define rank where "rank k = length (takeWhile (\<lambda>t. task_key t \<noteq> k) os)" for k
  have less: "rank a < rank b" if "(a, b) \<in> dep_rel ts" for a b
  proof -
    from that obtain t where t: "t \<in> set ts" "a \<in> set (dep_keys t)" "b = task_key t"
      by (auto simp: dep_rel_def)
    let ?i = "rank b"
    have ex: "\<exists>u \<in> set os. task_key u = b" using t assms(2) by auto
    have len: "?i < length os"
      unfolding rank_def using ex by (induction os) auto
    have "task_key (os ! ?i) = b"
      using nth_length_takeWhile [of "\<lambda>t. task_key t \<noteq> b" os] len by (simp add: rank_def)
    then have "os ! ?i = t"
      using distinct_map_inj [OF assms(3)] t assms(2) len nth_mem by metis
    then have "a \<in> task_key ` set (take ?i os)"
      using assms(1) len t(2) by (auto simp: respects_deps_def)
    then obtain j where j: "j < ?i" "task_key (os ! j) = a"
      using len by (auto simp: in_set_conv_nth)
    have "rank a \<le> j"
    proof (rule ccontr)
      assume "\<not> rank a \<le> j"
      then have jl: "j < length (takeWhile (\<lambda>t. task_key t \<noteq> a) os)" by (simp add: rank_def)
      then have "os ! j \<in> set (takeWhile (\<lambda>t. task_key t \<noteq> a) os)"
        using nth_mem [OF jl] takeWhile_nth [OF jl] by simp
      then show False using j(2) by (auto dest: set_takeWhileD)
    qed
    with j(1) show ?thesis by simp
  qed
  then have "dep_rel ts \<subseteq> measure rank" by auto
  then show ?thesis using wf_acyclic wf_measure wf_subset by blast
qed

section \<open>The two loops\<close>

lemma kahn_visits:
  assumes "closed_tasks ts" "kahn_inv ts m (mset q) v" "n = length v"
  shows "\<exists>m' v'. kahn_inv ts m' {#} v' \<and> kahn ts m q n = length v'"
  using assms
proof (induction ts m q n arbitrary: v rule: kahn.induct)
  case (1 ts m n)
  then show ?case by auto
next
  case (2 ts m node queue n)
  let ?cs = "filter (\<lambda>t. node \<in> set (dep_keys t)) ts"
  let ?mq = "fold (relax node) ts (m, queue)"
  have d: "distinct (map task_key ?cs)"
    using "2.prems"(1) by (simp add: closed_tasks_def distinct_map_filter)
  have fold: "fold (release push_key) ?cs (m, queue) = (fst ?mq, snd ?mq)"
    by (simp add: fold_relax_filter)
  have view: "mset (push_key c q) = add_mset (task_key c) (mset q)" for c q
    by (simp add: push_key_def)
  note f = fold_release [where view = mset and push = push_key, OF view d fold]
  have "node \<in> task_key ` set ts" using "2.prems"(2) by (auto simp: kahn_inv_def)
  then obtain t where t: "t \<in> set ts" "task_key t = node" by auto
  have "kahn_inv ts (fst ?mq) (mset (snd ?mq)) (v @ [t])"
  proof (rule kahn_inv_step [OF "2.prems"(1) _ t(1)])
    show "kahn_inv ts m (add_mset (task_key t) (mset queue)) v" using "2.prems"(2) t(2) by simp
    show "fst ?mq = (\<lambda>k. if k \<in> task_key ` {u \<in> set ts. task_key t \<in> set (dep_keys u)}
        then m k - 1 else m k)" using f(1) t(2) by simp
    show "mset (snd ?mq) = mset queue + mset (map task_key (filter (\<lambda>c. m (task_key c) = 1) ?cs))"
      using f(2) .
    show "set ?cs = {u \<in> set ts. task_key t \<in> set (dep_keys u)}" using t(2) by auto
    show "distinct (map task_key ?cs)" by (rule d)
  qed
  then have "\<exists>m' v'. kahn_inv ts m' {#} v' \<and> kahn ts (fst ?mq) (snd ?mq) (n + 1) = length v'"
    by (rule "2.IH" [OF refl "2.prems"(1)]) (simp add: "2.prems"(3))
  then show ?case by (simp add: Let_def)
qed

lemma distinct_children:
  assumes "closed_tasks ts" "\<forall>t \<in> set ts. distinct (dep_keys t)"
  shows "distinct (map task_key (children ts k))"
proof -
  have one: "filter (\<lambda>d. d = k) ds = (if k \<in> set ds then [k] else [])" if "distinct ds" for ds :: "string list"
    using that by (induction ds) auto
  have "map task_key (children us k) = map task_key (filter (\<lambda>t. k \<in> set (dep_keys t)) us)"
    if "set us \<subseteq> set ts" for us
    using that assms(2) by (induction us) (auto simp: children_def one)
  then show ?thesis using assms(1) by (simp add: closed_tasks_def distinct_map_filter)
qed

lemma topo_loop_inv:
  assumes "closed_tasks ts" "\<forall>t \<in> set ts. distinct (dep_keys t)"
    and "kahn_inv ts m (mset (map task_key ready)) v" "set ready \<subseteq> set ts"
  shows "\<exists>m'. kahn_inv ts m' {#} (topo_loop ts m ready v)"
  using assms
proof (induction ts m ready v rule: topo_loop.induct)
  case (1 ts m v)
  then show ?case by auto
next
  case (2 ts m node ready v)
  let ?cs = "sort_key task_rank (children ts (task_key node))"
  let ?mq = "fold (release push_task) ?cs (m, ready)"
  have d: "distinct (map task_key ?cs)"
    using distinct_children [OF "2.prems"(1,2)] by simp
  have cs: "set ?cs = {u \<in> set ts. task_key node \<in> set (dep_keys u)}" by (simp add: set_children)
  have fold: "fold (release push_task) ?cs (m, ready) = (fst ?mq, snd ?mq)" by simp
  have view: "mset (map task_key (push_task c q)) = add_mset (task_key c) (mset (map task_key q))"
    for c q by (simp add: push_task_def)
  note f = fold_release [where view = "\<lambda>q. mset (map task_key q)" and push = push_task, OF view d fold]
  have node: "node \<in> set ts" using "2.prems"(4) by simp
  have inv: "kahn_inv ts (fst ?mq) (mset (map task_key (snd ?mq))) (v @ [node])"
  proof (rule kahn_inv_step [OF "2.prems"(1) _ node])
    show "kahn_inv ts m (add_mset (task_key node) (mset (map task_key ready))) v"
      using "2.prems"(3) by simp
    show "fst ?mq = (\<lambda>k. if k \<in> task_key ` {u \<in> set ts. task_key node \<in> set (dep_keys u)}
        then m k - 1 else m k)" using f(1) cs by simp
  qed (rule f(2), rule cs, rule d)
  have sub: "set (snd (fold (release push_task) xs mq)) \<subseteq> set ts"
    if "set xs \<subseteq> set ts" "set (snd mq) \<subseteq> set ts" for xs mq
    using that
    by (induction xs arbitrary: mq) (auto simp: release_def Let_def push_task_def)
  have "set (snd ?mq) \<subseteq> set ts" using "2.prems"(4) by (intro sub) (auto simp: set_children)
  then show ?case using "2.IH" [OF refl "2.prems"(1,2) inv] by (simp add: Let_def)
qed

section \<open>Validation accepts exactly the acyclic graphs\<close>

lemma validate_checks:
  "validate_task_graph ts = Inr () \<longleftrightarrow>
     closed_tasks ts \<and> (\<forall>t \<in> set ts. task_key t \<notin> set (dep_keys t)) \<and>
     kahn ts (indegree0 ts) (sort (map task_key (filter (\<lambda>t. indegree0 ts (task_key t) = 0) ts))) 0
       = length ts"
  unfolding validate_task_graph_def Let_def
  by (auto simp: and_then_Inr_iff check_duplicates_iff check_all_dependencies_iff closed_tasks_def
      split: if_splits)

lemma kahn_from_start:
  assumes "closed_tasks ts"
  shows "\<exists>m' v'. kahn_inv ts m' {#} v' \<and>
    kahn ts (indegree0 ts) (sort (map task_key (filter (\<lambda>t. indegree0 ts (task_key t) = 0) ts))) 0
      = length v'"
  by (rule kahn_visits [OF assms, where v = "[]"])
    (use kahn_inv_init [OF assms refl refl] in simp_all)

lemma validate_iff: "validate_task_graph ts = Inr () \<longleftrightarrow> graph_ok ts"
proof
  assume ok: "validate_task_graph ts = Inr ()"
  then have closed: "closed_tasks ts" by (simp add: validate_checks)
  then have d: "distinct (map task_key ts)" by (simp add: closed_tasks_def)
  obtain m v where inv: "kahn_inv ts m {#} v" and len: "length v = length ts"
    using kahn_from_start [OF closed] ok by (auto simp: validate_checks)
  note i = inv [unfolded kahn_inv_def]
  have "card (set v) = card (set ts)"
    using len i d by (simp add: distinct_card distinct_map)
  then have sv: "set v = set ts" using i by (intro card_subset_eq) auto
  have "distinct (dep_keys t)" if t: "t \<in> set ts" for t
  proof -
    have "m (task_key t) = 0" using i sv t by auto
    then have "card (set (dep_keys t) \<inter> task_key ` set v) = length (dep_keys t)" using i t by simp
    moreover have "card (set (dep_keys t) \<inter> task_key ` set v) \<le> card (set (dep_keys t))"
      by (rule card_mono) auto
    ultimately show ?thesis by (metis card_distinct card_length le_antisym)
  qed
  moreover have "acyclic (dep_rel ts)"
    using respects_deps_acyclic [of v ts] i sv d by simp
  ultimately show "graph_ok ts" using closed by (simp add: graph_ok_def)
next
  assume ok: "graph_ok ts"
  then have closed: "closed_tasks ts" by (simp add: graph_ok_def)
  obtain m v where inv: "kahn_inv ts m {#} v"
    and k: "kahn ts (indegree0 ts)
      (sort (map task_key (filter (\<lambda>t. indegree0 ts (task_key t) = 0) ts))) 0 = length v"
    using kahn_from_start [OF closed] by auto
  have "set v = set ts" using kahn_inv_done [OF ok inv] .
  moreover have "distinct v" using inv by (simp add: kahn_inv_def)
  moreover have "distinct ts" using closed by (simp add: closed_tasks_def distinct_map)
  ultimately have "length v = length ts" by (metis distinct_card)
  moreover have "task_key t \<notin> set (dep_keys t)" if "t \<in> set ts" for t
  proof
    assume "task_key t \<in> set (dep_keys t)"
    then have "(task_key t, task_key t) \<in> dep_rel ts" using that by (auto simp: dep_rel_def)
    then show False using ok by (auto simp: graph_ok_def acyclic_def)
  qed
  ultimately show "validate_task_graph ts = Inr ()" using closed k by (simp add: validate_checks)
qed

lemma validate_Inl_iff: "(\<exists>m. validate_task_graph ts = Inl m) \<longleftrightarrow> \<not> graph_ok ts"
proof (cases "validate_task_graph ts")
  case (Inl e)
  then show ?thesis using validate_iff [of ts] by auto
next
  case (Inr u)
  then show ?thesis using validate_iff [of ts] by auto
qed

section \<open>The topological order\<close>

lemma topological_order_ok:
  assumes "graph_ok ts"
  shows "\<exists>os. topological_order ts = Inr os \<and> mset os = mset ts \<and> respects_deps os"
proof -
  have closed: "closed_tasks ts" and dd: "\<forall>t \<in> set ts. distinct (dep_keys t)"
    using assms by (simp_all add: graph_ok_def)
  let ?m = "indegree0 ts"
  let ?ready = "sort_key task_rank (filter (\<lambda>t. ?m (task_key t) = 0) ts)"
  let ?os = "topo_loop ts ?m ?ready []"
  have "mset (map task_key ?ready) = mset (map task_key (filter (\<lambda>t. ?m (task_key t) = 0) ts))"
    by simp
  then have "kahn_inv ts ?m (mset (map task_key ?ready)) []"
    using kahn_inv_init [OF closed refl refl] by simp
  then obtain m' where inv: "kahn_inv ts m' {#} ?os"
    using topo_loop_inv [OF closed dd] by fastforce
  have s: "set ?os = set ts" using kahn_inv_done [OF assms inv] .
  have "distinct ?os" "respects_deps ?os" using inv by (simp_all add: kahn_inv_def)
  moreover have "distinct ts" using closed by (simp add: closed_tasks_def distinct_map)
  ultimately have "mset ?os = mset ts" using s by (simp add: set_eq_iff_mset_eq_distinct)
  then show ?thesis
    using validate_iff [of ts] assms \<open>respects_deps ?os\<close>
    by (simp add: topological_order_def Let_def)
qed

lemma topological_order_Inr_iff: "(\<exists>os. topological_order ts = Inr os) \<longleftrightarrow> graph_ok ts"
  using topological_order_ok [of ts] validate_iff [of ts]
  by (auto simp: topological_order_def and_then_Inr_iff)

section \<open>The order depends on the set of tasks only\<close>

lemma sort_rank_cong:
  assumes "mset xs = mset ys" "distinct (map task_key xs)"
  shows "sort_key task_rank xs = sort_key task_rank ys"
proof -
  have "inj_on task_rank (set xs)"
    using assms(2) by (auto simp: inj_on_def task_rank_def dest: distinct_map_inj)
  then show ?thesis
    using sort_key_inj_key_eq [of xs "sort_key task_rank ys" task_rank] assms(1) by simp
qed

lemma indegree0_sum: "indegree0 ts k = (\<Sum>t\<leftarrow>ts. if task_key t = k then int (length (dependencies t)) else 0)"
proof -
  have "fold (\<lambda>t m. fold (\<lambda>_ m. m(task_key t := m (task_key t) + 1)) (dependencies t) m) ts m k =
      m k + (\<Sum>t\<leftarrow>ts. if task_key t = k then int (length (dependencies t)) else 0)" for m
    by (induction ts arbitrary: m) (auto simp: fold_count)
  then show ?thesis by (simp add: indegree0_def)
qed

lemma sum_list_mset_cong: "mset xs = mset ys \<Longrightarrow> (\<Sum>x\<leftarrow>xs. f x) = (\<Sum>y\<leftarrow>ys. f y :: int)"
  by (metis mset_map sum_mset_sum_list)

lemma indegree0_cong: "mset ts = mset us \<Longrightarrow> indegree0 ts = indegree0 us"
  by (rule ext) (simp only: indegree0_sum sum_list_mset_cong [of ts us])

lemma mset_children_cong:
  assumes "mset ts = mset us" shows "mset (children ts k) = mset (children us k)"
proof -
  have "mset (children ts k) = (\<Sum>t \<in># mset ts. mset (map (\<lambda>_. t) (filter (\<lambda>d. d = k) (dep_keys t))))" for ts
    by (simp add: children_def mset_concat image_mset.compositionality comp_def sum_mset_sum_list [symmetric])
  with assms show ?thesis by simp
qed

lemma topo_loop_cong:
  assumes "mset ts = mset us" "closed_tasks ts" "\<forall>t \<in> set ts. distinct (dep_keys t)"
  shows "topo_loop ts m ready v = topo_loop us m ready v"
  using assms
proof (induction ts m ready v rule: topo_loop.induct)
  case (1 ts m v)
  then show ?case by simp
next
  case (2 ts m node ready v)
  have "sort_key task_rank (children ts (task_key node)) = sort_key task_rank (children us (task_key node))"
    using sort_rank_cong [OF mset_children_cong [OF "2.prems"(1)] distinct_children [OF "2.prems"(2,3)]] .
  then show ?case using "2.IH" [OF refl "2.prems"] by (simp add: Let_def)
qed

lemma graph_ok_cong:
  assumes "mset ts = mset us" "graph_ok ts" shows "graph_ok us"
proof -
  have s: "set ts = set us" using assms(1) by (rule mset_eq_setD)
  have "distinct (map task_key us)"
    using assms by (metis closed_tasks_def graph_ok_def mset_eq_imp_distinct_iff mset_map)
  then show ?thesis using assms(2) s by (simp add: graph_ok_def closed_tasks_def dep_rel_def)
qed

lemma topological_order_cong:
  assumes "mset ts = mset us" "graph_ok ts"
  shows "topological_order ts = topological_order us"
proof -
  have d: "distinct (map task_key (filter P ts))" for P
    using assms(2) by (simp add: graph_ok_def closed_tasks_def distinct_map_filter)
  have "sort_key task_rank (filter P ts) = sort_key task_rank (filter P us)" for P
    by (rule sort_rank_cong [OF _ d]) (simp add: assms(1))
  moreover have "topo_loop ts m ready v = topo_loop us m ready v" for m ready v
    using topo_loop_cong [OF assms(1)] assms(2) by (simp add: graph_ok_def)
  moreover have "validate_task_graph ts = Inr ()" "validate_task_graph us = Inr ()"
    using assms(2) graph_ok_cong [OF assms] by (simp_all add: validate_iff)
  ultimately show ?thesis
    by (simp add: topological_order_def Let_def indegree0_cong [OF assms(1)])
qed

text \<open>Ordering an ordered plan changes nothing.\<close>

lemma topological_order_idem:
  assumes "topological_order ts = Inr os" shows "topological_order os = Inr os"
proof -
  have ok: "graph_ok ts" using assms topological_order_Inr_iff by blast
  then have "mset os = mset ts" using topological_order_ok [OF ok] assms by auto
  then show ?thesis using topological_order_cong [OF _ ok, of os] assms by simp
qed

text \<open>Updating tasks without touching id, priority and dependencies keeps the order.\<close>

lemma sort_key_map:
  assumes "\<And>x. r (f x) = r x" shows "sort_key r (map f xs) = map f (sort_key r xs)"
proof -
  have "insort_key r (f x) (map f ys) = map f (insort_key r x ys)" for x ys
    by (induction ys) (auto simp: assms)
  then show ?thesis by (induction xs) auto
qed

lemma topo_loop_map:
  assumes f: "\<And>t. task_key (f t) = task_key t" "\<And>t. priority (f t) = priority t"
    "\<And>t. dependencies (f t) = dependencies t"
  shows "topo_loop (map f ts) m (map f ready) (map f v) = map f (topo_loop ts m ready v)"
proof (induction ts m ready v rule: topo_loop.induct)
  case (1 ts m v)
  then show ?case by simp
next
  case (2 ts m node ready v)
  have rank: "task_rank (f t) = task_rank t" for t by (simp add: task_rank_def f)
  have ch: "children (map f ts) k = map f (children ts k)" for k
    by (induction ts) (auto simp: children_def dep_keys_def f)
  have fold: "fold (release push_task) (map f cs) (m, map f q) =
      map_prod id (map f) (fold (release push_task) cs (m, q))" for cs m q
  proof (induction cs arbitrary: m q)
    case Nil
    then show ?case by simp
  next
    case (Cons c cs)
    have "release push_task (f c) (m, map f q) = map_prod id (map f) (release push_task c (m, q))"
      using sort_key_map [of task_rank f "q @ [c]"] rank
      by (simp add: release_def Let_def push_task_def f)
    then show ?case using Cons by (cases "release push_task c (m, q)") simp
  qed
  have step: "fold (release push_task)
      (sort_key task_rank (children (map f ts) (task_key (f node)))) (m, map f ready) =
      map_prod id (map f) (fold (release push_task)
        (sort_key task_rank (children ts (task_key node))) (m, ready))"
    by (simp add: ch f sort_key_map [of task_rank f, OF rank] fold)
  show ?case using "2.IH" [OF refl] step by (simp add: Let_def)
qed

lemma graph_ok_map:
  assumes f: "\<And>t. task_key (f t) = task_key t" "\<And>t. dependencies (f t) = dependencies t"
  shows "graph_ok (map f ts) \<longleftrightarrow> graph_ok ts"
proof -
  have "dep_rel (map f ts) = dep_rel ts"
  proof -
    have "dep_rel us = (\<Union>u \<in> set us. (\<lambda>d. (d, task_key u)) ` set (dep_keys u))" for us
      by (auto simp: dep_rel_def)
    then show ?thesis by (simp add: dep_keys_def f)
  qed
  moreover have "map task_key (map f ts) = map task_key ts" by (simp add: f)
  moreover have "task_key ` set (map f ts) = task_key ` set ts" by (simp add: image_image f)
  ultimately show ?thesis
    unfolding graph_ok_def closed_tasks_def by (simp add: dep_keys_def f comp_def)
qed

lemma topological_order_map:
  assumes f: "\<And>t. task_key (f t) = task_key t" "\<And>t. priority (f t) = priority t"
    "\<And>t. dependencies (f t) = dependencies t"
    and ok: "topological_order ts = Inr os"
  shows "topological_order (map f ts) = Inr (map f os)"
proof -
  have g: "graph_ok ts" using ok topological_order_Inr_iff by blast
  then have v: "validate_task_graph ts = Inr ()" "validate_task_graph (map f ts) = Inr ()"
    using graph_ok_map [of f ts, OF f(1,3)] by (simp_all add: validate_iff)
  have m: "indegree0 (map f ts) = indegree0 ts"
  proof
    fix k
    have "(\<Sum>t\<leftarrow>map f ts. if task_key t = k then int (length (dependencies t)) else 0) =
        (\<Sum>t\<leftarrow>ts. if task_key (f t) = k then int (length (dependencies (f t))) else 0)"
      by (simp add: comp_def)
    then show "indegree0 (map f ts) k = indegree0 ts k" by (simp only: indegree0_sum f)
  qed
  have rank: "task_rank (f t) = task_rank t" for t by (simp add: task_rank_def f)
  have "filter (\<lambda>t. indegree0 ts (task_key t) = 0) (map f ts) =
      map f (filter (\<lambda>t. indegree0 ts (task_key t) = 0) ts)"
    by (simp add: filter_map f comp_def)
  then show ?thesis
    using ok v topo_loop_map [of f ts "indegree0 ts" _ "[]", OF f] sort_key_map [of task_rank f, OF rank]
    by (simp add: topological_order_def Let_def m)
qed

end
