(* ===== verification/Propagation.thy ===== *)
theory Propagation
  imports Graph_Order
begin

text \<open>
  What the scheduling queries of the task graph compute: the ready and blocked tasks, the next
  task, and failure propagation as the least closure of the failing tasks under the dependency
  edges into tasks that have not started.
\<close>

section \<open>Looking up parents\<close>

definition status_in :: "research_task list \<Rightarrow> string \<Rightarrow> task_status set \<Rightarrow> bool" where
  "status_in d k S \<longleftrightarrow> (\<exists>u \<in> set d. task_key u = k \<and> task_status u \<in> S)"

lemma dict_get_status:
  assumes "distinct (map task_key d)" "k \<in> task_key ` set d"
  obtains u where "dict_get d k = Inr u" "u \<in> set d" "task_key u = k"
    "\<And>S. status_in d k S \<longleftrightarrow> task_status u \<in> S"
proof -
  from assms(2) obtain u where u: "u \<in> set d" "task_key u = k" by auto
  have "status_in d k S \<longleftrightarrow> task_status u \<in> S" for S
    using u distinct_map_inj [OF assms(1)] by (auto simp: status_in_def)
  then show ?thesis using that dict_get_distinct [OF assms(1) u(1)] u by simp
qed

lemma all_succeeded_eq:
  assumes "distinct (map task_key d)" "set ks \<subseteq> task_key ` set d"
  shows "all_succeeded d ks = Inr (\<forall>k \<in> set ks. status_in d k {Task_SUCCEEDED})"
  using assms(2)
proof (induction ks)
  case Nil
  then show ?case by simp
next
  case (Cons k ks)
  then have "k \<in> task_key ` set d" by simp
  from dict_get_status [OF assms(1) this]
  obtain u where "dict_get d k = Inr u" "\<And>S. status_in d k S \<longleftrightarrow> task_status u \<in> S"
    by metis
  then show ?case using Cons by simp
qed

lemma blocking_parent_eq:
  assumes "distinct (map task_key d)" "set ks \<subseteq> task_key ` set d"
  shows "blocking_parent d req ks = Inr (req \<and> (\<exists>k \<in> set ks. status_in d k {s. failing s}))"
  using assms(2)
proof (induction ks)
  case Nil
  then show ?case by simp
next
  case (Cons k ks)
  then have "k \<in> task_key ` set d" by simp
  from dict_get_status [OF assms(1) this]
  obtain u where "dict_get d k = Inr u" "\<And>S. status_in d k S \<longleftrightarrow> task_status u \<in> S"
    by metis
  then show ?case using Cons by auto
qed

section \<open>Ready and blocked tasks\<close>

definition is_ready :: "research_task list \<Rightarrow> research_task \<Rightarrow> bool" where
  "is_ready ts t \<longleftrightarrow>
     task_open t \<and> (\<forall>k \<in> set (dep_keys t). status_in ts k {Task_SUCCEEDED})"

definition is_blocked :: "research_task list \<Rightarrow> research_task \<Rightarrow> bool" where
  "is_blocked ts t \<longleftrightarrow>
     task_status t \<notin> {Task_SUCCEEDED, Task_FAILED, Task_SKIPPED} \<and> required t \<and>
     (\<exists>k \<in> set (dep_keys t). status_in ts k {s. failing s})"

lemma ready_tasks_eq:
  assumes "closed_tasks ts"
  shows "ready_tasks ts = Inr (sort_key task_rank (filter (is_ready ts) ts))"
proof -
  have d: "distinct (map task_key ts)" "by_id ts = ts"
    using assms by (simp_all add: closed_tasks_def by_id_distinct)
  have "filter_res (\<lambda>t. if task_status t \<notin> {Task_PENDING, Task_READY} then Inr False
      else all_succeeded ts (dep_keys t)) ts = Inr (filter (is_ready ts) ts)"
  proof (rule filter_res_filter)
    fix t assume "t \<in> set ts"
    then have "set (dep_keys t) \<subseteq> task_key ` set ts" using assms by (simp add: closed_tasks_def)
    then show "(if task_status t \<notin> {Task_PENDING, Task_READY} then Inr False
        else all_succeeded ts (dep_keys t)) = Inr (is_ready ts t)"
      using all_succeeded_eq [OF d(1)] by (simp add: is_ready_def task_open_def)
  qed
  then show ?thesis unfolding ready_tasks_def d(2) by simp
qed

lemma blocked_tasks_eq:
  assumes "closed_tasks ts"
  shows "blocked_tasks ts = Inr (sort_key task_rank (filter (is_blocked ts) ts))"
proof -
  have d: "distinct (map task_key ts)" "by_id ts = ts"
    using assms by (simp_all add: closed_tasks_def by_id_distinct)
  have "filter_res (\<lambda>t. if task_status t \<in> {Task_SUCCEEDED, Task_FAILED, Task_SKIPPED} then Inr False
      else blocking_parent ts (required t) (dep_keys t)) ts = Inr (filter (is_blocked ts) ts)"
  proof (rule filter_res_filter)
    fix t assume "t \<in> set ts"
    then have "set (dep_keys t) \<subseteq> task_key ` set ts" using assms by (simp add: closed_tasks_def)
    then show "(if task_status t \<in> {Task_SUCCEEDED, Task_FAILED, Task_SKIPPED} then Inr False
        else blocking_parent ts (required t) (dep_keys t)) = Inr (is_blocked ts t)"
      using blocking_parent_eq [OF d(1)] by (simp add: is_blocked_def)
  qed
  then show ?thesis unfolding blocked_tasks_def d(2) by simp
qed

text \<open>The next task is a ready task of the least rank.\<close>

lemma select_next_eq:
  assumes "closed_tasks ts"
  shows "\<exists>r. select_next_ready_task ts = Inr r \<and>
    (case r of None \<Rightarrow> \<forall>t \<in> set ts. \<not> is_ready ts t
     | Some t \<Rightarrow> t \<in> set ts \<and> is_ready ts t \<and>
         (\<forall>u \<in> set ts. is_ready ts u \<longrightarrow> task_rank t \<le> task_rank u))"
proof -
  let ?r = "sort_key task_rank (filter (is_ready ts) ts)"
  have set: "set ?r = {t \<in> set ts. is_ready ts t}" by simp
  have eq: "select_next_ready_task ts = Inr (case ?r of [] \<Rightarrow> None | t # _ \<Rightarrow> Some t)"
    by (simp add: select_next_ready_task_def ready_tasks_eq [OF assms])
  show ?thesis
  proof (cases ?r)
    case Nil
    then show ?thesis using eq set by auto
  next
    case (Cons t rest)
    have "sorted (map task_rank ?r)" by simp
    then have "\<forall>u \<in> set ?r. task_rank t \<le> task_rank u" unfolding Cons by simp
    then show ?thesis using eq set Cons by auto
  qed
qed

section \<open>Failure propagation\<close>

text \<open>The keys whose task fails, or cannot start because a task it depends on fails.\<close>

inductive failing_key :: "research_task list \<Rightarrow> string \<Rightarrow> bool" for ts where
  failed: "t \<in> set ts \<Longrightarrow> failing (task_status t) \<Longrightarrow> failing_key ts (task_key t)"
| dependent: "t \<in> set ts \<Longrightarrow> task_open t \<Longrightarrow> d \<in> set (dep_keys t) \<Longrightarrow> failing_key ts d \<Longrightarrow>
    failing_key ts (task_key t)"

definition closed_status :: "research_task \<Rightarrow> task_status" where
  "closed_status t = (if required t then Task_BLOCKED else Task_SKIPPED)"

definition settle :: "string set \<Rightarrow> research_task \<Rightarrow> research_task" where
  "settle K t = (if task_open t \<and> task_key t \<in> K then moved t (closed_status t) None else t)"

lemma settle_frame [simp]:
  "task_key (settle K t) = task_key t"
  "dep_keys (settle K t) = dep_keys t"
  "dependencies (settle K t) = dependencies t"
  "task_id (settle K t) = task_id t"
  "task_type (settle K t) = task_type t"
  "capability_id (settle K t) = capability_id t"
  "priority (settle K t) = priority t"
  "required (settle K t) = required t"
  "max_attempts (settle K t) = max_attempts t"
  "attempt_count (settle K t) = attempt_count t"
  by (simp_all add: settle_def closed_status_def)

lemma failing_simps [simp]:
  "failing Task_FAILED" "failing Task_BLOCKED" "failing Task_SKIPPED"
  "\<not> failing Task_PENDING" "\<not> failing Task_READY" "\<not> failing Task_RUNNING" "\<not> failing Task_SUCCEEDED"
  by (simp_all add: failing_def)

lemma task_open_settle: "task_open (settle K t) \<longleftrightarrow> task_open t \<and> task_key t \<notin> K"
  by (simp add: settle_def task_open_def closed_status_def)

lemma failing_settle:
  "failing (task_status (settle K t)) \<longleftrightarrow>
     failing (task_status t) \<or> (task_open t \<and> task_key t \<in> K)"
  by (auto simp: settle_def closed_status_def)

lemma settle_open: "task_open (settle K t) \<Longrightarrow> settle K t = t"
  by (auto simp: settle_def task_open_def closed_status_def split: if_splits)

lemma keys_settle [simp]: "map task_key (map (settle K) ts) = map task_key ts"
  by simp

lemma dict_put_settle:
  assumes "distinct (map task_key ts)" "t \<in> set ts" "task_open t"
  shows "dict_put (moved t (closed_status t) None) (map (settle K) ts) =
    map (settle (insert (task_key t) K)) ts"
proof -
  have "task_key t \<in> task_key ` set ts" using assms(2) by blast
  then have k: "task_key (moved t (closed_status t) None) \<in> task_key ` set (map (settle K) ts)"
    by (simp add: image_image)
  have "(if task_key u = task_key t then moved t (closed_status t) None else settle K u) =
      settle (insert (task_key t) K) u" if "u \<in> set ts" for u
    using distinct_map_inj [OF assms(1) that assms(2)] assms(3) by (auto simp: settle_def)
  then show ?thesis using k by (simp add: dict_put_def)
qed

lemma propagate_task_settle:
  assumes closed: "closed_tasks ts" and wf: "\<forall>t \<in> set ts. wf_task t" and t: "t \<in> settle K0 ` set ts"
  shows "propagate_task t (map (settle K) ts, c) =
    (if task_open t \<and> (\<exists>k \<in> set (dep_keys t). status_in (map (settle K) ts) k {s. failing s})
     then Inr (map (settle (insert (task_key t) K)) ts, True)
     else Inr (map (settle K) ts, c))"
proof (cases "task_open t")
  case False
  then have "task_status t \<in> {Task_SUCCEEDED, Task_FAILED, Task_SKIPPED, Task_BLOCKED, Task_RUNNING}"
    by (cases "task_status t") (auto simp: task_open_def)
  then show ?thesis using False unfolding propagate_task_def by (simp only: if_True simp_thms if_False)
next
  case True
  then have t: "t \<in> set ts" using t settle_open by fastforce
  have d: "distinct (map task_key (map (settle K) ts))"
    using closed by (simp only: keys_settle closed_tasks_def)
  have ks: "set (dep_keys t) \<subseteq> task_key ` set (map (settle K) ts)"
    using closed t by (simp add: closed_tasks_def image_image)
  have "with_status t (closed_status t) None False = Inr (moved t (closed_status t) None)"
    using wf t True by (intro with_status_eq(1)) (auto simp: closed_status_def may_move_block may_move_skip)
  moreover have "dict_put (moved t (closed_status t) None) (map (settle K) ts) =
      map (settle (insert (task_key t) K)) ts"
    using closed t True by (intro dict_put_settle) (simp_all add: closed_tasks_def)
  moreover have "task_status t \<notin> {Task_SUCCEEDED, Task_FAILED, Task_SKIPPED, Task_BLOCKED, Task_RUNNING}"
    using True by (auto simp: task_open_def)
  ultimately show ?thesis
    using True blocking_parent_eq [OF d ks, of True]
    by (simp add: propagate_task_def closed_status_def)
qed

lemma failing_key_parent:
  assumes "status_in (map (settle K) ts) k {s. failing s}" "K \<subseteq> Collect (failing_key ts)"
  shows "failing_key ts k"
  using assms by (auto simp: status_in_def failing_settle intro: failing_key.failed)

lemma propagate_fold_settle:
  assumes closed: "closed_tasks ts" and wf: "\<forall>t \<in> set ts. wf_task t"
    and "set xs \<subseteq> settle K0 ` set ts" "K \<subseteq> Collect (failing_key ts)"
  shows "\<exists>K' c'. fold_res propagate_task xs (map (settle K) ts, c) = Inr (map (settle K') ts, c') \<and>
    K' \<subseteq> Collect (failing_key ts) \<and>
    (\<not> c' \<longrightarrow> K' = K \<and> (\<forall>t \<in> set xs. task_open t \<longrightarrow>
       \<not> (\<exists>k \<in> set (dep_keys t). status_in (map (settle K) ts) k {s. failing s}))) \<and> (c \<longrightarrow> c')"
  using assms(3,4)
proof (induction xs arbitrary: K c)
  case Nil
  then show ?case by auto
next
  case (Cons t xs)
  let ?hit = "task_open t \<and> (\<exists>k \<in> set (dep_keys t). status_in (map (settle K) ts) k {s. failing s})"
  have t: "t \<in> settle K0 ` set ts" using Cons.prems by simp
  show ?case
  proof (cases ?hit)
    case True
    then have "t \<in> set ts" using t settle_open by fastforce
    then have "failing_key ts (task_key t)"
      using True failing_key_parent [OF _ Cons.prems(2)] by (auto intro: failing_key.dependent)
    then have "set xs \<subseteq> settle K0 ` set ts" "insert (task_key t) K \<subseteq> Collect (failing_key ts)"
      using Cons.prems by simp_all
    from Cons.IH [OF this, of True]
    obtain K' c' where r: "fold_res propagate_task xs (map (settle (insert (task_key t) K)) ts, True) =
        Inr (map (settle K') ts, c')" "K' \<subseteq> Collect (failing_key ts)" "c'"
      by blast
    have "propagate_task t (map (settle K) ts, c) =
        Inr (map (settle (insert (task_key t) K)) ts, True)"
      using propagate_task_settle [OF closed wf t, of K c] True by (simp only: if_True simp_thms)
    then have "fold_res propagate_task (t # xs) (map (settle K) ts, c) = Inr (map (settle K') ts, c')"
      using r(1) by simp
    then show ?thesis using r(2,3) by blast
  next
    case False
    have "propagate_task t (map (settle K) ts, c) = Inr (map (settle K) ts, c)"
      using propagate_task_settle [OF closed wf t, of K c] False by (simp only: if_False)
    then have eq: "fold_res propagate_task (t # xs) (map (settle K) ts, c) =
        fold_res propagate_task xs (map (settle K) ts, c)" by simp
    have "set xs \<subseteq> settle K0 ` set ts" using Cons.prems by simp
    from Cons.IH [OF this Cons.prems(2), of c] show ?thesis
      unfolding eq using False by (metis set_ConsD)
  qed
qed

text \<open>A pass that changes nothing has reached the whole closure.\<close>

lemma settle_complete:
  assumes "K \<subseteq> Collect (failing_key ts)" and dist: "distinct (map task_key ts)"
    and stop: "\<forall>t \<in> set (map (settle K) ts). task_open t \<longrightarrow>
       \<not> (\<exists>k \<in> set (dep_keys t). status_in (map (settle K) ts) k {s. failing s})"
  shows "map (settle K) ts = map (settle (Collect (failing_key ts))) ts"
proof -
  have "status_in (map (settle K) ts) k {s. failing s}" if "failing_key ts k" for k
    using that
  proof induction
    case (failed t)
    then show ?case by (auto simp: status_in_def failing_settle)
  next
    case (dependent t d)
    show ?case
    proof (cases "task_key t \<in> K")
      case True
      with dependent show ?thesis by (auto simp: status_in_def failing_settle)
    next
      case False
      then have "settle K t = t" by (simp add: settle_def)
      then have "t \<in> set (map (settle K) ts)" using dependent(1) by force
      then show ?thesis using stop dependent by blast
    qed
  qed
  then have "t \<in> set ts \<Longrightarrow> task_open t \<Longrightarrow> failing_key ts (task_key t) \<Longrightarrow> task_key t \<in> K" for t
  proof -
    assume t: "t \<in> set ts" "task_open t" "failing_key ts (task_key t)"
    then obtain u where u: "u \<in> set ts" "task_key u = task_key t" "failing (task_status (settle K u))"
      using \<open>\<And>k. failing_key ts k \<Longrightarrow> _ k\<close> by (auto simp: status_in_def)
    then have "u = t" using dist t distinct_map_inj by metis
    then show "task_key t \<in> K" using u(3) t(2) by (auto simp: failing_settle task_open_def)
  qed
  then show ?thesis using assms(1) by (auto simp: settle_def)
qed

lemma propagate_loop_settle:
  assumes closed: "closed_tasks ts" and wf: "\<forall>t \<in> set ts. wf_task t"
    and "d = map (settle K) ts" "K \<subseteq> Collect (failing_key ts)"
  shows "propagate_loop d = Inr (map (settle (Collect (failing_key ts))) ts)"
  using assms(3,4)
proof (induction d arbitrary: K rule: propagate_loop.induct)
  case (1 d)
  obtain K' c' where r: "propagate_pass d = Inr (map (settle K') ts, c')"
    "K' \<subseteq> Collect (failing_key ts)"
    "\<not> c' \<Longrightarrow> K' = K \<and> (\<forall>t \<in> set d. task_open t \<longrightarrow>
       \<not> (\<exists>k \<in> set (dep_keys t). status_in (map (settle K) ts) k {s. failing s}))"
    using propagate_fold_settle [OF closed wf, of d K K False] 1(2,3)
    unfolding propagate_pass_def by auto
  show ?case
  proof (cases c')
    case True
    then show ?thesis
      using 1(1) [OF r(1) _ _ r(2)] r(1) by (simp add: propagate_loop.simps [of d])
  next
    case False
    have "map (settle K) ts = map (settle (Collect (failing_key ts))) ts"
    proof (rule settle_complete [OF 1(3)])
      show "distinct (map task_key ts)" using closed by (simp add: closed_tasks_def)
      show "\<forall>t \<in> set (map (settle K) ts). task_open t \<longrightarrow>
          \<not> (\<exists>k \<in> set (dep_keys t). status_in (map (settle K) ts) k {s. failing s})"
        using r(3) [OF False] 1(2) by blast
    qed
    then show ?thesis using r(1) r(3) [OF False] False by (simp add: propagate_loop.simps [of d])
  qed
qed

lemma propagation_eq:
  assumes "closed_tasks ts" "\<forall>t \<in> set ts. wf_task t"
  shows "apply_failure_propagation ts =
    Inr (sort_key task_rank (map (settle (Collect (failing_key ts))) ts))"
proof -
  have "by_id ts = map (settle {}) ts"
    using assms(1) by (simp add: closed_tasks_def by_id_distinct settle_def [abs_def])
  then show ?thesis
    using propagate_loop_settle [OF assms, of _ "{}"] by (simp add: apply_failure_propagation_def)
qed

text \<open>Propagating twice changes nothing more.\<close>

lemma failing_key_settle:
  assumes "failing_key (map (settle (Collect (failing_key ts))) ts) k" shows "failing_key ts k"
  using assms
proof induction
  case (failed t)
  then obtain u where u: "u \<in> set ts" "t = settle (Collect (failing_key ts)) u" by auto
  then show ?case using failed(2) by (auto simp: failing_settle intro: failing_key.failed)
next
  case (dependent t d)
  then obtain u where u: "u \<in> set ts" "t = settle (Collect (failing_key ts)) u" by auto
  then show ?case using dependent(2,3,5) by (auto simp: task_open_settle intro: failing_key.dependent)
qed

lemma failing_key_mset_cong:
  assumes "set ts = set us" shows "failing_key ts = failing_key us"
proof -
  have "failing_key us k" if "failing_key ts k" "set ts = set us" for ts us k
    using that by induction (auto intro: failing_key.intros)
  then show ?thesis using assms by blast
qed

lemma propagation_idem:
  assumes closed: "closed_tasks ts" and wf: "\<forall>t \<in> set ts. wf_task t"
    and out: "apply_failure_propagation ts = Inr out"
  shows "apply_failure_propagation out = Inr out"
proof -
  let ?K = "Collect (failing_key ts)"
  let ?us = "map (settle ?K) ts"
  have eq: "out = sort_key task_rank ?us" using propagation_eq [OF closed wf] out by simp
  have s: "set out = set ?us" by (simp add: eq)
  have keys: "task_key ` set ?us = task_key ` set ts" by (simp add: image_image)
  have "distinct (map task_key ?us)" using closed by (simp only: keys_settle closed_tasks_def)
  then have "distinct (map task_key out)" by (simp only: eq distinct_sort_key)
  then have c: "closed_tasks out"
    using closed keys unfolding closed_tasks_def s by auto
  have w: "\<forall>t \<in> set out. wf_task t"
    using wf s by (auto simp: settle_def closed_status_def intro!: wf_moved split: if_splits)
  have "failing_key out k \<Longrightarrow> failing_key ts k" for k
    using failing_key_settle failing_key_mset_cong [OF s] by metis
  then have "settle (Collect (failing_key out)) t = t" if "t \<in> set out" for t
    using that s by (auto simp: settle_def task_open_settle) (auto simp: task_open_settle settle_def task_open_def closed_status_def split: if_splits)
  then have "map (settle (Collect (failing_key out))) out = out" by (simp add: map_idI)
  moreover have "sort_key task_rank out = out" by (simp add: eq sort_key_id_if_sorted)
  ultimately show ?thesis using propagation_eq [OF c w] by simp
qed

end
