(* ===== verification/Identity.thy ===== *)
theory Identity
  imports Base
begin

text \<open>
  Company identity (\<open>domain/identity\<close>): the id and code value objects with their constructors,
  listings, securities and companies, the source vocabulary of evidence references
  (\<open>domain/sources.py\<close>, \<open>domain/data_origin.py\<close>) and the company-resolution contracts
  (\<open>application/company_resolution.py\<close>).
\<close>

section \<open>Identifiers\<close>

datatype company_id = CompanyId (company_id_text: uuid)
datatype security_id = SecurityId (security_id_text: uuid)
datatype listing_id = ListingId (listing_id_text: uuid)
datatype source_id = SourceId (source_id_text: uuid)

definition require_uuid_v4 :: "uuid \<Rightarrow> string \<Rightarrow> uuid res" where
  "require_uuid_v4 u label =
     (if \<not> uuid_is_v4 u then Inl (ValueError (label @ '' must be a UUIDv4'')) else Inr u)"

definition mk_company_id :: "uuid \<Rightarrow> company_id res" where
  "mk_company_id u = map_sum id CompanyId (require_uuid_v4 u ''company_id'')"

definition mk_security_id :: "uuid \<Rightarrow> security_id res" where
  "mk_security_id u = map_sum id SecurityId (require_uuid_v4 u ''security_id'')"

definition mk_listing_id :: "uuid \<Rightarrow> listing_id res" where
  "mk_listing_id u = map_sum id ListingId (require_uuid_v4 u ''listing_id'')"

definition mk_source_id :: "uuid \<Rightarrow> source_id res" where
  "mk_source_id u = map_sum id SourceId (require_uuid_v4 u ''source_id'')"

lemma id_text_eq_iff [simp]:
  "company_id_text a = company_id_text b \<longleftrightarrow> a = b"
  "security_id_text c = security_id_text d \<longleftrightarrow> c = d"
  "listing_id_text e = listing_id_text f \<longleftrightarrow> e = f"
  "source_id_text g = source_id_text h \<longleftrightarrow> g = h"
  by (cases a, cases b, simp) (cases c, cases d, simp, cases e, cases f, simp, cases g, cases h, simp)

section \<open>Codes\<close>

text \<open>
  \<open>str.upper\<close>: the sharp s becomes two letters; the two letters of Latin-1 whose capital is
  outside it stay, and match no pattern below either way.
\<close>

definition py_upper_char :: "char \<Rightarrow> string" where
  "py_upper_char c = (let n = ord_char c in
     if n = 223 then ''SS''
     else if (97 \<le> n \<and> n \<le> 122) \<or> (224 \<le> n \<and> n \<le> 254 \<and> n \<noteq> 247) then [char_of (n - 32)]
     else [c])"

definition py_upper :: "string \<Rightarrow> string" where
  "py_upper s = concat (map py_upper_char s)"

definition upper_letter :: "char \<Rightarrow> bool" where
  "upper_letter c \<longleftrightarrow> 65 \<le> ord_char c \<and> ord_char c \<le> 90"

definition ascii_digit :: "char \<Rightarrow> bool" where
  "ascii_digit c \<longleftrightarrow> 48 \<le> ord_char c \<and> ord_char c \<le> 57"

text \<open>\<open>re.fullmatch("[class]{lo,hi}")\<close>\<close>

definition fullmatch :: "(char \<Rightarrow> bool) \<Rightarrow> nat \<Rightarrow> nat \<Rightarrow> string \<Rightarrow> bool" where
  "fullmatch cls lo hi s \<longleftrightarrow> lo \<le> length s \<and> length s \<le> hi \<and> list_all cls s"

datatype country_code = CountryCode (country_text: string)
datatype currency_code = CurrencyCode (currency_text: string)
datatype ticker_symbol = TickerSymbol (ticker_text: string)
datatype exchange_code = ExchangeCode (exchange_text: string) (exchange_mic: "string option")

definition mk_country_code :: "string \<Rightarrow> country_code res" where
  "mk_country_code v = (let n = py_upper (py_strip v) in
     if has_control_chars n then Inl (ValueError ''country code contains control characters'')
     else if \<not> fullmatch upper_letter 2 2 n
     then Inl (ValueError ''country code must be ISO 3166-1 alpha-2'')
     else Inr (CountryCode n))"

definition mk_currency_code :: "string \<Rightarrow> currency_code res" where
  "mk_currency_code v = (let n = py_upper (py_strip v) in
     if has_control_chars n then Inl (ValueError ''currency code contains control characters'')
     else if \<not> fullmatch upper_letter 3 3 n
     then Inl (ValueError ''currency code must be ISO 4217 alpha-3'')
     else Inr (CurrencyCode n))"

fun known_exchange_mic :: "string \<Rightarrow> string option" where
  "known_exchange_mic s =
     (if s = ''NSE'' then Some ''XNSE'' else if s = ''BSE'' then Some ''XBOM''
      else if s = ''NASDAQ'' then Some ''XNAS'' else if s = ''NYSE'' then Some ''XNYS'' else None)"

definition exchange_char :: "char \<Rightarrow> bool" where
  "exchange_char c \<longleftrightarrow> upper_letter c \<or> ascii_digit c \<or> c \<in> set ''._-''"

definition mk_exchange_code :: "string \<Rightarrow> string option \<Rightarrow> exchange_code res" where
  "mk_exchange_code v mic = (let n = py_upper (py_strip v) in
     if has_control_chars n then Inl (ValueError ''exchange code contains control characters'')
     else if \<not> fullmatch exchange_char 1 32 n
     then Inl (ValueError ''exchange code is invalid or exceeds length bounds'')
     else
       case (case mic of None \<Rightarrow> known_exchange_mic n | Some m \<Rightarrow> Some m) of
         None \<Rightarrow> Inr (ExchangeCode n None)
       | Some m \<Rightarrow>
           let mn = py_upper (py_strip m) in
           if \<not> fullmatch (\<lambda>c. upper_letter c \<or> ascii_digit c) 4 4 mn
           then Inl (ValueError ''MIC must be a 4-character ISO 10383 code'')
           else Inr (ExchangeCode n (Some mn)))"

definition ticker_char :: "char \<Rightarrow> bool" where
  "ticker_char c \<longleftrightarrow> upper_letter c \<or> ascii_digit c \<or> c \<in> set ''./-''"

definition mk_ticker_symbol :: "string \<Rightarrow> ticker_symbol res" where
  "mk_ticker_symbol v = (let n = py_upper (py_strip v) in
     if has_control_chars n then Inl (ValueError ''ticker contains control characters'')
     else if n = [] \<or> length n > 32
     then Inl (ValueError ''ticker is empty or exceeds length bounds'')
     else if \<not> fullmatch ticker_char 1 32 n
     then Inl (ValueError ''ticker contains unsupported characters'')
     else Inr (TickerSymbol n))"

section \<open>Listings, securities, companies\<close>

datatype listing_status = Listing_ACTIVE | Listing_SUSPENDED | Listing_DELISTED

datatype security_type =
  Security_COMMON_SHARE | Security_PREFERRED_SHARE | Security_ADR | Security_OTHER

datatype alias_type =
    Alias_OFFICIAL | Alias_SHORT_NAME | Alias_FORMER_NAME | Alias_BRAND | Alias_COMMON_NAME
  | Alias_PROVIDER_ALIAS

datatype provider_kind =
    Provider_YAHOO_FINANCE | Provider_ALPHA_VANTAGE | Provider_FINNHUB | Provider_SEC_CIK
  | Provider_NSE | Provider_BSE | Provider_OTHER

record company_alias =
  alias_value :: string
  alias_type :: alias_type
  alias_normalized :: string

record provider_identifier =
  provider :: provider_kind
  provider_value :: string

record listing_identity =
  listing_id :: listing_id
  listing_security_id :: security_id
  listing_exchange :: exchange_code
  listing_ticker :: ticker_symbol
  listing_currency :: currency_code
  listing_country :: country_code
  is_primary :: bool
  listing_status :: listing_status

record security_identity =
  security_id :: security_id
  security_company_id :: company_id
  security_type :: security_type
  security_display_name :: string
  share_class :: "string option"
  listings :: "listing_identity list"

record company_identity =
  company_id :: company_id
  legal_name :: string
  display_name :: string
  company_country :: country_code
  aliases :: "company_alias list"
  securities :: "security_identity list"
  provider_identifiers :: "provider_identifier list"
  sector :: "string option"
  industry :: "string option"
  legal_name_key :: string
  display_name_key :: string

definition all_listings :: "company_identity \<Rightarrow> listing_identity list" where
  "all_listings c = concat (map listings (securities c))"

section \<open>Sources\<close>

text \<open>\<open>IntEnum\<close>: a member is its number.\<close>

datatype source_authority_tier =
    TIER_1_AUTHORITATIVE
  | TIER_2_STRUCTURED_FINANCIAL
  | TIER_3_REPUTABLE_NEWS
  | TIER_4_GENERAL_WEB

fun tier_int :: "source_authority_tier \<Rightarrow> nat" where
  "tier_int TIER_1_AUTHORITATIVE = 1"
| "tier_int TIER_2_STRUCTURED_FINANCIAL = 2"
| "tier_int TIER_3_REPUTABLE_NEWS = 3"
| "tier_int TIER_4_GENERAL_WEB = 4"

datatype data_origin = Origin_LIVE | Origin_CACHED_LIVE | Origin_FIXTURE | Origin_UNAVAILABLE

fun data_origin_value :: "data_origin \<Rightarrow> string" where
  "data_origin_value Origin_LIVE = ''live''"
| "data_origin_value Origin_CACHED_LIVE = ''cached_live''"
| "data_origin_value Origin_FIXTURE = ''fixture''"
| "data_origin_value Origin_UNAVAILABLE = ''unavailable''"

section \<open>Company resolution contracts\<close>

definition MAX_QUERY_LENGTH :: nat where
  "MAX_QUERY_LENGTH = 200"

datatype resolution_status =
  Resolution_RESOLVED | Resolution_AMBIGUOUS | Resolution_NOT_FOUND | Resolution_INVALID

datatype match_method =
    Match_EXACT_CANONICAL_ID
  | Match_EXACT_TICKER_EXCHANGE
  | Match_EXACT_TICKER
  | Match_EXACT_ALIAS
  | Match_EXACT_NORMALIZED_NAME
  | Match_FUZZY_CANDIDATE
  | Match_NONE
  | Match_INVALID_INPUT

datatype confidence_band = Band_EXACT | Band_STRONG | Band_CANDIDATE | Band_NONE

record company_query =
  raw_query :: string
  query_country :: "country_code option"
  query_exchange :: "exchange_code option"
  query_ticker :: "ticker_symbol option"

record resolution_candidate =
  candidate_company :: company_identity
  candidate_matched_by :: match_method
  candidate_confidence :: confidence_band
  matched_listings :: "listing_identity list"

record resolution_result =
  resolution_query :: company_query
  resolution_status :: resolution_status
  matched_by :: match_method
  confidence :: confidence_band
  resolved_company :: "company_identity option"
  candidates :: "resolution_candidate list"
  resolution_message :: string
  normalized_query :: string

fun resolution_status_value :: "resolution_status \<Rightarrow> string" where
  "resolution_status_value Resolution_RESOLVED = ''RESOLVED''"
| "resolution_status_value Resolution_AMBIGUOUS = ''AMBIGUOUS''"
| "resolution_status_value Resolution_NOT_FOUND = ''NOT_FOUND''"
| "resolution_status_value Resolution_INVALID = ''INVALID''"

text \<open>\<open>ResolutionResult.__post_init__\<close>\<close>

definition resolution_post_init :: "resolution_result \<Rightarrow> resolution_result res" where
  "resolution_post_init r =
     (case resolution_status r of
        Resolution_RESOLVED \<Rightarrow>
          if resolved_company r = None \<or> length (candidates r) \<noteq> 1
          then Inl (ValueError ''RESOLVED requires exactly one company candidate'')
          else if confidence r = Band_CANDIDATE
          then Inl (ValueError ''RESOLVED cannot use candidate confidence'')
          else Inr r
      | Resolution_AMBIGUOUS \<Rightarrow>
          if resolved_company r \<noteq> None
          then Inl (ValueError ''AMBIGUOUS must not set a definitive company'')
          else if candidates r = [] then Inl (ValueError ''AMBIGUOUS requires candidates'')
          else Inr r
      | _ \<Rightarrow>
          if resolved_company r \<noteq> None \<or> candidates r \<noteq> []
          then Inl (ValueError (resolution_status_value (resolution_status r) @
                 '' must not carry resolved identity data''))
          else if confidence r \<noteq> Band_NONE
          then Inl (ValueError (resolution_status_value (resolution_status r) @
                 '' confidence must be none''))
          else Inr r)"

fun confidence_for :: "match_method \<Rightarrow> confidence_band" where
  "confidence_for Match_EXACT_CANONICAL_ID = Band_EXACT"
| "confidence_for Match_EXACT_TICKER_EXCHANGE = Band_EXACT"
| "confidence_for Match_EXACT_TICKER = Band_EXACT"
| "confidence_for Match_EXACT_ALIAS = Band_EXACT"
| "confidence_for Match_EXACT_NORMALIZED_NAME = Band_EXACT"
| "confidence_for Match_FUZZY_CANDIDATE = Band_CANDIDATE"
| "confidence_for _ = Band_NONE"

text \<open>A resolved result names a company; the other outcomes never do.\<close>

lemma resolution_company_iff:
  "resolution_post_init r = Inr r' \<Longrightarrow>
     r' = r \<and> (resolved_company r' \<noteq> None \<longleftrightarrow> resolution_status r' = Resolution_RESOLVED)"
  by (auto simp: resolution_post_init_def split: resolution_status.splits if_splits)

end
