(* ===== verification/Budget.thy ===== *)
theory Budget
  imports Propagation Identity
begin

text \<open>
  The bounds and outcomes of an execution: the budget with its check of a candidate task set
  (\<open>domain/orchestration/budget.py\<close>), task results and evidence references
  (\<open>results.py\<close>), the deduplication of evidence (\<open>evidence.py\<close>), the retry policy
  (\<open>retry.py\<close>) and the cancellation token (\<open>execution_control.py\<close>).
\<close>

section \<open>The execution budget\<close>

record execution_budget =
  max_tasks :: int
  max_attempts_per_task :: int
  max_total_attempts :: int
  max_plan_depth :: int
  max_external_calls :: int

definition default_budget :: execution_budget where
  "default_budget = \<lparr>max_tasks = 20, max_attempts_per_task = 3, max_total_attempts = 40,
     max_plan_depth = 10, max_external_calls = 40\<rparr>"

fun check_bounds :: "(string \<times> int \<times> int \<times> int) list \<Rightarrow> unit res" where
  "check_bounds [] = Inr ()"
| "check_bounds ((name, v, lo, hi) # rest) =
     (if v < lo \<or> v > hi
      then Inl (ValueError (name @ '' must be between '' @ int_text lo @ '' and '' @ int_text hi))
      else check_bounds rest)"

definition budget_post_init :: "execution_budget \<Rightarrow> execution_budget res" where
  "budget_post_init b =
     and_then (check_bounds
       [(''max_tasks'', max_tasks b, 1, 100),
        (''max_attempts_per_task'', max_attempts_per_task b, 1, 10),
        (''max_total_attempts'', max_total_attempts b, 1, 500),
        (''max_plan_depth'', max_plan_depth b, 1, 50),
        (''max_external_calls'', max_external_calls b, 1, 500)])
     (\<lambda>_. Inr b)"

definition wf_budget :: "execution_budget \<Rightarrow> bool" where
  "wf_budget b \<longleftrightarrow> budget_post_init b = Inr b"

lemma wf_budget_iff:
  "wf_budget b \<longleftrightarrow>
     1 \<le> max_tasks b \<and> max_tasks b \<le> 100 \<and>
     1 \<le> max_attempts_per_task b \<and> max_attempts_per_task b \<le> 10 \<and>
     1 \<le> max_total_attempts b \<and> max_total_attempts b \<le> 500 \<and>
     1 \<le> max_plan_depth b \<and> max_plan_depth b \<le> 50 \<and>
     1 \<le> max_external_calls b \<and> max_external_calls b \<le> 500"
  by (auto simp: wf_budget_def budget_post_init_def)

text \<open>
  \<open>stack\<close>: the head of the list is the end of the source's list, which \<open>pop\<close> takes;
  \<open>parents\<close> is \<open>by_id.get(dep)\<close>'s dependencies.
\<close>

definition parents :: "research_task list \<Rightarrow> string \<Rightarrow> string list" where
  "parents d k = (case find (\<lambda>t. task_key t = k) d of None \<Rightarrow> [] | Some t \<Rightarrow> rev (dep_keys t))"

lemma set_parents: "set (parents d k) \<subseteq> \<Union> ((set \<circ> dep_keys) ` set d)"
  by (cases "find (\<lambda>t. task_key t = k) d") (auto simp: parents_def dest!: find_SomeD)

function depth_walk :: "research_task list \<Rightarrow> string list \<Rightarrow> string list \<Rightarrow> int \<Rightarrow> int" where
  "depth_walk d [] seen depth = depth"
| "depth_walk d (dep # stack) seen depth =
     (if dep \<in> set seen then depth_walk d stack seen depth
      else depth_walk d (parents d dep @ stack) (dep # seen) (depth + 1))"
  by pat_completeness auto
termination
proof (relation "inv_image (less_than <*lex*> less_than) (\<lambda>(d, stack, seen, n).
    (card ((set stack \<union> \<Union> ((set \<circ> dep_keys) ` set d)) - set seen), length stack))", goal_cases)
  case 1
  show ?case by blast
next
  case (2 d dep stack seen depth)
  have "set (dep # stack) \<union> X - set seen = set stack \<union> X - set seen" for X
    using 2 by auto
  then show ?case by simp
next
  case (3 d dep stack seen depth)
  let ?X = "\<Union> ((set \<circ> dep_keys) ` set d)"
  have "card (set (parents d dep @ stack) \<union> ?X - set (dep # seen))
      < card (set (dep # stack) \<union> ?X - set seen)"
    using 3 set_parents [of d dep] by (intro psubset_card_mono) auto
  then show ?case by simp
qed

definition plan_depth :: "research_task list \<Rightarrow> research_task \<Rightarrow> int" where
  "plan_depth ts t = depth_walk (by_id ts) (rev (dep_keys t)) [] 1"

fun validate_each :: "execution_budget \<Rightarrow> research_task list \<Rightarrow> research_task list \<Rightarrow> int \<Rightarrow> int res"
where
  "validate_each b ts [] tot = Inr tot"
| "validate_each b ts (t # rest) tot =
     (if max_attempts t > max_attempts_per_task b
      then Inl (BudgetExceededError (''task '' @ task_key t @
             '' max_attempts exceeds budget max_attempts_per_task='' @
             int_text (max_attempts_per_task b)))
      else if plan_depth ts t > max_plan_depth b
      then Inl (BudgetExceededError (''plan depth exceeds max_plan_depth='' @
             int_text (max_plan_depth b)))
      else validate_each b ts rest (tot + max_attempts t))"

definition validate_tasks :: "execution_budget \<Rightarrow> research_task list \<Rightarrow> unit res" where
  "validate_tasks b ts =
     (if int (length ts) > max_tasks b
      then Inl (BudgetExceededError (''plan exceeds max_tasks='' @ int_text (max_tasks b)))
      else and_then (validate_each b ts ts 0) (\<lambda>tot.
        if tot > max_total_attempts b
        then Inl (BudgetExceededError (''plan exceeds max_total_attempts='' @
               int_text (max_total_attempts b)))
        else if int (length ts) > max_external_calls b
        then Inl (BudgetExceededError (''plan exceeds max_external_calls='' @
               int_text (max_external_calls b)))
        else Inr ()))"

lemma validate_each_Inr_iff:
  "validate_each b ts us n = Inr m \<longleftrightarrow>
     (\<forall>t \<in> set us. max_attempts t \<le> max_attempts_per_task b \<and> plan_depth ts t \<le> max_plan_depth b) \<and>
     m = n + (\<Sum>t\<leftarrow>us. max_attempts t)"
  by (induction us arbitrary: n) auto

lemma validate_each_Inl: "validate_each b ts us n = Inl e \<Longrightarrow> \<exists>m. e = BudgetExceededError m"
  by (induction us arbitrary: n) (auto split: if_splits)

lemma validate_tasks_iff:
  "validate_tasks b ts = Inr () \<longleftrightarrow>
     int (length ts) \<le> max_tasks b \<and> int (length ts) \<le> max_external_calls b \<and>
     (\<Sum>t\<leftarrow>ts. max_attempts t) \<le> max_total_attempts b \<and>
     (\<forall>t \<in> set ts. max_attempts t \<le> max_attempts_per_task b \<and> plan_depth ts t \<le> max_plan_depth b)"
  by (auto simp: validate_tasks_def and_then_Inr_iff validate_each_Inr_iff)

lemma validate_tasks_Inl: "validate_tasks b ts = Inl e \<Longrightarrow> \<exists>m. e = BudgetExceededError m"
  by (auto simp: validate_tasks_def and_then_Inl_iff dest: validate_each_Inl split: if_splits)

section \<open>What the depth of a task counts\<close>

text \<open>The walk visits every ancestor once, so the depth is one more than their number.\<close>

inductive_set ancestors :: "research_task list \<Rightarrow> string set \<Rightarrow> string set" for d K where
  base: "k \<in> K \<Longrightarrow> k \<in> ancestors d K"
| step: "k \<in> ancestors d K \<Longrightarrow> p \<in> set (parents d k) \<Longrightarrow> p \<in> ancestors d K"

lemma depth_walk_eq:
  assumes "distinct seen" "set seen \<union> set stack \<subseteq> ancestors d K" "K \<subseteq> set seen \<union> set stack"
    "\<forall>k \<in> set seen. set (parents d k) \<subseteq> set seen \<union> set stack" "depth = 1 + int (length seen)"
  shows "depth_walk d stack seen depth = 1 + int (card (ancestors d K))"
  using assms
proof (induction d stack seen depth rule: depth_walk.induct)
  case (1 d seen depth)
  have "k \<in> set seen" if "k \<in> ancestors d K" for k
    using that by induction (use 1 in auto)
  then have "ancestors d K = set seen" using 1(2) by auto
  then show ?case using 1 by (simp add: distinct_card)
next
  case (2 d dep stack seen depth)
  show ?case
  proof (cases "dep \<in> set seen")
    case True
    then show ?thesis using 2(1) [OF True] 2(3-) by (simp add: insert_absorb)
  next
    case False
    have "set (parents d dep) \<subseteq> ancestors d K"
      using 2(4) by (auto intro: ancestors.step)
    then show ?thesis using 2(2) [OF False] 2(3-) False by auto
  qed
qed

lemma plan_depth_eq: "plan_depth ts t = 1 + int (card (ancestors (by_id ts) (set (dep_keys t))))"
  unfolding plan_depth_def
  by (rule depth_walk_eq) (auto intro: ancestors.base)

lemma ancestors_trancl:
  assumes closed: "closed_tasks ts" and t: "t \<in> set ts"
  shows "ancestors (by_id ts) (set (dep_keys t)) = {k. (k, task_key t) \<in> (dep_rel ts)\<^sup>+}"
proof -
  have d: "distinct (map task_key ts)" "by_id ts = ts"
    using closed by (simp_all add: closed_tasks_def by_id_distinct)
  have par: "p \<in> set (parents ts k) \<longleftrightarrow> (p, k) \<in> dep_rel ts" for p k
  proof -
    have "p \<in> set (parents ts k) \<longleftrightarrow> (\<exists>u \<in> set ts. task_key u = k \<and> p \<in> set (dep_keys u))"
    proof (cases "find (\<lambda>t. task_key t = k) ts")
      case None
      then show ?thesis using find_None_key [of task_key k ts] by (auto simp: parents_def)
    next
      case (Some u)
      then have "u \<in> set ts" "task_key u = k" by (auto dest: find_SomeD)
      then show ?thesis using Some distinct_map_inj [OF d(1)] by (auto simp: parents_def)
    qed
    then show ?thesis by (auto simp: dep_rel_def)
  qed
  have dep: "k \<in> set (dep_keys t) \<longleftrightarrow> (k, task_key t) \<in> dep_rel ts" for k
    using t d(1) by (auto simp: dep_rel_def dest: distinct_map_inj)
  have "(k, task_key t) \<in> (dep_rel ts)\<^sup>+" if "k \<in> ancestors ts (set (dep_keys t))" for k
    using that by induction (auto simp: par dep intro: trancl_into_trancl2)
  moreover have "k \<in> ancestors ts (set (dep_keys t))" if "(k, x) \<in> (dep_rel ts)\<^sup>+" "x = task_key t" for k x
    using that
  proof (induction rule: converse_trancl_induct)
    case (base y)
    then show ?case by (auto simp: dep intro: ancestors.base)
  next
    case (step y z)
    then show ?case by (auto simp: par intro: ancestors.step)
  qed
  ultimately show ?thesis using d(2) by auto
qed

section \<open>Task results and evidence\<close>

datatype result_status = Res_SUCCESS | Res_PARTIAL | Res_UNAVAILABLE | Res_FAILED | Res_BLOCKED

record evidence_ref =
  ref_company_id :: company_id
  ref_source_id :: "source_id option"
  ref_authority_tier :: "source_authority_tier option"
  ref_data_origin :: "data_origin option"
  ref_security_id :: "security_id option"
  ref_listing_id :: "listing_id option"
  ref_as_of :: "datetime option"
  ref_retrieved_at :: "datetime option"
  ref_locator :: "string option"

definition evidence_post_init :: "evidence_ref \<Rightarrow> evidence_ref res" where
  "evidence_post_init r =
     (if list_ex naive_stamp [ref_as_of r, ref_retrieved_at r]
      then Inl (ValueError ''evidence timestamps must be timezone-aware when set'')
      else Inr r)"

record task_result =
  result_task_id :: task_id
  result_status :: result_status
  result_message :: string
  result_evidence :: "evidence_ref list"
  output_summary :: "string option"
  retryable :: bool
  error_code :: "string option"

definition blank_to_underscore :: "string \<Rightarrow> string" where
  "blank_to_underscore = map (\<lambda>c. if c = CHR '' '' then CHR ''_'' else c)"

definition norm_code :: "string \<Rightarrow> string" where
  "norm_code s = blank_to_underscore (py_lower (py_strip s))"

definition some_text :: "string \<Rightarrow> string option" where
  "some_text s = (if s = [] then None else Some s)"

definition result_post_init :: "task_result \<Rightarrow> task_result res" where
  "result_post_init r =
     (let msg = py_strip (result_message r) in
      if msg = [] \<or> length msg > 1000
      then Inl (ValueError ''result message empty or exceeds bounds'')
      else if (case output_summary r of None \<Rightarrow> False | Some s \<Rightarrow> length (py_strip s) > 2000)
      then Inl (ValueError ''output_summary exceeds bounds'')
      else if (case error_code r of None \<Rightarrow> False
               | Some c \<Rightarrow> norm_code c = [] \<or> length (norm_code c) > 64)
      then Inl (ValueError ''error_code empty or exceeds bounds'')
      else if result_status r \<in> {Res_SUCCESS, Res_PARTIAL} \<and> retryable r
      then Inl (ValueError ''successful/partial results must not be retryable'')
      else Inr (r\<lparr>result_message := msg,
                  output_summary := Option.bind (output_summary r) (\<lambda>s. some_text (py_strip s)),
                  error_code := map_option norm_code (error_code r)\<rparr>))"

text \<open>A result without evidence, as the engine builds for its own failures.\<close>

definition failure_result :: "task_id \<Rightarrow> string \<Rightarrow> bool \<Rightarrow> string \<Rightarrow> task_result res" where
  "failure_result tid msg retry code =
     result_post_init \<lparr>result_task_id = tid, result_status = Res_FAILED, result_message = msg,
       result_evidence = [], output_summary = None, retryable = retry, error_code = Some code\<rparr>"

subsection \<open>Deduplication\<close>

definition opt_text :: "('a \<Rightarrow> string) \<Rightarrow> 'a option \<Rightarrow> string" where
  "opt_text f x = (case x of None \<Rightarrow> [] | Some y \<Rightarrow> f y)"

definition evidence_dedupe_key :: "evidence_ref \<Rightarrow> string list" where
  "evidence_dedupe_key r =
     [company_id_text (ref_company_id r),
      opt_text source_id_text (ref_source_id r),
      opt_text (\<lambda>t. nat_text (tier_int t)) (ref_authority_tier r),
      opt_text data_origin_value (ref_data_origin r),
      opt_text security_id_text (ref_security_id r),
      opt_text listing_id_text (ref_listing_id r),
      opt_text isoformat (ref_as_of r),
      opt_text isoformat (ref_retrieved_at r),
      opt_text id (ref_locator r)]"

fun first_of_key :: "('a \<Rightarrow> 'k) \<Rightarrow> 'k list \<Rightarrow> 'a list \<Rightarrow> 'a list" where
  "first_of_key f seen [] = []"
| "first_of_key f seen (x # xs) =
     (if f x \<in> set seen then first_of_key f seen xs
      else x # first_of_key f (f x # seen) xs)"

definition dedupe_evidence_refs :: "evidence_ref list \<Rightarrow> evidence_ref list" where
  "dedupe_evidence_refs refs =
     first_of_key evidence_dedupe_key [] (sort_key evidence_dedupe_key refs)"

lemma set_first_of_key: "set (first_of_key f seen xs) \<subseteq> set xs"
  by (induction f seen xs rule: first_of_key.induct) auto

lemma first_of_key_keys: "f ` set (first_of_key f seen xs) = f ` set xs - set seen"
  by (induction f seen xs rule: first_of_key.induct) auto

lemma first_of_key_distinct: "distinct (map f (first_of_key f seen xs))"
proof (induction f seen xs rule: first_of_key.induct)
  case (2 f seen x xs)
  then show ?case using first_of_key_keys [of f "f x # seen" xs] by auto
qed simp

lemma first_of_key_sorted: "sorted (map f xs) \<Longrightarrow> sorted (map f (first_of_key f seen xs))"
  by (induction f seen xs rule: first_of_key.induct) (auto dest: subsetD [OF set_first_of_key])

lemma dedupe_evidence_props:
  "sorted (map evidence_dedupe_key (dedupe_evidence_refs refs))"
  "distinct (map evidence_dedupe_key (dedupe_evidence_refs refs))"
  "evidence_dedupe_key ` set (dedupe_evidence_refs refs) = evidence_dedupe_key ` set refs"
  "set (dedupe_evidence_refs refs) \<subseteq> set refs"
proof -
  show "set (dedupe_evidence_refs refs) \<subseteq> set refs"
    using set_first_of_key [of evidence_dedupe_key "[]" "sort_key evidence_dedupe_key refs"]
    by (simp add: dedupe_evidence_refs_def)
qed (simp_all add: dedupe_evidence_refs_def first_of_key_sorted first_of_key_distinct
      first_of_key_keys)

text \<open>The keys of the result depend on the set of references only.\<close>

lemma dedupe_evidence_cong:
  assumes "set refs = set refs'"
  shows "map evidence_dedupe_key (dedupe_evidence_refs refs) =
    map evidence_dedupe_key (dedupe_evidence_refs refs')"
proof (rule sorted_distinct_set_unique)
  show "set (map evidence_dedupe_key (dedupe_evidence_refs refs)) =
      set (map evidence_dedupe_key (dedupe_evidence_refs refs'))"
    using dedupe_evidence_props(3) assms by simp
qed (rule dedupe_evidence_props)+

section \<open>Retry policy\<close>

definition non_retryable_codes :: "string list" where
  "non_retryable_codes =
     [''identity_mismatch'', ''invalid_input'', ''policy_violation'', ''blocked_dependency'',
      ''unavailable'', ''budget_violation'', ''unknown_capability'', ''cancellation'']"

definition should_retry :: "research_task \<Rightarrow> task_result \<Rightarrow> execution_budget \<Rightarrow> int \<Rightarrow> bool" where
  "should_retry t r b tot =
     (if result_status r \<noteq> Res_FAILED then False
      else if \<not> retryable r then False
      else if (case error_code r of None \<Rightarrow> False | Some c \<Rightarrow> c \<in> set non_retryable_codes) then False
      else if attempt_count t \<ge> max_attempts t then False
      else if attempt_count t \<ge> max_attempts_per_task b then False
      else tot < max_total_attempts b)"

section \<open>Execution control\<close>

record execution_control =
  is_cancelled :: bool
  is_pause :: bool
  control_reason :: "string option"

definition new_control :: execution_control where
  "new_control = \<lparr>is_cancelled = False, is_pause = False, control_reason = None\<rparr>"

definition control_cancel :: "string \<Rightarrow> execution_control \<Rightarrow> execution_control res" where
  "control_cancel reason c = (let text = norm_text reason in
     if text = [] \<or> length text > 256
     then Inl (ValueError ''cancellation reason empty or exceeds bounds'')
     else Inr (c\<lparr>is_cancelled := True, is_pause := False, control_reason := Some text\<rparr>))"

definition request_pause :: "string \<Rightarrow> execution_control \<Rightarrow> execution_control res" where
  "request_pause reason c = (let text = norm_text reason in
     if text = [] \<or> length text > 256
     then Inl (ValueError ''pause reason empty or exceeds bounds'')
     else Inr (c\<lparr>is_cancelled := True, is_pause := True, control_reason := Some text\<rparr>))"

end
