(* ===== verification/Plan.thy ===== *)
theory Plan
  imports Budget
begin

text \<open>
  Research plans (\<open>domain/orchestration/plan.py\<close>), the state of an orchestration run
  (\<open>state.py\<close>), research requests and objectives (\<open>request.py\<close>, \<open>objectives.py\<close>) and planner
  outcomes (\<open>planning.py\<close>). A constructed plan always holds a validated graph in topological
  order, and replacing tasks without touching ids, priorities and dependencies cannot fail.
\<close>

section \<open>Identifiers and objectives\<close>

datatype plan_id = PlanId (plan_id_text: uuid)
datatype request_id = RequestId (request_id_text: uuid)

definition mk_plan_id :: "uuid \<Rightarrow> plan_id res" where
  "mk_plan_id u = (if \<not> uuid_is_v4 u then Inl (ValueError ''plan_id must be a UUIDv4'') else Inr (PlanId u))"

definition mk_request_id :: "uuid \<Rightarrow> request_id res" where
  "mk_request_id u =
     (if \<not> uuid_is_v4 u then Inl (ValueError ''request_id must be a UUIDv4'') else Inr (RequestId u))"

lemma plan_id_text_eq_iff [simp]:
  "plan_id_text a = plan_id_text b \<longleftrightarrow> a = b" "request_id_text c = request_id_text d \<longleftrightarrow> c = d"
  by (cases a, cases b, simp) (cases c, cases d, simp)

text \<open>\<open>domain/research_run.py\<close>; equality compares both fields, \<open>as_text\<close> only the UUID.\<close>

record research_run_id =
  run_id_text :: uuid
  run_created_at :: datetime

definition run_id_post_init :: "research_run_id \<Rightarrow> research_run_id res" where
  "run_id_post_init r =
     (if \<not> uuid_is_v4 (run_id_text r) then Inl (ValueError ''research_run_id must be a UUIDv4'')
      else if \<not> tz_aware (run_created_at r) then Inl (ValueError ''created_at must be timezone-aware'')
      else Inr r)"

datatype objective =
    Objective_COMPANY_OVERVIEW
  | Objective_MARKET_ANALYSIS
  | Objective_FINANCIAL_ANALYSIS
  | Objective_NEWS_AND_EVENTS
  | Objective_INDUSTRY_ANALYSIS
  | Objective_REGULATORY_ANALYSIS
  | Objective_COMPREHENSIVE_EQUITY_RESEARCH

fun objective_value :: "objective \<Rightarrow> string" where
  "objective_value Objective_COMPANY_OVERVIEW = ''company_overview''"
| "objective_value Objective_MARKET_ANALYSIS = ''market_analysis''"
| "objective_value Objective_FINANCIAL_ANALYSIS = ''financial_analysis''"
| "objective_value Objective_NEWS_AND_EVENTS = ''news_and_events''"
| "objective_value Objective_INDUSTRY_ANALYSIS = ''industry_analysis''"
| "objective_value Objective_REGULATORY_ANALYSIS = ''regulatory_analysis''"
| "objective_value Objective_COMPREHENSIVE_EQUITY_RESEARCH = ''comprehensive_equity_research''"

section \<open>Plans\<close>

datatype plan_status =
    Plan_DRAFT | Plan_READY | Plan_EXECUTING | Plan_COMPLETED | Plan_FAILED | Plan_CANCELLED

record research_plan =
  plan_id :: plan_id
  plan_run_id :: research_run_id
  plan_objective :: objective
  plan_company_id :: company_id
  plan_tasks :: "research_task list"
  plan_created_at :: datetime
  planner_version :: string
  plan_status :: plan_status

definition PLANNER_VERSION :: string where
  "PLANNER_VERSION = ''phase6-deterministic-v1''"

definition plan_post_init :: "research_plan \<Rightarrow> research_plan res" where
  "plan_post_init p =
     (if \<not> tz_aware (plan_created_at p) then Inl (ValueError ''created_at must be timezone-aware'')
      else if py_strip (planner_version p) = [] then Inl (ValueError ''planner_version is required'')
      else if plan_tasks p = []
      then Inl (ValueError ''research plan requires at least one task'')
      else and_then (validate_task_graph (plan_tasks p)) (\<lambda>_.
           and_then (topological_order (plan_tasks p)) (\<lambda>ordered.
             Inr (p\<lparr>plan_tasks := ordered\<rparr>))))"

definition plan_dependencies :: "research_plan \<Rightarrow> (string \<times> string) list" where
  "plan_dependencies p = dependency_edges (plan_tasks p)"

definition with_tasks :: "research_plan \<Rightarrow> research_task list \<Rightarrow> plan_status option \<Rightarrow> research_plan res"
where
  "with_tasks p ts st =
     plan_post_init (p\<lparr>plan_tasks := ts,
       plan_status := (case st of None \<Rightarrow> plan_status p | Some s \<Rightarrow> s)\<rparr>)"

definition plan_with_status :: "research_plan \<Rightarrow> plan_status \<Rightarrow> research_plan res" where
  "plan_with_status p st = plan_post_init (p\<lparr>plan_status := st\<rparr>)"

definition wf_plan :: "research_plan \<Rightarrow> bool" where
  "wf_plan p \<longleftrightarrow> plan_post_init p = Inr p"

lemma plan_post_init_Inr_iff:
  "plan_post_init p = Inr p' \<longleftrightarrow>
     tz_aware (plan_created_at p) \<and> py_strip (planner_version p) \<noteq> [] \<and> plan_tasks p \<noteq> [] \<and>
     (\<exists>os. topological_order (plan_tasks p) = Inr os \<and> p' = p\<lparr>plan_tasks := os\<rparr>)"
proof -
  have "topological_order (plan_tasks p) = Inr os \<Longrightarrow> validate_task_graph (plan_tasks p) = Inr ()" for os
    by (auto simp: topological_order_def)
  then show ?thesis
    by (auto simp: plan_post_init_def and_then_Inr_iff)
qed

lemma wf_plan_iff:
  "wf_plan p \<longleftrightarrow>
     tz_aware (plan_created_at p) \<and> py_strip (planner_version p) \<noteq> [] \<and> plan_tasks p \<noteq> [] \<and>
     topological_order (plan_tasks p) = Inr (plan_tasks p)"
proof -
  have same: "p = p\<lparr>plan_tasks := os\<rparr> \<longleftrightarrow> os = plan_tasks p" for os
    by (cases p) auto
  show ?thesis unfolding wf_plan_def plan_post_init_Inr_iff same by blast
qed

lemma topological_order_tasks:
  assumes "topological_order ts = Inr os"
  shows "mset os = mset ts" "respects_deps os" "graph_ok ts" "graph_ok os" "closed_tasks os"
proof -
  show g: "graph_ok ts" using assms topological_order_Inr_iff by blast
  from topological_order_ok [OF g] assms show m: "mset os = mset ts" "respects_deps os" by auto
  show "graph_ok os" using graph_ok_cong [OF m(1) [symmetric] g] .
  then show "closed_tasks os" by (simp add: graph_ok_def)
qed

lemma plan_post_init_wf:
  assumes "plan_post_init p = Inr p'" shows "wf_plan p'"
proof -
  from assms obtain os where os: "topological_order (plan_tasks p) = Inr os" "p' = p\<lparr>plan_tasks := os\<rparr>"
    and p: "tz_aware (plan_created_at p)" "py_strip (planner_version p) \<noteq> []" "plan_tasks p \<noteq> []"
    unfolding plan_post_init_Inr_iff by blast
  have "os \<noteq> []" using topological_order_tasks(1) [OF os(1)] p(3) by auto
  then show ?thesis using topological_order_idem [OF os(1)] os(2) p by (simp add: wf_plan_iff)
qed

lemma wf_plan_graph:
  assumes "wf_plan p"
  shows "graph_ok (plan_tasks p)" "closed_tasks (plan_tasks p)" "respects_deps (plan_tasks p)"
    "plan_tasks p \<noteq> []"
  using assms topological_order_tasks by (auto simp: wf_plan_iff)

lemma plan_with_status_eq: "wf_plan p \<Longrightarrow> plan_with_status p st = Inr (p\<lparr>plan_status := st\<rparr>)"
  unfolding plan_with_status_def plan_post_init_Inr_iff wf_plan_iff by auto

text \<open>A permutation of updated tasks is put back in the plan's order.\<close>

definition keeps_order :: "(research_task \<Rightarrow> research_task) \<Rightarrow> research_task \<Rightarrow> bool" where
  "keeps_order f t \<longleftrightarrow>
     task_key (f t) = task_key t \<and> priority (f t) = priority t \<and> dependencies (f t) = dependencies t"

lemma topological_order_map_on:
  assumes f: "\<forall>t \<in> set ts. keeps_order f t" and ok: "topological_order ts = Inr os"
  shows "topological_order (map f ts) = Inr (map f os)"
proof -
  let ?g = "\<lambda>t. if t \<in> set ts then f t else t"
  have s: "set os = set ts" using topological_order_tasks(1) [OF ok] by (rule mset_eq_setD)
  have "topological_order (map ?g ts) = Inr (map ?g os)"
    by (rule topological_order_map [OF _ _ _ ok]) (use f in \<open>auto simp: keeps_order_def\<close>)
  moreover have "map ?g ts = map f ts" "map ?g os = map f os" using s by auto
  ultimately show ?thesis by simp
qed

lemma with_tasks_map:
  assumes p: "wf_plan p" and f: "\<forall>t \<in> set (plan_tasks p). keeps_order f t"
    and ts: "mset ts = mset (map f (plan_tasks p))"
  shows "with_tasks p ts st = Inr (p\<lparr>plan_tasks := map f (plan_tasks p),
    plan_status := (case st of None \<Rightarrow> plan_status p | Some s \<Rightarrow> s)\<rparr>)"
proof -
  have ord: "topological_order (map f (plan_tasks p)) = Inr (map f (plan_tasks p))"
    using topological_order_map_on [OF f] p by (simp add: wf_plan_iff)
  then have "topological_order ts = Inr (map f (plan_tasks p))"
    using topological_order_cong [of "map f (plan_tasks p)" ts] ts topological_order_tasks(3)
    by metis
  moreover have "ts \<noteq> []" using ts p by (auto simp: wf_plan_iff)
  ultimately show ?thesis
    using p unfolding with_tasks_def plan_post_init_Inr_iff wf_plan_iff by auto
qed

lemma wf_plan_map:
  assumes "wf_plan p" "\<forall>t \<in> set (plan_tasks p). keeps_order f t"
  shows "wf_plan (p\<lparr>plan_tasks := map f (plan_tasks p), plan_status := st\<rparr>)"
  using assms topological_order_map_on [OF assms(2)] by (simp add: wf_plan_iff)

section \<open>Orchestration state\<close>

datatype orchestration_status =
    Orch_PENDING | Orch_RUNNING | Orch_COMPLETED | Orch_PARTIAL | Orch_FAILED | Orch_BLOCKED
  | Orch_CANCELLED | Orch_BUDGET_EXCEEDED

record orchestration_state =
  state_run_id :: research_run_id
  state_plan :: research_plan
  state_started_at :: datetime
  state_updated_at :: datetime
  state_results :: "task_result list"
  state_status :: orchestration_status
  total_attempts :: int
  external_calls :: int
  state_warnings :: "string list"
  terminal_reason :: "string option"

definition state_post_init :: "orchestration_state \<Rightarrow> orchestration_state res" where
  "state_post_init s =
     (if \<not> tz_aware (state_started_at s) \<or> \<not> tz_aware (state_updated_at s)
      then Inl (ValueError ''orchestration timestamps must be timezone-aware'')
      else if run_id_text (plan_run_id (state_plan s)) \<noteq> run_id_text (state_run_id s)
      then Inl (ValueError ''orchestration state research_run_id must match plan'')
      else if total_attempts s < 0 \<or> external_calls s < 0
      then Inl (ValueError ''attempt counters must be non-negative'')
      else Inr s)"

definition task_ids_with :: "(task_status \<Rightarrow> bool) \<Rightarrow> research_plan \<Rightarrow> string list" where
  "task_ids_with P p = map task_key (filter (\<lambda>t. P (task_status t)) (plan_tasks p))"

definition with_updated_plan ::
    "orchestration_state \<Rightarrow> research_plan \<Rightarrow> datetime \<Rightarrow> orchestration_state res" where
  "with_updated_plan s p now = state_post_init (s\<lparr>state_plan := p, state_updated_at := now\<rparr>)"

definition wf_state :: "orchestration_state \<Rightarrow> bool" where
  "wf_state s \<longleftrightarrow> state_post_init s = Inr s \<and> wf_plan (state_plan s) \<and>
     (\<forall>t \<in> set (plan_tasks (state_plan s)). wf_task t)"

lemma state_post_init_Inr_iff:
  "state_post_init s = Inr s' \<longleftrightarrow>
     s' = s \<and> tz_aware (state_started_at s) \<and> tz_aware (state_updated_at s) \<and>
     run_id_text (plan_run_id (state_plan s)) = run_id_text (state_run_id s) \<and>
     0 \<le> total_attempts s \<and> 0 \<le> external_calls s"
  by (auto simp: state_post_init_def)

section \<open>Requests and planner outcomes\<close>

record research_request =
  request_id :: request_id
  request_run_id :: research_run_id
  request_objective :: objective
  request_raw_query :: string
  request_created_at :: datetime
  request_country :: "country_code option"
  request_exchange :: "exchange_code option"
  request_ticker :: "ticker_symbol option"
  objective_text :: "string option"
  jurisdiction :: "string option"
  time_horizon_days :: "int option"

definition check_objective_text :: "string option \<Rightarrow> string option res" where
  "check_objective_text x =
     (case x of None \<Rightarrow> Inr None
      | Some s \<Rightarrow>
          if has_control_chars s
          then Inl (ValueError ''objective_text must not contain control characters'')
          else let text = py_strip s in
            if text = [] \<or> length text > 512
            then Inl (ValueError ''objective_text empty or exceeds bounds'')
            else Inr (Some text))"

definition check_jurisdiction :: "string option \<Rightarrow> string option res" where
  "check_jurisdiction x =
     (case x of None \<Rightarrow> Inr None
      | Some s \<Rightarrow>
          let jur = py_upper (py_strip s) in
          if length jur \<noteq> 2 then Inl (ValueError ''jurisdiction must be ISO alpha-2 when set'')
          else Inr (Some jur))"

definition request_post_init :: "research_request \<Rightarrow> research_request res" where
  "request_post_init r =
     (if \<not> tz_aware (request_created_at r)
      then Inl (ValueError ''created_at must be timezone-aware'')
      else if has_control_chars (request_raw_query r)
      then Inl (ValueError ''raw_query must not contain control characters'')
      else if py_strip (request_raw_query r) = [] \<and> request_ticker r = None
      then Inl (ValueError ''raw_query empty unless ticker is provided'')
      else if length (request_raw_query r) > MAX_QUERY_LENGTH
      then Inl (ValueError (''raw_query exceeds '' @ nat_text MAX_QUERY_LENGTH @ '' characters''))
      else and_then (check_objective_text (objective_text r)) (\<lambda>ot.
           and_then (check_jurisdiction (jurisdiction r)) (\<lambda>jur.
             if (case time_horizon_days r of None \<Rightarrow> False | Some d \<Rightarrow> d < 1 \<or> d > 3650)
             then Inl (ValueError ''time_horizon_days must be between 1 and 3650'')
             else Inr (r\<lparr>objective_text := ot, jurisdiction := jur\<rparr>))))"

datatype planner_outcome_status = Planner_OK | Planner_UNAVAILABLE | Planner_INVALID | Planner_FAILED

fun planner_outcome_status_value :: "planner_outcome_status \<Rightarrow> string" where
  "planner_outcome_status_value Planner_OK = ''ok''"
| "planner_outcome_status_value Planner_UNAVAILABLE = ''unavailable''"
| "planner_outcome_status_value Planner_INVALID = ''invalid''"
| "planner_outcome_status_value Planner_FAILED = ''failed''"

record planner_outcome =
  outcome_status :: planner_outcome_status
  outcome_message :: string
  outcome_plan :: "research_plan option"
  outcome_version :: "string option"

definition outcome_post_init :: "planner_outcome \<Rightarrow> planner_outcome res" where
  "outcome_post_init o' =
     (let message = norm_text (outcome_message o') in
      if message = [] \<or> length message > 512
      then Inl (ValueError ''message empty or exceeds bounds'')
      else if outcome_status o' = Planner_OK \<and> outcome_plan o' = None
      then Inl (ValueError ''ok outcomes require a research plan'')
      else if outcome_status o' \<noteq> Planner_OK \<and> outcome_plan o' \<noteq> None
      then Inl (ValueError (planner_outcome_status_value (outcome_status o') @
             '' outcomes must not attach a plan''))
      else Inr (o'\<lparr>outcome_message := message\<rparr>))"

lemma outcome_plan_iff:
  "outcome_post_init x = Inr y \<Longrightarrow> outcome_status y = Planner_OK \<longleftrightarrow> outcome_plan y \<noteq> None"
  by (auto simp: outcome_post_init_def Let_def split: if_splits)

end
