(* ===== verification/Engine.thy ===== *)
theory Engine
  imports Plan
begin

text \<open>
  The execution engine (\<open>application/execute_research_plan.py\<close>,
  \<open>application/research_execution_contracts.py\<close>): \<open>execute_prepared\<close> with its loop, one definition
  per branch group of the loop body. The clock, the cancellation token and the capability executor
  are ports over a world of any type \<open>'w\<close>: every call may change the world, and with it what
  the token says when the loop looks at it next.
\<close>

section \<open>Queries and results\<close>

datatype execution_status =
    Exec_COMPLETED | Exec_PARTIAL | Exec_FAILED | Exec_BLOCKED | Exec_CANCELLED
  | Exec_BUDGET_EXCEEDED | Exec_RESOLUTION_BLOCKED | Exec_INVALID | Exec_UNAVAILABLE

fun execution_status_value :: "execution_status \<Rightarrow> string" where
  "execution_status_value Exec_COMPLETED = ''completed''"
| "execution_status_value Exec_PARTIAL = ''partial''"
| "execution_status_value Exec_FAILED = ''failed''"
| "execution_status_value Exec_BLOCKED = ''blocked''"
| "execution_status_value Exec_CANCELLED = ''cancelled''"
| "execution_status_value Exec_BUDGET_EXCEEDED = ''budget_exceeded''"
| "execution_status_value Exec_RESOLUTION_BLOCKED = ''resolution_blocked''"
| "execution_status_value Exec_INVALID = ''invalid''"
| "execution_status_value Exec_UNAVAILABLE = ''unavailable''"

record execute_query =
  eq_company_query :: company_query
  eq_objective :: objective
  eq_objective_text :: "string option"
  eq_jurisdiction :: "string option"
  eq_time_horizon_days :: "int option"
  eq_budget :: "execution_budget option"

record execution_result =
  er_query :: execute_query
  er_status :: execution_status
  er_message :: string
  er_run_id :: "string option"
  er_plan_id :: "string option"
  er_plan :: "research_plan option"
  er_orchestration :: "orchestration_state option"
  er_task_results :: "task_result list"
  er_evidence_refs :: "evidence_ref list"
  er_warnings :: "string list"
  er_completed_count :: nat
  er_failed_count :: nat
  er_blocked_count :: nat
  er_partial_count :: nat
  er_skipped_count :: nat
  er_resolution :: "resolution_result option"
  er_budget :: "execution_budget option"
  er_started_at :: "datetime option"
  er_completed_at :: "datetime option"

definition execution_result_post_init :: "execution_result \<Rightarrow> execution_result res" where
  "execution_result_post_init r =
     (if list_ex naive_stamp [er_started_at r, er_completed_at r]
      then Inl (ValueError ''execution timestamps must be timezone-aware'')
      else if er_status r \<in> {Exec_RESOLUTION_BLOCKED, Exec_INVALID, Exec_UNAVAILABLE} \<and>
              er_plan r \<noteq> None
      then Inl (ValueError (execution_status_value (er_status r) @
             '' results must not attach an executed plan''))
      else Inr r)"

text \<open>A result with the defaults of the optional fields.\<close>

definition bare_result :: "execute_query \<Rightarrow> execution_status \<Rightarrow> string \<Rightarrow> execution_result" where
  "bare_result q st msg = \<lparr>er_query = q, er_status = st, er_message = msg, er_run_id = None,
     er_plan_id = None, er_plan = None, er_orchestration = None, er_task_results = [],
     er_evidence_refs = [], er_warnings = [], er_completed_count = 0, er_failed_count = 0,
     er_blocked_count = 0, er_partial_count = 0, er_skipped_count = 0, er_resolution = None,
     er_budget = None, er_started_at = None, er_completed_at = None\<rparr>"

fun result_to_task_status :: "result_status \<Rightarrow> task_status" where
  "result_to_task_status Res_SUCCESS = Task_SUCCEEDED"
| "result_to_task_status Res_PARTIAL = Task_SUCCEEDED"
| "result_to_task_status Res_BLOCKED = Task_BLOCKED"
| "result_to_task_status Res_UNAVAILABLE = Task_FAILED"
| "result_to_task_status Res_FAILED = Task_FAILED"

section \<open>Ports\<close>

record 'w engine_ports =
  clock :: "'w \<Rightarrow> datetime \<times> 'w"
  read_control :: "'w \<Rightarrow> execution_control"
  execute_task :: "research_task \<Rightarrow> company_identity \<Rightarrow> company_query \<Rightarrow> 'w \<Rightarrow> task_result res \<times> 'w"

section \<open>Identity of evidence\<close>

text \<open>What is wrong with one reference, if anything.\<close>

definition identity_fault :: "company_identity \<Rightarrow> evidence_ref \<Rightarrow> string option" where
  "identity_fault c r =
     (if ref_company_id r \<noteq> company_id c
      then Some ''evidence company_id contradicts plan CompanyId''
      else if (case ref_security_id r of None \<Rightarrow> False
               | Some s \<Rightarrow> s \<notin> security_id ` set (securities c))
      then Some ''evidence security_id is not owned by plan CompanyId''
      else if (case ref_listing_id r of None \<Rightarrow> False
               | Some l \<Rightarrow> l \<notin> listing_id ` set (all_listings c))
      then Some ''evidence listing_id is not owned by plan CompanyId''
      else None)"

fun first_fault :: "company_identity \<Rightarrow> evidence_ref list \<Rightarrow> string option" where
  "first_fault c [] = None"
| "first_fault c (r # rs) =
     (case identity_fault c r of Some m \<Rightarrow> Some m | None \<Rightarrow> first_fault c rs)"

definition enforce_identity :: "company_identity \<Rightarrow> research_task \<Rightarrow> task_result \<Rightarrow> task_result res" where
  "enforce_identity c running r =
     (case first_fault c (result_evidence r) of
        None \<Rightarrow> Inr r
      | Some m \<Rightarrow> failure_result (task_id running) m False ''identity_mismatch'')"

section \<open>State updates\<close>

definition replace_task ::
    "orchestration_state \<Rightarrow> research_task \<Rightarrow> datetime \<Rightarrow> orchestration_state res" where
  "replace_task s t now =
     and_then (with_tasks (state_plan s)
         (map (\<lambda>u. if task_id u = task_id t then t else u) (plan_tasks (state_plan s))) None)
       (\<lambda>p. with_updated_plan s p now)"

definition cancel_task :: "datetime \<Rightarrow> bool \<Rightarrow> research_task \<Rightarrow> research_task res" where
  "cancel_task now preserve t =
     (if task_status t \<in> {Task_PENDING, Task_READY}
      then if preserve then Inr t
        else and_then (if task_status t = Task_PENDING then with_status t Task_READY None False
                       else Inr t)
               (\<lambda>u. with_status u Task_SKIPPED (Some now) False)
      else Inr t)"

definition apply_cancellation ::
    "orchestration_state \<Rightarrow> datetime \<Rightarrow> string \<Rightarrow> bool \<Rightarrow> orchestration_state res" where
  "apply_cancellation s now reason preserve =
     and_then (map_res (cancel_task now preserve) (plan_tasks (state_plan s))) (\<lambda>updated.
     and_then (with_tasks (state_plan s) updated
         (Some (if preserve then Plan_READY else Plan_CANCELLED))) (\<lambda>p.
       state_post_init (s\<lparr>state_plan := p, state_status := Orch_CANCELLED,
         terminal_reason := Some reason, state_updated_at := now\<rparr>)))"

definition finalize_task :: "datetime \<Rightarrow> research_task \<Rightarrow> research_task res" where
  "finalize_task now t =
     (if task_status t = Task_PENDING
      then if required t then with_status t Task_BLOCKED None False
        else and_then (with_status t Task_READY None False)
               (\<lambda>cur. with_status cur Task_SKIPPED (Some now) False)
      else Inr t)"

definition finalize_no_ready ::
    "orchestration_state \<Rightarrow> datetime \<Rightarrow> string list \<Rightarrow> orchestration_state res" where
  "finalize_no_ready s now warnings =
     and_then (apply_failure_propagation (plan_tasks (state_plan s))) (\<lambda>propagated.
     and_then (map_res (finalize_task now) propagated) (\<lambda>final_tasks.
     and_then (with_tasks (state_plan s) final_tasks None) (\<lambda>p.
       state_post_init (s\<lparr>state_plan := p, state_updated_at := now, state_warnings := warnings\<rparr>))))"

text \<open>\<open>replace(state, status=..., terminal_reason=..., updated_at=now, plan=...FAILED)\<close>\<close>

definition halt ::
    "orchestration_status \<Rightarrow> string \<Rightarrow> datetime \<Rightarrow> orchestration_state \<Rightarrow> orchestration_state res" where
  "halt st reason now s =
     and_then (plan_with_status (state_plan s) Plan_FAILED) (\<lambda>p.
       state_post_init (s\<lparr>state_plan := p, state_status := st, terminal_reason := Some reason,
         state_updated_at := now\<rparr>))"

definition add_result :: "task_result \<Rightarrow> datetime \<Rightarrow> orchestration_state \<Rightarrow> orchestration_state res" where
  "add_result r now s = state_post_init (s\<lparr>state_results := state_results s @ [r], state_updated_at := now\<rparr>)"

section \<open>One round of the loop\<close>

text \<open>
  The local variables of the loop: the state, \<open>executed_success_ids\<close> and \<open>warnings\<close>. A round
  leaves the loop (\<open>break\<close>), goes on (\<open>continue\<close>), or calls the executor.
\<close>

record loop_state =
  ls_state :: orchestration_state
  ls_success :: "string list"
  ls_warnings :: "string list"

datatype decision = Stop loop_state | Again loop_state | Call research_task loop_state

definition set_state :: "loop_state \<Rightarrow> (loop_state \<Rightarrow> decision) \<Rightarrow> orchestration_state \<Rightarrow> decision res"
where
  "set_state ls k s = Inr (k (ls\<lparr>ls_state := s\<rparr>))"

definition duplicate_branch :: "datetime \<Rightarrow> loop_state \<Rightarrow> research_task \<Rightarrow> decision res" where
  "duplicate_branch now ls t =
     (let ls' = ls\<lparr>ls_warnings := ls_warnings ls @
            [''duplicate execution prevented for task '' @ task_key t]\<rparr>
      in and_then (if task_status t = Task_PENDING \<or> task_status t = Task_READY
                   then with_status t Task_SKIPPED (Some now) False else Inr t) (\<lambda>skipped.
         and_then (replace_task (ls_state ls) skipped now) (set_state ls' Again)))"

definition exhausted_branch :: "datetime \<Rightarrow> loop_state \<Rightarrow> research_task \<Rightarrow> decision res" where
  "exhausted_branch now ls t =
     and_then (if task_status t = Task_PENDING then with_status t Task_READY None False else Inr t)
       (\<lambda>e.
     and_then (if task_status e = Task_READY
               then if attempt_count e < max_attempts e
                 then and_then (with_status e Task_RUNNING (Some now) False)
                        (\<lambda>e. with_status e Task_FAILED (Some now) False)
                 else with_status e Task_SKIPPED (Some now) False
               else Inr e) (\<lambda>exhausted.
     and_then (failure_result (task_id t) ''max_attempts_per_task budget exhausted before execution''
                 False ''budget_violation'') (\<lambda>r.
     and_then (replace_task (ls_state ls) exhausted now) (\<lambda>s.
     and_then (add_result r now s) (set_state ls Again)))))"

definition overrun_branch :: "datetime \<Rightarrow> loop_state \<Rightarrow> research_task \<Rightarrow> decision res" where
  "overrun_branch now ls running =
     and_then (with_status running Task_FAILED (Some now) False) (\<lambda>failed.
     and_then (failure_result (task_id running) ''max_total_attempts would be exceeded''
                 False ''budget_violation'') (\<lambda>r.
     and_then (replace_task (ls_state ls) failed now) (\<lambda>s.
     and_then (plan_with_status (state_plan s) Plan_FAILED) (\<lambda>p.
     and_then (state_post_init (s\<lparr>state_results := state_results s @ [r],
         state_status := Orch_BUDGET_EXCEEDED,
         terminal_reason := Some ''max_total_attempts would be exceeded'',
         state_updated_at := now, state_plan := p\<rparr>))
       (set_state ls Stop)))))"

definition run_branch ::
    "execution_budget \<Rightarrow> datetime \<Rightarrow> loop_state \<Rightarrow> research_task \<Rightarrow> decision res" where
  "run_branch b now ls t =
     and_then (if task_status t = Task_PENDING then with_status t Task_READY None False else Inr t)
       (\<lambda>ready.
        case with_status ready Task_RUNNING (Some now) False of
          Inl e \<Rightarrow>
            if is_value_error e
            then and_then (halt Orch_FAILED (error_text e) now (ls_state ls))
                   (set_state (ls\<lparr>ls_warnings := ls_warnings ls @ [error_text e]\<rparr>) Stop)
            else Inl e
        | Inr running \<Rightarrow>
            and_then (replace_task (ls_state ls) running now) (\<lambda>s.
              if total_attempts s + 1 > max_total_attempts b
              then overrun_branch now (ls\<lparr>ls_state := s\<rparr>) running
              else Inr (Call running (ls\<lparr>ls_state := s\<rparr>))))"

definition start_task ::
    "execution_budget \<Rightarrow> datetime \<Rightarrow> loop_state \<Rightarrow> research_task \<Rightarrow> decision res" where
  "start_task b now ls t =
     (if task_key t \<in> set (ls_success ls) then duplicate_branch now ls t
      else if external_calls (ls_state ls) + 1 > max_external_calls b
      then and_then (halt Orch_BUDGET_EXCEEDED ''max_external_calls would be exceeded'' now (ls_state ls))
             (set_state ls Stop)
      else if attempt_count t \<ge> max_attempts_per_task b then exhausted_branch now ls t
      else run_branch b now ls t)"

definition schedule ::
    "execution_budget \<Rightarrow> execution_control \<Rightarrow> datetime \<Rightarrow> loop_state \<Rightarrow> decision res" where
  "schedule b ctl now ls =
     (let s = ls_state ls in
      if is_cancelled ctl
      then and_then (apply_cancellation s now
               (case control_reason ctl of None \<Rightarrow> ''cancelled''
                | Some r \<Rightarrow> if r = [] then ''cancelled'' else r) (is_pause ctl))
             (set_state ls Stop)
      else if total_attempts s \<ge> max_total_attempts b
      then and_then (halt Orch_BUDGET_EXCEEDED ''max_total_attempts exhausted'' now s) (set_state ls Stop)
      else if external_calls s \<ge> max_external_calls b
      then and_then (halt Orch_BUDGET_EXCEEDED ''max_external_calls exhausted'' now s) (set_state ls Stop)
      else
        and_then (apply_failure_propagation (plan_tasks (state_plan s))) (\<lambda>propagated.
        and_then (with_tasks (state_plan s) propagated (Some Plan_EXECUTING)) (\<lambda>p.
        and_then (with_updated_plan s p now) (\<lambda>s.
        and_then (select_next_ready_task (plan_tasks (state_plan s))) (\<lambda>next.
          case next of
            None \<Rightarrow> and_then (finalize_no_ready s now (ls_warnings ls)) (set_state ls Stop)
          | Some t \<Rightarrow> start_task b now (ls\<lparr>ls_state := s\<rparr>) t)))))"

definition after_call ::
    "execution_budget \<Rightarrow> company_identity \<Rightarrow> datetime \<Rightarrow> research_task \<Rightarrow> loop_state \<Rightarrow> task_result
      \<Rightarrow> loop_state res"
where
  "after_call b c now running ls r0 =
     (let s0 = ls_state ls in
      and_then (state_post_init (s0\<lparr>total_attempts := total_attempts s0 + 1,
          external_calls := external_calls s0 + 1, state_updated_at := now\<rparr>)) (\<lambda>s.
      and_then (enforce_identity c running r0) (\<lambda>r.
      let terminal = result_to_task_status (result_status r) in
      and_then (with_status running terminal (Some now) False) (\<lambda>finished.
      and_then (if terminal = Task_FAILED \<and> should_retry finished r b (total_attempts s)
                then with_status finished Task_READY None True else Inr finished) (\<lambda>finished'.
      and_then (replace_task s finished' now) (\<lambda>s.
      and_then (add_result r now s) (\<lambda>s.
        Inr (ls\<lparr>ls_state := s,
               ls_success := (if terminal = Task_SUCCEEDED then task_key running # ls_success ls
                              else ls_success ls),
               ls_warnings := (if terminal = Task_SUCCEEDED \<and> result_status r = Res_PARTIAL
                 then ls_warnings ls @ [''task '' @ task_key running @
                   '' completed with PARTIAL result (downstream deps may proceed; completeness not claimed)'']
                 else ls_warnings ls)\<rparr>))))))))"

text \<open>A round, and whether the loop goes on after it.\<close>

definition exec_round ::
    "'w engine_ports \<Rightarrow> execution_budget \<Rightarrow> company_identity \<Rightarrow> company_query \<Rightarrow> loop_state \<Rightarrow> 'w
      \<Rightarrow> (loop_state \<times> bool) res \<times> 'w"
where
  "exec_round P b c q ls w =
     (case clock P w of (now, w1) \<Rightarrow>
        case schedule b (read_control P w1) now ls of
          Inl e \<Rightarrow> (Inl e, w1)
        | Inr (Stop ls') \<Rightarrow> (Inr (ls', False), w1)
        | Inr (Again ls') \<Rightarrow> (Inr (ls', True), w1)
        | Inr (Call running ls') \<Rightarrow>
            case execute_task P running c q w1 of
              (Inl e, w2) \<Rightarrow> (Inl e, w2)
            | (Inr r, w2) \<Rightarrow>
                (and_then (after_call b c now running ls' r) (\<lambda>ls. Inr (ls, True)), w2))"

text \<open>The loop; its number of rounds is the source's own bound \<open>max_rounds\<close>.\<close>

definition guard_message :: string where
  "guard_message = ''no-progress guard terminated execution loop''"

definition no_progress_guard :: "datetime \<Rightarrow> loop_state \<Rightarrow> loop_state res" where
  "no_progress_guard now ls =
     (let s = ls_state ls; ws = ls_warnings ls @ [guard_message] in
      and_then (plan_with_status (state_plan s) Plan_FAILED) (\<lambda>p.
      and_then (state_post_init (s\<lparr>state_status := Orch_FAILED,
          terminal_reason := Some ''no-progress guard: max orchestration rounds exceeded'',
          state_updated_at := now, state_warnings := ws, state_plan := p\<rparr>)) (\<lambda>s.
        Inr (ls\<lparr>ls_state := s, ls_warnings := ws\<rparr>))))"

fun exec_loop ::
    "'w engine_ports \<Rightarrow> execution_budget \<Rightarrow> company_identity \<Rightarrow> company_query \<Rightarrow> nat \<Rightarrow> loop_state \<Rightarrow> 'w
      \<Rightarrow> loop_state res \<times> 'w"
where
  "exec_loop P b c q 0 ls w =
     (case clock P w of (now, w1) \<Rightarrow> (no_progress_guard now ls, w1))"
| "exec_loop P b c q (Suc n) ls w =
     (case exec_round P b c q ls w of
        (Inl e, w1) \<Rightarrow> (Inl e, w1)
      | (Inr (ls', go), w1) \<Rightarrow> if go then exec_loop P b c q n ls' w1 else (Inr ls', w1))"

section \<open>The result of a run\<close>

definition count_status :: "task_status \<Rightarrow> research_task list \<Rightarrow> nat" where
  "count_status st ts = length (filter (\<lambda>t. task_status t = st) ts)"

definition partial_count :: "orchestration_state \<Rightarrow> nat" where
  "partial_count s = length (filter (\<lambda>r. result_status r = Res_PARTIAL) (state_results s))"

definition reason_or :: "orchestration_state \<Rightarrow> string \<Rightarrow> string" where
  "reason_or s m = (case terminal_reason s of None \<Rightarrow> m | Some r \<Rightarrow> if r = [] then m else r)"

definition run_outcome :: "orchestration_state \<Rightarrow> execution_status \<times> plan_status \<times> string" where
  "run_outcome s =
     (let ts = plan_tasks (state_plan s);
          req = filter required ts;
          opt = filter (\<lambda>t. \<not> required t) ts;
          req_failed = list_ex (\<lambda>t. task_status t = Task_FAILED) req;
          req_blocked = list_ex (\<lambda>t. task_status t = Task_BLOCKED) req;
          req_succeeded = count_status Task_SUCCEEDED req;
          req_ok = (req \<noteq> [] \<and> list_all (\<lambda>t. task_status t = Task_SUCCEEDED) req);
          optional_failed = list_ex (\<lambda>t. task_status t = Task_FAILED) opt;
          partial = partial_count s
      in if state_status s = Orch_CANCELLED
         then (Exec_CANCELLED, Plan_CANCELLED, reason_or s ''execution cancelled'')
         else if state_status s = Orch_BUDGET_EXCEEDED
         then (Exec_BUDGET_EXCEEDED, Plan_FAILED, reason_or s ''execution budget exceeded'')
         else if req_failed \<and> req_succeeded > 0
         then (Exec_PARTIAL, Plan_COMPLETED,
               ''transparent partial: one or more required tasks failed while others succeeded'')
         else if req_failed then (Exec_FAILED, Plan_FAILED, ''one or more required tasks failed'')
         else if req_blocked \<and> req_succeeded > 0
         then (Exec_PARTIAL, Plan_COMPLETED,
               ''transparent partial: one or more required tasks blocked while others succeeded'')
         else if req_blocked then (Exec_BLOCKED, Plan_FAILED, ''one or more required tasks blocked'')
         else if req_ok \<and> (partial > 0 \<or> optional_failed)
         then (Exec_PARTIAL, Plan_COMPLETED,
               ''required tasks finished with PARTIAL capability results and/or optional task failures'')
         else if req_ok
         then (Exec_COMPLETED, Plan_COMPLETED, ''research plan executed within bounds'')
         else (Exec_PARTIAL, Plan_COMPLETED, ''execution finished with incomplete required coverage''))"

fun final_status :: "execution_status \<Rightarrow> orchestration_status" where
  "final_status Exec_COMPLETED = Orch_COMPLETED"
| "final_status Exec_PARTIAL = Orch_PARTIAL"
| "final_status Exec_FAILED = Orch_FAILED"
| "final_status Exec_BLOCKED = Orch_BLOCKED"
| "final_status Exec_CANCELLED = Orch_CANCELLED"
| "final_status Exec_BUDGET_EXCEEDED = Orch_BUDGET_EXCEEDED"
| "final_status _ = Orch_FAILED"

definition to_result ::
    "execute_query \<Rightarrow> orchestration_state \<Rightarrow> resolution_result \<Rightarrow> execution_budget \<Rightarrow> datetime
      \<Rightarrow> string list \<Rightarrow> datetime \<Rightarrow> execution_result res"
where
  "to_result q s resolution b started_at extra completed_at =
     (let ts = plan_tasks (state_plan s);
          evidence = dedupe_evidence_refs (concat (map result_evidence (state_results s)));
          warnings = dedupe (state_warnings s @ extra);
          (run_status, pstatus, message) = run_outcome s
      in and_then (plan_with_status (state_plan s) pstatus) (\<lambda>p.
         and_then (state_post_init (s\<lparr>state_plan := p, state_status := final_status run_status,
             state_warnings := warnings, terminal_reason := Some (reason_or s message),
             state_updated_at := completed_at\<rparr>)) (\<lambda>final.
         execution_result_post_init
           \<lparr>er_query = q, er_status = run_status, er_message = message,
            er_run_id = Some (run_id_text (plan_run_id p)), er_plan_id = Some (plan_id_text (plan_id p)),
            er_plan = Some p, er_orchestration = Some final, er_task_results = state_results final,
            er_evidence_refs = evidence, er_warnings = warnings,
            er_completed_count = count_status Task_SUCCEEDED ts,
            er_failed_count = count_status Task_FAILED ts,
            er_blocked_count = count_status Task_BLOCKED ts,
            er_partial_count = partial_count s,
            er_skipped_count = count_status Task_SKIPPED ts,
            er_resolution = Some resolution, er_budget = Some b,
            er_started_at = Some started_at, er_completed_at = Some completed_at\<rparr>)))"

section \<open>Cancelled before the first task\<close>

definition skip_before_start :: "datetime \<Rightarrow> research_task \<Rightarrow> research_task res" where
  "skip_before_start now t =
     and_then (if task_status t = Task_PENDING then with_status t Task_READY None False else Inr t)
       (\<lambda>u. if task_status u = Task_READY then with_status u Task_SKIPPED (Some now) False else Inr u)"

definition cancelled_before_start ::
    "execute_query \<Rightarrow> research_plan \<Rightarrow> resolution_result \<Rightarrow> execution_budget \<Rightarrow> datetime
      \<Rightarrow> execution_control \<Rightarrow> datetime \<Rightarrow> execution_result res"
where
  "cancelled_before_start q plan resolution b started_at ctl now =
     and_then (map_res (skip_before_start now) (plan_tasks plan)) (\<lambda>ts.
     and_then (with_tasks plan ts (Some Plan_CANCELLED)) (\<lambda>p.
     let reason = (\<lambda>d. case control_reason ctl of None \<Rightarrow> d | Some r \<Rightarrow> if r = [] then d else r) in
     and_then (state_post_init \<lparr>state_run_id = plan_run_id plan, state_plan = p,
         state_started_at = started_at, state_updated_at = now, state_results = [],
         state_status = Orch_CANCELLED, total_attempts = 0, external_calls = 0,
         state_warnings = [], terminal_reason = Some (reason ''cancelled'')\<rparr>) (\<lambda>s.
       execution_result_post_init
         ((bare_result q Exec_CANCELLED (reason ''cancelled before first task''))
            \<lparr>er_run_id := Some (run_id_text (plan_run_id plan)),
             er_plan_id := Some (plan_id_text (plan_id plan)), er_plan := Some p,
             er_orchestration := Some s, er_resolution := Some resolution, er_budget := Some b,
             er_started_at := Some started_at, er_completed_at := Some now,
             er_skipped_count := length ts\<rparr>))))"

section \<open>Executing a prepared plan\<close>

text \<open>The checkpoint values a resumed run starts from.\<close>

record resume_seed =
  seed_attempts :: int
  seed_calls :: int
  seed_results :: "task_result list"
  seed_warnings :: "string list"

definition fresh_seed :: resume_seed where
  "fresh_seed = \<lparr>seed_attempts = 0, seed_calls = 0, seed_results = [], seed_warnings = []\<rparr>"

definition max_rounds :: "research_plan \<Rightarrow> execution_budget \<Rightarrow> nat" where
  "max_rounds plan b =
     nat (int (length (plan_tasks plan)) * max_attempts_per_task b + int (length (plan_tasks plan)) + 2)"

definition initial_loop_state ::
    "research_plan \<Rightarrow> research_plan \<Rightarrow> datetime \<Rightarrow> resume_seed \<Rightarrow> loop_state res" where
  "initial_loop_state plan executing started_at seed =
     and_then (state_post_init \<lparr>state_run_id = plan_run_id plan, state_plan = executing,
         state_started_at = started_at, state_updated_at = started_at,
         state_results = seed_results seed, state_status = Orch_RUNNING,
         total_attempts = seed_attempts seed, external_calls = seed_calls seed,
         state_warnings = seed_warnings seed, terminal_reason = None\<rparr>) (\<lambda>s.
       Inr \<lparr>ls_state = s, ls_success = task_ids_with (\<lambda>st. st = Task_SUCCEEDED) plan,
            ls_warnings = seed_warnings seed\<rparr>)"

text \<open>
  \<open>execute_prepared\<close> once its defaults are filled in: \<open>budget or self._budget\<close>,
  \<open>started_at or self._clock()\<close>; the control is the one the port \<open>read_control\<close> reads.
\<close>

definition execute_prepared ::
    "'w engine_ports \<Rightarrow> research_plan \<Rightarrow> company_identity \<Rightarrow> company_query \<Rightarrow> resolution_result
      \<Rightarrow> execute_query \<Rightarrow> execution_budget \<Rightarrow> datetime \<Rightarrow> resume_seed \<Rightarrow> 'w
      \<Rightarrow> execution_result res \<times> 'w"
where
  "execute_prepared P plan c cq resolution q b started_at seed w =
     (if \<not> tz_aware started_at
      then (Inl (ValueError ''clock must return timezone-aware datetime''), w)
      else if company_id c \<noteq> plan_company_id plan
      then (case clock P w of (now, w1) \<Rightarrow>
        (execution_result_post_init
          ((bare_result q Exec_FAILED
              (''execution company identity contradicts plan CompanyId: plan='' @
               company_id_text (plan_company_id plan) @ '' company='' @ company_id_text (company_id c)))
             \<lparr>er_run_id := Some (run_id_text (plan_run_id plan)),
              er_plan_id := Some (plan_id_text (plan_id plan)),
              er_resolution := Some resolution, er_budget := Some b,
              er_started_at := Some started_at, er_completed_at := Some now\<rparr>), w1))
      else case validate_tasks b (plan_tasks plan) of
        Inl e \<Rightarrow> (case clock P w of (now, w1) \<Rightarrow>
          (execution_result_post_init
            ((bare_result q Exec_BUDGET_EXCEEDED (error_text e))
               \<lparr>er_run_id := Some (run_id_text (plan_run_id plan)),
                er_plan_id := Some (plan_id_text (plan_id plan)),
                er_resolution := Some resolution, er_budget := Some b,
                er_started_at := Some started_at, er_completed_at := Some now\<rparr>), w1))
      | Inr _ \<Rightarrow>
          if is_cancelled (read_control P w)
          then (case clock P w of (now, w1) \<Rightarrow>
            (cancelled_before_start q plan resolution b started_at (read_control P w1) now, w1))
          else if seed_attempts seed < 0 \<or> seed_calls seed < 0
          then (Inl (ValueError ''initial attempt counters must be non-negative''), w)
          else case and_then (plan_with_status plan Plan_EXECUTING)
                 (\<lambda>p. initial_loop_state plan p started_at seed) of
            Inl e \<Rightarrow> (Inl e, w)
          | Inr ls \<Rightarrow>
              case exec_loop P b c cq (max_rounds plan b) ls w of
                (Inl e, w1) \<Rightarrow> (Inl e, w1)
              | (Inr ls', w1) \<Rightarrow> (case clock P w1 of (now, w2) \<Rightarrow>
                  (to_result q (ls_state ls') resolution b started_at (ls_warnings ls') now, w2)))"

end
