(* ===== verification/Engine_Inv.thy ===== *)
theory Engine_Inv
  imports Engine
begin

text \<open>
  The invariant of the execution loop, and that every round keeps it: the plan stays a validated
  graph of well-formed tasks of unchanged shape, the attempts of a task are those it started with
  plus the calls made for it, only tasks whose dependencies all succeeded are called, a task that
  succeeded is not called again, the counters count the calls and stay within the budget, and all
  recorded evidence belongs to the company. Calls are recorded in a trace.
\<close>

section \<open>Tasks along a run\<close>

definition same_shape :: "research_task \<Rightarrow> research_task \<Rightarrow> bool" where
  "same_shape a b \<longleftrightarrow>
     task_id b = task_id a \<and> task_type b = task_type a \<and> capability_id b = capability_id a \<and>
     dependencies b = dependencies a \<and> priority b = priority a \<and> required b = required a \<and>
     max_attempts b = max_attempts a"

lemma same_shape_refl [simp]: "same_shape t t"
  by (simp add: same_shape_def)

lemma same_shape_trans: "same_shape a b \<Longrightarrow> same_shape b c \<Longrightarrow> same_shape a c"
  by (simp add: same_shape_def)

lemma same_shape_moved [simp]: "same_shape t (moved t st stamp)"
  by (simp add: same_shape_def)

lemma same_shape_settle [simp]: "same_shape t (settle K t)"
  by (simp add: same_shape_def)

lemma same_shape_keeps: "same_shape t (f t) \<Longrightarrow> keeps_order f t"
  by (simp add: same_shape_def keeps_order_def task_key_def)

lemma same_shape_key: "same_shape a b \<Longrightarrow> task_key b = task_key a"
  by (simp add: same_shape_def task_key_def)

type_synonym call = "research_task \<times> task_result res"

text \<open>The call whose outcome, after the identity check, lets its dependents proceed.\<close>

definition call_ok :: "company_identity \<Rightarrow> call \<Rightarrow> bool" where
  "call_ok c x \<longleftrightarrow>
     (case snd x of Inl _ \<Rightarrow> False
      | Inr r \<Rightarrow> (case enforce_identity c (fst x) r of Inl _ \<Rightarrow> False
                | Inr r' \<Rightarrow> result_to_task_status (result_status r') = Task_SUCCEEDED))"

definition calls_of :: "string \<Rightarrow> call list \<Rightarrow> nat" where
  "calls_of k tr = length (filter (\<lambda>x. task_key (fst x) = k) tr)"

definition succeeded_keys :: "research_task list \<Rightarrow> string set" where
  "succeeded_keys ts = task_key ` {t \<in> set ts. task_status t = Task_SUCCEEDED}"

definition ok_keys :: "company_identity \<Rightarrow> call list \<Rightarrow> string set" where
  "ok_keys c tr = (\<lambda>x. task_key (fst x)) ` {x \<in> set tr. call_ok c x}"

lemma calls_of_snoc: "calls_of k (tr @ [x]) = calls_of k tr + (if task_key (fst x) = k then 1 else 0)"
  by (simp add: calls_of_def)

lemma ok_keys_snoc: "ok_keys c (tr @ [x]) = ok_keys c tr \<union> (if call_ok c x then {task_key (fst x)} else {})"
  by (auto simp: ok_keys_def)

record engine_env =
  env_tasks :: "research_task list"
  env_budget :: execution_budget
  env_company :: company_identity
  env_seed :: resume_seed

definition done_keys :: "engine_env \<Rightarrow> call list \<Rightarrow> string set" where
  "done_keys E tr = succeeded_keys (env_tasks E) \<union> ok_keys (env_company E) tr"

text \<open>A call is lawful when all dependencies are done before it and its own task is not.\<close>

definition lawful_call :: "engine_env \<Rightarrow> call list \<Rightarrow> research_task \<Rightarrow> bool" where
  "lawful_call E tr t \<longleftrightarrow> set (dep_keys t) \<subseteq> done_keys E tr \<and> task_key t \<notin> done_keys E tr"

definition lawful_trace :: "engine_env \<Rightarrow> call list \<Rightarrow> bool" where
  "lawful_trace E tr \<longleftrightarrow> (\<forall>i < length tr. lawful_call E (take i tr) (fst (tr ! i)))"

lemma lawful_trace_Nil [simp]: "lawful_trace E []"
  by (simp add: lawful_trace_def)

lemma lawful_trace_snoc: "lawful_trace E (tr @ [x]) \<longleftrightarrow> lawful_trace E tr \<and> lawful_call E tr (fst x)"
  by (auto simp: lawful_trace_def nth_append less_Suc_eq)

definition counters_ok :: "engine_env \<Rightarrow> call list \<Rightarrow> orchestration_state \<Rightarrow> bool" where
  "counters_ok E tr s \<longleftrightarrow>
     total_attempts s = seed_attempts (env_seed E) + int (length tr) \<and>
     external_calls s = seed_calls (env_seed E) + int (length tr) \<and>
     (tr \<noteq> [] \<longrightarrow> total_attempts s \<le> max_total_attempts (env_budget E) \<and>
                external_calls s \<le> max_external_calls (env_budget E))"

definition clean_result :: "company_identity \<Rightarrow> task_result \<Rightarrow> bool" where
  "clean_result c r \<longleftrightarrow> first_fault c (result_evidence r) = None"

definition results_ok :: "engine_env \<Rightarrow> orchestration_state \<Rightarrow> bool" where
  "results_ok E s \<longleftrightarrow> (\<exists>rs. state_results s = seed_results (env_seed E) @ rs \<and>
     (\<forall>r \<in> set rs. clean_result (env_company E) r))"

definition shapes_ok :: "engine_env \<Rightarrow> call list \<Rightarrow> research_task list \<Rightarrow> bool" where
  "shapes_ok E tr ts \<longleftrightarrow> list_all2 (\<lambda>a b. same_shape a b \<and>
     attempt_count b = attempt_count a + int (calls_of (task_key b) tr)) (env_tasks E) ts"

definition engine_inv :: "engine_env \<Rightarrow> call list \<Rightarrow> loop_state \<Rightarrow> bool" where
  "engine_inv E tr ls \<longleftrightarrow>
     wf_state (ls_state ls) \<and> shapes_ok E tr (plan_tasks (state_plan (ls_state ls))) \<and>
     succeeded_keys (plan_tasks (state_plan (ls_state ls))) = done_keys E tr \<and>
     set (ls_success ls) = done_keys E tr \<and> lawful_trace E tr \<and>
     counters_ok E tr (ls_state ls) \<and> results_ok E (ls_state ls)"

lemma first_fault_None_iff: "first_fault c rs = None \<longleftrightarrow> (\<forall>r \<in> set rs. identity_fault c r = None)"
  by (induction rs) (auto split: option.splits)

lemma failure_result_ok:
  assumes "py_strip msg = msg" "msg \<noteq> []" "length msg \<le> 1000" "norm_code code = code" "code \<noteq> []"
    "length code \<le> 64"
  shows "failure_result tid msg False code = Inr \<lparr>result_task_id = tid, result_status = Res_FAILED,
    result_message = msg, result_evidence = [], output_summary = None, retryable = False,
    error_code = Some code\<rparr>"
  using assms by (simp add: failure_result_def result_post_init_def Let_def)

lemma failure_result_clean:
  assumes "py_strip msg = msg" "msg \<noteq> []" "length msg \<le> 1000" "norm_code code = code" "code \<noteq> []"
    "length code \<le> 64"
  shows "\<exists>r. failure_result tid msg False code = Inr r \<and> clean_result c r"
  using failure_result_ok [OF assms] by (simp add: clean_result_def)

lemma identity_fault_text:
  assumes "identity_fault c r = Some m" shows "py_strip m = m" "m \<noteq> []" "length m \<le> 1000"
  using assms by (auto simp: identity_fault_def py_strip_def is_space_def ord_char_def split: if_splits)

lemma first_fault_text:
  assumes "first_fault c rs = Some m" shows "py_strip m = m" "m \<noteq> []" "length m \<le> 1000"
proof -
  obtain r where "identity_fault c r = Some m"
    using assms by (induction rs) (auto split: option.splits)
  then show "py_strip m = m" "m \<noteq> []" "length m \<le> 1000" by (rule identity_fault_text)+
qed

lemma norm_code_literals [simp]:
  "norm_code ''identity_mismatch'' = ''identity_mismatch''"
  "norm_code ''budget_violation'' = ''budget_violation''"
  by (simp_all add: norm_code_def blank_to_underscore_def py_lower_def py_lower_char_def
      py_strip_def is_space_def ord_char_def)

lemma enforce_identity_ok:
  "\<exists>r'. enforce_identity c t r = Inr r' \<and> clean_result c r' \<and>
     (clean_result c r \<longrightarrow> r' = r) \<and> (\<not> clean_result c r \<longrightarrow> result_status r' = Res_FAILED \<and> \<not> retryable r')"
proof (cases "first_fault c (result_evidence r)")
  case None
  then show ?thesis by (simp add: enforce_identity_def clean_result_def)
next
  case (Some m)
  from first_fault_text [OF this] have "failure_result (task_id t) m False ''identity_mismatch'' =
      Inr \<lparr>result_task_id = task_id t, result_status = Res_FAILED, result_message = m,
        result_evidence = [], output_summary = None, retryable = False,
        error_code = Some ''identity_mismatch''\<rparr>"
    by (intro failure_result_ok) simp_all
  then show ?thesis using Some by (simp add: enforce_identity_def clean_result_def)
qed

section \<open>Updates that keep the invariant\<close>

abbreviation tasks_of :: "loop_state \<Rightarrow> research_task list" where
  "tasks_of ls \<equiv> plan_tasks (state_plan (ls_state ls))"

lemma shapes_ok_map:
  assumes "shapes_ok E tr ts" "\<forall>t \<in> set ts. same_shape t (f t) \<and> attempt_count (f t) = attempt_count t"
  shows "shapes_ok E tr (map f ts)"
  unfolding shapes_ok_def list_all2_conv_all_nth
proof (intro conjI allI impI)
  show len: "length (env_tasks E) = length (map f ts)"
    using assms(1) by (simp add: shapes_ok_def list_all2_lengthD)
  fix i assume i: "i < length (env_tasks E)"
  then have "ts ! i \<in> set ts" using len by simp
  then have f: "same_shape (ts ! i) (f (ts ! i))" "attempt_count (f (ts ! i)) = attempt_count (ts ! i)"
    using assms(2) by auto
  have s: "same_shape (env_tasks E ! i) (ts ! i)"
    "attempt_count (ts ! i) = attempt_count (env_tasks E ! i) + int (calls_of (task_key (ts ! i)) tr)"
    using assms(1) i by (auto simp: shapes_ok_def list_all2_conv_all_nth)
  show "same_shape (env_tasks E ! i) (map f ts ! i)"
    using same_shape_trans [OF s(1) f(1)] i len by simp
  show "attempt_count (map f ts ! i) =
      attempt_count (env_tasks E ! i) + int (calls_of (task_key (map f ts ! i)) tr)"
    using s(2) f(2) same_shape_key [OF f(1)] i len by simp
qed

text \<open>What an update of one task may do when no call is made.\<close>

definition quiet_update :: "(research_task \<Rightarrow> research_task) \<Rightarrow> research_task \<Rightarrow> bool" where
  "quiet_update f t \<longleftrightarrow> same_shape t (f t) \<and> attempt_count (f t) = attempt_count t \<and> wf_task (f t) \<and>
     (task_status (f t) = Task_SUCCEEDED \<longleftrightarrow> task_status t = Task_SUCCEEDED)"

lemma succeeded_keys_map:
  assumes "\<forall>t \<in> set ts. quiet_update f t"
  shows "succeeded_keys (map f ts) = succeeded_keys ts"
proof -
  have "succeeded_keys (map f ts) = (task_key \<circ> f) ` {t \<in> set ts. task_status (f t) = Task_SUCCEEDED}"
    by (force simp: succeeded_keys_def)
  also have "\<dots> = task_key ` {t \<in> set ts. task_status t = Task_SUCCEEDED}"
    using assms by (intro image_cong) (auto simp: quiet_update_def same_shape_key)
  finally show ?thesis by (simp add: succeeded_keys_def)
qed

lemma wf_state_update:
  assumes "wf_state s" "\<forall>t \<in> set (plan_tasks (state_plan s)). keeps_order f t \<and> wf_task (f t)"
    and "state_plan s' = (state_plan s)\<lparr>plan_tasks := map f (plan_tasks (state_plan s)), plan_status := st\<rparr>"
    and "state_run_id s' = state_run_id s" "state_started_at s' = state_started_at s"
    "tz_aware (state_updated_at s')" "0 \<le> total_attempts s'" "0 \<le> external_calls s'"
  shows "wf_state s'" "state_post_init s' = Inr s'"
proof -
  show "state_post_init s' = Inr s'"
    using assms by (auto simp: wf_state_def state_post_init_Inr_iff)
  moreover have "wf_plan (state_plan s')"
    using wf_plan_map [of "state_plan s" f st] assms by (simp add: wf_state_def)
  ultimately show "wf_state s'" using assms by (simp add: wf_state_def)
qed

lemma engine_inv_quiet:
  assumes inv: "engine_inv E tr ls" and f: "\<forall>t \<in> set (tasks_of ls). quiet_update f t"
    and plan: "state_plan s' = (state_plan (ls_state ls))\<lparr>plan_tasks := map f (tasks_of ls), plan_status := st\<rparr>"
    and fields: "state_run_id s' = state_run_id (ls_state ls)"
      "state_started_at s' = state_started_at (ls_state ls)" "tz_aware (state_updated_at s')"
      "total_attempts s' = total_attempts (ls_state ls)" "external_calls s' = external_calls (ls_state ls)"
    and rs: "state_results s' = state_results (ls_state ls) @ rs" "\<forall>r \<in> set rs. clean_result (env_company E) r"
  shows "engine_inv E tr (ls\<lparr>ls_state := s', ls_warnings := ws\<rparr>)" "state_post_init s' = Inr s'"
proof -
  have ko: "\<forall>t \<in> set (tasks_of ls). keeps_order f t \<and> wf_task (f t)"
    using f by (auto simp: quiet_update_def intro: same_shape_keeps)
  have wf: "wf_state (ls_state ls)" and pos: "0 \<le> total_attempts s'" "0 \<le> external_calls s'"
    using inv fields by (auto simp: engine_inv_def wf_state_def state_post_init_Inr_iff)
  note s' = wf_state_update [OF wf ko plan fields(1-3) pos]
  show "state_post_init s' = Inr s'" by (rule s')
  have tasks: "plan_tasks (state_plan s') = map f (tasks_of ls)" using plan by simp
  have "results_ok E s'"
  proof -
    obtain rs0 where "state_results (ls_state ls) = seed_results (env_seed E) @ rs0"
      "\<forall>r \<in> set rs0. clean_result (env_company E) r"
      using inv by (auto simp: engine_inv_def results_ok_def)
    then show ?thesis using rs unfolding results_ok_def by (intro exI [of _ "rs0 @ rs"]) auto
  qed
  moreover have "counters_ok E tr (ls_state ls)" using inv by (simp add: engine_inv_def)
  then have "counters_ok E tr s'" unfolding counters_ok_def fields(4,5) .
  moreover have "shapes_ok E tr (plan_tasks (state_plan s'))"
    unfolding tasks using inv f by (intro shapes_ok_map) (auto simp: engine_inv_def quiet_update_def)
  ultimately show "engine_inv E tr (ls\<lparr>ls_state := s', ls_warnings := ws\<rparr>)"
    using inv s'(1) succeeded_keys_map [OF f] tasks by (simp add: engine_inv_def)
qed

lemma quiet_id: "wf_task t \<Longrightarrow> quiet_update (\<lambda>t. t) t"
  by (simp add: quiet_update_def)

lemma plan_tasks_same [simp]: "p\<lparr>plan_tasks := plan_tasks p\<rparr> = p" "p\<lparr>plan_status := plan_status p\<rparr> = p"
  by simp_all

lemma ls_warnings_same: "ls\<lparr>ls_state := s, ls_warnings := ls_warnings ls\<rparr> = ls\<lparr>ls_state := s\<rparr>"
  by simp

lemmas engine_inv_quiet_same = engine_inv_quiet(1) [where ws = "ls_warnings ls" and ls = ls for ls,
    unfolded ls_warnings_same]

lemma halt_eq:
  assumes "wf_state s" "tz_aware now"
  shows "halt st reason now s = Inr (s\<lparr>state_plan := (state_plan s)\<lparr>plan_status := Plan_FAILED\<rparr>,
    state_status := st, terminal_reason := Some reason, state_updated_at := now\<rparr>)"
  using assms
  by (simp add: halt_def wf_state_def plan_with_status_eq state_post_init_Inr_iff)

lemma engine_inv_halt:
  assumes inv: "engine_inv E tr ls" and now: "tz_aware now"
  shows "\<exists>s'. halt st reason now (ls_state ls) = Inr s' \<and> engine_inv E tr (ls\<lparr>ls_state := s', ls_warnings := ws\<rparr>)"
proof -
  let ?s = "(ls_state ls)\<lparr>state_plan := (state_plan (ls_state ls))\<lparr>plan_status := Plan_FAILED\<rparr>,
    state_status := st, terminal_reason := Some reason, state_updated_at := now\<rparr>"
  have wf: "wf_state (ls_state ls)" using inv by (simp add: engine_inv_def)
  have "engine_inv E tr (ls\<lparr>ls_state := ?s, ls_warnings := ws\<rparr>)"
    by (rule engine_inv_quiet(1) [OF inv, where f = "\<lambda>t. t" and st = Plan_FAILED and rs = "[]"])
      (use wf now in \<open>auto simp: wf_state_def quiet_id\<close>)
  then show ?thesis using halt_eq [OF wf now] by blast
qed

subsection \<open>Replacing one task\<close>

definition put_task :: "research_task \<Rightarrow> research_task \<Rightarrow> research_task" where
  "put_task t' u = (if task_id u = task_id t' then t' else u)"

lemma put_task_key: "put_task t' u = (if task_key u = task_key t' then t' else u)"
  by (simp add: put_task_def task_key_def)

lemma replace_task_eq:
  assumes wf: "wf_state s" and t: "t \<in> set (plan_tasks (state_plan s))" "same_shape t t'"
    and now: "tz_aware now"
  shows "replace_task s t' now = Inr (s\<lparr>state_plan := (state_plan s)\<lparr>plan_tasks :=
    map (put_task t') (plan_tasks (state_plan s))\<rparr>, state_updated_at := now\<rparr>)"
proof -
  let ?p = "state_plan s"
  have p: "wf_plan ?p" using wf by (simp add: wf_state_def)
  have "distinct (map task_key (plan_tasks ?p))"
    using wf_plan_graph(2) [OF p] by (simp add: closed_tasks_def)
  then have "u = t" if "u \<in> set (plan_tasks ?p)" "task_id u = task_id t'" for u
    using that t distinct_map_inj [of task_key _ u t] by (simp add: same_shape_def task_key_def)
  then have k: "\<forall>u \<in> set (plan_tasks ?p). keeps_order (put_task t') u"
    using t by (auto simp: put_task_def intro!: same_shape_keeps)
  have "with_tasks ?p (map (put_task t') (plan_tasks ?p)) None =
      Inr (?p\<lparr>plan_tasks := map (put_task t') (plan_tasks ?p)\<rparr>)"
    using with_tasks_map [OF p k refl, of None] by simp
  then show ?thesis using wf now
    by (simp add: replace_task_def put_task_def [abs_def] with_updated_plan_def wf_state_def
        state_post_init_Inr_iff)
qed

lemma put_task_only:
  assumes "wf_plan p" "t \<in> set (plan_tasks p)" "same_shape t t'" "u \<in> set (plan_tasks p)"
  shows "put_task t' u = (if u = t then t' else u)"
proof -
  have "distinct (map task_key (plan_tasks p))"
    using wf_plan_graph(2) [OF assms(1)] by (simp add: closed_tasks_def)
  from distinct_map_inj [OF this assms(4,2)] show ?thesis
    using assms(3) by (auto simp: put_task_key same_shape_key)
qed

end
