(* ===== verification/Engine_Steps.thy ===== *)
theory Engine_Steps
  imports Engine_Inv
begin

text \<open>
  One round of the execution loop under the invariant: it never raises, it keeps the invariant,
  and a round after which the loop goes on strictly decreases \<open>potential\<close>.
\<close>

section \<open>The measure of the loop\<close>

definition pot :: "int \<Rightarrow> research_task \<Rightarrow> nat" where
  "pot M t = (if task_open t then nat (M - attempt_count t) + 1 else 0)"

definition potential :: "engine_env \<Rightarrow> loop_state \<Rightarrow> nat" where
  "potential E ls = (\<Sum>t\<leftarrow>tasks_of ls. pot (max_attempts_per_task (env_budget E)) t)"

lemma sum_list_less:
  fixes f g :: "'a \<Rightarrow> nat"
  assumes "\<And>x. x \<in> set xs \<Longrightarrow> f x \<le> g x" "y \<in> set xs" "f y < g y"
  shows "sum_list (map f xs) < sum_list (map g xs)"
  using assms
proof (induction xs)
  case Nil
  then show ?case by simp
next
  case (Cons x xs)
  have le: "sum_list (map f xs) \<le> sum_list (map g xs)"
    by (rule sum_list_mono) (use Cons.prems(1) in simp)
  show ?case
  proof (cases "y = x")
    case True
    then show ?thesis using le Cons.prems(3) by simp
  next
    case False
    then have "sum_list (map f xs) < sum_list (map g xs)" using Cons by auto
    then show ?thesis using Cons.prems(1) [of x] by (simp add: add_le_less_mono)
  qed
qed

section \<open>Moves of well-formed tasks\<close>

lemma moved_ready [simp]: "st \<noteq> Task_RUNNING \<Longrightarrow> moved (moved t Task_READY None) st stamp = moved t st stamp"
  "moved (moved t Task_READY None) Task_RUNNING stamp = moved t Task_RUNNING stamp"
  by (simp_all add: moved_def)

lemma to_ready:
  assumes "wf_task t" "task_open t"
  shows "(if task_status t = Task_PENDING then with_status t Task_READY None False else Inr t) =
    Inr (if task_status t = Task_PENDING then moved t Task_READY None else t)"
  using with_status_eq(1) [OF assms(1), of None Task_READY False]
  by (simp add: may_move_def)

lemma open_skip:
  assumes "wf_task t" "task_open t" "\<not> naive_stamp stamp"
  shows "and_then (if task_status t = Task_PENDING then with_status t Task_READY None False else Inr t)
      (\<lambda>u. with_status u Task_SKIPPED stamp False) = Inr (moved t Task_SKIPPED stamp)"
proof (cases "task_status t = Task_PENDING")
  case True
  let ?r = "moved t Task_READY None"
  have "with_status t Task_READY None False = Inr ?r"
    using assms(1) True by (intro with_status_eq(1)) (auto simp: may_move_def)
  moreover have "with_status ?r Task_SKIPPED stamp False = Inr (moved ?r Task_SKIPPED stamp)"
    using assms wf_moved [of t None Task_READY] by (intro with_status_eq(1)) (auto simp: may_move_def)
  ultimately show ?thesis using True by simp
next
  case False
  then show ?thesis
    using with_status_eq(1) [OF assms(1,3) may_move_skip [OF assms(2)]] by simp
qed

definition skipped :: "datetime \<Rightarrow> research_task \<Rightarrow> research_task" where
  "skipped now t = (if task_open t then moved t Task_SKIPPED (Some now) else t)"

lemma open_iff: "task_open t \<longleftrightarrow> task_status t = Task_PENDING \<or> task_status t = Task_READY"
  by (auto simp: task_open_def)

lemma quiet_moved:
  assumes "wf_task t" "task_open t" "\<not> naive_stamp stamp" "st \<notin> {Task_RUNNING, Task_SUCCEEDED}"
  shows "quiet_update (\<lambda>_. moved t st stamp) t"
  using assms wf_moved [of t stamp st] by (auto simp: quiet_update_def task_open_def)

lemma quiet_updateI:
  assumes "wf_task t" "f t = t \<or> (task_open t \<and> (\<exists>st stamp. f t = moved t st stamp \<and> \<not> naive_stamp stamp \<and>
    st \<notin> {Task_RUNNING, Task_SUCCEEDED}))"
  shows "quiet_update f t"
  using assms(2)
proof
  assume "f t = t"
  then show ?thesis using assms(1) by (simp add: quiet_update_def)
next
  assume "task_open t \<and> (\<exists>st stamp. f t = moved t st stamp \<and> \<not> naive_stamp stamp \<and>
    st \<notin> {Task_RUNNING, Task_SUCCEEDED})"
  then obtain st stamp where *: "task_open t" "f t = moved t st stamp" "\<not> naive_stamp stamp"
    "st \<notin> {Task_RUNNING, Task_SUCCEEDED}" by blast
  from quiet_moved [OF assms(1) *(1,3,4)] *(2) show ?thesis by (simp add: quiet_update_def)
qed

lemma quiet_settle: "wf_task t \<Longrightarrow> quiet_update (settle K) t"
  by (rule quiet_updateI) (auto simp: settle_def closed_status_def intro!: exI [of _ None])

lemma quiet_skipped: "wf_task t \<Longrightarrow> tz_aware now \<Longrightarrow> quiet_update (skipped now) t"
  by (rule quiet_updateI) (auto simp: skipped_def intro!: exI [of _ "Some now"])

section \<open>Cancellation\<close>

lemma cancel_task_eq:
  assumes "wf_task t" "tz_aware now"
  shows "cancel_task now pres t = Inr (if pres then t else skipped now t)"
  using open_skip [OF assms(1), of "Some now"] assms(2)
  by (auto simp: cancel_task_def skipped_def open_iff)

definition cancelled_state :: "orchestration_state \<Rightarrow> datetime \<Rightarrow> string \<Rightarrow> bool \<Rightarrow> orchestration_state" where
  "cancelled_state s now reason pres = s\<lparr>
     state_plan := (state_plan s)\<lparr>
       plan_tasks := map (if pres then id else skipped now) (plan_tasks (state_plan s)),
       plan_status := (if pres then Plan_READY else Plan_CANCELLED)\<rparr>,
     state_status := Orch_CANCELLED, terminal_reason := Some reason, state_updated_at := now\<rparr>"

lemma engine_inv_cancel:
  assumes inv: "engine_inv E tr ls" and now: "tz_aware now"
  shows "apply_cancellation (ls_state ls) now reason pres = Inr (cancelled_state (ls_state ls) now reason pres)"
    and "engine_inv E tr (ls\<lparr>ls_state := cancelled_state (ls_state ls) now reason pres\<rparr>)"
proof -
  let ?f = "if pres then id else skipped now" and ?s = "cancelled_state (ls_state ls) now reason pres"
  have wf: "wf_plan (state_plan (ls_state ls))" "\<forall>t \<in> set (tasks_of ls). wf_task t"
    using inv by (auto simp: engine_inv_def wf_state_def)
  have q: "\<forall>t \<in> set (tasks_of ls). quiet_update ?f t"
    using wf(2) now quiet_skipped by (auto simp: quiet_update_def)
  then have k: "\<forall>t \<in> set (tasks_of ls). keeps_order ?f t"
    by (auto simp: quiet_update_def intro: same_shape_keeps)
  have i: "engine_inv E tr (ls\<lparr>ls_state := ?s\<rparr>)"
    by (rule engine_inv_quiet_same [OF inv q, where rs = "[]"]) (simp_all add: cancelled_state_def now)
  then show "engine_inv E tr (ls\<lparr>ls_state := ?s\<rparr>)" .
  have post: "state_post_init ?s = Inr ?s"
    by (rule engine_inv_quiet(2) [OF inv q, where rs = "[]"]) (simp_all add: cancelled_state_def now)
  have "map_res (cancel_task now pres) (tasks_of ls) = Inr (map ?f (tasks_of ls))"
    using wf(2) now by (intro map_res_Inr_map) (auto simp: cancel_task_eq)
  then show "apply_cancellation (ls_state ls) now reason pres = Inr ?s"
    using with_tasks_map [OF wf(1) k refl, of "Some (if pres then Plan_READY else Plan_CANCELLED)"] post
    by (simp add: apply_cancellation_def cancelled_state_def)
qed

section \<open>No task is ready\<close>

definition finalized :: "datetime \<Rightarrow> research_task \<Rightarrow> research_task" where
  "finalized now t =
     (if task_status t = Task_PENDING
      then if required t then moved t Task_BLOCKED None else moved t Task_SKIPPED (Some now) else t)"

lemma finalize_task_eq:
  assumes "wf_task t" "tz_aware now"
  shows "finalize_task now t = Inr (finalized now t)"
proof (cases "task_status t = Task_PENDING")
  case True
  then have op: "task_open t" by (simp add: open_iff)
  have "with_status t Task_BLOCKED None False = Inr (moved t Task_BLOCKED None)"
    by (rule with_status_eq(1) [OF assms(1) _ may_move_block [OF op]]) simp
  then show ?thesis
    using open_skip [OF assms(1) op, of "Some now"] assms(2) True
    by (simp add: finalize_task_def finalized_def)
next
  case False
  then show ?thesis by (simp add: finalize_task_def finalized_def)
qed

lemma quiet_finalized:
  assumes "wf_task t" "tz_aware now" shows "quiet_update (finalized now) t"
proof (cases "task_status t = Task_PENDING")
  case True
  then have op: "task_open t" by (simp add: open_iff)
  show ?thesis
    using quiet_moved [OF assms(1) op, of None Task_BLOCKED]
      quiet_moved [OF assms(1) op, of "Some now" Task_SKIPPED] assms(2) True
    by (simp add: quiet_update_def finalized_def)
next
  case False
  then show ?thesis using assms(1) by (simp add: quiet_update_def finalized_def)
qed

lemma quiet_comp: "quiet_update f t \<Longrightarrow> quiet_update g (f t) \<Longrightarrow> quiet_update (g \<circ> f) t"
  by (auto simp: quiet_update_def intro: same_shape_trans)

lemma engine_inv_finalize:
  assumes inv: "engine_inv E tr ls" and now: "tz_aware now"
  shows "\<exists>s'. finalize_no_ready (ls_state ls) now ws = Inr s' \<and> engine_inv E tr (ls\<lparr>ls_state := s'\<rparr>)"
proof -
  let ?s = "ls_state ls" and ?ts = "tasks_of ls"
  let ?K = "Collect (failing_key ?ts)"
  let ?f = "finalized now \<circ> settle ?K"
  let ?s' = "?s\<lparr>state_plan := (state_plan ?s)\<lparr>plan_tasks := map ?f ?ts\<rparr>, state_updated_at := now,
    state_warnings := ws\<rparr>"
  have wf: "wf_plan (state_plan ?s)" "\<forall>t \<in> set ?ts. wf_task t"
    using inv by (auto simp: engine_inv_def wf_state_def)
  have wfs: "\<forall>t \<in> set ?ts. wf_task (settle ?K t)"
    using wf(2) quiet_settle by (auto simp: quiet_update_def)
  have q: "\<forall>t \<in> set ?ts. quiet_update ?f t"
    using wf(2) wfs now quiet_settle quiet_finalized by (auto intro!: quiet_comp)
  then have k: "\<forall>t \<in> set ?ts. keeps_order ?f t"
    by (auto simp: quiet_update_def intro: same_shape_keeps)
  have closure: "apply_failure_propagation ?ts = Inr (sort_key task_rank (map (settle ?K) ?ts))"
    using propagation_eq wf_plan_graph(2) [OF wf(1)] wf(2) by blast
  have fin: "map_res (finalize_task now) (sort_key task_rank (map (settle ?K) ?ts)) =
      Inr (map (finalized now) (sort_key task_rank (map (settle ?K) ?ts)))"
    using wfs now by (intro map_res_Inr_map) (auto simp: finalize_task_eq)
  have wt: "with_tasks (state_plan ?s) (map (finalized now) (sort_key task_rank (map (settle ?K) ?ts))) None =
      Inr ((state_plan ?s)\<lparr>plan_tasks := map ?f ?ts\<rparr>)"
    using with_tasks_map [OF wf(1) k, of _ None] by (simp add: image_mset.compositionality)
  have post: "state_post_init ?s' = Inr ?s'"
    by (rule engine_inv_quiet(2) [OF inv q, where rs = "[]" and st = "plan_status (state_plan ?s)"])
      (simp_all add: now)
  have i: "engine_inv E tr (ls\<lparr>ls_state := ?s'\<rparr>)"
    by (rule engine_inv_quiet_same [OF inv q, where rs = "[]" and st = "plan_status (state_plan ?s)"])
      (simp_all add: now)
  have "finalize_no_ready ?s now ws = Inr ?s'"
    by (simp only: finalize_no_ready_def closure fin wt and_then_simps post)
  then show ?thesis using i by blast
qed

section \<open>Propagation at the start of a round\<close>

definition propagated_state :: "datetime \<Rightarrow> orchestration_state \<Rightarrow> orchestration_state" where
  "propagated_state now s = s\<lparr>state_plan := (state_plan s)\<lparr>
     plan_tasks := map (settle (Collect (failing_key (plan_tasks (state_plan s))))) (plan_tasks (state_plan s)),
     plan_status := Plan_EXECUTING\<rparr>, state_updated_at := now\<rparr>"

lemma pot_settle: "pot M (settle K t) \<le> pot M t"
  by (simp add: pot_def task_open_settle settle_open)

lemma potential_map_le:
  assumes "tasks_of ls' = map f (tasks_of ls)"
    "\<And>t. t \<in> set (tasks_of ls) \<Longrightarrow>
      pot (max_attempts_per_task (env_budget E)) (f t) \<le> pot (max_attempts_per_task (env_budget E)) t"
  shows "potential E ls' \<le> potential E ls"
  unfolding potential_def assms(1) map_map comp_def by (rule sum_list_mono) (use assms(2) in auto)

lemma engine_inv_propagate:
  assumes inv: "engine_inv E tr ls" and now: "tz_aware now"
  defines "s1 \<equiv> propagated_state now (ls_state ls)"
  shows "engine_inv E tr (ls\<lparr>ls_state := s1\<rparr>)" "potential E (ls\<lparr>ls_state := s1\<rparr>) \<le> potential E ls"
    and "and_then (apply_failure_propagation (tasks_of ls)) (\<lambda>propagated.
        and_then (with_tasks (state_plan (ls_state ls)) propagated (Some Plan_EXECUTING)) (\<lambda>p.
        with_updated_plan (ls_state ls) p now)) = Inr s1"
proof -
  let ?s = "ls_state ls" and ?ts = "tasks_of ls"
  let ?f = "settle (Collect (failing_key ?ts))"
  have wf: "wf_plan (state_plan ?s)" "\<forall>t \<in> set ?ts. wf_task t"
    using inv by (auto simp: engine_inv_def wf_state_def)
  have q: "\<forall>t \<in> set ?ts. quiet_update ?f t" using wf(2) quiet_settle by blast
  then have k: "\<forall>t \<in> set ?ts. keeps_order ?f t"
    by (auto simp: quiet_update_def intro: same_shape_keeps)
  show "engine_inv E tr (ls\<lparr>ls_state := s1\<rparr>)"
    by (rule engine_inv_quiet_same [OF inv q, where rs = "[]" and st = Plan_EXECUTING])
      (simp_all add: s1_def propagated_state_def now)
  have post: "state_post_init s1 = Inr s1"
    by (rule engine_inv_quiet(2) [OF inv q, where rs = "[]" and st = Plan_EXECUTING])
      (simp_all add: s1_def propagated_state_def now)
  have closure: "apply_failure_propagation ?ts = Inr (sort_key task_rank (map ?f ?ts))"
    using propagation_eq wf_plan_graph(2) [OF wf(1)] wf(2) by blast
  have wt: "with_tasks (state_plan ?s) (sort_key task_rank (map ?f ?ts)) (Some Plan_EXECUTING) =
      Inr ((state_plan ?s)\<lparr>plan_tasks := map ?f ?ts, plan_status := Plan_EXECUTING\<rparr>)"
    using with_tasks_map [OF wf(1) k, of "sort_key task_rank (map ?f ?ts)" "Some Plan_EXECUTING"] by simp
  show "and_then (apply_failure_propagation ?ts) (\<lambda>propagated.
      and_then (with_tasks (state_plan ?s) propagated (Some Plan_EXECUTING)) (\<lambda>p.
      with_updated_plan ?s p now)) = Inr s1"
    using post by (simp only: closure wt and_then_simps with_updated_plan_def s1_def propagated_state_def)
  show "potential E (ls\<lparr>ls_state := s1\<rparr>) \<le> potential E ls"
    by (rule potential_map_le [of _ ?f]) (simp_all add: s1_def propagated_state_def pot_settle)
qed

section \<open>Starting a task\<close>

text \<open>
  What holds between the decision to call the executor and the call: \<open>running\<close> is a ready task of
  the state \<open>ls1\<close> moved to RUNNING, and the state given to the call has it in its place.
\<close>

definition pending_call ::
    "engine_env \<Rightarrow> call list \<Rightarrow> datetime \<Rightarrow> loop_state \<Rightarrow> research_task \<Rightarrow> loop_state \<Rightarrow> research_task
      \<Rightarrow> loop_state \<Rightarrow> bool"
where
  "pending_call E tr now ls1 t ls running ls' \<longleftrightarrow>
     engine_inv E tr ls1 \<and> potential E ls1 \<le> potential E ls \<and> t \<in> set (tasks_of ls1) \<and> task_open t \<and>
     lawful_call E tr t \<and> attempt_count t < max_attempts_per_task (env_budget E) \<and>
     attempt_count t < max_attempts t \<and> running = moved t Task_RUNNING (Some now) \<and> tz_aware now \<and>
     total_attempts (ls_state ls1) < max_total_attempts (env_budget E) \<and>
     external_calls (ls_state ls1) < max_external_calls (env_budget E) \<and>
     ls' = ls1\<lparr>ls_state := (ls_state ls1)\<lparr>state_plan := (state_plan (ls_state ls1))\<lparr>plan_tasks :=
       map (put_task running) (tasks_of ls1)\<rparr>, state_updated_at := now\<rparr>\<rparr>"

definition decision_ok :: "engine_env \<Rightarrow> call list \<Rightarrow> datetime \<Rightarrow> loop_state \<Rightarrow> decision \<Rightarrow> bool" where
  "decision_ok E tr now ls d \<longleftrightarrow>
     (case d of
        Stop ls' \<Rightarrow> engine_inv E tr ls'
      | Again ls' \<Rightarrow> engine_inv E tr ls' \<and> potential E ls' < potential E ls
      | Call running ls' \<Rightarrow> \<exists>ls1 t. pending_call E tr now ls1 t ls running ls')"

lemma ready_lawful:
  assumes inv: "engine_inv E tr ls" and t: "t \<in> set (tasks_of ls)" "is_ready (tasks_of ls) t"
  shows "task_open t" "lawful_call E tr t" "task_key t \<notin> set (ls_success ls)"
proof -
  have dist: "distinct (map task_key (tasks_of ls))"
    using inv wf_plan_graph(2) by (auto simp: engine_inv_def wf_state_def closed_tasks_def)
  have keys: "succeeded_keys (tasks_of ls) = done_keys E tr" "set (ls_success ls) = done_keys E tr"
    using inv by (auto simp: engine_inv_def)
  show op: "task_open t" using t by (simp add: is_ready_def)
  have "task_key t \<notin> succeeded_keys (tasks_of ls)"
    using distinct_map_inj [OF dist t(1)] op by (auto simp: succeeded_keys_def open_iff)
  then show "task_key t \<notin> set (ls_success ls)" using keys by simp
  moreover have "set (dep_keys t) \<subseteq> succeeded_keys (tasks_of ls)"
    using t(2) by (auto simp: is_ready_def status_in_def succeeded_keys_def)
  ultimately show "lawful_call E tr t" using keys by (simp add: lawful_call_def)
qed

lemma shapes_ok_max_attempts:
  assumes "shapes_ok E tr ts" "t \<in> set ts" "validate_tasks (env_budget E) (env_tasks E) = Inr ()"
  shows "max_attempts t \<le> max_attempts_per_task (env_budget E)"
proof -
  obtain i where i: "i < length ts" "t = ts ! i" using assms(2) by (auto simp: in_set_conv_nth)
  then have "same_shape (env_tasks E ! i) t" "env_tasks E ! i \<in> set (env_tasks E)"
    using assms(1) by (auto simp: shapes_ok_def list_all2_conv_all_nth)
  then show ?thesis using assms(3) by (auto simp: validate_tasks_iff same_shape_def)
qed

lemma potential_put_less:
  assumes wf: "wf_plan (state_plan (ls_state ls))" and t: "t \<in> set (tasks_of ls)" "same_shape t t'"
    and tasks: "tasks_of ls' = map (put_task t') (tasks_of ls)"
    and less: "pot (max_attempts_per_task (env_budget E)) t' < pot (max_attempts_per_task (env_budget E)) t"
  shows "potential E ls' < potential E ls"
  unfolding potential_def tasks map_map comp_def
proof (rule sum_list_less [OF _ t(1)])
  show "pot (max_attempts_per_task (env_budget E)) (put_task t' t)
      < pot (max_attempts_per_task (env_budget E)) t"
    using put_task_only [OF wf t t(1)] less by simp
  fix u assume "u \<in> set (tasks_of ls)"
  from put_task_only [OF wf t this]
  show "pot (max_attempts_per_task (env_budget E)) (put_task t' u)
      \<le> pot (max_attempts_per_task (env_budget E)) u"
    using less by auto
qed

text \<open>Putting back a task that made no call.\<close>

lemma engine_inv_put_quiet:
  assumes inv: "engine_inv E tr ls" and t: "t \<in> set (tasks_of ls)" and now: "tz_aware now"
    and q: "quiet_update (\<lambda>_. t') t"
  defines "s1 \<equiv> (ls_state ls)\<lparr>state_plan := (state_plan (ls_state ls))\<lparr>plan_tasks :=
      map (put_task t') (tasks_of ls)\<rparr>, state_updated_at := now\<rparr>"
  shows "replace_task (ls_state ls) t' now = Inr s1" "engine_inv E tr (ls\<lparr>ls_state := s1\<rparr>)"
proof -
  have sh: "same_shape t t'" using q by (simp add: quiet_update_def)
  have wf: "wf_state (ls_state ls)" using inv by (simp add: engine_inv_def)
  then have wfp: "wf_plan (state_plan (ls_state ls))" "\<forall>t \<in> set (tasks_of ls). wf_task t"
    by (auto simp: wf_state_def)
  show "replace_task (ls_state ls) t' now = Inr s1"
    unfolding s1_def by (rule replace_task_eq [OF wf t sh now])
  have "\<forall>u \<in> set (tasks_of ls). quiet_update (put_task t') u"
    using put_task_only [OF wfp(1) t sh] q wfp(2) by (auto simp: quiet_update_def)
  from engine_inv_quiet_same [OF inv this, of s1 "plan_status (state_plan (ls_state ls))" "[]"]
  show "engine_inv E tr (ls\<lparr>ls_state := s1\<rparr>)" using now by (simp add: s1_def)
qed

lemma add_result_inv:
  assumes inv: "engine_inv E tr ls" and now: "tz_aware now" and r: "clean_result (env_company E) r"
  shows "\<exists>s'. add_result r now (ls_state ls) = Inr s' \<and> engine_inv E tr (ls\<lparr>ls_state := s'\<rparr>) \<and>
    state_plan s' = state_plan (ls_state ls)"
proof -
  let ?s' = "(ls_state ls)\<lparr>state_results := state_results (ls_state ls) @ [r], state_updated_at := now\<rparr>"
  have q: "\<forall>t \<in> set (tasks_of ls). quiet_update (\<lambda>t. t) t"
    using inv by (auto simp: engine_inv_def wf_state_def quiet_id)
  have "state_post_init ?s' = Inr ?s'"
    by (rule engine_inv_quiet(2) [OF inv q, where rs = "[r]" and st = "plan_status (state_plan (ls_state ls))"])
      (simp_all add: now r)
  moreover have "engine_inv E tr (ls\<lparr>ls_state := ?s'\<rparr>)"
    by (rule engine_inv_quiet_same [OF inv q, where rs = "[r]" and st = "plan_status (state_plan (ls_state ls))"])
      (simp_all add: now r)
  ultimately show ?thesis by (auto simp: add_result_def)
qed

lemma exhausted_ok:
  assumes inv: "engine_inv E tr ls" and t: "t \<in> set (tasks_of ls)" "task_open t" and now: "tz_aware now"
    and mx: "max_attempts t \<le> attempt_count t"
  shows "\<exists>ls'. exhausted_branch now ls t = Inr (Again ls') \<and> engine_inv E tr ls' \<and>
    potential E ls' < potential E ls"
proof -
  let ?t' = "moved t Task_SKIPPED (Some now)"
  have wf: "wf_plan (state_plan (ls_state ls))" "wf_task t"
    using inv t(1) by (auto simp: engine_inv_def wf_state_def)
  have q: "quiet_update (\<lambda>_. ?t') t" using quiet_moved [OF wf(2) t(2)] now by simp
  let ?s1 = "(ls_state ls)\<lparr>state_plan := (state_plan (ls_state ls))\<lparr>plan_tasks :=
      map (put_task ?t') (tasks_of ls)\<rparr>, state_updated_at := now\<rparr>"
  note rep = engine_inv_put_quiet [OF inv t(1) now q]
  obtain r where r: "failure_result (task_id t) ''max_attempts_per_task budget exhausted before execution''
      False ''budget_violation'' = Inr r" "clean_result (env_company E) r"
    using failure_result_clean [of "''max_attempts_per_task budget exhausted before execution''"
        "''budget_violation''" "task_id t" "env_company E"]
    by (auto simp: py_strip_def is_space_def ord_char_def)
  from add_result_inv [OF rep(2) now r(2)]
  obtain s2 where s2: "add_result r now ?s1 = Inr s2" "engine_inv E tr (ls\<lparr>ls_state := s2\<rparr>)"
    "state_plan s2 = state_plan ?s1" by auto
  have "and_then (if task_status t = Task_PENDING then with_status t Task_READY None False else Inr t)
      (\<lambda>e. with_status e Task_SKIPPED (Some now) False) = Inr ?t'"
    using open_skip [OF wf(2) t(2)] now by simp
  then have "exhausted_branch now ls t = Inr (Again (ls\<lparr>ls_state := s2\<rparr>))"
    using to_ready [OF wf(2) t(2)] t(2) mx rep(1) r(1) s2(1)
    by (auto simp: exhausted_branch_def open_iff set_state_def)
  moreover have "potential E (ls\<lparr>ls_state := s2\<rparr>) < potential E ls"
    by (rule potential_put_less [OF wf(1) t(1), of ?t'])
      (use s2(3) t(2) in \<open>simp_all add: pot_def open_iff\<close>)
  ultimately show ?thesis using s2(2) by blast
qed

lemma run_ok:
  assumes inv: "engine_inv E tr ls" and t: "t \<in> set (tasks_of ls)" "task_open t" "lawful_call E tr t"
    and now: "tz_aware now" and pot: "potential E ls \<le> potential E ls0"
    and a: "attempt_count t < max_attempts_per_task (env_budget E)"
    and lim: "total_attempts (ls_state ls) < max_total_attempts (env_budget E)"
      "external_calls (ls_state ls) < max_external_calls (env_budget E)"
  shows "\<exists>d. run_branch (env_budget E) now ls t = Inr d \<and> decision_ok E tr now ls0 d"
proof -
  have wf: "wf_state (ls_state ls)" "wf_task t"
    using inv t(1) by (auto simp: engine_inv_def wf_state_def)
  let ?ready = "if task_status t = Task_PENDING then moved t Task_READY None else t"
  let ?running = "moved t Task_RUNNING (Some now)"
  have wr: "wf_task ?ready" "task_status ?ready = Task_READY" "attempt_count ?ready = attempt_count t"
    "max_attempts ?ready = max_attempts t"
    using wf(2) wf_moved [of t None Task_READY] t(2) by (auto simp: open_iff)
  have mv: "moved ?ready Task_RUNNING (Some now) = ?running" by simp
  note rdy = to_ready [OF wf(2) t(2)]
  show ?thesis
  proof (cases "attempt_count t < max_attempts t")
    case True
    have "may_move ?ready Task_RUNNING False" using wr True by (simp add: may_move_def)
    then have run: "with_status ?ready Task_RUNNING (Some now) False = Inr ?running"
      using with_status_eq(1) [OF wr(1), of "Some now"] now mv by simp
    let ?s = "(ls_state ls)\<lparr>state_plan := (state_plan (ls_state ls))\<lparr>plan_tasks :=
        map (put_task ?running) (tasks_of ls)\<rparr>, state_updated_at := now\<rparr>"
    have "replace_task (ls_state ls) ?running now = Inr ?s"
      by (rule replace_task_eq [OF wf(1) t(1) _ now]) simp
    then have "run_branch (env_budget E) now ls t = Inr (Call ?running (ls\<lparr>ls_state := ?s\<rparr>))"
      using lim(1) by (simp add: run_branch_def rdy run)
    moreover have "pending_call E tr now ls t ls0 ?running (ls\<lparr>ls_state := ?s\<rparr>)"
      using inv pot t a True now lim by (simp add: pending_call_def)
    ultimately show ?thesis by (auto simp: decision_ok_def)
  next
    case False
    then have "\<not> may_move ?ready Task_RUNNING False" using wr by (simp add: may_move_def)
    then obtain m where m: "with_status ?ready Task_RUNNING (Some now) False = Inl (ValueError m)"
      using with_status_eq(2) [OF wr(1), of "Some now"] now by auto
    from engine_inv_halt [OF inv now]
    obtain s' where "halt Orch_FAILED m now (ls_state ls) = Inr s'"
      "engine_inv E tr (ls\<lparr>ls_state := s', ls_warnings := ls_warnings ls @ [m]\<rparr>)" by blast
    note halted = this
    have swap: "ls\<lparr>ls_warnings := w, ls_state := s\<rparr> = ls\<lparr>ls_state := s, ls_warnings := w\<rparr>" for s w
      by simp
    have "run_branch (env_budget E) now ls t =
        Inr (Stop (ls\<lparr>ls_warnings := ls_warnings ls @ [m], ls_state := s'\<rparr>))"
      using halted(1) by (simp add: run_branch_def rdy m set_state_def)
    then show ?thesis using halted(2) by (simp only: swap decision_ok_def) auto
  qed
qed

lemma start_ok:
  assumes inv: "engine_inv E tr ls" and t: "t \<in> set (tasks_of ls)" "is_ready (tasks_of ls) t"
    and now: "tz_aware now" and pot: "potential E ls \<le> potential E ls0"
    and b: "validate_tasks (env_budget E) (env_tasks E) = Inr ()"
    and lim: "total_attempts (ls_state ls) < max_total_attempts (env_budget E)"
      "external_calls (ls_state ls) < max_external_calls (env_budget E)"
  shows "\<exists>d. start_task (env_budget E) now ls t = Inr d \<and> decision_ok E tr now ls0 d"
proof -
  note law = ready_lawful [OF inv t]
  have mx: "max_attempts t \<le> max_attempts_per_task (env_budget E)"
    using shapes_ok_max_attempts [OF _ t(1) b] inv unfolding engine_inv_def by blast
  show ?thesis
  proof (cases "attempt_count t \<ge> max_attempts_per_task (env_budget E)")
    case True
    with mx have "max_attempts t \<le> attempt_count t" by simp
    from exhausted_ok [OF inv t(1) law(1) now this] obtain ls' where
      "exhausted_branch now ls t = Inr (Again ls')" "engine_inv E tr ls'" "potential E ls' < potential E ls"
      by blast
    then show ?thesis using True law(3) lim(2) pot by (simp add: start_task_def decision_ok_def)
  next
    case False
    then show ?thesis
      using run_ok [OF inv t(1) law(1,2) now pot _ lim] law(3) lim(2) by (simp add: start_task_def)
  qed
qed

lemma schedule_ok:
  assumes inv: "engine_inv E tr ls" and now: "tz_aware now"
    and b: "validate_tasks (env_budget E) (env_tasks E) = Inr ()"
  shows "\<exists>d. schedule (env_budget E) ctl now ls = Inr d \<and> decision_ok E tr now ls d"
proof -
  have stop: "\<exists>d. and_then (halt st m now (ls_state ls)) (set_state ls Stop) = Inr d \<and> decision_ok E tr now ls d"
    for st m
    using engine_inv_halt [OF inv now, of st m "ls_warnings ls"]
    by (auto simp: set_state_def decision_ok_def)
  show ?thesis
  proof (cases "is_cancelled ctl \<or> total_attempts (ls_state ls) \<ge> max_total_attempts (env_budget E) \<or>
      external_calls (ls_state ls) \<ge> max_external_calls (env_budget E)")
    case True
    then show ?thesis
      using engine_inv_cancel [OF inv now] stop
      by (auto simp: schedule_def Let_def set_state_def decision_ok_def)
  next
    case False
    let ?s1 = "propagated_state now (ls_state ls)"
    let ?ls1 = "ls\<lparr>ls_state := ?s1\<rparr>"
    note p = engine_inv_propagate [OF inv now]
    have closed: "closed_tasks (tasks_of ?ls1)"
      using p(1) wf_plan_graph(2) by (simp add: engine_inv_def wf_state_def)
    from select_next_eq [OF closed] obtain r where r: "select_next_ready_task (tasks_of ?ls1) = Inr r"
      "case r of None \<Rightarrow> True | Some t \<Rightarrow> t \<in> set (tasks_of ?ls1) \<and> is_ready (tasks_of ?ls1) t"
      by (auto split: option.splits)
    have lim: "total_attempts (ls_state ?ls1) < max_total_attempts (env_budget E)"
      "external_calls (ls_state ?ls1) < max_external_calls (env_budget E)"
      using False by (simp_all add: propagated_state_def)
    have eq: "schedule (env_budget E) ctl now ls =
        (case r of None \<Rightarrow> and_then (finalize_no_ready ?s1 now (ls_warnings ls)) (set_state ls Stop)
         | Some t \<Rightarrow> start_task (env_budget E) now ?ls1 t)"
    proof -
      let ?k = "\<lambda>s. and_then (select_next_ready_task (plan_tasks (state_plan s))) (\<lambda>next.
          case next of
            None \<Rightarrow> and_then (finalize_no_ready s now (ls_warnings ls)) (set_state ls Stop)
          | Some t \<Rightarrow> start_task (env_budget E) now (ls\<lparr>ls_state := s\<rparr>) t)"
      have "schedule (env_budget E) ctl now ls =
          and_then (apply_failure_propagation (tasks_of ls)) (\<lambda>propagated.
          and_then (with_tasks (state_plan (ls_state ls)) propagated (Some Plan_EXECUTING)) (\<lambda>p.
          and_then (with_updated_plan (ls_state ls) p now) ?k))"
        using False by (simp add: schedule_def Let_def)
      also have "\<dots> = and_then (and_then (apply_failure_propagation (tasks_of ls)) (\<lambda>propagated.
          and_then (with_tasks (state_plan (ls_state ls)) propagated (Some Plan_EXECUTING)) (\<lambda>p.
          with_updated_plan (ls_state ls) p now))) ?k"
        by (simp add: and_then_def split: sum.splits)
      also have "\<dots> = ?k ?s1" by (simp only: p(3) and_then_simps)
      finally show ?thesis using r(1) by simp
    qed
    show ?thesis
    proof (cases r)
      case None
      obtain s' where s': "finalize_no_ready ?s1 now (ls_warnings ls) = Inr s'"
        "engine_inv E tr (?ls1\<lparr>ls_state := s'\<rparr>)"
        using engine_inv_finalize [OF p(1) now, of "ls_warnings ls"] by auto
      then show ?thesis using None by (simp add: eq set_state_def decision_ok_def)
    next
      case (Some t)
      then have "t \<in> set (tasks_of ?ls1)" "is_ready (tasks_of ?ls1) t" using r(2) by simp_all
      from start_ok [OF p(1) this now p(2) b lim] show ?thesis using Some by (simp add: eq)
    qed
  qed
qed

end
