(* ===== verification/Engine_Loop.thy ===== *)
theory Engine_Loop
  imports Engine_Steps
begin

text \<open>
  The execution loop as a whole. \<open>after_call_ok\<close> closes a round with a call; by induction on the
  rounds the loop keeps the invariant on the trace of its calls, and it always ends by a
  \<open>break\<close>: the no-progress guard is unreachable for a plan within its budget.
\<close>

section \<open>After the call\<close>

lemma put_put: "task_id a = task_id b \<Longrightarrow> put_task b (put_task a u) = put_task b u"
  by (simp add: put_task_def)

text \<open>The state once the called task has its outcome \<open>t'\<close>.\<close>

lemma engine_inv_called:
  assumes inv: "engine_inv E tr ls" and t: "t \<in> set (tasks_of ls)" "task_open t" "lawful_call E tr t"
    and x: "same_shape t (fst x)" and t': "same_shape t t'" "wf_task t'" "attempt_count t' = attempt_count t + 1"
      "task_status t' = Task_SUCCEEDED \<longleftrightarrow> call_ok (env_company E) x"
    and plan: "state_plan s' = (state_plan (ls_state ls))\<lparr>plan_tasks := map (put_task t') (tasks_of ls)\<rparr>"
    and fields: "state_run_id s' = state_run_id (ls_state ls)"
      "state_started_at s' = state_started_at (ls_state ls)" "tz_aware (state_updated_at s')"
      "total_attempts s' = total_attempts (ls_state ls) + 1"
      "external_calls s' = external_calls (ls_state ls) + 1"
      "state_results s' = state_results (ls_state ls) @ [r]" "clean_result (env_company E) r"
    and lim: "total_attempts (ls_state ls) < max_total_attempts (env_budget E)"
      "external_calls (ls_state ls) < max_external_calls (env_budget E)"
    and succ: "set succ = set (ls_success ls) \<union> (if call_ok (env_company E) x then {task_key t} else {})"
  shows "engine_inv E (tr @ [x]) \<lparr>ls_state = s', ls_success = succ, ls_warnings = ws\<rparr>"
proof -
  let ?ts = "tasks_of ls"
  have wf: "wf_state (ls_state ls)" "wf_plan (state_plan (ls_state ls))" "\<forall>u \<in> set ?ts. wf_task u"
    using inv by (auto simp: engine_inv_def wf_state_def)
  note only = put_task_only [OF wf(2) t(1) t'(1)]
  have key: "task_key (fst x) = task_key t" "task_key t' = task_key t"
    using x t'(1) by (simp_all add: same_shape_key)
  have ko: "\<forall>u \<in> set ?ts. keeps_order (put_task t') u \<and> wf_task (put_task t' u)"
    using only wf(3) t'(1,2) by (auto intro!: same_shape_keeps)
  have "state_plan s' = (state_plan (ls_state ls))\<lparr>plan_tasks := map (put_task t') ?ts,
      plan_status := plan_status (state_plan (ls_state ls))\<rparr>"
    using plan by simp
  from wf_state_update(1) [OF wf(1) ko this fields(1-3)]
  have 1: "wf_state s'" using fields(4,5) inv
    by (auto simp: engine_inv_def wf_state_def state_post_init_Inr_iff)
  have tasks: "plan_tasks (state_plan s') = map (put_task t') ?ts" using plan by simp
  have sh: "shapes_ok E tr ?ts" using inv by (simp add: engine_inv_def)
  have 2: "shapes_ok E (tr @ [x]) (map (put_task t') ?ts)"
    unfolding shapes_ok_def list_all2_conv_all_nth
  proof (intro conjI allI impI)
    show len: "length (env_tasks E) = length (map (put_task t') ?ts)"
      using sh by (simp add: shapes_ok_def list_all2_lengthD)
    fix i assume i: "i < length (env_tasks E)"
    let ?u = "?ts ! i"
    have u: "?u \<in> set ?ts" using i len by simp
    have old: "same_shape (env_tasks E ! i) ?u"
      "attempt_count ?u = attempt_count (env_tasks E ! i) + int (calls_of (task_key ?u) tr)"
      using sh i by (auto simp: shapes_ok_def list_all2_conv_all_nth)
    have eq: "map (put_task t') ?ts ! i = (if ?u = t then t' else ?u)" using only [OF u] i len by simp
    have other: "?u \<noteq> t \<Longrightarrow> task_key ?u \<noteq> task_key t"
      using distinct_map_inj [of task_key ?ts ?u t] u t(1) wf_plan_graph(2) [OF wf(2)]
      by (auto simp: closed_tasks_def)
    show "same_shape (env_tasks E ! i) (map (put_task t') ?ts ! i)"
      unfolding eq using old(1) same_shape_trans [OF old(1), of t'] t'(1) by simp
    show "attempt_count (map (put_task t') ?ts ! i) = attempt_count (env_tasks E ! i) +
        int (calls_of (task_key (map (put_task t') ?ts ! i)) (tr @ [x]))"
    proof (cases "?u = t")
      case True
      then show ?thesis unfolding eq using old(2) t'(3) by (simp add: calls_of_snoc key)
    next
      case False
      then show ?thesis unfolding eq using old(2) other by (simp add: calls_of_snoc key)
    qed
  qed
  have 3: "succeeded_keys (map (put_task t') ?ts) =
      succeeded_keys ?ts \<union> (if call_ok (env_company E) x then {task_key t} else {})"
  proof -
    have mem: "k \<in> succeeded_keys us \<longleftrightarrow> (\<exists>u \<in> set us. task_status u = Task_SUCCEEDED \<and> task_key u = k)"
      for k us by (auto simp: succeeded_keys_def)
    have each: "task_status (put_task t' u) = Task_SUCCEEDED \<and> task_key (put_task t' u) = k \<longleftrightarrow>
        (task_status u = Task_SUCCEEDED \<or> (u = t \<and> call_ok (env_company E) x)) \<and> task_key u = k"
      if "u \<in> set ?ts" for u k
      using only [OF that] t(2) t'(4) key(2) by (auto simp: open_iff)
    have "k \<in> succeeded_keys (map (put_task t') ?ts) \<longleftrightarrow>
        k \<in> succeeded_keys ?ts \<union> (if call_ok (env_company E) x then {task_key t} else {})" for k
    proof -
      have "k \<in> succeeded_keys (map (put_task t') ?ts) \<longleftrightarrow> (\<exists>u \<in> set ?ts.
          task_status (put_task t' u) = Task_SUCCEEDED \<and> task_key (put_task t' u) = k)"
        unfolding mem by simp
      also have "\<dots> \<longleftrightarrow> (\<exists>u \<in> set ?ts.
          (task_status u = Task_SUCCEEDED \<or> (u = t \<and> call_ok (env_company E) x)) \<and> task_key u = k)"
        using each by blast
      finally show ?thesis using t(1) by (auto simp: mem)
    qed
    then show ?thesis by blast
  qed
  have dk: "done_keys E (tr @ [x]) = done_keys E tr \<union> (if call_ok (env_company E) x then {task_key t} else {})"
    by (simp add: done_keys_def ok_keys_snoc key Un_assoc)
  have 4: "lawful_trace E (tr @ [x])"
    using inv t(3) x key(1) by (simp add: engine_inv_def lawful_trace_snoc lawful_call_def same_shape_def dep_keys_def)
  have "counters_ok E tr (ls_state ls)" using inv by (simp add: engine_inv_def)
  then have 5: "counters_ok E (tr @ [x]) s'"
    using fields(4,5) lim unfolding counters_ok_def by simp
  obtain rs where "state_results (ls_state ls) = seed_results (env_seed E) @ rs"
    "\<forall>r \<in> set rs. clean_result (env_company E) r"
    using inv by (auto simp: engine_inv_def results_ok_def)
  then have 6: "results_ok E s'"
    unfolding results_ok_def using fields(6,7) by (intro exI [of _ "rs @ [r]"]) auto
  show ?thesis
    using inv 1 2 3 4 5 6 dk succ unfolding engine_inv_def by (simp add: tasks)
qed

lemma after_call_ok:
  assumes pend: "pending_call E tr now ls1 t ls running ls'"
  shows "\<exists>ls''. after_call (env_budget E) (env_company E) now running ls' r = Inr ls'' \<and>
    engine_inv E (tr @ [(running, Inr r)]) ls'' \<and> potential E ls'' < potential E ls"
proof -
  note p = pend [unfolded pending_call_def]
  have inv: "engine_inv E tr ls1" and t: "t \<in> set (tasks_of ls1)" "task_open t" "lawful_call E tr t"
    and now: "tz_aware now" and running: "running = moved t Task_RUNNING (Some now)"
    and a: "attempt_count t < max_attempts_per_task (env_budget E)" "attempt_count t < max_attempts t"
    using p by blast+
  define s0 where "s0 = (ls_state ls1)\<lparr>state_plan := (state_plan (ls_state ls1))\<lparr>plan_tasks :=
       map (put_task running) (tasks_of ls1)\<rparr>, state_updated_at := now\<rparr>"
  have ls': "ls' = ls1\<lparr>ls_state := s0\<rparr>" using p s0_def by simp
  define s where "s = s0\<lparr>total_attempts := total_attempts s0 + 1, external_calls := external_calls s0 + 1,
       state_updated_at := now\<rparr>"
  have wf: "wf_state (ls_state ls1)" "wf_plan (state_plan (ls_state ls1))" "wf_task t"
      "\<forall>u \<in> set (tasks_of ls1). wf_task u"
    using inv t(1) by (auto simp: engine_inv_def wf_state_def)
  have shr: "same_shape t running" and wr: "wf_task running"
    using wf_moved [OF wf(3), of "Some now"] now a(2) by (simp_all add: running)
  have ko: "\<forall>u \<in> set (tasks_of ls1). keeps_order (put_task running) u \<and> wf_task (put_task running u)"
    using put_task_only [OF wf(2) t(1) shr] wf(4) wr shr by (auto intro!: same_shape_keeps)
  have "state_plan s = (state_plan (ls_state ls1))\<lparr>plan_tasks := map (put_task running) (tasks_of ls1),
      plan_status := plan_status (state_plan (ls_state ls1))\<rparr>" by (simp add: s_def s0_def)
  from wf_state_update [OF wf(1) ko this] wf(1) now
  have s: "wf_state s" "state_post_init s = Inr s"
    by (auto simp: s_def s0_def wf_state_def state_post_init_Inr_iff)
  obtain r' where r': "enforce_identity (env_company E) running r = Inr r'" "clean_result (env_company E) r'"
    using enforce_identity_ok by blast
  let ?trm = "result_to_task_status (result_status r')"
  have trm: "?trm \<in> {Task_SUCCEEDED, Task_FAILED, Task_BLOCKED}" by (cases "result_status r'") auto
  let ?fin = "moved running ?trm (Some now)"
  have fin: "with_status running ?trm (Some now) False = Inr ?fin" "wf_task ?fin"
    using trm wr now wf_moved [OF wr, of "Some now" ?trm]
    by (auto intro!: with_status_eq(1) simp: may_move_def running)
  define t' where "t' = (if ?trm = Task_FAILED \<and> should_retry ?fin r' (env_budget E) (total_attempts s)
      then moved ?fin Task_READY None else ?fin)"
  have t'1: "(if ?trm = Task_FAILED \<and> should_retry ?fin r' (env_budget E) (total_attempts s)
      then with_status ?fin Task_READY None True else Inr ?fin) = Inr t'"
    using with_status_eq(1) [OF fin(2), of None Task_READY True] by (auto simp: t'_def may_move_def)
  have t'2: "wf_task t'" "same_shape t t'" "attempt_count t' = attempt_count t + 1"
    using fin(2) wf_moved [OF fin(2), of None Task_READY] trm
    by (auto simp: t'_def same_shape_def running)
  have t'3: "task_status t' = Task_SUCCEEDED \<longleftrightarrow> call_ok (env_company E) (running, Inr r)"
    using trm r'(1) by (auto simp: t'_def call_ok_def)
  have t'4: "pot (max_attempts_per_task (env_budget E)) t' < pot (max_attempts_per_task (env_budget E)) t"
    using trm t'2(3) t(2) a(1) by (auto simp: t'_def pot_def open_iff)
  have ids: "task_id running = task_id t'" "same_shape running t'"
    using shr t'2(2) by (simp_all add: same_shape_def)
  have "running \<in> set (plan_tasks (state_plan s))"
    using t(1) shr by (auto simp: s_def s0_def put_task_def image_iff same_shape_def intro!: bexI [of _ t])
  from replace_task_eq [OF s(1) this ids(2) now]
  have rep: "replace_task s t' now = Inr (s\<lparr>state_plan := (state_plan s)\<lparr>plan_tasks :=
      map (put_task t') (plan_tasks (state_plan s))\<rparr>, state_updated_at := now\<rparr>)" .
  let ?s2 = "s\<lparr>state_plan := (state_plan (ls_state ls1))\<lparr>plan_tasks := map (put_task t') (tasks_of ls1)\<rparr>,
      state_updated_at := now\<rparr>"
  have rep: "replace_task s t' now = Inr ?s2"
    unfolding rep by (simp add: s_def s0_def put_put [OF ids(1)])
  let ?s3 = "?s2\<lparr>state_results := state_results ?s2 @ [r'], state_updated_at := now\<rparr>"
  define ls3 where "ls3 = \<lparr>ls_state = ?s3,
      ls_success = (if ?trm = Task_SUCCEEDED then task_key running # ls_success ls1 else ls_success ls1),
      ls_warnings = (if ?trm = Task_SUCCEEDED \<and> result_status r' = Res_PARTIAL
         then ls_warnings ls1 @ [''task '' @ task_key running @
           '' completed with PARTIAL result (downstream deps may proceed; completeness not claimed)'']
         else ls_warnings ls1)\<rparr>"
  have inv3: "engine_inv E (tr @ [(running, Inr r)]) ls3"
    unfolding ls3_def
    by (rule engine_inv_called [OF inv t _ t'2(2,1,3) t'3, where r = r'])
      (use p shr now r' t'3 in \<open>auto simp: s_def s0_def call_ok_def same_shape_key\<close>)
  then have post: "add_result r' now ?s2 = Inr ?s3"
    by (simp add: add_result_def engine_inv_def wf_state_def ls3_def)
  have "after_call (env_budget E) (env_company E) now running ls' r = Inr ls3"
    using s(2) unfolding after_call_def Let_def ls'
    by (simp add: s_def [symmetric] r'(1) fin(1) t'1 rep post ls3_def)
  moreover have "potential E ls3 < potential E ls"
  proof -
    have "potential E ls3 < potential E ls1"
      by (rule potential_put_less [OF wf(2) t(1) t'2(2) _ t'4]) (simp add: ls3_def)
    then show ?thesis using p by simp
  qed
  ultimately show ?thesis using inv3 by blast
qed

section \<open>Contracts of the ports\<close>

definition honest_clock :: "'w engine_ports \<Rightarrow> bool" where
  "honest_clock P \<longleftrightarrow> (\<forall>w. tz_aware (fst (clock P w)))"

definition never_raises :: "'w engine_ports \<Rightarrow> bool" where
  "never_raises P \<longleftrightarrow> (\<forall>t c q w. \<exists>r. fst (execute_task P t c q w) = Inr r)"

text \<open>The same ports over a world that also records every call with its outcome.\<close>

definition traced :: "'w engine_ports \<Rightarrow> ('w \<times> call list) engine_ports" where
  "traced P = \<lparr>
     clock = (\<lambda>wt. (fst (clock P (fst wt)), (snd (clock P (fst wt)), snd wt))),
     read_control = (\<lambda>wt. read_control P (fst wt)),
     execute_task = (\<lambda>t c q wt.
       let rw = execute_task P t c q (fst wt) in (fst rw, (snd rw, snd wt @ [(t, fst rw)])))\<rparr>"

lemma honest_clock_traced [simp]: "honest_clock (traced P) = honest_clock P"
  by (simp add: honest_clock_def traced_def)

lemma never_raises_traced [simp]: "never_raises (traced P) = never_raises P"
  by (simp add: never_raises_def traced_def Let_def)

section \<open>One round\<close>

lemma round_ok:
  assumes inv: "engine_inv E tr ls" and hc: "honest_clock P"
    and b: "validate_tasks (env_budget E) (env_tasks E) = Inr ()"
    and cl: "clock P w = (now, w1)"
  obtains
    (quiet) ls' go where "exec_round P (env_budget E) (env_company E) q ls w = (Inr (ls', go), w1)"
      "engine_inv E tr ls'" "go \<Longrightarrow> potential E ls' < potential E ls"
  | (raised) ls1 t running lsc e w2 where "pending_call E tr now ls1 t ls running lsc"
      "execute_task P running (env_company E) q w1 = (Inl e, w2)"
      "exec_round P (env_budget E) (env_company E) q ls w = (Inl e, w2)"
  | (returned) ls1 t running lsc r w2 ls' where "pending_call E tr now ls1 t ls running lsc"
      "execute_task P running (env_company E) q w1 = (Inr r, w2)"
      "exec_round P (env_budget E) (env_company E) q ls w = (Inr (ls', True), w2)"
      "engine_inv E (tr @ [(running, Inr r)]) ls'" "potential E ls' < potential E ls"
proof -
  have now: "tz_aware now" using hc cl by (metis honest_clock_def fst_conv)
  obtain d where d: "schedule (env_budget E) (read_control P w1) now ls = Inr d" "decision_ok E tr now ls d"
    using schedule_ok [OF inv now b] by blast
  show ?thesis
  proof (cases d)
    case (Stop ls')
    then show ?thesis using d by (intro quiet [of ls' False]) (simp_all add: exec_round_def cl decision_ok_def)
  next
    case (Again ls')
    then show ?thesis using d by (intro quiet [of ls' True]) (simp_all add: exec_round_def cl decision_ok_def)
  next
    case (Call running lsc)
    with d obtain ls1 t where pend: "pending_call E tr now ls1 t ls running lsc"
      by (auto simp: decision_ok_def)
    obtain r w2 where ex: "execute_task P running (env_company E) q w1 = (r, w2)" by fastforce
    show ?thesis
    proof (cases r)
      case (Inl e)
      then show ?thesis using Call d(1) ex by (intro raised [OF pend]) (simp_all add: exec_round_def cl)
    next
      case (Inr x)
      obtain ls' where "after_call (env_budget E) (env_company E) now running lsc x = Inr ls'"
        "engine_inv E (tr @ [(running, Inr x)]) ls'" "potential E ls' < potential E ls"
        using after_call_ok [OF pend] by blast
      then show ?thesis using Inr Call d(1) ex
        by (intro returned [OF pend, of x w2 ls']) (simp_all add: exec_round_def cl)
    qed
  qed
qed

section \<open>What every trace satisfies\<close>

definition trace_safe :: "engine_env \<Rightarrow> call list \<Rightarrow> bool" where
  "trace_safe E tr \<longleftrightarrow>
     lawful_trace E tr \<and>
     (\<forall>t \<in> set (env_tasks E). int (calls_of (task_key t) tr) \<le> max_attempts t - attempt_count t) \<and>
     (tr \<noteq> [] \<longrightarrow>
        seed_attempts (env_seed E) + int (length tr) \<le> max_total_attempts (env_budget E) \<and>
        seed_calls (env_seed E) + int (length tr) \<le> max_external_calls (env_budget E))"

lemma shapes_ok_obtain:
  assumes "shapes_ok E tr ts" "a \<in> set (env_tasks E)"
  obtains b where "b \<in> set ts" "same_shape a b" "attempt_count b = attempt_count a + int (calls_of (task_key a) tr)"
proof -
  obtain i where i: "i < length (env_tasks E)" "a = env_tasks E ! i" using assms(2) by (auto simp: in_set_conv_nth)
  then have "ts ! i \<in> set ts" "same_shape a (ts ! i)"
    "attempt_count (ts ! i) = attempt_count a + int (calls_of (task_key (ts ! i)) tr)"
    using assms(1) by (auto simp: shapes_ok_def list_all2_conv_all_nth)
  then show ?thesis using that same_shape_key by metis
qed

lemma engine_inv_safe:
  assumes "engine_inv E tr ls" shows "trace_safe E tr"
proof -
  have "int (calls_of (task_key a) tr) \<le> max_attempts a - attempt_count a" if a: "a \<in> set (env_tasks E)" for a
  proof -
    have sh: "shapes_ok E tr (tasks_of ls)" using assms by (simp add: engine_inv_def)
    from shapes_ok_obtain [OF sh a] obtain u where "u \<in> set (tasks_of ls)" "same_shape a u"
      "attempt_count u = attempt_count a + int (calls_of (task_key a) tr)" .
    moreover from this(1) have "attempt_count u \<le> max_attempts u"
      using assms by (auto simp: engine_inv_def wf_state_def wf_task_iff)
    ultimately show ?thesis by (simp add: same_shape_def)
  qed
  then show ?thesis using assms by (auto simp: engine_inv_def trace_safe_def counters_ok_def)
qed

lemma pending_safe:
  assumes p: "pending_call E tr now ls1 t ls running lsc" shows "trace_safe E (tr @ [(running, x)])"
proof -
  note p = p [unfolded pending_call_def]
  have inv: "engine_inv E tr ls1" using p by simp
  have key: "task_key running = task_key t" using p by simp
  have dist: "distinct (map task_key (tasks_of ls1))"
    using inv wf_plan_graph(2) by (auto simp: engine_inv_def wf_state_def closed_tasks_def)
  have "int (calls_of (task_key a) (tr @ [(running, x)])) \<le> max_attempts a - attempt_count a"
    if a: "a \<in> set (env_tasks E)" for a
  proof -
    have sh: "shapes_ok E tr (tasks_of ls1)" using inv by (simp add: engine_inv_def)
    from shapes_ok_obtain [OF sh a] obtain u where u: "u \<in> set (tasks_of ls1)" "same_shape a u"
      "attempt_count u = attempt_count a + int (calls_of (task_key a) tr)" .
    have "task_key a = task_key t \<Longrightarrow> u = t"
      using distinct_map_inj [OF dist u(1), of t] p same_shape_key [OF u(2)] by simp
    moreover have "attempt_count u \<le> max_attempts u"
      using inv u(1) by (auto simp: engine_inv_def wf_state_def wf_task_iff)
    ultimately show ?thesis using u(2,3) p by (auto simp: calls_of_snoc key same_shape_def)
  qed
  moreover have "lawful_trace E (tr @ [(running, x)])"
    using p by (simp add: lawful_trace_snoc engine_inv_def lawful_call_def)
  moreover have "counters_ok E tr (ls_state ls1)" using inv by (simp add: engine_inv_def)
  ultimately show ?thesis using p unfolding trace_safe_def counters_ok_def by auto
qed

section \<open>The loop\<close>

lemma engine_inv_guard:
  assumes inv: "engine_inv E tr ls" and now: "tz_aware now"
  shows "\<exists>ls'. no_progress_guard now ls = Inr ls' \<and> engine_inv E tr ls'"
proof -
  let ?s = "ls_state ls" and ?ws = "ls_warnings ls @ [guard_message]"
  let ?s' = "?s\<lparr>state_status := Orch_FAILED,
     terminal_reason := Some ''no-progress guard: max orchestration rounds exceeded'',
     state_updated_at := now, state_warnings := ?ws,
     state_plan := (state_plan ?s)\<lparr>plan_status := Plan_FAILED\<rparr>\<rparr>"
  have wf: "wf_plan (state_plan ?s)" and q: "\<forall>t \<in> set (tasks_of ls). quiet_update (\<lambda>t. t) t"
    using inv by (auto simp: engine_inv_def wf_state_def quiet_id)
  have "state_post_init ?s' = Inr ?s'" "engine_inv E tr (ls\<lparr>ls_state := ?s', ls_warnings := ?ws\<rparr>)"
    by (rule engine_inv_quiet [OF inv q, where rs = "[]" and st = Plan_FAILED]; simp add: now)+
  then show ?thesis
    unfolding no_progress_guard_def Let_def plan_with_status_eq [OF wf] and_then_simps by simp
qed

lemma loop_safe:
  assumes "exec_loop (traced P) (env_budget E) (env_company E) q n ls (w, tr) = (r, (w', tr'))"
    and "engine_inv E tr ls" and hc: "honest_clock P"
    and b: "validate_tasks (env_budget E) (env_tasks E) = Inr ()"
  shows "trace_safe E tr' \<and> (\<forall>ls'. r = Inr ls' \<longrightarrow> engine_inv E tr' ls') \<and>
    (never_raises P \<longrightarrow> (\<exists>ls'. r = Inr ls'))"
  using assms(1,2)
proof (induction n arbitrary: ls w tr)
  case 0
  have "tz_aware (fst (clock P w))" using hc by (simp add: honest_clock_def)
  from engine_inv_guard [OF 0(2) this] 0 show ?case
    by (auto simp: traced_def intro: engine_inv_safe)
next
  case (Suc n)
  have tc: "clock (traced P) (w, tr) = (fst (clock P w), (snd (clock P w), tr))" by (simp add: traced_def)
  from Suc.prems(2) honest_clock_traced [THEN iffD2, OF hc] b tc show ?case
  proof (cases rule: round_ok [where q = q])
    case (quiet ls' go)
    then show ?thesis using Suc.prems(1) Suc.IH [of ls' "snd (clock P w)" tr] engine_inv_safe
      by (cases go) auto
  next
    case (raised ls1 t running lsc e w2)
    then have e: "fst (execute_task P running (env_company E) q (snd (clock P w))) = Inl e"
      "w2 = (snd (execute_task P running (env_company E) q (snd (clock P w))), tr @ [(running, Inl e)])"
      by (auto simp: traced_def Let_def)
    have nr: "\<not> never_raises P" using e(1) by (metis never_raises_def sum.distinct(1))
    have "tr' = tr @ [(running, Inl e)]" "r = Inl e"
      using Suc.prems(1) raised(3) e(2) by auto
    then show ?thesis using pending_safe [OF raised(1)] nr by auto
  next
    case (returned ls1 t running lsc x w2 ls')
    then have "w2 = (snd (execute_task P running (env_company E) q (snd (clock P w))), tr @ [(running, Inr x)])"
      by (auto simp: traced_def Let_def)
    then show ?thesis
      using Suc.IH [of ls' _ "tr @ [(running, Inr x)]"] Suc.prems(1) returned(3,4) by auto
  qed
qed

text \<open>More rounds than the potential change nothing, so the guard is never reached.\<close>

lemma loop_rounds:
  assumes "engine_inv E tr ls" "honest_clock P"
    "validate_tasks (env_budget E) (env_tasks E) = Inr ()"
    "potential E ls < n" "potential E ls < m"
  shows "exec_loop P (env_budget E) (env_company E) q n ls w = exec_loop P (env_budget E) (env_company E) q m ls w"
  using assms(1,4,5)
proof (induction n arbitrary: m ls w tr)
  case 0
  then show ?case by simp
next
  case (Suc n)
  then obtain m' where m: "m = Suc m'" by (cases m) auto
  from Suc.prems(1) assms(2,3) surjective_pairing [of "clock P w"] show ?case
  proof (cases rule: round_ok [where q = q])
    case (quiet ls' go)
    show ?thesis
    proof (cases go)
      case True
      have "potential E ls' < potential E ls" using quiet(3) True by simp
      then show ?thesis
        using quiet(1) Suc.IH [OF quiet(2), of m'] Suc.prems(2,3) m True by simp
    next
      case False
      then show ?thesis using quiet(1) m by simp
    qed
  next
    case raised
    then show ?thesis using m by simp
  next
    case (returned ls1 t running lsc x w2 ls')
    then show ?thesis using Suc.IH [OF returned(4), of m'] Suc.prems(2,3) m by simp
  qed
qed

end
