(* ===== verification/Engine_Result.thy ===== *)
theory Engine_Result
  imports Engine_Loop
begin

text \<open>
  \<open>execute_prepared\<close> as a whole: where the loop starts, what its result says, and the properties
  of a run that follow from the invariant of the loop.
\<close>

section \<open>The start of the loop\<close>

definition env_of :: "research_plan \<Rightarrow> execution_budget \<Rightarrow> company_identity \<Rightarrow> resume_seed \<Rightarrow> engine_env" where
  "env_of plan b c seed =
     \<lparr>env_tasks = plan_tasks plan, env_budget = b, env_company = c, env_seed = seed\<rparr>"

lemma env_of_sel [simp]:
  "env_tasks (env_of plan b c seed) = plan_tasks plan"
  "env_budget (env_of plan b c seed) = b"
  "env_company (env_of plan b c seed) = c"
  "env_seed (env_of plan b c seed) = seed"
  by (simp_all add: env_of_def)

definition wf_prepared :: "research_plan \<Rightarrow> bool" where
  "wf_prepared plan \<longleftrightarrow> wf_plan plan \<and> list_all wf_task (plan_tasks plan)"

text \<open>The conditions under which \<open>execute_prepared\<close> enters its loop.\<close>

definition enters_loop ::
    "research_plan \<Rightarrow> company_identity \<Rightarrow> execution_budget \<Rightarrow> datetime \<Rightarrow> resume_seed
      \<Rightarrow> execution_control \<Rightarrow> bool"
where
  "enters_loop plan c b started_at seed ctl \<longleftrightarrow>
     tz_aware started_at \<and> company_id c = plan_company_id plan \<and>
     validate_tasks b (plan_tasks plan) = Inr () \<and> \<not> is_cancelled ctl \<and>
     0 \<le> seed_attempts seed \<and> 0 \<le> seed_calls seed"

lemma initial_ok:
  assumes wf: "wf_prepared plan" and st: "tz_aware started_at" "0 \<le> seed_attempts seed" "0 \<le> seed_calls seed"
  obtains ls where "and_then (plan_with_status plan Plan_EXECUTING)
      (\<lambda>p. initial_loop_state plan p started_at seed) = Inr ls"
    "engine_inv (env_of plan b c seed) [] ls" "tasks_of ls = plan_tasks plan"
proof -
  let ?p = "plan\<lparr>plan_status := Plan_EXECUTING\<rparr>"
  let ?s = "\<lparr>state_run_id = plan_run_id plan, state_plan = ?p,
         state_started_at = started_at, state_updated_at = started_at,
         state_results = seed_results seed, state_status = Orch_RUNNING,
         total_attempts = seed_attempts seed, external_calls = seed_calls seed,
         state_warnings = seed_warnings seed, terminal_reason = None\<rparr>"
  let ?ls = "\<lparr>ls_state = ?s, ls_success = task_ids_with (\<lambda>st. st = Task_SUCCEEDED) plan,
            ls_warnings = seed_warnings seed\<rparr>"
  have wp: "wf_plan plan" "\<forall>t \<in> set (plan_tasks plan). wf_task t"
    using wf by (simp_all add: wf_prepared_def list_all_iff)
  have post: "state_post_init ?s = Inr ?s" using st by (simp add: state_post_init_Inr_iff)
  have "wf_plan ?p" using wp(1) by (simp add: wf_plan_iff)
  then have "wf_state ?s" using post wp by (simp add: wf_state_def)
  moreover have "shapes_ok (env_of plan b c seed) [] (plan_tasks plan)"
    by (simp add: shapes_ok_def calls_of_def list.rel_refl)
  moreover have "set (task_ids_with (\<lambda>st. st = Task_SUCCEEDED) plan) = succeeded_keys (plan_tasks plan)"
    by (auto simp: task_ids_with_def succeeded_keys_def)
  ultimately have "engine_inv (env_of plan b c seed) [] ?ls"
    by (simp add: engine_inv_def done_keys_def ok_keys_def counters_ok_def results_ok_def)
  moreover have "and_then (plan_with_status plan Plan_EXECUTING)
      (\<lambda>p. initial_loop_state plan p started_at seed) = Inr ?ls"
    using wp(1) post by (simp add: plan_with_status_eq initial_loop_state_def)
  ultimately show ?thesis using that by simp
qed

lemma potential_initial:
  assumes wf: "wf_prepared plan" and b: "validate_tasks b (plan_tasks plan) = Inr ()"
    and ls: "tasks_of ls = plan_tasks plan"
  shows "potential (env_of plan b c seed) ls < max_rounds plan b"
proof -
  let ?M = "max_attempts_per_task b" and ?n = "length (plan_tasks plan)"
  have "plan_tasks plan \<noteq> []" using wf wf_plan_graph(4) by (simp add: wf_prepared_def)
  then obtain t where "t \<in> set (plan_tasks plan)" using hd_in_set by blast
  then have M: "1 \<le> ?M" using wf b by (fastforce simp: wf_prepared_def list_all_iff wf_task_iff validate_tasks_iff)
  have "potential (env_of plan b c seed) ls \<le> (\<Sum>t\<leftarrow>plan_tasks plan. nat ?M + 1)"
    unfolding potential_def ls
    using wf by (intro sum_list_mono) (auto simp: pot_def wf_prepared_def list_all_iff wf_task_iff)
  also have "\<dots> = ?n * (nat ?M + 1)" by (simp add: sum_list_triv)
  also have "\<dots> < max_rounds plan b"
    using M by (simp add: max_rounds_def nat_add_distrib nat_mult_distrib algebra_simps)
  finally show ?thesis .
qed

section \<open>The result\<close>

lemma to_result_ok:
  assumes wf: "wf_state s" and at: "tz_aware completed_at" "tz_aware started_at"
  obtains res where "to_result q s resolution b started_at extra completed_at = Inr res"
    "er_status res = fst (run_outcome s)"
    "er_plan res = Some ((state_plan s)\<lparr>plan_status := fst (snd (run_outcome s))\<rparr>)"
    "\<exists>f. er_orchestration res = Some f \<and> total_attempts f = total_attempts s \<and>
       external_calls f = external_calls s \<and> state_results f = state_results s \<and>
       state_plan f = (state_plan s)\<lparr>plan_status := fst (snd (run_outcome s))\<rparr>"
    "er_task_results res = state_results s"
    "er_evidence_refs res = dedupe_evidence_refs (concat (map result_evidence (state_results s)))"
    "er_completed_count res = count_status Task_SUCCEEDED (plan_tasks (state_plan s))"
    "er_failed_count res = count_status Task_FAILED (plan_tasks (state_plan s))"
    "er_blocked_count res = count_status Task_BLOCKED (plan_tasks (state_plan s))"
    "er_skipped_count res = count_status Task_SKIPPED (plan_tasks (state_plan s))"
    "er_partial_count res = partial_count s"
proof -
  obtain st ps m where ro: "run_outcome s = (st, ps, m)" by (cases "run_outcome s") auto
  then have live: "st \<notin> {Exec_RESOLUTION_BLOCKED, Exec_INVALID, Exec_UNAVAILABLE}"
    by (auto simp: run_outcome_def Let_def split: if_splits)
  let ?p = "(state_plan s)\<lparr>plan_status := ps\<rparr>"
  let ?w = "dedupe (state_warnings s @ extra)"
  let ?f = "s\<lparr>state_plan := ?p, state_status := final_status st, state_warnings := ?w,
    terminal_reason := Some (reason_or s m), state_updated_at := completed_at\<rparr>"
  have p: "plan_with_status (state_plan s) ps = Inr ?p"
    using wf by (simp add: wf_state_def plan_with_status_eq)
  have f: "state_post_init ?f = Inr ?f"
    using wf at by (simp add: wf_state_def state_post_init_Inr_iff)
  have "to_result q s resolution b started_at extra completed_at =
      execution_result_post_init \<lparr>er_query = q, er_status = st, er_message = m,
            er_run_id = Some (run_id_text (plan_run_id ?p)), er_plan_id = Some (plan_id_text (plan_id ?p)),
            er_plan = Some ?p, er_orchestration = Some ?f, er_task_results = state_results ?f,
            er_evidence_refs = dedupe_evidence_refs (concat (map result_evidence (state_results s))),
            er_warnings = ?w,
            er_completed_count = count_status Task_SUCCEEDED (plan_tasks (state_plan s)),
            er_failed_count = count_status Task_FAILED (plan_tasks (state_plan s)),
            er_blocked_count = count_status Task_BLOCKED (plan_tasks (state_plan s)),
            er_partial_count = partial_count s,
            er_skipped_count = count_status Task_SKIPPED (plan_tasks (state_plan s)),
            er_resolution = Some resolution, er_budget = Some b,
            er_started_at = Some started_at, er_completed_at = Some completed_at\<rparr>"
    unfolding to_result_def Let_def ro prod.case p and_then_simps f ..
  also have "\<dots> = Inr \<lparr>er_query = q, er_status = st, er_message = m,
            er_run_id = Some (run_id_text (plan_run_id ?p)), er_plan_id = Some (plan_id_text (plan_id ?p)),
            er_plan = Some ?p, er_orchestration = Some ?f, er_task_results = state_results ?f,
            er_evidence_refs = dedupe_evidence_refs (concat (map result_evidence (state_results s))),
            er_warnings = ?w,
            er_completed_count = count_status Task_SUCCEEDED (plan_tasks (state_plan s)),
            er_failed_count = count_status Task_FAILED (plan_tasks (state_plan s)),
            er_blocked_count = count_status Task_BLOCKED (plan_tasks (state_plan s)),
            er_partial_count = partial_count s,
            er_skipped_count = count_status Task_SKIPPED (plan_tasks (state_plan s)),
            er_resolution = Some resolution, er_budget = Some b,
            er_started_at = Some started_at, er_completed_at = Some completed_at\<rparr>"
    using live at by (simp add: execution_result_post_init_def)
  finally show ?thesis by (rule that) (simp_all add: ro)
qed

text \<open>A whole run in one statement, for the properties below.\<close>

lemma prepared_run:
  assumes run: "execute_prepared (traced P) plan c cq rsl q b started_at seed (w, []) = (r, (w', tr))"
    and wf: "wf_prepared plan" and hc: "honest_clock P"
    and enter: "enters_loop plan c b started_at seed (read_control P w)"
  obtains
    (raised) e where "r = Inl e" "trace_safe (env_of plan b c seed) tr" "\<not> never_raises P"
  | (finished) ls res now extra where "engine_inv (env_of plan b c seed) tr ls" "tz_aware now"
      "r = to_result q (ls_state ls) rsl b started_at extra now" "r = Inr res"
proof -
  note en = enter [unfolded enters_loop_def]
  obtain ls where ls: "and_then (plan_with_status plan Plan_EXECUTING)
      (\<lambda>p. initial_loop_state plan p started_at seed) = Inr ls"
    "engine_inv (env_of plan b c seed) [] ls" "tasks_of ls = plan_tasks plan"
    using initial_ok [OF wf, of started_at seed b c] en by blast
  obtain r1 w1 tr1 where loop: "exec_loop (traced P) b c cq (max_rounds plan b) ls (w, []) = (r1, (w1, tr1))"
    by (metis surj_pair)
  have ctl: "\<not> is_cancelled (read_control (traced P) (w, []))" using en by (simp add: traced_def)
  have eq: "execute_prepared (traced P) plan c cq rsl q b started_at seed (w, []) =
      (case r1 of Inl e \<Rightarrow> (Inl e, (w1, tr1))
       | Inr ls' \<Rightarrow> (to_result q (ls_state ls') rsl b started_at (ls_warnings ls') (fst (clock P w1)),
                   (snd (clock P w1), tr1)))"
    using en ctl ls(1) loop by (simp add: execute_prepared_def traced_def split: sum.splits)
  have safe: "trace_safe (env_of plan b c seed) tr1"
    "\<And>ls'. r1 = Inr ls' \<Longrightarrow> engine_inv (env_of plan b c seed) tr1 ls'"
    "never_raises P \<Longrightarrow> \<exists>ls'. r1 = Inr ls'"
    using loop_safe [of P "env_of plan b c seed", OF _ ls(2) hc] loop en by auto
  show ?thesis
  proof (cases r1)
    case (Inl e)
    then show ?thesis using eq run safe by (intro raised [of e]) auto
  next
    case (Inr ls')
    have "tz_aware (fst (clock P w1))" using hc by (simp add: honest_clock_def)
    moreover have "wf_state (ls_state ls')" using safe(2) [OF Inr] by (simp add: engine_inv_def)
    ultimately obtain res where "to_result q (ls_state ls') rsl b started_at (ls_warnings ls')
        (fst (clock P w1)) = Inr res"
      using to_result_ok en by metis
    then show ?thesis
      using eq run Inr safe(2) [OF Inr] \<open>tz_aware (fst (clock P w1))\<close>
      by (intro finished [of ls' "fst (clock P w1)" "ls_warnings ls'" res]) auto
  qed
qed

text \<open>Outside the loop no call is made.\<close>

lemma prepared_no_call:
  assumes run: "execute_prepared (traced P) plan c cq rsl q b started_at seed (w, []) = (r, (w', tr))"
    and "\<not> enters_loop plan c b started_at seed (read_control P w)"
  shows "tr = []"
proof -
  have cl: "clock (traced P) (w, []) = (fst (clock P w), (snd (clock P w), []))"
    "read_control (traced P) (w, []) = read_control P w" by (simp_all add: traced_def)
  show ?thesis
    using assms
    by (auto simp: execute_prepared_def enters_loop_def cl split: if_splits sum.splits prod.splits)
qed

lemma prepared_trace_safe:
  assumes "execute_prepared (traced P) plan c cq rsl q b started_at seed (w, []) = (r, (w', tr))"
    and "wf_prepared plan" "honest_clock P"
  shows "trace_safe (env_of plan b c seed) tr"
proof (cases "enters_loop plan c b started_at seed (read_control P w)")
  case True
  from assms True show ?thesis
    by (cases rule: prepared_run) (auto intro: engine_inv_safe)
next
  case False
  have "tr = []" using prepared_no_call [OF assms(1) False] .
  then show ?thesis using assms(2)
    by (auto simp: trace_safe_def calls_of_def wf_prepared_def list_all_iff wf_task_iff)
qed

section \<open>Cancelled before the first task\<close>

lemma cancelled_before_start_ok:
  assumes wf: "wf_prepared plan" and tz: "tz_aware now" "tz_aware started_at"
  obtains res where "cancelled_before_start q plan rsl b started_at ctl now = Inr res"
    "er_status res = Exec_CANCELLED"
    "er_plan res = Some (plan\<lparr>plan_tasks := map (skipped now) (plan_tasks plan), plan_status := Plan_CANCELLED\<rparr>)"
    "er_skipped_count res = length (plan_tasks plan)" "er_task_results res = []"
    "\<exists>s. er_orchestration res = Some s \<and> total_attempts s = 0 \<and> external_calls s = 0 \<and> state_results s = []"
proof -
  let ?ts = "map (skipped now) (plan_tasks plan)"
  let ?p = "plan\<lparr>plan_tasks := ?ts, plan_status := Plan_CANCELLED\<rparr>"
  let ?reason = "\<lambda>d. case control_reason ctl of None \<Rightarrow> d | Some r \<Rightarrow> if r = [] then d else r"
  let ?s = "\<lparr>state_run_id = plan_run_id plan, state_plan = ?p,
         state_started_at = started_at, state_updated_at = now, state_results = [],
         state_status = Orch_CANCELLED, total_attempts = 0, external_calls = 0,
         state_warnings = [], terminal_reason = Some (?reason ''cancelled'')\<rparr>"
  have wp: "wf_plan plan" "\<forall>t \<in> set (plan_tasks plan). wf_task t"
    using wf by (simp_all add: wf_prepared_def list_all_iff)
  have "skip_before_start now t = Inr (skipped now t)" if t: "t \<in> set (plan_tasks plan)" for t
  proof (cases "task_open t")
    case True
    have wt: "wf_task t" using t wp(2) by blast
    let ?r = "if task_status t = Task_PENDING then moved t Task_READY None else t"
    have "with_status ?r Task_SKIPPED (Some now) False = Inr (moved t Task_SKIPPED (Some now))"
      using open_skip [OF wt True, of "Some now"] tz(1) unfolding to_ready [OF wt True] and_then_simps by simp
    moreover have "task_status ?r = Task_READY" using True by (auto simp: open_iff)
    ultimately show ?thesis
      using True unfolding skip_before_start_def to_ready [OF wt True] and_then_simps
      by (simp only: if_True skipped_def simp_thms)
  next
    case False
    then show ?thesis by (simp add: skip_before_start_def skipped_def open_iff)
  qed
  then have sk: "map_res (skip_before_start now) (plan_tasks plan) = Inr ?ts" by (rule map_res_Inr_map)
  have "\<forall>t \<in> set (plan_tasks plan). keeps_order (skipped now) t"
    using wp(2) tz(1) quiet_skipped by (auto simp: quiet_update_def intro: same_shape_keeps)
  from with_tasks_map [OF wp(1) this refl, of "Some Plan_CANCELLED"]
  have wt: "with_tasks plan ?ts (Some Plan_CANCELLED) = Inr ?p" by simp
  have post: "state_post_init ?s = Inr ?s" using tz by (simp add: state_post_init_Inr_iff)
  let ?res = "(bare_result q Exec_CANCELLED (?reason ''cancelled before first task''))
      \<lparr>er_run_id := Some (run_id_text (plan_run_id plan)),
       er_plan_id := Some (plan_id_text (plan_id plan)), er_plan := Some ?p,
       er_orchestration := Some ?s, er_resolution := Some rsl, er_budget := Some b,
       er_started_at := Some started_at, er_completed_at := Some now,
       er_skipped_count := length ?ts\<rparr>"
  have "execution_result_post_init ?res = Inr ?res"
    using tz by (simp add: execution_result_post_init_def bare_result_def)
  then have "cancelled_before_start q plan rsl b started_at ctl now = Inr ?res"
    by (simp only: cancelled_before_start_def sk wt and_then_simps Let_def post)
  then show ?thesis
    by (rule that) (simp_all add: bare_result_def)
qed

section \<open>Properties of a run\<close>

lemma finished_run_total:
  assumes "engine_inv (env_of plan b c seed) tr ls" "tz_aware now" "tz_aware started_at"
  shows "\<exists>res. to_result q (ls_state ls) rsl b started_at extra now = Inr res"
  using assms to_result_ok by (metis engine_inv_def)

text \<open>Recording the trace changes neither the result nor the world.\<close>

lemma traced_round:
  "exec_round (traced P) b c q ls (w, tr) = (r, wt) \<Longrightarrow> exec_round P b c q ls w = (r, fst wt)"
  by (auto simp: exec_round_def traced_def Let_def split: prod.splits sum.splits decision.splits)

lemma traced_loop:
  "exec_loop (traced P) b c q n ls (w, tr) = (r, wt) \<Longrightarrow> exec_loop P b c q n ls w = (r, fst wt)"
proof (induction n arbitrary: ls w tr)
  case 0
  then show ?case by (auto simp: traced_def split: prod.splits)
next
  case (Suc n)
  obtain r1 w1 tr1 where r: "exec_round (traced P) b c q ls (w, tr) = (r1, (w1, tr1))" by (metis surj_pair)
  then have "exec_round P b c q ls w = (r1, w1)" using traced_round by fastforce
  then show ?case using Suc r by (auto split: sum.splits prod.splits if_splits)
qed

lemma traced_prepared:
  assumes "execute_prepared (traced P) plan c cq rsl q b started_at seed (w, []) = (r, (w', tr))"
  shows "execute_prepared P plan c cq rsl q b started_at seed w = (r, w')"
proof -
  have cl: "clock (traced P) (v, t) = (fst (clock P v), (snd (clock P v), t))"
    "read_control (traced P) (v, t) = read_control P v" for v t by (simp_all add: traced_def)
  show ?thesis
    using assms unfolding execute_prepared_def
    by (auto simp: cl split: prod.splits sum.splits if_splits dest!: traced_loop)
qed

lemma prepared_returns:
  assumes wf: "wf_prepared plan" and hc: "honest_clock P" and nr: "never_raises P"
    and st: "tz_aware started_at" "0 \<le> seed_attempts seed" "0 \<le> seed_calls seed"
  shows "\<exists>res w'. execute_prepared P plan c cq rsl q b started_at seed w = (Inr res, w')"
proof (cases "enters_loop plan c b started_at seed (read_control P w)")
  case True
  obtain r w' tr where run: "execute_prepared (traced P) plan c cq rsl q b started_at seed (w, []) = (r, (w', tr))"
    by (metis surj_pair)
  from run wf hc True have "\<exists>res. r = Inr res"
  proof (cases rule: prepared_run)
    case (raised e)
    then show ?thesis using nr by simp
  next
    case (finished ls res now extra)
    then show ?thesis by blast
  qed
  then show ?thesis using traced_prepared [OF run] by blast
next
  case False
  obtain now w1 where now: "clock P w = (now, w1)" "tz_aware now"
    using hc by (metis honest_clock_def prod.collapse)
  have wp: "wf_plan plan" "\<forall>t \<in> set (plan_tasks plan). wf_task t"
    using wf by (simp_all add: wf_prepared_def list_all_iff)
  have early: "\<exists>res. execution_result_post_init ((bare_result q st m)\<lparr>er_run_id := a, er_plan_id := d,
      er_resolution := Some rsl, er_budget := Some b, er_started_at := Some started_at,
      er_completed_at := Some now\<rparr>) = Inr res" if "st \<notin> {Exec_RESOLUTION_BLOCKED, Exec_INVALID, Exec_UNAVAILABLE}"
    for st m a d
    using that st(1) now(2) by (simp add: execution_result_post_init_def bare_result_def)
  consider "company_id c \<noteq> plan_company_id plan"
    | e where "company_id c = plan_company_id plan" "validate_tasks b (plan_tasks plan) = Inl e"
    | "company_id c = plan_company_id plan" "validate_tasks b (plan_tasks plan) = Inr ()"
      "is_cancelled (read_control P w)"
    using False st by (cases "validate_tasks b (plan_tasks plan)") (auto simp: enters_loop_def)
  then show ?thesis
  proof cases
    case 1
    then show ?thesis using early [of Exec_FAILED] st(1) now(1) by (simp add: execute_prepared_def)
  next
    case 2
    then show ?thesis using early [of Exec_BUDGET_EXCEEDED] st(1) now(1) by (simp add: execute_prepared_def)
  next
    case 3
    obtain res where "cancelled_before_start q plan rsl b started_at (read_control P w1) now = Inr res"
      using cancelled_before_start_ok [OF wf now(2) st(1)] by metis
    then show ?thesis using 3 st(1) now(1) by (simp add: execute_prepared_def)
  qed
qed

lemma prepared_rounds:
  assumes wf: "wf_prepared plan" and hc: "honest_clock P" and b: "validate_tasks b (plan_tasks plan) = Inr ()"
    and st: "tz_aware started_at" "0 \<le> seed_attempts seed" "0 \<le> seed_calls seed"
    and ls: "and_then (plan_with_status plan Plan_EXECUTING)
      (\<lambda>p. initial_loop_state plan p started_at seed) = Inr ls"
  shows "exec_loop P b c cq (max_rounds plan b) ls w = exec_loop P b c cq (max_rounds plan b + k) ls w"
proof -
  let ?E = "env_of plan b c seed"
  obtain ls0 where "engine_inv ?E [] ls0" "tasks_of ls0 = plan_tasks plan" "ls0 = ls"
    using initial_ok [OF wf st, of b c] ls by (metis sum.inject(2))
  then have "engine_inv ?E [] ls" "potential ?E ls < max_rounds plan b"
    using potential_initial [OF wf b] by auto
  then show ?thesis
    using loop_rounds [of ?E "[]" ls P "max_rounds plan b" "max_rounds plan b + k" cq w] hc b by simp
qed

lemma prepared_finished:
  assumes wf: "wf_prepared plan" and hc: "honest_clock P"
    and run: "execute_prepared (traced P) plan c cq rsl q b started_at seed (w, []) = (Inr res, (w', tr))"
    and enter: "enters_loop plan c b started_at seed (read_control P w)"
  obtains ls where "engine_inv (env_of plan b c seed) tr ls" "er_status res = fst (run_outcome (ls_state ls))"
    "er_evidence_refs res = dedupe_evidence_refs (concat (map result_evidence (state_results (ls_state ls))))"
    "\<exists>f. er_orchestration res = Some f \<and> total_attempts f = total_attempts (ls_state ls) \<and>
       external_calls f = external_calls (ls_state ls) \<and> state_results f = state_results (ls_state ls)"
    "\<exists>ps. er_plan res = Some ((state_plan (ls_state ls))\<lparr>plan_status := ps\<rparr>)"
    "er_failed_count res = count_status Task_FAILED (tasks_of ls)"
    "er_partial_count res = partial_count (ls_state ls)"
  using run wf hc enter
proof (cases rule: prepared_run)
  case (raised e)
  then show ?thesis by simp
next
  case (finished ls res' now extra)
  have wfs: "wf_state (ls_state ls)" using finished(1) by (simp add: engine_inv_def)
  have tz: "tz_aware started_at" using enter by (simp add: enters_loop_def)
  have eq: "to_result q (ls_state ls) rsl b started_at extra now = Inr res" using finished(3) by simp
  show ?thesis
  proof (rule to_result_ok [OF wfs finished(2) tz, where q = q and resolution = rsl and b = b and extra = extra],
      goal_cases)
    case (1 res2)
    then have "res2 = res" using eq by simp
    with 1 show ?thesis by (intro that [OF finished(1)]) blast+
  qed
qed

lemma prepared_evidence:
  assumes wf: "wf_prepared plan" and hc: "honest_clock P"
    and clean: "list_all (clean_result c) (seed_results seed)"
    and run: "execute_prepared (traced P) plan c cq rsl q b started_at seed (w, []) = (Inr res, (w', tr))"
    and enter: "enters_loop plan c b started_at seed (read_control P w)"
  shows "list_all (\<lambda>e. identity_fault c e = None) (er_evidence_refs res)"
proof (rule prepared_finished [OF wf hc run enter])
  fix ls assume inv: "engine_inv (env_of plan b c seed) tr ls"
    and ev: "er_evidence_refs res = dedupe_evidence_refs (concat (map result_evidence (state_results (ls_state ls))))"
  have "\<forall>r \<in> set (state_results (ls_state ls)). clean_result c r"
    using inv clean by (auto simp: engine_inv_def results_ok_def list_all_iff)
  then have "\<forall>e \<in> set (concat (map result_evidence (state_results (ls_state ls)))). identity_fault c e = None"
    by (auto simp: clean_result_def first_fault_None_iff)
  then show ?thesis
    using dedupe_evidence_props(4) unfolding ev list_all_iff by blast
qed

lemma count_status_0: "count_status st ts = 0 \<longleftrightarrow> (\<forall>t \<in> set ts. task_status t \<noteq> st)"
  by (simp add: count_status_def filter_empty_conv)

lemma outcome_completed:
  assumes "fst (run_outcome s) = Exec_COMPLETED"
  shows "(\<exists>t \<in> set (plan_tasks (state_plan s)). required t)"
    "\<forall>t \<in> set (plan_tasks (state_plan s)). required t \<longrightarrow> task_status t = Task_SUCCEEDED"
    "\<forall>t \<in> set (plan_tasks (state_plan s)). task_status t \<noteq> Task_FAILED" "partial_count s = 0"
  using assms
  by (auto simp: run_outcome_def Let_def list_all_iff list_ex_iff filter_empty_conv split: if_splits)

lemma prepared_completed:
  assumes wf: "wf_prepared plan" and hc: "honest_clock P"
    and run: "execute_prepared (traced P) plan c cq rsl q b started_at seed (w, []) = (Inr res, (w', tr))"
    and enter: "enters_loop plan c b started_at seed (read_control P w)" and st: "er_status res = Exec_COMPLETED"
  shows "(\<exists>t \<in> set (plan_tasks plan). required t) \<and>
    (\<forall>t \<in> set (plan_tasks plan). required t \<longrightarrow>
       task_key t \<in> succeeded_keys (plan_tasks plan) \<union> ok_keys c tr) \<and>
    er_failed_count res = 0 \<and> er_partial_count res = 0"
proof (rule prepared_finished [OF wf hc run enter])
  fix ls assume inv: "engine_inv (env_of plan b c seed) tr ls"
    and ro: "er_status res = fst (run_outcome (ls_state ls))"
    and counts: "er_failed_count res = count_status Task_FAILED (tasks_of ls)"
      "er_partial_count res = partial_count (ls_state ls)"
  note oc = outcome_completed [of "ls_state ls", OF ro [symmetric, unfolded st]]
  have sh: "shapes_ok (env_of plan b c seed) tr (tasks_of ls)"
    and keys: "succeeded_keys (tasks_of ls) = succeeded_keys (plan_tasks plan) \<union> ok_keys c tr"
    using inv by (simp_all add: engine_inv_def done_keys_def)
  have "task_key t \<in> succeeded_keys (tasks_of ls)" if t: "t \<in> set (plan_tasks plan)" "required t" for t
  proof -
    obtain u where u: "u \<in> set (tasks_of ls)" "same_shape t u"
      using shapes_ok_obtain [OF sh, of t] t(1) by auto
    then have "required u" using t(2) by (simp add: same_shape_def)
    then have "u \<in> {u \<in> set (tasks_of ls). task_status u = Task_SUCCEEDED}" using oc(2) u by blast
    then show ?thesis using same_shape_key [OF u(2)] unfolding succeeded_keys_def by (metis imageI)
  qed
  moreover have "\<exists>t \<in> set (plan_tasks plan). required t"
  proof -
    obtain u where u: "u \<in> set (tasks_of ls)" "required u" using oc(1) by blast
    then obtain i where "i < length (tasks_of ls)" "u = tasks_of ls ! i" by (auto simp: in_set_conv_nth)
    then have "same_shape (plan_tasks plan ! i) u" "plan_tasks plan ! i \<in> set (plan_tasks plan)"
      using sh by (auto simp: shapes_ok_def list_all2_conv_all_nth)
    then show ?thesis using u(2) by (auto simp: same_shape_def)
  qed
  moreover have "er_failed_count res = 0 \<and> er_partial_count res = 0"
    using oc(3,4) counts by (simp add: count_status_0)
  ultimately show ?thesis using keys by blast
qed

end
