(* ===== verification/Sample_Data.thy ===== *)
theory Sample_Data
  imports Identity
begin

text \<open>A time, a way to make ids and a company id that the witnesses of all theories share.\<close>

definition sample_time :: datetime where
  "sample_time = \<lparr>dt_year = 2026, dt_month = 1, dt_day = 2, dt_hour = 3, dt_minute = 4,
     dt_second = 5, dt_micro = 0, dt_offset = Some 0\<rparr>"

definition uuid_of :: "char \<Rightarrow> uuid" where
  "uuid_of c = c # ''0000000-0000-4000-8000-000000000000''"

definition sample_company_id :: company_id where
  "sample_company_id = CompanyId (uuid_of (CHR ''c''))"

end
