(* ===== verification/Samples.thy ===== *)
theory Samples
  imports Engine_Result Sample_Data
begin

text \<open>
  Concrete data the witnesses evaluate: two tasks of a plan, the company of the plan, a budget and
  ports over the unit world whose executor always succeeds.
\<close>

definition sample_task :: "char \<Rightarrow> char list \<Rightarrow> int \<Rightarrow> task_status \<Rightarrow> research_task" where
  "sample_task c ds prio st = \<lparr>task_id = TaskId (uuid_of c), task_type = Type_MARKET_INTELLIGENCE,
     capability_id = ''market_intelligence'', description = ''market snapshot'',
     dependencies = map (\<lambda>d. TaskId (uuid_of d)) ds, task_status = st, priority = prio, required = True,
     attempt_count = 0, max_attempts = 1, task_created_at = Some sample_time,
     task_started_at = None, task_completed_at = None\<rparr>"

definition sample_tasks :: "research_task list" where
  "sample_tasks = [sample_task (CHR ''1'') [] 10 Task_PENDING, sample_task (CHR ''2'') [CHR ''1''] 20 Task_PENDING]"

definition sample_run_id :: research_run_id where
  "sample_run_id = \<lparr>run_id_text = uuid_of (CHR ''a''), run_created_at = sample_time\<rparr>"

definition sample_plan :: research_plan where
  "sample_plan = \<lparr>plan_id = PlanId (uuid_of (CHR ''b'')), plan_run_id = sample_run_id,
     plan_objective = Objective_FINANCIAL_ANALYSIS, plan_company_id = sample_company_id,
     plan_tasks = sample_tasks, plan_created_at = sample_time, planner_version = PLANNER_VERSION,
     plan_status = Plan_READY\<rparr>"

definition sample_company :: company_identity where
  "sample_company = \<lparr>company_id = sample_company_id, legal_name = ''Acme Limited'',
     display_name = ''Acme'', company_country = CountryCode ''IN'', aliases = [], securities = [],
     provider_identifiers = [], sector = None, industry = None, legal_name_key = ''acme'',
     display_name_key = ''acme''\<rparr>"

definition sample_query :: company_query where
  "sample_query = \<lparr>raw_query = ''Acme'', query_country = None, query_exchange = None, query_ticker = None\<rparr>"

definition sample_resolution :: resolution_result where
  "sample_resolution = \<lparr>resolution_query = sample_query, resolution_status = Resolution_RESOLVED,
     matched_by = Match_EXACT_ALIAS, confidence = Band_EXACT, resolved_company = Some sample_company,
     candidates = [\<lparr>candidate_company = sample_company, candidate_matched_by = Match_EXACT_ALIAS,
       candidate_confidence = Band_EXACT, matched_listings = []\<rparr>],
     resolution_message = ''company resolved'', normalized_query = ''acme''\<rparr>"

definition sample_execute_query :: execute_query where
  "sample_execute_query = \<lparr>eq_company_query = sample_query, eq_objective = Objective_FINANCIAL_ANALYSIS,
     eq_objective_text = None, eq_jurisdiction = None, eq_time_horizon_days = None, eq_budget = None\<rparr>"

definition sample_evidence :: evidence_ref where
  "sample_evidence = \<lparr>ref_company_id = sample_company_id, ref_source_id = None,
     ref_authority_tier = Some TIER_1_AUTHORITATIVE, ref_data_origin = Some Origin_FIXTURE,
     ref_security_id = None, ref_listing_id = None, ref_as_of = None, ref_retrieved_at = None,
     ref_locator = Some ''10-K''\<rparr>"

definition sample_result :: "task_id \<Rightarrow> task_result" where
  "sample_result tid = \<lparr>result_task_id = tid, result_status = Res_SUCCESS, result_message = ''ok'',
     result_evidence = [sample_evidence], output_summary = None, retryable = False, error_code = None\<rparr>"

definition sample_ports :: "unit engine_ports" where
  "sample_ports = \<lparr>clock = (\<lambda>w. (sample_time, w)), read_control = (\<lambda>_. new_control),
     execute_task = (\<lambda>t c q w. (Inr (sample_result (task_id t)), w))\<rparr>"

definition sample_run :: "execution_result res \<times> unit \<times> call list" where
  "sample_run = execute_prepared (traced sample_ports) sample_plan sample_company sample_query
     sample_resolution sample_execute_query default_budget sample_time fresh_seed ((), [])"

lemma sample_plan_tasks [simp]: "plan_tasks sample_plan = sample_tasks"
  by (simp add: sample_plan_def)

lemma sample_wf: "wf_prepared sample_plan"
  by code_simp

lemma sample_budget_ok: "validate_tasks default_budget (plan_tasks sample_plan) = Inr ()"
  by code_simp

lemma sample_clock: "honest_clock sample_ports"
  by (simp add: honest_clock_def sample_ports_def tz_aware_def sample_time_def)

lemma sample_never_raises: "never_raises sample_ports"
  by (simp add: never_raises_def sample_ports_def)

lemma sample_enters: "enters_loop sample_plan sample_company default_budget sample_time fresh_seed new_control"
  by code_simp

lemma sample_returns: "\<exists>res tr. sample_run = (Inr res, ((), tr))"
proof -
  have "\<exists>res w'. sample_run = (Inr res, w')"
    unfolding sample_run_def
    by (rule prepared_returns [OF sample_wf])
      (simp_all add: sample_clock sample_never_raises tz_aware_def sample_time_def fresh_seed_def)
  then show ?thesis by auto
qed

text \<open>A plan of one task.\<close>

definition single_plan :: research_plan where
  "single_plan = sample_plan\<lparr>plan_tasks := [sample_task (CHR ''1'') [] 10 Task_PENDING]\<rparr>"

definition single_run :: "execution_result res \<times> unit \<times> call list" where
  "single_run = execute_prepared (traced sample_ports) single_plan sample_company sample_query
     sample_resolution sample_execute_query default_budget sample_time fresh_seed ((), [])"

lemma single_wf: "wf_prepared single_plan"
  by code_simp

lemma single_enters: "enters_loop single_plan sample_company default_budget sample_time fresh_seed new_control"
  by code_simp

text \<open>A failed task and a task that depends on it.\<close>

definition failed_tasks :: "research_task list" where
  "failed_tasks =
     [sample_task (CHR ''1'') [] 10 Task_FAILED, sample_task (CHR ''2'') [CHR ''1''] 20 Task_PENDING]"

lemma failed_tasks_ok: "validate_task_graph failed_tasks = Inr ()" "list_all wf_task failed_tasks"
  by code_simp+

lemma sample_tasks_length: "length sample_tasks = 2"
  by (simp add: sample_tasks_def)

end
