(* ===== verification/Sample_Run.thy ===== *)
theory Sample_Run
  imports Samples
begin

text \<open>The engine evaluated on a plan of one task: one call is made and the run completes.\<close>

definition run_summary :: "execution_result res \<times> unit \<times> call list \<Rightarrow> execution_status option \<times> nat" where
  "run_summary x =
     ((case fst x of Inl _ \<Rightarrow> None | Inr res \<Rightarrow> Some (er_status res)), length (snd (snd x)))"

lemma single_run_summary: "run_summary single_run = (Some Exec_COMPLETED, 1)"
  by code_simp

lemma single_run_completed:
  obtains res x where "single_run = (Inr res, ((), [x]))" "er_status res = Exec_COMPLETED"
proof -
  obtain r w tr where run: "single_run = (r, (w, tr))" by (metis surj_pair)
  have "length tr = 1" "\<exists>res. r = Inr res \<and> er_status res = Exec_COMPLETED"
    using single_run_summary unfolding run by (auto simp: run_summary_def split: sum.splits)
  then show ?thesis using run that by (auto simp: length_Suc_conv)
qed

end
