(* ===== verification/Orchestration_Properties.thy ===== *)
theory Orchestration_Properties
  imports Sample_Run
begin

text \<open>
  The properties of the orchestration layer: the runs of the execution engine, the task graph, the
  task lifecycle, plans, budgets and evidence. Each is followed by a witness where it has
  hypotheses.
\<close>

section \<open>Runs of the engine\<close>

text \<open>C1: whatever the executor does, the calls a run makes stay within the budget: with the
  attempts and calls it was resumed with they exceed neither \<open>max_total_attempts\<close> nor
  \<open>max_external_calls\<close>, and no task is called more often than its \<open>max_attempts\<close> allow.\<close>

theorem engine_calls_within_budget:
  assumes "wf_prepared plan" "honest_clock P"
    and "execute_prepared (traced P) plan c cq rsl q b started_at seed (w, []) = (r, (w', tr))"
  shows "(tr \<noteq> [] \<longrightarrow> seed_attempts seed + int (length tr) \<le> max_total_attempts b \<and>
      seed_calls seed + int (length tr) \<le> max_external_calls b) \<and>
    (\<forall>t \<in> set (plan_tasks plan). int (calls_of (task_key t) tr) \<le> max_attempts t - attempt_count t)"
  using prepared_trace_safe [OF assms(3,1,2)] by (simp add: trace_safe_def)

theorem engine_calls_within_budget_witness:
  "\<exists>r tr. sample_run = (r, ((), tr)) \<and>
    (\<forall>t \<in> set sample_tasks. int (calls_of (task_key t) tr) \<le> max_attempts t - attempt_count t)"
proof -
  obtain r w' tr where run: "sample_run = (r, (w', tr))" by (metis surj_pair)
  from engine_calls_within_budget [OF sample_wf sample_clock run [unfolded sample_run_def]]
  have "\<forall>t \<in> set sample_tasks. int (calls_of (task_key t) tr) \<le> max_attempts t - attempt_count t"
    by simp
  then show ?thesis using run by auto
qed

text \<open>C2: every call of a run is made for a task all of whose dependencies had succeeded before it,
  by an earlier call of the run or already in the plan, and never for a task that had succeeded.\<close>

theorem engine_calls_lawful:
  assumes "wf_prepared plan" "honest_clock P"
    and "execute_prepared (traced P) plan c cq rsl q b started_at seed (w, []) = (r, (w', tr))"
  shows "\<forall>i < length tr.
    set (dep_keys (fst (tr ! i))) \<subseteq> succeeded_keys (plan_tasks plan) \<union> ok_keys c (take i tr) \<and>
    task_key (fst (tr ! i)) \<notin> succeeded_keys (plan_tasks plan) \<union> ok_keys c (take i tr)"
  using prepared_trace_safe [OF assms(3,1,2)]
  by (simp add: trace_safe_def lawful_trace_def lawful_call_def done_keys_def)

theorem engine_calls_lawful_witness:
  "\<exists>r tr. sample_run = (r, ((), tr)) \<and> (\<forall>i < length tr.
    set (dep_keys (fst (tr ! i))) \<subseteq> succeeded_keys sample_tasks \<union> ok_keys sample_company (take i tr))"
proof -
  obtain r w' tr where run: "sample_run = (r, (w', tr))" by (metis surj_pair)
  from engine_calls_lawful [OF sample_wf sample_clock run [unfolded sample_run_def]]
  have "\<forall>i < length tr.
      set (dep_keys (fst (tr ! i))) \<subseteq> succeeded_keys sample_tasks \<union> ok_keys sample_company (take i tr)"
    by simp
  then show ?thesis using run by auto
qed

text \<open>C3: executing a prepared plan returns a result, for every plan, budget and seed with
  non-negative counters, when the clock is timezone-aware and the executor returns.\<close>

theorem engine_returns:
  assumes "wf_prepared plan" "honest_clock P" "never_raises P"
    and "tz_aware started_at" "0 \<le> seed_attempts seed" "0 \<le> seed_calls seed"
  shows "\<exists>res w'. execute_prepared P plan c cq rsl q b started_at seed w = (Inr res, w')"
  by (rule prepared_returns [OF assms])

theorem engine_returns_witness:
  "\<exists>res w'. execute_prepared sample_ports sample_plan sample_company sample_query sample_resolution
     sample_execute_query default_budget sample_time fresh_seed () = (Inr res, w')"
  by (rule engine_returns [OF sample_wf sample_clock sample_never_raises])
    (simp_all add: tz_aware_def sample_time_def fresh_seed_def)

text \<open>C4: the no-progress guard of the loop is unreachable: for a plan that passes the budget check,
  any number of rounds beyond the source's \<open>max_rounds\<close> gives the same outcome, whatever the
  executor and the cancellation token do.\<close>

theorem engine_guard_unreachable:
  assumes "wf_prepared plan" "honest_clock P" "validate_tasks b (plan_tasks plan) = Inr ()"
    and "tz_aware started_at" "0 \<le> seed_attempts seed" "0 \<le> seed_calls seed"
    and "and_then (plan_with_status plan Plan_EXECUTING)
      (\<lambda>p. initial_loop_state plan p started_at seed) = Inr ls"
  shows "exec_loop P b c cq (max_rounds plan b) ls w = exec_loop P b c cq (max_rounds plan b + k) ls w"
  by (rule prepared_rounds [OF assms])

theorem engine_guard_unreachable_witness:
  "\<exists>ls. exec_loop sample_ports default_budget sample_company sample_query (max_rounds sample_plan default_budget) ls () =
    exec_loop sample_ports default_budget sample_company sample_query (max_rounds sample_plan default_budget + 7) ls ()"
proof -
  have seed: "tz_aware sample_time" "0 \<le> seed_attempts fresh_seed" "0 \<le> seed_calls fresh_seed"
    by (simp_all add: tz_aware_def sample_time_def fresh_seed_def)
  obtain ls where ls: "and_then (plan_with_status sample_plan Plan_EXECUTING)
      (\<lambda>p. initial_loop_state sample_plan p sample_time fresh_seed) = Inr ls"
    using initial_ok [OF sample_wf seed] by metis
  show ?thesis
    using engine_guard_unreachable [OF sample_wf sample_clock sample_budget_ok seed ls] by blast
qed

text \<open>C5: all evidence in the result of a run that starts from clean results belongs to the company
  of the plan: its company id, and its security and listing ids when present.\<close>

theorem engine_evidence_owned:
  assumes "wf_prepared plan" "honest_clock P" "list_all (clean_result c) (seed_results seed)"
    and "execute_prepared (traced P) plan c cq rsl q b started_at seed (w, []) = (Inr res, (w', tr))"
    and "enters_loop plan c b started_at seed (read_control P w)"
  shows "list_all (\<lambda>e. identity_fault c e = None) (er_evidence_refs res)"
  by (rule prepared_evidence [OF assms])

theorem engine_evidence_owned_witness:
  "\<exists>res tr. sample_run = (Inr res, ((), tr)) \<and>
    list_all (\<lambda>e. identity_fault sample_company e = None) (er_evidence_refs res)"
proof -
  obtain res tr where run: "sample_run = (Inr res, ((), tr))" using sample_returns by blast
  have "list_all (\<lambda>e. identity_fault sample_company e = None) (er_evidence_refs res)"
    by (rule engine_evidence_owned [OF sample_wf sample_clock _ run [unfolded sample_run_def]])
      (use sample_enters in \<open>simp_all add: fresh_seed_def sample_ports_def\<close>)
  then show ?thesis using run by auto
qed

text \<open>C6: a run reports COMPLETED only when its plan has a required task and every required task
  succeeded, by a call of this run or already in the plan it was given; then no optional task failed
  and no recorded result was PARTIAL.\<close>

theorem engine_completed_sound:
  assumes "wf_prepared plan" "honest_clock P"
    and "execute_prepared (traced P) plan c cq rsl q b started_at seed (w, []) = (Inr res, (w', tr))"
    and "enters_loop plan c b started_at seed (read_control P w)" "er_status res = Exec_COMPLETED"
  shows "(\<exists>t \<in> set (plan_tasks plan). required t) \<and>
    (\<forall>t \<in> set (plan_tasks plan). required t \<longrightarrow>
       task_key t \<in> succeeded_keys (plan_tasks plan) \<union> ok_keys c tr) \<and>
    er_failed_count res = 0 \<and> er_partial_count res = 0"
  by (rule prepared_completed [OF assms])

theorem engine_completed_sound_witness:
  "\<exists>res x. single_run = (Inr res, ((), [x])) \<and> er_status res = Exec_COMPLETED \<and>
    er_failed_count res = 0 \<and> er_partial_count res = 0 \<and>
    ok_keys sample_company [x] = {uuid_of (CHR ''1'')}"
proof -
  obtain res x where run: "single_run = (Inr res, ((), [x]))" "er_status res = Exec_COMPLETED"
    using single_run_completed .
  have enters: "enters_loop single_plan sample_company default_budget sample_time fresh_seed
      (read_control sample_ports ())"
    using single_enters by (simp add: sample_ports_def)
  note c = engine_completed_sound [OF single_wf sample_clock run(1) [unfolded single_run_def] enters run(2)]
  have "uuid_of (CHR ''1'') \<in> ok_keys sample_company [x]"
    using c by (auto simp: single_plan_def succeeded_keys_def sample_task_def task_key_def)
  then have "ok_keys sample_company [x] = {uuid_of (CHR ''1'')}"
    by (auto simp: ok_keys_def)
  then show ?thesis using run c by blast
qed

text \<open>Recording the calls of a run changes neither its result nor the world, so the properties
  of traced runs are properties of the runs themselves.\<close>

theorem engine_trace_transparent:
  "execute_prepared P plan c cq rsl q b started_at seed w =
     (let x = execute_prepared (traced P) plan c cq rsl q b started_at seed (w, []) in (fst x, fst (snd x)))"
proof -
  obtain r w' tr where "execute_prepared (traced P) plan c cq rsl q b started_at seed (w, []) = (r, (w', tr))"
    by (metis surj_pair)
  then show ?thesis using traced_prepared by (simp add: Let_def)
qed

text \<open>A cancelled token found before the first task makes no call and returns CANCELLED with every
  pending or ready task SKIPPED, the counters and results at zero whatever the seed, and
  \<open>skipped_count\<close> the number of all tasks; this is so for a pause request as well.\<close>

theorem engine_cancelled_before_start:
  assumes "wf_prepared plan" "honest_clock P" "tz_aware started_at"
    and "company_id c = plan_company_id plan" "validate_tasks b (plan_tasks plan) = Inr ()"
    and "is_cancelled (read_control P w)"
  shows "\<exists>res now w'. execute_prepared P plan c cq rsl q b started_at seed w = (Inr res, w') \<and>
    er_status res = Exec_CANCELLED \<and>
    er_plan res = Some (plan\<lparr>plan_tasks := map (skipped now) (plan_tasks plan), plan_status := Plan_CANCELLED\<rparr>) \<and>
    er_skipped_count res = length (plan_tasks plan) \<and> er_task_results res = [] \<and>
    (\<exists>s. er_orchestration res = Some s \<and> total_attempts s = 0 \<and> external_calls s = 0)"
proof -
  obtain now w1 where now: "clock P w = (now, w1)" "tz_aware now"
    using assms(2) by (metis honest_clock_def prod.collapse)
  from cancelled_before_start_ok [OF assms(1) now(2) assms(3), of q rsl b "read_control P w1"]
  obtain res where "cancelled_before_start q plan rsl b started_at (read_control P w1) now = Inr res"
    "er_status res = Exec_CANCELLED"
    "er_plan res = Some (plan\<lparr>plan_tasks := map (skipped now) (plan_tasks plan), plan_status := Plan_CANCELLED\<rparr>)"
    "er_skipped_count res = length (plan_tasks plan)" "er_task_results res = []"
    "\<exists>s. er_orchestration res = Some s \<and> total_attempts s = 0 \<and> external_calls s = 0 \<and> state_results s = []"
    by blast
  then show ?thesis using assms now by (auto simp: execute_prepared_def)
qed

definition paused_ports :: "unit engine_ports" where
  "paused_ports = sample_ports\<lparr>read_control := (\<lambda>_. \<lparr>is_cancelled = True, is_pause = True,
     control_reason = Some ''paused''\<rparr>)\<rparr>"

theorem engine_cancelled_before_start_witness:
  "request_pause ''paused'' new_control = Inr (read_control paused_ports ()) \<and>
   (\<exists>res now w'. execute_prepared paused_ports sample_plan sample_company sample_query sample_resolution
      sample_execute_query default_budget sample_time \<lparr>seed_attempts = 1, seed_calls = 1, seed_results = [],
      seed_warnings = []\<rparr> () = (Inr res, w') \<and>
     er_plan res = Some (sample_plan\<lparr>plan_tasks := map (skipped now) sample_tasks, plan_status := Plan_CANCELLED\<rparr>))"
proof
  show "request_pause ''paused'' new_control = Inr (read_control paused_ports ())"
    by code_simp
  have "honest_clock paused_ports"
    using sample_clock by (simp add: paused_ports_def honest_clock_def)
  from engine_cancelled_before_start [OF sample_wf this _ _ sample_budget_ok, of sample_time sample_company]
  show "\<exists>res now w'. execute_prepared paused_ports sample_plan sample_company sample_query sample_resolution
      sample_execute_query default_budget sample_time \<lparr>seed_attempts = 1, seed_calls = 1, seed_results = [],
      seed_warnings = []\<rparr> () = (Inr res, w') \<and>
     er_plan res = Some (sample_plan\<lparr>plan_tasks := map (skipped now) sample_tasks, plan_status := Plan_CANCELLED\<rparr>)"
    by (fastforce simp: paused_ports_def tz_aware_def sample_time_def sample_company_def sample_plan_def)
qed

text \<open>C7: a pause seen between two rounds keeps every task of the plan as it is, whatever its status,
  and leaves the counters and results alone; a cancellation turns exactly the pending and ready
  tasks into SKIPPED ones.\<close>

theorem engine_pause_keeps_tasks:
  assumes "engine_inv E tr ls" "tz_aware now" "is_cancelled ctl"
    and "validate_tasks (env_budget E) (env_tasks E) = Inr ()"
  shows "\<exists>ls'. schedule (env_budget E) ctl now ls = Inr (Stop ls') \<and>
    tasks_of ls' = (if is_pause ctl then tasks_of ls else map (skipped now) (tasks_of ls)) \<and>
    state_status (ls_state ls') = Orch_CANCELLED \<and>
    state_results (ls_state ls') = state_results (ls_state ls) \<and>
    total_attempts (ls_state ls') = total_attempts (ls_state ls)"
  using assms(3) by (simp add: schedule_def Let_def engine_inv_cancel(1) [OF assms(1,2)] set_state_def
      cancelled_state_def)

theorem engine_pause_keeps_tasks_witness:
  "\<exists>ls ls'. tasks_of ls = sample_tasks \<and>
    schedule default_budget (read_control paused_ports ()) sample_time ls = Inr (Stop ls') \<and>
    tasks_of ls' = sample_tasks"
proof -
  have seed: "tz_aware sample_time" "0 \<le> seed_attempts fresh_seed" "0 \<le> seed_calls fresh_seed"
    by (simp_all add: tz_aware_def sample_time_def fresh_seed_def)
  obtain ls where "engine_inv (env_of sample_plan default_budget sample_company fresh_seed) [] ls"
    "tasks_of ls = sample_tasks"
    using initial_ok [OF sample_wf seed, of default_budget sample_company] by (metis sample_plan_tasks)
  then show ?thesis
    using engine_pause_keeps_tasks [of "env_of sample_plan default_budget sample_company fresh_seed" "[]" ls
        sample_time "read_control paused_ports ()"] sample_budget_ok seed(1)
    by (auto simp: paused_ports_def)
qed

section \<open>Task graphs\<close>

text \<open>C8: graph validation accepts exactly the task sets with distinct ids whose dependencies exist,
  are listed once each, and form no cycle.\<close>

theorem graph_validation_exact: "validate_task_graph ts = Inr () \<longleftrightarrow> graph_ok ts"
  by (rule validate_iff)

text \<open>C9: the topological order of an accepted graph is a permutation of its tasks in which every
  task comes after all its dependencies, and it does not depend on the order the tasks were given in.\<close>

theorem topological_order_correct:
  assumes "graph_ok ts" "mset us = mset ts"
  shows "\<exists>os. topological_order ts = Inr os \<and> topological_order us = Inr os \<and> mset os = mset ts \<and>
    (\<forall>i < length os. set (dep_keys (os ! i)) \<subseteq> task_key ` set (take i os))"
  using topological_order_ok [OF assms(1)] topological_order_cong [OF assms(2) [symmetric] assms(1)]
  by (auto simp: respects_deps_def)

theorem topological_order_correct_witness:
  "\<exists>os. topological_order (rev sample_tasks) = Inr os \<and> mset os = mset sample_tasks \<and> length os = 2"
proof -
  have "graph_ok sample_tasks" using sample_wf wf_plan_graph(1) [of sample_plan] by (simp add: wf_prepared_def)
  from topological_order_correct [OF this, of "rev sample_tasks"]
  obtain os where "topological_order (rev sample_tasks) = Inr os" "mset os = mset sample_tasks" by auto
  moreover from this(2) have "length os = 2" by (metis mset_eq_length sample_tasks_length)
  ultimately show ?thesis by blast
qed

text \<open>C10: failure propagation closes exactly the tasks that have not started and from which a failed,
  blocked or skipped task is reachable along dependencies through tasks that have not started: the
  required ones become BLOCKED, the others SKIPPED, and every other task stays as it is.\<close>

theorem failure_propagation_closure:
  assumes "graph_ok ts" "list_all wf_task ts"
  shows "\<exists>out. apply_failure_propagation ts = Inr out \<and>
    mset out = mset (map (\<lambda>t. if task_open t \<and> failing_key ts (task_key t)
        then moved t (if required t then Task_BLOCKED else Task_SKIPPED) None else t) ts)"
proof -
  have "(\<lambda>t. if task_open t \<and> failing_key ts (task_key t)
      then moved t (if required t then Task_BLOCKED else Task_SKIPPED) None else t) =
      settle (Collect (failing_key ts))"
    by (rule ext) (simp add: settle_def closed_status_def)
  then show ?thesis using propagation_eq [of ts] assms by (simp add: graph_ok_def list_all_iff)
qed

theorem failure_propagation_closure_witness:
  "\<exists>out t. apply_failure_propagation failed_tasks = Inr out \<and>
     t \<in> set out \<and> task_key t = uuid_of (CHR ''2'') \<and> task_status t = Task_BLOCKED"
proof -
  have ok: "graph_ok failed_tasks" "list_all wf_task failed_tasks"
    using failed_tasks_ok by (simp_all add: validate_iff)
  let ?t = "sample_task (CHR ''2'') [CHR ''1''] 20 Task_PENDING"
  have t: "?t \<in> set failed_tasks" "task_open ?t" "required ?t"
    by (simp_all add: failed_tasks_def open_iff sample_task_def)
  have "failing_key failed_tasks (task_key (sample_task (CHR ''1'') [] 10 Task_FAILED))"
    by (rule failing_key.failed) (simp_all add: failed_tasks_def sample_task_def)
  then have k: "failing_key failed_tasks (task_key ?t)"
    by (intro failing_key.dependent [OF t(1,2)]) (auto simp: sample_task_def dep_keys_def task_key_def)
  from failure_propagation_closure [OF ok] obtain out where out: "apply_failure_propagation failed_tasks = Inr out"
    "mset out = mset (map (\<lambda>t. if task_open t \<and> failing_key failed_tasks (task_key t)
        then moved t (if required t then Task_BLOCKED else Task_SKIPPED) None else t) failed_tasks)" by blast
  from mset_eq_setD [OF out(2)] t k have "moved ?t Task_BLOCKED None \<in> set out" by auto
  moreover have "task_key (moved ?t Task_BLOCKED None) = uuid_of (CHR ''2'')"
    by (simp add: sample_task_def task_key_def)
  moreover have "task_status (moved ?t Task_BLOCKED None) = Task_BLOCKED" by simp
  ultimately show ?thesis using out(1) by blast
qed

text \<open>Propagation is idempotent: a propagated task set is left as it is.\<close>

theorem failure_propagation_idempotent:
  assumes "graph_ok ts" "list_all wf_task ts" "apply_failure_propagation ts = Inr out"
  shows "apply_failure_propagation out = Inr out"
  by (rule propagation_idem [OF _ _ assms(3)]) (use assms in \<open>simp_all add: graph_ok_def list_all_iff\<close>)

theorem failure_propagation_idempotent_witness:
  "\<exists>out. apply_failure_propagation failed_tasks = Inr out \<and> apply_failure_propagation out = Inr out"
proof -
  have ok: "graph_ok failed_tasks" "list_all wf_task failed_tasks"
    using failed_tasks_ok by (simp_all add: validate_iff)
  then obtain out where "apply_failure_propagation failed_tasks = Inr out"
    using propagation_eq [of failed_tasks] by (auto simp: graph_ok_def list_all_iff)
  then show ?thesis using failure_propagation_idempotent [OF ok] by blast
qed

text \<open>The next task is a task that has not started and whose dependencies all succeeded, of the
  least priority and id among those, and none is selected only when there is none.\<close>

theorem next_task_correct:
  assumes "graph_ok ts"
  shows "\<exists>r. select_next_ready_task ts = Inr r \<and>
    (case r of None \<Rightarrow> \<forall>t \<in> set ts. \<not> is_ready ts t
     | Some t \<Rightarrow> t \<in> set ts \<and> is_ready ts t \<and>
         (\<forall>u \<in> set ts. is_ready ts u \<longrightarrow> task_rank t \<le> task_rank u))"
  using select_next_eq assms by (simp add: graph_ok_def)

theorem next_task_correct_witness:
  "\<exists>t. select_next_ready_task sample_tasks = Inr (Some t) \<and> is_ready sample_tasks t"
proof -
  have ok: "graph_ok sample_tasks" using sample_wf wf_plan_graph(1) [of sample_plan] by (simp add: wf_prepared_def)
  have "is_ready sample_tasks (sample_task (CHR ''1'') [] 10 Task_PENDING)"
    by (simp add: is_ready_def open_iff sample_task_def dep_keys_def)
  moreover have "sample_task (CHR ''1'') [] 10 Task_PENDING \<in> set sample_tasks" by (simp add: sample_tasks_def)
  ultimately show ?thesis
    using next_task_correct [OF ok] by (auto split: option.splits)
qed

end
