(* ===== verification/Planner.thy ===== *)
theory Planner
  imports Plan
begin

text \<open>
  The capability registry (\<open>application/capability_registry.py\<close>), the deterministic planner
  (\<open>application/deterministic_planner.py\<close>) and its \<open>PlannerPort\<close> adapter
  (\<open>infrastructure/orchestration/deterministic_planner_adapter.py\<close>). \<open>uuid4()\<close> and the company
  resolution are ports over a world of any type.
\<close>

section \<open>The capability registry\<close>

datatype capability_availability = Cap_AVAILABLE | Cap_DEGRADED | Cap_UNAVAILABLE

record capability_descriptor =
  cap_id :: string
  cap_description :: string
  cap_availability :: capability_availability
  cap_required_inputs :: "string list"
  cap_output_type :: string
  cap_task_type :: task_type

text \<open>The registry's dictionary: its values in insertion order, of distinct ids.\<close>

type_synonym capability_registry = "capability_descriptor list"

fun build_registry :: "capability_descriptor list \<Rightarrow> capability_registry \<Rightarrow> capability_registry res" where
  "build_registry [] reg = Inr reg"
| "build_registry (c # cs) reg =
     (if cap_id c \<in> cap_id ` set reg
      then Inl (ValueError (''duplicate capability_id: '' @ cap_id c))
      else build_registry cs (reg @ [c]))"

definition registry_get :: "capability_registry \<Rightarrow> string \<Rightarrow> capability_descriptor option" where
  "registry_get reg k = find (\<lambda>c. cap_id c = k) reg"

definition registry_require :: "capability_registry \<Rightarrow> string \<Rightarrow> capability_descriptor res" where
  "registry_require reg k =
     (case registry_get reg k of None \<Rightarrow> Inl (KeyError (''unknown capability_id: '' @ k))
      | Some c \<Rightarrow> Inr c)"

definition registry_all :: "capability_registry \<Rightarrow> capability_descriptor list" where
  "registry_all reg = sort_key cap_id reg"

definition registry_available :: "capability_registry \<Rightarrow> capability_descriptor list" where
  "registry_available reg = filter (\<lambda>c. cap_availability c \<noteq> Cap_UNAVAILABLE) (registry_all reg)"

definition default_capability_registry :: "capability_descriptor list" where
  "default_capability_registry =
     [\<lparr>cap_id = ''company_resolution'',
       cap_description = ''Resolve company identity to canonical CompanyIdentity'',
       cap_availability = Cap_AVAILABLE, cap_required_inputs = [''company_query''],
       cap_output_type = ''company_resolution_result'', cap_task_type = Type_COMPANY_RESOLUTION\<rparr>,
      \<lparr>cap_id = ''market_intelligence'',
       cap_description = ''Market OHLCV snapshot and deterministic market metrics'',
       cap_availability = Cap_AVAILABLE, cap_required_inputs = [''company_id'', ''listing''],
       cap_output_type = ''market_snapshot'', cap_task_type = Type_MARKET_INTELLIGENCE\<rparr>,
      \<lparr>cap_id = ''financial_intelligence'',
       cap_description = ''Financial fundamentals snapshot and deterministic ratios'',
       cap_availability = Cap_AVAILABLE, cap_required_inputs = [''company_id''],
       cap_output_type = ''financial_snapshot'', cap_task_type = Type_FINANCIAL_INTELLIGENCE\<rparr>,
      \<lparr>cap_id = ''news_event_intelligence'',
       cap_description = ''News and qualitative event snapshot with evidence refs'',
       cap_availability = Cap_AVAILABLE, cap_required_inputs = [''company_id''],
       cap_output_type = ''news_event_snapshot'', cap_task_type = Type_NEWS_EVENT_INTELLIGENCE\<rparr>,
      \<lparr>cap_id = ''industry_intelligence'',
       cap_description = ''Industry classification and competitor relationships'',
       cap_availability = Cap_AVAILABLE, cap_required_inputs = [''company_id''],
       cap_output_type = ''industry_context_snapshot'', cap_task_type = Type_INDUSTRY_INTELLIGENCE\<rparr>,
      \<lparr>cap_id = ''regulatory_intelligence'',
       cap_description = ''Regulatory events with authority and allegation labels'',
       cap_availability = Cap_AVAILABLE, cap_required_inputs = [''company_id''],
       cap_output_type = ''regulatory_snapshot'', cap_task_type = Type_REGULATORY_INTELLIGENCE\<rparr>]"

lemma build_registry_iff:
  "build_registry cs reg = Inr r \<longleftrightarrow>
     r = reg @ cs \<and> distinct (map cap_id cs) \<and> cap_id ` set cs \<inter> cap_id ` set reg = {}"
  by (induction cs reg rule: build_registry.induct) auto

section \<open>The deterministic planner\<close>

fun objective_capabilities :: "objective \<Rightarrow> string list" where
  "objective_capabilities Objective_COMPANY_OVERVIEW =
     [''market_intelligence'', ''financial_intelligence'', ''news_event_intelligence'']"
| "objective_capabilities Objective_MARKET_ANALYSIS = [''market_intelligence'']"
| "objective_capabilities Objective_FINANCIAL_ANALYSIS = [''financial_intelligence'']"
| "objective_capabilities Objective_NEWS_AND_EVENTS = [''news_event_intelligence'']"
| "objective_capabilities Objective_INDUSTRY_ANALYSIS = [''industry_intelligence'']"
| "objective_capabilities Objective_REGULATORY_ANALYSIS = [''regulatory_intelligence'']"
| "objective_capabilities Objective_COMPREHENSIVE_EQUITY_RESEARCH =
     [''market_intelligence'', ''financial_intelligence'', ''news_event_intelligence'',
      ''industry_intelligence'', ''regulatory_intelligence'']"

definition planned_deps :: "objective \<Rightarrow> string \<Rightarrow> research_task list \<Rightarrow> task_id list" where
  "planned_deps obj k ts =
     (if obj = Objective_COMPREHENSIVE_EQUITY_RESEARCH \<and> k = ''financial_intelligence'' \<and> ts \<noteq> []
      then case find (\<lambda>t. task_type t = Type_MARKET_INTELLIGENCE) ts of
             None \<Rightarrow> [] | Some market \<Rightarrow> [task_id market]
      else [])"

definition planned_task ::
    "task_id \<Rightarrow> capability_descriptor \<Rightarrow> task_id list \<Rightarrow> nat \<Rightarrow> datetime \<Rightarrow> research_task" where
  "planned_task tid cap deps index created_at =
     \<lparr>task_id = tid, task_type = cap_task_type cap, capability_id = cap_id cap,
      description = cap_description cap, dependencies = deps, task_status = Task_PENDING,
      priority = 10 + int index * 10, required = True, attempt_count = 0, max_attempts = 1,
      task_created_at = Some created_at, task_started_at = None, task_completed_at = None\<rparr>"

text \<open>\<open>fresh\<close> is \<open>uuid4()\<close>.\<close>

fun plan_tasks_loop ::
    "('w \<Rightarrow> uuid \<times> 'w) \<Rightarrow> capability_registry \<Rightarrow> objective \<Rightarrow> datetime \<Rightarrow> nat \<Rightarrow> string list
      \<Rightarrow> research_task list \<Rightarrow> 'w \<Rightarrow> research_task list res \<times> 'w"
where
  "plan_tasks_loop fresh reg obj at' index [] ts w = (Inr ts, w)"
| "plan_tasks_loop fresh reg obj at' index (k # ks) ts w =
     (case registry_require reg k of
        Inl e \<Rightarrow> (Inl e, w)
      | Inr cap \<Rightarrow>
          if cap_availability cap = Cap_UNAVAILABLE
          then plan_tasks_loop fresh reg obj at' (index + 1) ks ts w
          else
            case fresh w of (u, w1) \<Rightarrow>
              case and_then (mk_task_id u) (\<lambda>tid.
                     task_post_init (planned_task tid cap (planned_deps obj k ts) index at')) of
                Inl e \<Rightarrow> (Inl e, w1)
              | Inr t \<Rightarrow> plan_tasks_loop fresh reg obj at' (index + 1) ks (ts @ [t]) w1)"

definition build_plan ::
    "('w \<Rightarrow> uuid \<times> 'w) \<Rightarrow> capability_registry \<Rightarrow> execution_budget \<Rightarrow> research_run_id \<Rightarrow> objective
      \<Rightarrow> company_id \<Rightarrow> datetime \<Rightarrow> 'w \<Rightarrow> research_plan res \<times> 'w"
where
  "build_plan fresh reg b run_id obj cid created_at w =
     (case plan_tasks_loop fresh reg obj created_at 0 (objective_capabilities obj) [] w of
        (Inl e, w1) \<Rightarrow> (Inl e, w1)
      | (Inr ts, w1) \<Rightarrow>
          case validate_tasks b ts of
            Inl e \<Rightarrow> (Inl e, w1)
          | Inr _ \<Rightarrow>
              case fresh w1 of (u, w2) \<Rightarrow>
                (and_then (mk_plan_id u) (\<lambda>pid.
                   plan_post_init \<lparr>plan_id = pid, plan_run_id = run_id, plan_objective = obj,
                     plan_company_id = cid, plan_tasks = ts, plan_created_at = created_at,
                     planner_version = PLANNER_VERSION, plan_status = Plan_READY\<rparr>), w2))"

section \<open>The planner port adapter\<close>

definition outcome_of ::
    "planner_outcome_status \<Rightarrow> string \<Rightarrow> research_plan option \<Rightarrow> string option \<Rightarrow> planner_outcome res" where
  "outcome_of st msg plan ver =
     outcome_post_init \<lparr>outcome_status = st, outcome_message = msg, outcome_plan = plan,
       outcome_version = ver\<rparr>"

definition PLANNER_BUDGET_EXCEEDED_MESSAGE :: string where
  "PLANNER_BUDGET_EXCEEDED_MESSAGE = ''plan exceeds the research execution budget''"

text \<open>The \<open>except\<close> clauses of \<open>create_plan\<close>, in their order.\<close>

definition planning_failure :: "error \<Rightarrow> planner_outcome res" where
  "planning_failure e =
     (case e of
        BudgetExceededError m \<Rightarrow>
          outcome_of Planner_FAILED PLANNER_BUDGET_EXCEEDED_MESSAGE None (Some PLANNER_VERSION)
      | KeyError m \<Rightarrow>
          outcome_of Planner_UNAVAILABLE ''required capability unavailable'' None (Some PLANNER_VERSION)
      | _ \<Rightarrow>
          if is_value_error e
          then outcome_of Planner_FAILED ''planner validation failed'' None (Some PLANNER_VERSION)
          else outcome_of Planner_FAILED ''planner failed unexpectedly'' None (Some PLANNER_VERSION))"

record 'w planner_ports =
  resolve_company :: "company_query \<Rightarrow> 'w \<Rightarrow> resolution_result res \<times> 'w"
  fresh_uuid :: "'w \<Rightarrow> uuid \<times> 'w"

definition request_company_query :: "research_request \<Rightarrow> company_query" where
  "request_company_query r =
     \<lparr>raw_query = request_raw_query r, query_country = request_country r,
      query_exchange = request_exchange r, query_ticker = request_ticker r\<rparr>"

definition deterministic_create_plan ::
    "'w planner_ports \<Rightarrow> capability_registry \<Rightarrow> execution_budget \<Rightarrow> research_request \<Rightarrow> 'w
      \<Rightarrow> planner_outcome res \<times> 'w"
where
  "deterministic_create_plan P reg b request w =
     (case resolve_company P (request_company_query request) w of
        (Inl e, w1) \<Rightarrow> (planning_failure e, w1)
      | (Inr resolution, w1) \<Rightarrow>
          if resolution_status resolution = Resolution_INVALID
          then (outcome_of Planner_INVALID ''company query is invalid'' None (Some PLANNER_VERSION), w1)
          else case resolved_company resolution of
            Some company \<Rightarrow>
              if resolution_status resolution \<noteq> Resolution_RESOLVED
              then (outcome_of Planner_INVALID ''company identity could not be uniquely resolved'' None
                      (Some PLANNER_VERSION), w1)
              else (case build_plan (fresh_uuid P) reg b (request_run_id request) (request_objective request)
                       (company_id company) (request_created_at request) w1 of
                (Inl e, w2) \<Rightarrow> (planning_failure e, w2)
              | (Inr plan, w2) \<Rightarrow>
                  (outcome_of Planner_OK ''research plan created by deterministic planner'' (Some plan)
                     (Some PLANNER_VERSION), w2))
          | None \<Rightarrow>
              (outcome_of Planner_INVALID ''company identity could not be uniquely resolved'' None
                 (Some PLANNER_VERSION), w1))"

section \<open>The planner interface\<close>

text \<open>
  What \<open>CreateResearchPlan\<close> expects of a \<open>PlannerPort\<close>: it never raises, and a plan is attached
  exactly to an OK outcome.
\<close>

locale planner_port =
  fixes create_plan :: "research_request \<Rightarrow> 'w \<Rightarrow> planner_outcome res \<times> 'w"
  assumes returns: "\<exists>x. fst (create_plan r w) = Inr x"
    and plan_iff_ok: "fst (create_plan r w) = Inr x \<Longrightarrow>
      outcome_status x = Planner_OK \<longleftrightarrow> outcome_plan x \<noteq> None"
begin

lemma outcome_cases:
  obtains (ok) x p where "fst (create_plan r w) = Inr x" "outcome_status x = Planner_OK" "outcome_plan x = Some p"
  | (no_plan) x where "fst (create_plan r w) = Inr x" "outcome_status x \<noteq> Planner_OK" "outcome_plan x = None"
  using returns [of r w] plan_iff_ok [of r w] by (metis option.exhaust)

end

lemma outcome_of_ok:
  assumes "norm_text msg = msg" "msg \<noteq> []" "length msg \<le> 512" "st = Planner_OK \<longleftrightarrow> plan \<noteq> None"
  shows "outcome_of st msg plan ver = Inr \<lparr>outcome_status = st, outcome_message = msg,
    outcome_plan = plan, outcome_version = ver\<rparr>"
  using assms by (auto simp: outcome_of_def outcome_post_init_def Let_def)

lemma norm_text_messages:
  "norm_text ''plan exceeds the research execution budget'' = ''plan exceeds the research execution budget''"
  "norm_text ''required capability unavailable'' = ''required capability unavailable''"
  "norm_text ''planner validation failed'' = ''planner validation failed''"
  "norm_text ''planner failed unexpectedly'' = ''planner failed unexpectedly''"
  "norm_text ''company query is invalid'' = ''company query is invalid''"
  "norm_text ''company identity could not be uniquely resolved'' =
     ''company identity could not be uniquely resolved''"
  "norm_text ''research plan created by deterministic planner'' =
     ''research plan created by deterministic planner''"
  by code_simp+

definition fair_outcome :: "planner_outcome res \<Rightarrow> bool" where
  "fair_outcome r \<longleftrightarrow> (\<exists>x. r = Inr x \<and> (outcome_status x = Planner_OK \<longleftrightarrow> outcome_plan x \<noteq> None))"

lemma fair_outcome_of:
  assumes "norm_text msg = msg" "msg \<noteq> []" "length msg \<le> 512" "st = Planner_OK \<longleftrightarrow> plan \<noteq> None"
  shows "fair_outcome (outcome_of st msg plan ver)"
  using assms by (simp add: outcome_of_ok fair_outcome_def)

lemma planning_failure_ok:
  "\<exists>x. planning_failure e = Inr x \<and> outcome_status x \<noteq> Planner_OK \<and> outcome_plan x = None \<and>
    (outcome_message x = PLANNER_BUDGET_EXCEEDED_MESSAGE \<longleftrightarrow> (\<exists>m. e = BudgetExceededError m))"
  by (cases e)
    (simp_all add: planning_failure_def outcome_of_ok norm_text_messages PLANNER_BUDGET_EXCEEDED_MESSAGE_def)

lemma fair_planning_failure: "fair_outcome (planning_failure e)"
  using planning_failure_ok [of e] by (auto simp: fair_outcome_def)

lemma deterministic_fair: "fair_outcome (fst (deterministic_create_plan P reg b r w))"
proof -
  obtain res w1 where res: "resolve_company P (request_company_query r) w = (res, w1)" by fastforce
  show ?thesis
  proof (cases res)
    case (Inl e)
    then show ?thesis using res by (simp add: deterministic_create_plan_def fair_planning_failure)
  next
    case (Inr resolution)
    have unresolved: "fair_outcome (outcome_of Planner_INVALID
        ''company identity could not be uniquely resolved'' None (Some PLANNER_VERSION))"
      "fair_outcome (outcome_of Planner_INVALID ''company query is invalid'' None (Some PLANNER_VERSION))"
      by (rule fair_outcome_of; simp add: norm_text_messages)+
    have planned: "fair_outcome (outcome_of Planner_OK ''research plan created by deterministic planner''
        (Some plan) (Some PLANNER_VERSION))" for plan
      by (rule fair_outcome_of) (simp_all add: norm_text_messages)
    note * = res Inr unresolved planned fair_planning_failure
    show ?thesis
    proof (cases "resolved_company resolution")
      case None
      then show ?thesis using * by (simp add: deterministic_create_plan_def)
    next
      case (Some company)
      obtain pl w2 where "build_plan (fresh_uuid P) reg b (request_run_id r) (request_objective r)
          (company_id company) (request_created_at r) w1 = (pl, w2)" by fastforce
      then show ?thesis using * Some by (cases pl) (simp_all add: deterministic_create_plan_def)
    qed
  qed
qed

interpretation deterministic: planner_port "deterministic_create_plan P reg b" for P reg b
proof
  fix r w x
  show "\<exists>x. fst (deterministic_create_plan P reg b r w) = Inr x"
    using deterministic_fair [of P reg b r w] by (auto simp: fair_outcome_def)
  show "fst (deterministic_create_plan P reg b r w) = Inr x \<Longrightarrow>
      outcome_status x = Planner_OK \<longleftrightarrow> outcome_plan x \<noteq> None"
    using deterministic_fair [of P reg b r w] by (auto simp: fair_outcome_def)
qed

end
