(* ===== verification/Create_Plan.thy ===== *)
theory Create_Plan
  imports Planner Engine
begin

text \<open>
  The use case \<open>CreateResearchPlan\<close> (\<open>application/create_research_plan.py\<close>,
  \<open>application/research_plan_contracts.py\<close>) and \<open>ExecuteResearchPlan.execute\<close>, which creates a plan
  and runs it. The planner is any \<open>PlannerPort\<close>.
\<close>

section \<open>Contracts\<close>

datatype plan_creation_status =
  Creation_OK | Creation_RESOLUTION_BLOCKED | Creation_INVALID | Creation_BUDGET_EXCEEDED | Creation_UNAVAILABLE

fun plan_creation_status_value :: "plan_creation_status \<Rightarrow> string" where
  "plan_creation_status_value Creation_OK = ''ok''"
| "plan_creation_status_value Creation_RESOLUTION_BLOCKED = ''resolution_blocked''"
| "plan_creation_status_value Creation_INVALID = ''invalid''"
| "plan_creation_status_value Creation_BUDGET_EXCEEDED = ''budget_exceeded''"
| "plan_creation_status_value Creation_UNAVAILABLE = ''unavailable''"

record create_plan_query =
  cq_company_query :: company_query
  cq_objective :: objective
  cq_objective_text :: "string option"
  cq_jurisdiction :: "string option"
  cq_time_horizon_days :: "int option"

record create_plan_result =
  cp_query :: create_plan_query
  cp_status :: plan_creation_status
  cp_message :: string
  cp_request :: "research_request option"
  cp_plan :: "research_plan option"
  cp_resolution :: "resolution_result option"
  cp_budget :: "execution_budget option"
  cp_evaluated_at :: "datetime option"

definition create_plan_post_init :: "create_plan_result \<Rightarrow> create_plan_result res" where
  "create_plan_post_init r =
     (if cp_status r \<in> {Creation_RESOLUTION_BLOCKED, Creation_INVALID, Creation_BUDGET_EXCEEDED,
                        Creation_UNAVAILABLE} \<and> cp_plan r \<noteq> None
      then Inl (ValueError (plan_creation_status_value (cp_status r) @ '' results must not attach a plan''))
      else if cp_status r = Creation_OK \<and> cp_plan r = None
      then Inl (ValueError ''ok results require a research plan'')
      else if naive_stamp (cp_evaluated_at r)
      then Inl (ValueError ''evaluated_at must be timezone-aware'')
      else Inr r)"

section \<open>The use case\<close>

record 'w plan_ports =
  pp_clock :: "'w \<Rightarrow> datetime \<times> 'w"
  pp_fresh :: "'w \<Rightarrow> uuid \<times> 'w"
  pp_resolve :: "company_query \<Rightarrow> 'w \<Rightarrow> resolution_result res \<times> 'w"
  pp_planner :: "research_request \<Rightarrow> 'w \<Rightarrow> planner_outcome res \<times> 'w"

text \<open>\<open>ResearchRunId.new(created_at=...)\<close>\<close>

definition new_run_id :: "uuid \<Rightarrow> datetime \<Rightarrow> research_run_id res" where
  "new_run_id u stamp =
     (if \<not> tz_aware stamp then Inl (ValueError ''created_at must be timezone-aware'')
      else run_id_post_init \<lparr>run_id_text = u, run_created_at = to_utc stamp\<rparr>)"

definition request_of ::
    "create_plan_query \<Rightarrow> request_id \<Rightarrow> research_run_id \<Rightarrow> datetime \<Rightarrow> research_request" where
  "request_of q rid run_id evaluated_at =
     \<lparr>request_id = rid, request_run_id = run_id, request_objective = cq_objective q,
      request_raw_query = raw_query (cq_company_query q), request_created_at = evaluated_at,
      request_country = query_country (cq_company_query q),
      request_exchange = query_exchange (cq_company_query q),
      request_ticker = query_ticker (cq_company_query q), objective_text = cq_objective_text q,
      jurisdiction = cq_jurisdiction q, time_horizon_days = cq_time_horizon_days q\<rparr>"

definition PLAN_MISMATCH_MESSAGE :: string where
  "PLAN_MISMATCH_MESSAGE = ''planner returned a plan that does not match the request''"

text \<open>What the use case makes of the planner's outcome.\<close>

definition judge_outcome ::
    "create_plan_query \<Rightarrow> execution_budget \<Rightarrow> research_request \<Rightarrow> research_run_id \<Rightarrow> resolution_result
      \<Rightarrow> company_identity \<Rightarrow> datetime \<Rightarrow> planner_outcome \<Rightarrow> create_plan_result res"
where
  "judge_outcome q b request run_id resolution company evaluated_at outcome =
     (let result = (\<lambda>st msg plan budget. create_plan_post_init
            \<lparr>cp_query = q, cp_status = st, cp_message = msg, cp_request = Some request, cp_plan = plan,
             cp_resolution = Some resolution, cp_budget = budget, cp_evaluated_at = Some evaluated_at\<rparr>)
      in if outcome_status outcome = Planner_INVALID
         then result Creation_INVALID (outcome_message outcome) None None
         else if outcome_status outcome = Planner_FAILED \<and>
                 outcome_message outcome = PLANNER_BUDGET_EXCEEDED_MESSAGE
         then result Creation_BUDGET_EXCEEDED (outcome_message outcome) None (Some b)
         else case outcome_plan outcome of
           None \<Rightarrow> result Creation_UNAVAILABLE (outcome_message outcome) None None
         | Some plan \<Rightarrow>
             if outcome_status outcome \<noteq> Planner_OK
             then result Creation_UNAVAILABLE (outcome_message outcome) None None
             else if plan_company_id plan \<noteq> company_id company \<or> plan_run_id plan \<noteq> run_id
             then result Creation_UNAVAILABLE PLAN_MISMATCH_MESSAGE None None
             else result Creation_OK ''research plan created (not executed)'' (Some plan) (Some b))"

definition create_research_plan ::
    "'w plan_ports \<Rightarrow> execution_budget \<Rightarrow> create_plan_query \<Rightarrow> 'w \<Rightarrow> create_plan_result res \<times> 'w" where
  "create_research_plan P b q w =
     (case pp_clock P w of (evaluated_at, w1) \<Rightarrow>
      if \<not> tz_aware evaluated_at
      then (Inl (ValueError ''clock must return timezone-aware datetime''), w1)
      else case pp_fresh P w1 of (u1, w2) \<Rightarrow>
        case new_run_id u1 evaluated_at of
          Inl e \<Rightarrow> (Inl e, w2)
        | Inr run_id \<Rightarrow>
          (case pp_fresh P w2 of (u2, w3) \<Rightarrow>
             case and_then (mk_request_id u2)
                    (\<lambda>rid. request_post_init (request_of q rid run_id evaluated_at)) of
               Inl e \<Rightarrow>
                 if is_value_error e
                 then (create_plan_post_init
                   \<lparr>cp_query = q, cp_status = Creation_INVALID, cp_message = error_text e,
                    cp_request = None, cp_plan = None, cp_resolution = None, cp_budget = None,
                    cp_evaluated_at = Some evaluated_at\<rparr>, w3)
                 else (Inl e, w3)
             | Inr request \<Rightarrow>
                 case pp_resolve P (cq_company_query q) w3 of
                   (Inl e, w4) \<Rightarrow> (Inl e, w4)
                 | (Inr resolution, w4) \<Rightarrow>
                     let blocked = (\<lambda>st msg. create_plan_post_init
                       \<lparr>cp_query = q, cp_status = st, cp_message = msg, cp_request = Some request,
                        cp_plan = None, cp_resolution = Some resolution, cp_budget = None,
                        cp_evaluated_at = Some evaluated_at\<rparr>)
                     in if resolution_status resolution = Resolution_INVALID
                        then (blocked Creation_INVALID
                                (if resolution_message resolution = [] then ''invalid company query''
                                 else resolution_message resolution), w4)
                        else if resolution_status resolution \<noteq> Resolution_RESOLVED
                        then (blocked Creation_RESOLUTION_BLOCKED
                                ''research plan withheld until company identity is uniquely resolved'', w4)
                        else case resolved_company resolution of
                          None \<Rightarrow> (Inl AssertionError, w4)
                        | Some company \<Rightarrow>
                            (case pp_planner P request w4 of
                               (Inl e, w5) \<Rightarrow> (Inl e, w5)
                             | (Inr outcome, w5) \<Rightarrow>
                                 (judge_outcome q b request run_id resolution company evaluated_at outcome, w5))))"

section \<open>Creating and executing\<close>

definition as_plan_query :: "execute_query \<Rightarrow> create_plan_query" where
  "as_plan_query q = \<lparr>cq_company_query = eq_company_query q, cq_objective = eq_objective q,
     cq_objective_text = eq_objective_text q, cq_jurisdiction = eq_jurisdiction q,
     cq_time_horizon_days = eq_time_horizon_days q\<rparr>"

fun execution_status_of :: "plan_creation_status \<Rightarrow> execution_status" where
  "execution_status_of Creation_INVALID = Exec_INVALID"
| "execution_status_of Creation_RESOLUTION_BLOCKED = Exec_RESOLUTION_BLOCKED"
| "execution_status_of Creation_BUDGET_EXCEEDED = Exec_BUDGET_EXCEEDED"
| "execution_status_of _ = Exec_UNAVAILABLE"

text \<open>
  \<open>execute\<close>: \<open>b0\<close> and \<open>own\<close> are the budgets of the plan creator and of the engine. The four early
  returns of the source differ in the status and the fallback message only.
\<close>

definition execute_research_plan ::
    "'w plan_ports \<Rightarrow> execution_budget \<Rightarrow> 'w engine_ports \<Rightarrow> execution_budget \<Rightarrow> execute_query \<Rightarrow> 'w
      \<Rightarrow> execution_result res \<times> 'w"
where
  "execute_research_plan PP b0 P own q w =
     (case clock P w of (started_at, w1) \<Rightarrow>
      if \<not> tz_aware started_at
      then (Inl (ValueError ''clock must return timezone-aware datetime''), w1)
      else let budget = (case eq_budget q of None \<Rightarrow> own | Some b \<Rightarrow> b) in
        case create_research_plan PP b0 (as_plan_query q) w1 of
          (Inl e, w2) \<Rightarrow> (Inl e, w2)
        | (Inr pr, w2) \<Rightarrow>
            let early = (case clock P w2 of (done_at, w3) \<Rightarrow>
                  (execution_result_post_init
                    ((bare_result q (execution_status_of (cp_status pr))
                        (if cp_status pr = Creation_OK \<or> cp_status pr = Creation_UNAVAILABLE
                         then (if cp_message pr = [] then ''plan unavailable'' else cp_message pr)
                         else cp_message pr))
                      \<lparr>er_resolution := cp_resolution pr, er_budget := Some budget,
                       er_started_at := Some started_at, er_completed_at := Some done_at\<rparr>), w3))
            in case cp_plan pr of
                 None \<Rightarrow> early
               | Some plan \<Rightarrow>
                   if cp_status pr \<noteq> Creation_OK then early
                   else case cp_resolution pr of
                     None \<Rightarrow> (Inl AssertionError, w2)
                   | Some resolution \<Rightarrow>
                       (case resolved_company resolution of
                          None \<Rightarrow> (Inl AssertionError, w2)
                        | Some company \<Rightarrow>
                            execute_prepared P plan company (eq_company_query q) resolution q budget
                              started_at fresh_seed w2))"

section \<open>A created plan belongs to the resolved company\<close>

lemma create_plan_post_init_eq: "create_plan_post_init r = Inr r' \<Longrightarrow> r' = r"
  by (auto simp: create_plan_post_init_def split: if_splits)

lemma judge_outcome_ok:
  assumes "judge_outcome q b request run_id resolution company evaluated_at outcome = Inr r" "cp_plan r = Some p"
  shows "cp_request r = Some request \<and> cp_resolution r = Some resolution \<and> cp_status r = Creation_OK \<and>
    outcome_plan outcome = Some p \<and> plan_company_id p = company_id company \<and> plan_run_id p = run_id"
  using assms
  by (auto simp: judge_outcome_def Let_def dest!: create_plan_post_init_eq split: if_splits option.splits)

lemma create_plan_sound:
  assumes "create_research_plan P b q w = (Inr r, w')" "cp_plan r = Some p"
  shows "\<exists>resolution company request. cp_status r = Creation_OK \<and> cp_resolution r = Some resolution \<and>
    resolution_status resolution = Resolution_RESOLVED \<and> resolved_company resolution = Some company \<and>
    cp_request r = Some request \<and> plan_company_id p = company_id company \<and>
    plan_run_id p = request_run_id request"
proof -
  have run: "request_post_init x = Inr y \<Longrightarrow> request_run_id y = request_run_id x" for x y
    by (auto simp: request_post_init_def Let_def split: if_splits)
  show ?thesis
    using assms
    by (auto simp: create_research_plan_def Let_def request_of_def and_then_Inr_iff
        dest!: create_plan_post_init_eq run judge_outcome_ok
        split: prod.splits if_splits sum.splits option.splits)
qed

end
