(* ===== verification/Actions.thy ===== *)
theory Actions
  imports Base
begin

text \<open>
  Code that both changes a world and may raise: an action takes the world and gives a result or an
  exception with the world after it. An exception leaves the changes made before it in place, as in
  the source. \<open>keeps\<close> says that an action relates the worlds before and after it, whatever its
  outcome; it composes along the actions of an operation.
\<close>

type_synonym ('w, 'a) action = "'w \<Rightarrow> 'a res \<times> 'w"

definition return_act :: "'a \<Rightarrow> ('w, 'a) action" where
  "return_act x w = (Inr x, w)"

text \<open>A computation without effect that may raise.\<close>

definition lift_res :: "'a res \<Rightarrow> ('w, 'a) action" where
  "lift_res r w = (r, w)"

text \<open>A port that never raises.\<close>

definition ask :: "('w \<Rightarrow> 'a \<times> 'w) \<Rightarrow> ('w, 'a) action" where
  "ask g w = (case g w of (x, w') \<Rightarrow> (Inr x, w'))"

definition bind_act :: "('w, 'a) action \<Rightarrow> ('a \<Rightarrow> ('w, 'b) action) \<Rightarrow> ('w, 'b) action" where
  "bind_act m f w = (case m w of (Inl e, w') \<Rightarrow> (Inl e, w') | (Inr x, w') \<Rightarrow> f x w')"

text \<open>\<open>try: m except Exception as exc: h exc\<close>\<close>

definition catch_act :: "('w, 'a) action \<Rightarrow> (error \<Rightarrow> ('w, 'a) action) \<Rightarrow> ('w, 'a) action" where
  "catch_act m h w = (case m w of (Inl e, w') \<Rightarrow> h e w' | (Inr x, w') \<Rightarrow> (Inr x, w'))"

lemma act_apply [simp]:
  "return_act x w = (Inr x, w)"
  "lift_res r w = (r, w)"
  "ask g w = (Inr (fst (g w)), snd (g w))"
  by (simp_all add: return_act_def lift_res_def ask_def split: prod.splits)

lemma bind_act_Inr: "m w = (Inr x, w') \<Longrightarrow> bind_act m f w = f x w'"
  by (simp add: bind_act_def)

lemma bind_act_Inl: "m w = (Inl e, w') \<Longrightarrow> bind_act m f w = (Inl e, w')"
  by (simp add: bind_act_def)

lemma bind_act_simps [simp]:
  "bind_act (return_act x) f w = f x w"
  "bind_act (lift_res (Inr x)) f w = f x w"
  "bind_act (lift_res (Inl e)) f w = (Inl e, w)"
  "bind_act (ask g) f w = f (fst (g w)) (snd (g w))"
  by (simp_all add: bind_act_def)

lemma bind_return [simp]: "bind_act (return_act x) f = f x"
  by (rule ext) simp

lemma bind_act_assoc: "bind_act (bind_act a f) g = bind_act a (\<lambda>x. bind_act (f x) g)"
  by (rule ext) (auto simp: bind_act_def split: prod.splits sum.splits)

lemma bind_act_InrE:
  assumes "bind_act m f w = (Inr y, w')"
  obtains x w1 where "m w = (Inr x, w1)" "f x w1 = (Inr y, w')"
  using assms by (auto simp: bind_act_def split: prod.splits sum.splits)

section \<open>Relations kept by an action\<close>

definition keeps :: "('w \<Rightarrow> 'w \<Rightarrow> bool) \<Rightarrow> ('w, 'a) action \<Rightarrow> bool" where
  "keeps R m \<longleftrightarrow> (\<forall>w. R w (snd (m w)))"

locale kept_relation =
  fixes R :: "'w \<Rightarrow> 'w \<Rightarrow> bool"
  assumes refl: "R w w"
    and trans: "R u v \<Longrightarrow> R v w \<Longrightarrow> R u w"
begin

lemma keeps_return: "keeps R (return_act x)"
  by (simp add: keeps_def refl)

lemma keeps_lift: "keeps R (lift_res r)"
  by (simp add: keeps_def refl)

lemma keeps_bind:
  assumes "keeps R m" "\<And>x. keeps R (f x)" shows "keeps R (bind_act m f)"
  unfolding keeps_def
proof
  fix w
  obtain r w1 where m: "m w = (r, w1)" by fastforce
  then have "R w w1" using assms(1) unfolding keeps_def by (metis snd_conv)
  then show "R w (snd (bind_act m f w))"
    using m assms(2) trans unfolding keeps_def bind_act_def by (cases r) auto
qed

lemma keeps_catch:
  assumes "keeps R m" "\<And>e. keeps R (h e)" shows "keeps R (catch_act m h)"
  unfolding keeps_def
proof
  fix w
  obtain r w1 where m: "m w = (r, w1)" by fastforce
  then have "R w w1" using assms(1) unfolding keeps_def by (metis snd_conv)
  then show "R w (snd (catch_act m h w))"
    using m assms(2) trans unfolding keeps_def catch_act_def by (cases r) auto
qed

lemma keeps_lift_bind: "(\<And>y. r = Inr y \<Longrightarrow> keeps R (f y)) \<Longrightarrow> keeps R (bind_act (lift_res r) f)"
  by (cases r) (simp_all add: keeps_def refl)

lemmas keeps_rules = keeps_return keeps_lift keeps_bind keeps_catch

end

lemma keeps_ask: "(\<And>w. R w (snd (g w))) \<Longrightarrow> keeps R (ask g)"
  by (simp add: keeps_def)

end
