(* ===== verification/Workflow.thy ===== *)
theory Workflow
  imports Plan
begin

text \<open>
  The workflow domain (\<open>domain/workflow/\<close>): lifecycle states and their transition table, approval
  contracts, checkpoints and the \<open>ResearchWorkflow\<close> aggregate with the three operations that change
  it. A workflow that went through its constructor keeps its identity, its plan's company and run,
  and a checkpoint version that only grows.
\<close>

section \<open>Lifecycle\<close>

datatype workflow_status =
    Wf_CREATED | Wf_READY | Wf_RUNNING | Wf_PAUSED | Wf_AWAITING_APPROVAL
  | Wf_COMPLETED | Wf_PARTIAL | Wf_FAILED | Wf_CANCELLED

fun workflow_status_value :: "workflow_status \<Rightarrow> string" where
  "workflow_status_value Wf_CREATED = ''created''"
| "workflow_status_value Wf_READY = ''ready''"
| "workflow_status_value Wf_RUNNING = ''running''"
| "workflow_status_value Wf_PAUSED = ''paused''"
| "workflow_status_value Wf_AWAITING_APPROVAL = ''awaiting_approval''"
| "workflow_status_value Wf_COMPLETED = ''completed''"
| "workflow_status_value Wf_PARTIAL = ''partial''"
| "workflow_status_value Wf_FAILED = ''failed''"
| "workflow_status_value Wf_CANCELLED = ''cancelled''"

fun wf_allowed :: "workflow_status \<Rightarrow> workflow_status set" where
  "wf_allowed Wf_CREATED = {Wf_READY, Wf_AWAITING_APPROVAL, Wf_CANCELLED}"
| "wf_allowed Wf_READY = {Wf_RUNNING, Wf_AWAITING_APPROVAL, Wf_CANCELLED}"
| "wf_allowed Wf_RUNNING =
     {Wf_PAUSED, Wf_AWAITING_APPROVAL, Wf_COMPLETED, Wf_PARTIAL, Wf_FAILED, Wf_CANCELLED}"
| "wf_allowed Wf_PAUSED = {Wf_READY, Wf_RUNNING, Wf_CANCELLED}"
| "wf_allowed Wf_AWAITING_APPROVAL = {Wf_READY, Wf_CANCELLED, Wf_FAILED}"
| "wf_allowed Wf_COMPLETED = {}"
| "wf_allowed Wf_PARTIAL = {}"
| "wf_allowed Wf_FAILED = {}"
| "wf_allowed Wf_CANCELLED = {}"

definition assert_transition :: "workflow_status \<Rightarrow> workflow_status \<Rightarrow> unit res" where
  "assert_transition current new =
     (if new \<notin> wf_allowed current
      then Inl (WorkflowTransitionError (''invalid workflow transition '' @
             workflow_status_value current @ '' -> '' @ workflow_status_value new))
      else Inr ())"

definition is_terminal :: "workflow_status \<Rightarrow> bool" where
  "is_terminal s \<longleftrightarrow> s \<in> {Wf_COMPLETED, Wf_PARTIAL, Wf_FAILED, Wf_CANCELLED}"

lemma assert_transition_Inr_iff [simp]: "assert_transition a b = Inr u \<longleftrightarrow> b \<in> wf_allowed a"
  by (simp add: assert_transition_def)

text \<open>\<open>is_terminal\<close> names exactly the states without a successor.\<close>

interpretation workflow_lc: lifecycle wf_allowed is_terminal
  by unfold_locales (case_tac s; simp add: is_terminal_def)

text \<open>The statuses a record can have reached by any number of table entries.\<close>

definition reaches :: "workflow_status \<Rightarrow> workflow_status \<Rightarrow> bool" where
  "reaches = (\<lambda>s t. t \<in> wf_allowed s)\<^sup>*\<^sup>*"

lemma reaches_refl [simp]: "reaches s s"
  by (simp add: reaches_def)

lemma reaches_trans: "reaches s t \<Longrightarrow> reaches t u \<Longrightarrow> reaches s u"
  unfolding reaches_def by (rule rtranclp_trans)

lemma reaches_step: "t \<in> wf_allowed s \<Longrightarrow> reaches s t"
  unfolding reaches_def by blast

lemma reaches_terminal: "is_terminal s \<Longrightarrow> reaches s t \<Longrightarrow> t = s"
  unfolding reaches_def
  by (erule converse_rtranclpE) (use workflow_lc.final_no_successor in auto)

section \<open>Approval\<close>

datatype approval_status =
  Approval_NOT_REQUIRED | Approval_PENDING | Approval_APPROVED | Approval_REJECTED

fun approval_status_value :: "approval_status \<Rightarrow> string" where
  "approval_status_value Approval_NOT_REQUIRED = ''not_required''"
| "approval_status_value Approval_PENDING = ''pending''"
| "approval_status_value Approval_APPROVED = ''approved''"
| "approval_status_value Approval_REJECTED = ''rejected''"

record approval_requirement =
  approval_required :: bool
  approval_reason :: string

definition requirement_post_init :: "approval_requirement \<Rightarrow> approval_requirement res" where
  "requirement_post_init r =
     (let text = norm_text (approval_reason r) in
      if text = [] \<or> length text > 512
      then Inl (ValueError ''approval reason empty or exceeds bounds'')
      else if has_control_chars text
      then Inl (ValueError ''approval reason must not contain control characters'')
      else Inr (r\<lparr>approval_reason := text\<rparr>))"

record approval_decision =
  decision_status :: approval_status
  decided_at :: datetime
  decision_note :: "string option"
  decision_source :: string

text \<open>The optional note: its normal form, \<open>None\<close> when that is empty.\<close>

definition check_note :: "string option \<Rightarrow> string option res" where
  "check_note n =
     (case n of None \<Rightarrow> Inr None
      | Some raw \<Rightarrow>
          let note = norm_text raw in
          if length note > 512 then Inl (ValueError ''approval note exceeds bounds'')
          else if has_control_chars note
          then Inl (ValueError ''approval note must not contain control characters'')
          else Inr (if note = [] then None else Some note))"

definition decision_post_init :: "approval_decision \<Rightarrow> approval_decision res" where
  "decision_post_init d =
     (if \<not> tz_aware (decided_at d) then Inl (ValueError ''decided_at must be timezone-aware'')
      else if decision_status d \<notin> {Approval_APPROVED, Approval_REJECTED}
      then Inl (ValueError ''decision status must be approved or rejected'')
      else
        let source = norm_text (decision_source d) in
        if source = [] \<or> length source > 64
        then Inl (ValueError ''decision_source empty or exceeds bounds'')
        else if has_control_chars source
        then Inl (ValueError ''decision_source must not contain control characters'')
        else and_then (check_note (decision_note d)) (\<lambda>note.
               Inr (d\<lparr>decision_source := source, decision_note := note\<rparr>)))"

section \<open>Checkpoints\<close>

datatype workflow_id = WorkflowId (workflow_id_text: uuid)

definition mk_workflow_id :: "uuid \<Rightarrow> workflow_id res" where
  "mk_workflow_id u =
     (if \<not> uuid_is_v4 u then Inl (ValueError ''workflow_id must be a UUIDv4'') else Inr (WorkflowId u))"

lemma workflow_id_text_eq_iff [simp]: "workflow_id_text a = workflow_id_text b \<longleftrightarrow> a = b"
  by (cases a; cases b) simp

record checkpoint =
  ck_workflow_id :: workflow_id
  ck_run_id :: research_run_id
  ck_version :: int
  ck_plan :: research_plan
  ck_created_at :: datetime
  ck_attempts :: int
  ck_calls :: int
  ck_warnings :: "string list"
  ck_results :: "task_result list"
  ck_evidence :: "evidence_ref list"
  ck_message :: string

definition checkpoint_post_init :: "checkpoint \<Rightarrow> checkpoint res" where
  "checkpoint_post_init c =
     (if \<not> tz_aware (ck_created_at c)
      then Inl (ValueError ''checkpoint created_at must be timezone-aware'')
      else if ck_version c < 1 then Inl (ValueError ''checkpoint version must be >= 1'')
      else if ck_attempts c < 0 \<or> ck_calls c < 0
      then Inl (ValueError ''attempt counters must be non-negative'')
      else if run_id_text (plan_run_id (ck_plan c)) \<noteq> run_id_text (ck_run_id c)
      then Inl (ValueError ''checkpoint research_run_id must match plan'')
      else
        let text = norm_text (ck_message c) in
        if text = [] \<or> length text > 1000
        then Inl (ValueError ''checkpoint message empty or exceeds bounds'')
        else Inr (c\<lparr>ck_message := text\<rparr>))"

text \<open>The four task-id properties select by status.\<close>

definition ck_task_ids :: "task_status set \<Rightarrow> checkpoint \<Rightarrow> string list" where
  "ck_task_ids sts c = map task_key (filter (\<lambda>t. task_status t \<in> sts) (plan_tasks (ck_plan c)))"

definition completed_task_ids :: "checkpoint \<Rightarrow> string list" where
  "completed_task_ids = ck_task_ids {Task_SUCCEEDED}"

definition pending_task_ids :: "checkpoint \<Rightarrow> string list" where
  "pending_task_ids = ck_task_ids {Task_PENDING, Task_READY}"

definition failed_task_ids :: "checkpoint \<Rightarrow> string list" where
  "failed_task_ids = ck_task_ids {Task_FAILED}"

definition blocked_task_ids :: "checkpoint \<Rightarrow> string list" where
  "blocked_task_ids = ck_task_ids {Task_BLOCKED}"

section \<open>The workflow aggregate\<close>

record workflow_company_query =
  wq_raw_query :: string
  wq_country :: "country_code option"
  wq_exchange :: "exchange_code option"
  wq_ticker :: "ticker_symbol option"

definition workflow_query_post_init :: "workflow_company_query \<Rightarrow> workflow_company_query res" where
  "workflow_query_post_init q =
     (let text = py_strip (wq_raw_query q) in
      if length text > 200 then Inl (ValueError ''raw_query exceeds bounds'')
      else Inr (q\<lparr>wq_raw_query := text\<rparr>))"

record research_workflow =
  rw_id :: workflow_id
  rw_run_id :: research_run_id
  rw_request_id :: request_id
  rw_company_id :: company_id
  rw_objective :: objective
  rw_plan :: research_plan
  rw_company_query :: workflow_company_query
  rw_status :: workflow_status
  rw_approval_status :: approval_status
  rw_requirement :: approval_requirement
  rw_created_at :: datetime
  rw_updated_at :: datetime
  rw_version :: int
  rw_checkpoint :: "checkpoint option"
  rw_decision :: "approval_decision option"
  rw_message :: "string option"
  rw_completed_count :: nat
  rw_failed_count :: nat
  rw_blocked_count :: nat
  rw_partial_count :: nat
  rw_evidence_count :: nat
  rw_warnings :: "string list"

text \<open>The constructor's checks; \<open>dataclasses.replace\<close> runs them on every update.\<close>

definition workflow_post_init :: "research_workflow \<Rightarrow> research_workflow res" where
  "workflow_post_init w =
     (if \<not> tz_aware (rw_created_at w) \<or> \<not> tz_aware (rw_updated_at w)
      then Inl (ValueError ''workflow timestamps must be timezone-aware'')
      else if run_id_text (plan_run_id (rw_plan w)) \<noteq> run_id_text (rw_run_id w)
      then Inl (ValueError ''workflow research_run_id must match plan'')
      else if plan_company_id (rw_plan w) \<noteq> rw_company_id w
      then Inl (ValueError ''workflow company_id must match plan'')
      else if rw_version w < 0 then Inl (ValueError ''checkpoint_version must be non-negative'')
      else if (case rw_checkpoint w of None \<Rightarrow> False | Some c \<Rightarrow> ck_workflow_id c \<noteq> rw_id w)
      then Inl (ValueError ''checkpoint workflow_id mismatch'')
      else Inr w)"

definition rw_with_status ::
    "research_workflow \<Rightarrow> workflow_status \<Rightarrow> datetime \<Rightarrow> research_workflow res" where
  "rw_with_status w status at' =
     (if \<not> tz_aware at' then Inl (ValueError ''transition timestamp must be timezone-aware'')
      else and_then (assert_transition (rw_status w) status) (\<lambda>_.
             workflow_post_init (w\<lparr>rw_status := status, rw_updated_at := at'\<rparr>)))"

definition with_checkpoint ::
    "research_workflow \<Rightarrow> checkpoint \<Rightarrow> datetime \<Rightarrow> research_workflow res" where
  "with_checkpoint w c at' =
     (if ck_workflow_id c \<noteq> rw_id w then Inl (ValueError ''checkpoint workflow_id mismatch'')
      else if ck_version c \<noteq> rw_version w + 1
      then Inl (ValueError (''checkpoint version must be '' @ int_text (rw_version w + 1) @
             '', got '' @ int_text (ck_version c)))
      else workflow_post_init (w\<lparr>rw_plan := ck_plan c, rw_checkpoint := Some c,
             rw_version := ck_version c, rw_updated_at := at', rw_warnings := ck_warnings c\<rparr>))"

definition with_approval ::
    "research_workflow \<Rightarrow> approval_decision \<Rightarrow> datetime \<Rightarrow> workflow_status \<Rightarrow> research_workflow res" where
  "with_approval w d at' next_status =
     (if rw_approval_status w \<noteq> Approval_PENDING
      then Inl (ValueError (''cannot decide approval when status is '' @
             approval_status_value (rw_approval_status w)))
      else if is_terminal (rw_status w)
      then Inl (ValueError ''cannot approve/reject a terminal workflow'')
      else and_then (rw_with_status w next_status at') (\<lambda>u.
             workflow_post_init (u\<lparr>rw_approval_status := decision_status d, rw_decision := Some d,
               rw_updated_at := at'\<rparr>)))"

section \<open>What the constructor guarantees and the updates keep\<close>

definition wf_workflow :: "research_workflow \<Rightarrow> bool" where
  "wf_workflow w \<longleftrightarrow> workflow_post_init w = Inr w"

lemma workflow_post_init_Inr_iff:
  "workflow_post_init w = Inr w' \<longleftrightarrow>
     w' = w \<and> tz_aware (rw_created_at w) \<and> tz_aware (rw_updated_at w) \<and>
     run_id_text (plan_run_id (rw_plan w)) = run_id_text (rw_run_id w) \<and>
     plan_company_id (rw_plan w) = rw_company_id w \<and> 0 \<le> rw_version w \<and>
     (\<forall>c. rw_checkpoint w = Some c \<longrightarrow> ck_workflow_id c = rw_id w)"
  by (auto simp: workflow_post_init_def split: option.splits)

lemmas wf_workflow_iff = wf_workflow_def workflow_post_init_Inr_iff

text \<open>The fields no update touches.\<close>

definition same_identity :: "research_workflow \<Rightarrow> research_workflow \<Rightarrow> bool" where
  "same_identity a b \<longleftrightarrow>
     rw_id a = rw_id b \<and> rw_run_id a = rw_run_id b \<and> rw_request_id a = rw_request_id b \<and>
     rw_company_id a = rw_company_id b \<and> rw_objective a = rw_objective b \<and>
     rw_company_query a = rw_company_query b \<and> rw_requirement a = rw_requirement b \<and>
     rw_created_at a = rw_created_at b"

lemma same_identity_refl [simp]: "same_identity a a"
  by (simp add: same_identity_def)

lemma same_identity_trans: "same_identity a b \<Longrightarrow> same_identity b c \<Longrightarrow> same_identity a c"
  by (simp add: same_identity_def)

lemma rw_with_status_Inr_iff:
  "rw_with_status w st at' = Inr u \<longleftrightarrow>
     tz_aware at' \<and> st \<in> wf_allowed (rw_status w) \<and> u = w\<lparr>rw_status := st, rw_updated_at := at'\<rparr> \<and>
     wf_workflow (w\<lparr>rw_status := st, rw_updated_at := at'\<rparr>)"
  by (auto simp: rw_with_status_def and_then_Inr_iff wf_workflow_iff)

lemma with_checkpoint_Inr_iff:
  "with_checkpoint w c at' = Inr u \<longleftrightarrow>
     ck_workflow_id c = rw_id w \<and> ck_version c = rw_version w + 1 \<and>
     u = w\<lparr>rw_plan := ck_plan c, rw_checkpoint := Some c, rw_version := ck_version c,
           rw_updated_at := at', rw_warnings := ck_warnings c\<rparr> \<and> wf_workflow u"
  by (auto simp: with_checkpoint_def wf_workflow_iff)

lemma with_approval_Inr_iff:
  "with_approval w d at' st = Inr u \<longleftrightarrow>
     rw_approval_status w = Approval_PENDING \<and> tz_aware at' \<and> st \<in> wf_allowed (rw_status w) \<and>
     u = w\<lparr>rw_status := st, rw_updated_at := at', rw_approval_status := decision_status d,
           rw_decision := Some d\<rparr> \<and> wf_workflow u"
proof -
  have *: "w\<lparr>rw_status := st, rw_updated_at := at'\<rparr>
      \<lparr>rw_approval_status := decision_status d, rw_decision := Some d, rw_updated_at := at'\<rparr> =
    w\<lparr>rw_status := st, rw_updated_at := at', rw_approval_status := decision_status d,
      rw_decision := Some d\<rparr>" by simp
  show ?thesis
    unfolding with_approval_def and_then_Inr_iff rw_with_status_Inr_iff
    by (auto simp: wf_workflow_iff and_then_Inr_iff rw_with_status_Inr_iff
        dest: workflow_lc.final_no_successor)
qed

text \<open>On a constructed workflow, a status change fails only for the transition table.\<close>

lemma rw_with_status_wf:
  assumes "wf_workflow w" "tz_aware at'"
  shows "rw_with_status w st at' =
    (if st \<in> wf_allowed (rw_status w) then Inr (w\<lparr>rw_status := st, rw_updated_at := at'\<rparr>)
     else Inl (WorkflowTransitionError (''invalid workflow transition '' @
       workflow_status_value (rw_status w) @ '' -> '' @ workflow_status_value st)))"
  using assms by (auto simp: rw_with_status_def wf_workflow_iff assert_transition_def)

lemma updates_keep:
  "rw_with_status w st at' = Inr u \<Longrightarrow>
     wf_workflow u \<and> same_identity w u \<and> rw_version u = rw_version w \<and> reaches (rw_status w) (rw_status u)"
  "with_checkpoint w c at' = Inr u \<Longrightarrow>
     wf_workflow u \<and> same_identity w u \<and> rw_version u = rw_version w + 1 \<and> rw_status u = rw_status w"
  "with_approval w d at' st = Inr u \<Longrightarrow>
     wf_workflow u \<and> same_identity w u \<and> rw_version u = rw_version w \<and> reaches (rw_status w) (rw_status u)"
  by (auto simp: rw_with_status_Inr_iff with_checkpoint_Inr_iff with_approval_Inr_iff same_identity_def
      intro: reaches_step)

section \<open>Governed workflows\<close>

text \<open>
  A workflow is \<open>cleared\<close> for execution when its approval is not open and not refused, and given if
  it is required. A \<open>governed\<close> workflow is cleared whenever its status says that it may run, runs
  or ran; only a failed, cancelled or waiting one need not be.
\<close>

definition cleared :: "research_workflow \<Rightarrow> bool" where
  "cleared w \<longleftrightarrow> rw_approval_status w \<notin> {Approval_PENDING, Approval_REJECTED} \<and>
     (approval_required (rw_requirement w) \<longrightarrow> rw_approval_status w = Approval_APPROVED)"

definition may_have_run :: "workflow_status \<Rightarrow> bool" where
  "may_have_run s \<longleftrightarrow> s \<in> {Wf_READY, Wf_RUNNING, Wf_PAUSED, Wf_COMPLETED, Wf_PARTIAL}"

definition governed :: "research_workflow \<Rightarrow> bool" where
  "governed w \<longleftrightarrow> wf_workflow w \<and> (may_have_run (rw_status w) \<longrightarrow> cleared w)"

lemma governed_with_status:
  assumes "rw_with_status x st at' = Inr y" "cleared x \<or> \<not> may_have_run st"
  shows "governed y" "cleared y = cleared x" "rw_status y = st"
  using assms by (auto simp: governed_def cleared_def rw_with_status_Inr_iff)

lemma governed_with_checkpoint:
  assumes "with_checkpoint x c at' = Inr y" "governed x"
  shows "governed y" "cleared y = cleared x" "rw_status y = rw_status x"
  using assms by (auto simp: governed_def cleared_def with_checkpoint_Inr_iff)

lemma governed_with_approval:
  assumes "with_approval x d at' st = Inr y"
    "decision_status d = Approval_APPROVED \<or> \<not> may_have_run st"
  shows "governed y" "rw_status y = st"
  using assms by (auto simp: governed_def cleared_def with_approval_Inr_iff)

lemma governed_cleared: "governed x \<Longrightarrow> may_have_run (rw_status x) \<Longrightarrow> cleared x"
  by (simp add: governed_def)

lemma may_have_run_simps [simp]:
  "may_have_run Wf_READY" "may_have_run Wf_RUNNING" "may_have_run Wf_PAUSED"
  "\<not> may_have_run Wf_FAILED" "\<not> may_have_run Wf_CANCELLED" "\<not> may_have_run Wf_AWAITING_APPROVAL"
  by (simp_all add: may_have_run_def)

lemma governed_update [simp]:
  "governed (x\<lparr>rw_message := m\<rparr>) = governed x" "governed (x\<lparr>rw_warnings := ws\<rparr>) = governed x"
  by (simp_all add: governed_def cleared_def wf_workflow_iff)

lemma workflow_post_init_eq: "workflow_post_init x = Inr y \<Longrightarrow> y = x"
  by (simp add: workflow_post_init_Inr_iff)

text \<open>Only the fields it names decide whether a workflow is governed.\<close>

lemma governed_cong:
  assumes "governed x" "workflow_post_init y = Inr z" "rw_status y = rw_status x"
    "rw_approval_status y = rw_approval_status x" "rw_requirement y = rw_requirement x"
  shows "governed z" "cleared z = cleared x"
  using assms by (auto simp: governed_def cleared_def wf_workflow_iff workflow_post_init_Inr_iff)

end
