(* ===== verification/Workflow_Store.thy ===== *)
theory Workflow_Store
  imports Workflow
begin

text \<open>
  The workflow store (\<open>infrastructure/workflow/in_memory_store.py\<close>): two dictionaries behind one
  lock, so that every method is one atomic step. The store refines an abstract map from workflow
  ids to records that only \<open>evolve\<close>: a record keeps its identity, moves along the transition table
  and never loses a checkpoint version.
\<close>

section \<open>The two dictionaries\<close>

text \<open>Dictionaries keep insertion order; an update keeps the position of its key.\<close>

record wf_store =
  st_workflows :: "(string \<times> research_workflow) list"
  st_checkpoints :: "(string \<times> checkpoint) list"

definition empty_store :: wf_store where
  "empty_store = \<lparr>st_workflows = [], st_checkpoints = []\<rparr>"

definition rw_key :: "research_workflow \<Rightarrow> string" where
  "rw_key w = workflow_id_text (rw_id w)"

text \<open>The guards against the stored record \<open>e\<close>, in the order of the source.\<close>

definition check_existing :: "research_workflow \<Rightarrow> research_workflow \<Rightarrow> unit res" where
  "check_existing e w =
     (if run_id_text (rw_run_id e) \<noteq> run_id_text (rw_run_id w)
      then Inl (WorkflowStoreError (''duplicate workflow_id: '' @ rw_key w))
      else if request_id_text (rw_request_id e) \<noteq> request_id_text (rw_request_id w)
      then Inl (WorkflowStoreError (''workflow request_id immutable for '' @ rw_key w))
      else if rw_company_id e \<noteq> rw_company_id w
      then Inl (WorkflowStoreError (''workflow company_id immutable for '' @ rw_key w))
      else if plan_id_text (plan_id (rw_plan e)) \<noteq> plan_id_text (plan_id (rw_plan w))
      then Inl (WorkflowStoreError (''workflow plan_id immutable for '' @ rw_key w))
      else and_then (if rw_status w \<noteq> rw_status e then assert_transition (rw_status e) (rw_status w)
                     else Inr ()) (\<lambda>_.
           if rw_version w < rw_version e
           then Inl (WorkflowStoreError (''workflow checkpoint_version regression for '' @ rw_key w @
                  '': '' @ int_text (rw_version w) @ '' < '' @ int_text (rw_version e)))
           else Inr ()))"

definition save_workflow :: "research_workflow \<Rightarrow> wf_store \<Rightarrow> wf_store res" where
  "save_workflow w s =
     and_then (case map_of (st_workflows s) (rw_key w) of None \<Rightarrow> Inr () | Some e \<Rightarrow> check_existing e w)
       (\<lambda>_. Inr (s\<lparr>st_workflows := AList.update (rw_key w) w (st_workflows s)\<rparr>))"

definition get_workflow :: "workflow_id \<Rightarrow> wf_store \<Rightarrow> research_workflow option" where
  "get_workflow i s = map_of (st_workflows s) (workflow_id_text i)"

text \<open>\<open>items.sort(key=(created_at.isoformat(), workflow_id.as_text()))\<close>, stable, then a slice.\<close>

definition list_workflows ::
    "workflow_status option \<Rightarrow> string option \<Rightarrow> int \<Rightarrow> int \<Rightarrow> wf_store \<Rightarrow> research_workflow list res"
where
  "list_workflows status company limit offset s =
     (if limit < 1 \<or> limit > 200 then Inl (WorkflowStoreError ''limit must be between 1 and 200'')
      else if offset < 0 then Inl (WorkflowStoreError ''offset must be non-negative'')
      else
        let items = map snd (st_workflows s);
            items = (case status of None \<Rightarrow> items | Some st \<Rightarrow> filter (\<lambda>w. rw_status w = st) items);
            items = (case company of None \<Rightarrow> items
                     | Some c \<Rightarrow> filter (\<lambda>w. company_id_text (rw_company_id w) = c) items);
            items = sort_key (\<lambda>w. (isoformat (rw_created_at w), rw_key w)) items
        in Inr (take (nat limit) (drop (nat offset) items)))"

definition check_owner :: "research_workflow \<Rightarrow> checkpoint \<Rightarrow> unit res" where
  "check_owner w c =
     (if run_id_text (rw_run_id w) \<noteq> run_id_text (ck_run_id c)
      then Inl (WorkflowStoreError ''checkpoint research_run_id mismatch with workflow'')
      else if plan_id_text (plan_id (rw_plan w)) \<noteq> plan_id_text (plan_id (ck_plan c))
      then Inl (WorkflowStoreError ''checkpoint plan_id mismatch with workflow'')
      else if plan_company_id (ck_plan c) \<noteq> rw_company_id w
      then Inl (WorkflowStoreError ''checkpoint company_id mismatch with workflow'')
      else Inr ())"

definition ck_key :: "checkpoint \<Rightarrow> string" where
  "ck_key c = workflow_id_text (ck_workflow_id c)"

definition save_checkpoint :: "checkpoint \<Rightarrow> wf_store \<Rightarrow> wf_store res" where
  "save_checkpoint c s =
     and_then (case map_of (st_workflows s) (ck_key c) of None \<Rightarrow> Inr () | Some w \<Rightarrow> check_owner w c)
       (\<lambda>_. case map_of (st_checkpoints s) (ck_key c) of
          None \<Rightarrow> Inr (s\<lparr>st_checkpoints := AList.update (ck_key c) c (st_checkpoints s)\<rparr>)
        | Some cur \<Rightarrow>
            if ck_version c \<le> ck_version cur
            then Inl (WorkflowStoreError (''checkpoint version '' @ int_text (ck_version c) @
                   '' must exceed stored version '' @ int_text (ck_version cur)))
            else Inr (s\<lparr>st_checkpoints := AList.update (ck_key c) c (st_checkpoints s)\<rparr>))"

definition get_latest_checkpoint :: "workflow_id \<Rightarrow> wf_store \<Rightarrow> checkpoint option" where
  "get_latest_checkpoint i s = map_of (st_checkpoints s) (workflow_id_text i)"

section \<open>Well-formed stores\<close>

text \<open>Every dictionary has distinct keys, each the id of its value.\<close>

definition wf_dict :: "('a \<Rightarrow> string) \<Rightarrow> (string \<times> 'a) list \<Rightarrow> bool" where
  "wf_dict key d \<longleftrightarrow> distinct (map fst d) \<and> list_all (\<lambda>(k, v). key v = k) d"

definition wf_store :: "wf_store \<Rightarrow> bool" where
  "wf_store s \<longleftrightarrow> wf_dict rw_key (st_workflows s) \<and> wf_dict ck_key (st_checkpoints s)"

lemma wf_dict_update: "wf_dict key d \<Longrightarrow> wf_dict key (AList.update (key v) v d)"
proof -
  have "list_all (\<lambda>(k, v). key v = k) d \<Longrightarrow> list_all (\<lambda>(k, v). key v = k) (AList.update (key v) v d)"
    by (induction d) auto
  then show "wf_dict key d \<Longrightarrow> wf_dict key (AList.update (key v) v d)"
    by (simp add: wf_dict_def AList.distinct_update)
qed

lemma wf_dict_map_of: "wf_dict key d \<Longrightarrow> map_of d k = Some v \<Longrightarrow> key v = k"
  by (auto simp: wf_dict_def list_all_iff dest!: map_of_SomeD)

lemma wf_dict_values:
  assumes "wf_dict key d" shows "v \<in> set (map snd d) \<longleftrightarrow> map_of d (key v) = Some v"
  using assms by (auto simp: wf_dict_def list_all_iff image_iff Bex_def dest!: map_of_SomeD)

lemma wf_dict_distinct:
  assumes "wf_dict key d" shows "distinct (map key (map snd d))"
proof -
  have "map key (map snd d) = map fst d" using assms by (auto simp: wf_dict_def list_all_iff)
  then show ?thesis using assms unfolding wf_dict_def by metis
qed

lemma wf_empty_store [simp]: "wf_store empty_store"
  by (simp add: wf_store_def wf_dict_def empty_store_def)

lemma wf_store_ops:
  "wf_store s \<Longrightarrow> save_workflow w s = Inr s' \<Longrightarrow> wf_store s'"
  "wf_store s \<Longrightarrow> save_checkpoint c s = Inr s' \<Longrightarrow> wf_store s'"
  by (auto simp: wf_store_def save_workflow_def save_checkpoint_def and_then_Inr_iff wf_dict_update
      split: option.splits if_splits)

section \<open>The abstract store\<close>

text \<open>
  What a store promises of the record \<open>e\<close> it holds: any later record \<open>w\<close> under the same key has the
  same run, request, company and plan, a status that the transition table reaches, and no smaller
  checkpoint version.
\<close>

definition evolves_to :: "research_workflow \<Rightarrow> research_workflow \<Rightarrow> bool" where
  "evolves_to e w \<longleftrightarrow>
     run_id_text (rw_run_id e) = run_id_text (rw_run_id w) \<and> rw_request_id e = rw_request_id w \<and>
     rw_company_id e = rw_company_id w \<and> plan_id (rw_plan e) = plan_id (rw_plan w) \<and>
     reaches (rw_status e) (rw_status w) \<and> rw_version e \<le> rw_version w"

type_synonym workflow_map = "string \<rightharpoonup> research_workflow"

definition evolves :: "workflow_map \<Rightarrow> workflow_map \<Rightarrow> bool" where
  "evolves m m' \<longleftrightarrow> (\<forall>k e. m k = Some e \<longrightarrow> (\<exists>w. m' k = Some w \<and> evolves_to e w))"

definition accepts :: "workflow_map \<Rightarrow> research_workflow \<Rightarrow> bool" where
  "accepts m w \<longleftrightarrow> (case m (rw_key w) of None \<Rightarrow> True | Some e \<Rightarrow> check_existing e w = Inr ())"

lemma evolves_to_refl [simp]: "evolves_to e e"
  by (simp add: evolves_to_def)

lemma evolves_to_trans: "evolves_to a b \<Longrightarrow> evolves_to b c \<Longrightarrow> evolves_to a c"
  by (auto simp: evolves_to_def intro: reaches_trans)

lemma evolves_refl [simp]: "evolves m m"
  by (simp add: evolves_def)

lemma evolves_trans: "evolves a b \<Longrightarrow> evolves b c \<Longrightarrow> evolves a c"
  unfolding evolves_def by (meson evolves_to_trans)

lemma check_existing_iff:
  "check_existing e w = Inr () \<longleftrightarrow>
     run_id_text (rw_run_id e) = run_id_text (rw_run_id w) \<and> rw_request_id e = rw_request_id w \<and>
     rw_company_id e = rw_company_id w \<and> plan_id (rw_plan e) = plan_id (rw_plan w) \<and>
     (rw_status w = rw_status e \<or> rw_status w \<in> wf_allowed (rw_status e)) \<and> rw_version e \<le> rw_version w"
  by (auto simp: check_existing_def and_then_Inr_iff)

lemma check_existing_evolves: "check_existing e w = Inr () \<Longrightarrow> evolves_to e w"
  by (auto simp: check_existing_iff evolves_to_def intro: reaches_step)

lemma accepts_evolves: "accepts m w \<Longrightarrow> evolves m (m(rw_key w \<mapsto> w))"
  by (auto simp: accepts_def evolves_def check_existing_evolves split: option.splits)

lemma check_existing_error:
  "check_existing e w = Inl x \<Longrightarrow>
     (\<exists>m. x = WorkflowStoreError m) \<or>
     (\<exists>m. x = WorkflowTransitionError m) \<and> rw_status w \<notin> wf_allowed (rw_status e) \<and> rw_status w \<noteq> rw_status e"
  by (auto simp: check_existing_def and_then_Inl_iff assert_transition_def split: if_splits)

text \<open>A terminal record stays what it is.\<close>

lemma evolves_terminal:
  assumes "evolves m m'" "m k = Some e" "is_terminal (rw_status e)"
  obtains w where "m' k = Some w" "rw_status w = rw_status e"
  using assms reaches_terminal unfolding evolves_def evolves_to_def by metis

text \<open>The dictionary as a map, and what the methods do to it.\<close>

definition store_view :: "wf_store \<Rightarrow> workflow_map" where
  "store_view s = map_of (st_workflows s)"

lemma save_workflow_refines:
  "save_workflow w s = Inr s' \<longleftrightarrow> accepts (store_view s) w \<and>
     s' = s\<lparr>st_workflows := AList.update (rw_key w) w (st_workflows s)\<rparr>"
  by (auto simp: save_workflow_def accepts_def store_view_def split: option.splits)

lemma store_view_update [simp]:
  "store_view (s\<lparr>st_workflows := AList.update k w (st_workflows s)\<rparr>) = (store_view s)(k \<mapsto> w)"
  by (simp add: store_view_def update_conv')

lemma save_checkpoint_view: "save_checkpoint c s = Inr s' \<Longrightarrow> st_workflows s' = st_workflows s"
  by (auto simp: save_checkpoint_def and_then_Inr_iff split: option.splits if_splits)

lemma list_workflows_set:
  assumes "list_workflows st co limit offset s = Inr ws" "wf_store s" "w \<in> set ws"
  shows "store_view s (rw_key w) = Some w \<and> (\<forall>x. st = Some x \<longrightarrow> rw_status w = x) \<and>
    (\<forall>c. co = Some c \<longrightarrow> company_id_text (rw_company_id w) = c)"
proof -
  have "w \<in> set (map snd (st_workflows s))" "\<forall>x. st = Some x \<longrightarrow> rw_status w = x"
    "\<forall>c. co = Some c \<longrightarrow> company_id_text (rw_company_id w) = c"
    using assms(1,3)
    by (auto simp: list_workflows_def Let_def split: if_splits option.splits dest!: in_set_takeD in_set_dropD)
  then show ?thesis using assms(2) wf_dict_values unfolding wf_store_def store_view_def by metis
qed

end
