(* ===== verification/Research_Memory.thy ===== *)
theory Research_Memory
  imports Workflow_Store
begin

text \<open>
  Structured research memory (\<open>domain/memory/model.py\<close>) and its in-memory store
  (\<open>infrastructure/memory/in_memory_store.py\<close>): one record per workflow task, never replaced.
\<close>

section \<open>Records\<close>

datatype memory_record_id = MemoryRecordId (memory_id_text: uuid)

definition mk_memory_id :: "uuid \<Rightarrow> memory_record_id res" where
  "mk_memory_id u = (if \<not> uuid_is_v4 u then Inl (ValueError ''memory record_id must be a UUIDv4'')
     else Inr (MemoryRecordId u))"

datatype memory_status = Mem_SUCCEEDED | Mem_PARTIAL | Mem_FAILED | Mem_SKIPPED

fun memory_status_value :: "memory_status \<Rightarrow> string" where
  "memory_status_value Mem_SUCCEEDED = ''succeeded''"
| "memory_status_value Mem_PARTIAL = ''partial''"
| "memory_status_value Mem_FAILED = ''failed''"
| "memory_status_value Mem_SKIPPED = ''skipped''"

record memory_record =
  mr_id :: memory_record_id
  mr_workflow_id :: workflow_id
  mr_run_id :: research_run_id
  mr_company_id :: company_id
  mr_capability :: string
  mr_task_id :: task_id
  mr_status :: memory_status
  mr_summary :: string
  mr_created_at :: datetime
  mr_evidence :: "evidence_ref list"
  mr_as_of :: "datetime option"
  mr_origin :: "data_origin option"

definition memory_post_init :: "memory_record \<Rightarrow> memory_record res" where
  "memory_post_init r =
     (if \<not> tz_aware (mr_created_at r)
      then Inl (ValueError ''memory created_at must be timezone-aware'')
      else if naive_stamp (mr_as_of r) then Inl (ValueError ''memory as_of must be timezone-aware'')
      else
        let cap = norm_text (mr_capability r); summary = norm_text (mr_summary r) in
        if cap = [] \<or> length cap > 128 then Inl (ValueError ''capability empty or exceeds bounds'')
        else if summary = [] \<or> length summary > 1000
        then Inl (ValueError ''summary empty or exceeds bounds'')
        else if list_ex (\<lambda>e. ref_company_id e \<noteq> mr_company_id r) (mr_evidence r)
        then Inl (ValueError ''memory evidence company_id mismatch'')
        else Inr (r\<lparr>mr_capability := cap, mr_summary := summary\<rparr>))"

section \<open>The store\<close>

record memory_store =
  mem_records :: "(string \<times> memory_record) list"
  mem_task_keys :: "string set"

definition empty_memory :: memory_store where
  "empty_memory = \<lparr>mem_records = [], mem_task_keys = {}\<rparr>"

definition memory_task_key :: "memory_record \<Rightarrow> string" where
  "memory_task_key r = workflow_id_text (mr_workflow_id r) @ '':'' @ task_id_text (mr_task_id r)"

definition memory_append :: "memory_record \<Rightarrow> memory_store \<Rightarrow> memory_store res" where
  "memory_append r s =
     (let key = memory_id_text (mr_id r); task_key = memory_task_key r in
      if key \<in> fst ` set (mem_records s)
      then Inl (ResearchMemoryStoreError (''duplicate memory record_id: '' @ key))
      else if task_key \<in> mem_task_keys s
      then Inl (ResearchMemoryStoreError (''duplicate memory for workflow task: '' @ task_key))
      else Inr (s\<lparr>mem_records := mem_records s @ [(key, r)],
                  mem_task_keys := insert task_key (mem_task_keys s)\<rparr>))"

definition memory_get :: "memory_record_id \<Rightarrow> memory_store \<Rightarrow> memory_record option" where
  "memory_get i s = map_of (mem_records s) (memory_id_text i)"

definition memory_sorted :: "memory_record list \<Rightarrow> memory_record list" where
  "memory_sorted = sort_key (\<lambda>r. (isoformat (mr_created_at r), memory_id_text (mr_id r)))"

definition list_for_workflow :: "workflow_id \<Rightarrow> int \<Rightarrow> memory_store \<Rightarrow> memory_record list res" where
  "list_for_workflow i limit s =
     (if limit < 1 \<or> limit > 500
      then Inl (ResearchMemoryStoreError ''limit must be between 1 and 500'')
      else Inr (take (nat limit) (memory_sorted
             (filter (\<lambda>r. workflow_id_text (mr_workflow_id r) = workflow_id_text i)
               (map snd (mem_records s))))))"

definition list_for_company :: "company_id \<Rightarrow> int \<Rightarrow> memory_store \<Rightarrow> memory_record list res" where
  "list_for_company i limit s =
     (if limit < 1 \<or> limit > 500
      then Inl (ResearchMemoryStoreError ''limit must be between 1 and 500'')
      else Inr (take (nat limit) (memory_sorted
             (filter (\<lambda>r. mr_company_id r = i) (map snd (mem_records s))))))"

section \<open>One record per task\<close>

text \<open>
  The keys are the ids of the records; the task keys are those of the records; both are distinct.
\<close>

definition wf_memory :: "memory_store \<Rightarrow> bool" where
  "wf_memory s \<longleftrightarrow> wf_dict (\<lambda>r. memory_id_text (mr_id r)) (mem_records s) \<and>
     mem_task_keys s = memory_task_key ` set (map snd (mem_records s)) \<and>
     distinct (map memory_task_key (map snd (mem_records s)))"

lemma wf_empty_memory [simp]: "wf_memory empty_memory"
  by (simp add: wf_memory_def wf_dict_def empty_memory_def)

lemma memory_append_Inr_iff:
  "memory_append r s = Inr s' \<longleftrightarrow>
     memory_id_text (mr_id r) \<notin> fst ` set (mem_records s) \<and> memory_task_key r \<notin> mem_task_keys s \<and>
     s' = s\<lparr>mem_records := mem_records s @ [(memory_id_text (mr_id r), r)],
            mem_task_keys := insert (memory_task_key r) (mem_task_keys s)\<rparr>"
  by (auto simp: memory_append_def Let_def)

lemma memory_append_wf: "wf_memory s \<Longrightarrow> memory_append r s = Inr s' \<Longrightarrow> wf_memory s'"
  by (auto simp: wf_memory_def wf_dict_def memory_append_Inr_iff)

lemma memory_append_error:
  "memory_append r s = Inl e \<Longrightarrow> \<exists>m. e = ResearchMemoryStoreError m"
  by (auto simp: memory_append_def Let_def split: if_splits)

text \<open>A record that was appended is found again; records already there stay.\<close>

lemma memory_append_get:
  assumes "memory_append r s = Inr s'"
  shows "memory_get (mr_id r) s' = Some r" "memory_get i s = Some x \<Longrightarrow> memory_get i s' = Some x"
  using assms
  by (auto simp: memory_append_Inr_iff memory_get_def map_add_Some_iff map_of_eq_None_iff)

end
