(* ===== verification/Notification.thy ===== *)
theory Notification
  imports Workflow_Store
begin

text \<open>
  Notification events (\<open>domain/notification/model.py\<close>) and the in-memory adapter
  (\<open>infrastructure/notification/in_memory_adapter.py\<close>). The constructor refuses metadata that looks
  like a credential.
\<close>

datatype notification_type =
    Notify_WORKFLOW_COMPLETED | Notify_WORKFLOW_PARTIAL | Notify_WORKFLOW_FAILED
  | Notify_WORKFLOW_CANCELLED | Notify_APPROVAL_REQUIRED | Notify_MONITORING_CHECK_CREATED

fun notification_type_value :: "notification_type \<Rightarrow> string" where
  "notification_type_value Notify_WORKFLOW_COMPLETED = ''workflow_completed''"
| "notification_type_value Notify_WORKFLOW_PARTIAL = ''workflow_partial''"
| "notification_type_value Notify_WORKFLOW_FAILED = ''workflow_failed''"
| "notification_type_value Notify_WORKFLOW_CANCELLED = ''workflow_cancelled''"
| "notification_type_value Notify_APPROVAL_REQUIRED = ''approval_required''"
| "notification_type_value Notify_MONITORING_CHECK_CREATED = ''monitoring_check_created''"

datatype notification_id = NotificationId (notification_id_text: uuid)

definition mk_notification_id :: "uuid \<Rightarrow> notification_id res" where
  "mk_notification_id u = (if \<not> uuid_is_v4 u then Inl (ValueError ''notification_id must be a UUIDv4'')
     else Inr (NotificationId u))"

record notification_event =
  ne_id :: notification_id
  ne_type :: notification_type
  ne_created_at :: datetime
  ne_workflow_id :: "workflow_id option"
  ne_company_id :: "string option"
  ne_message :: string
  ne_metadata :: "(string \<times> string) list"

text \<open>\<open>token in text\<close>\<close>

fun is_prefix :: "string \<Rightarrow> string \<Rightarrow> bool" where
  "is_prefix [] s = True"
| "is_prefix (c # cs) [] = False"
| "is_prefix (c # cs) (d # ds) = (c = d \<and> is_prefix cs ds)"

fun contains_text :: "string \<Rightarrow> string \<Rightarrow> bool" where
  "contains_text t [] = (t = [])"
| "contains_text t (d # ds) = (is_prefix t (d # ds) \<or> contains_text t ds)"

definition secret_tokens :: "string list" where
  "secret_tokens = [''secret'', ''api_key'', ''password'', ''token='']"

fun check_metadata :: "(string \<times> string) list \<Rightarrow> unit res" where
  "check_metadata [] = Inr ()"
| "check_metadata ((key, value) # rest) =
     (if length key > 64 \<or> length value > 256
      then Inl (ValueError ''notification metadata entry exceeds bounds'')
      else if list_ex (\<lambda>t. contains_text t (py_lower (key @ '' '' @ value))) secret_tokens
      then Inl (ValueError ''notification metadata must not contain secrets'')
      else check_metadata rest)"

definition event_post_init :: "notification_event \<Rightarrow> notification_event res" where
  "event_post_init e =
     (if \<not> tz_aware (ne_created_at e)
      then Inl (ValueError ''notification created_at must be timezone-aware'')
      else
        let text = norm_text (ne_message e) in
        if text = [] \<or> length text > 512
        then Inl (ValueError ''notification message empty or exceeds bounds'')
        else if has_control_chars text
        then Inl (ValueError ''notification message must not contain control characters'')
        else if length (ne_metadata e) > 20
        then Inl (ValueError ''notification metadata exceeds bounds'')
        else and_then (check_metadata (ne_metadata e)) (\<lambda>_. Inr (e\<lparr>ne_message := text\<rparr>)))"

section \<open>The in-memory adapter\<close>

record notification_log =
  nl_events :: "notification_event list"
  nl_fail_closed :: bool

definition publish_event :: "notification_event \<Rightarrow> notification_log \<Rightarrow> notification_log res" where
  "publish_event e s =
     (if nl_fail_closed s then Inl (NotificationAdapterError ''notification adapter unavailable'')
      else Inr (s\<lparr>nl_events := nl_events s @ [e]\<rparr>))"

definition list_events :: "int \<Rightarrow> notification_log \<Rightarrow> notification_event list res" where
  "list_events limit s =
     (if limit < 1 \<or> limit > 500
      then Inl (NotificationAdapterError ''limit must be between 1 and 500'')
      else Inr (drop (length (nl_events s) - nat limit) (nl_events s)))"

lemma check_metadata_Inr_iff:
  "check_metadata kvs = Inr () \<longleftrightarrow>
     (\<forall>(k, v) \<in> set kvs. length k \<le> 64 \<and> length v \<le> 256 \<and>
        (\<forall>t \<in> set secret_tokens. \<not> contains_text t (py_lower (k @ '' '' @ v))))"
  by (induction kvs rule: check_metadata.induct) (auto simp: list_ex_iff list.set_map)

lemma list_events_length: "list_events limit s = Inr es \<Longrightarrow> length es \<le> nat limit"
  by (auto simp: list_events_def split: if_splits)

end
