(* ===== verification/Manage_Workflow.thy ===== *)
theory Manage_Workflow
  imports Actions Engine Research_Memory Notification
begin

text \<open>
  The workflow use case (\<open>application/manage_research_workflow.py\<close>, \<open>application/workflow_contracts.py\<close>):
  get, list, execute, pause, resume, cancel and approve over a workflow store, the execution engine,
  company resolution and the optional memory and notification ports.
\<close>

section \<open>Contracts\<close>

datatype operation_status =
    Op_OK | Op_INVALID | Op_RESOLUTION_BLOCKED | Op_NOT_FOUND | Op_CONFLICT
  | Op_APPROVAL_REQUIRED | Op_REJECTED | Op_FAILED

record operation_result =
  op_status :: operation_status
  op_message :: string
  op_workflow :: "research_workflow option"
  op_resolution :: "resolution_result option"
  op_evaluated_at :: "datetime option"

definition operation_post_init :: "operation_result \<Rightarrow> operation_result res" where
  "operation_post_init r =
     (if naive_stamp (op_evaluated_at r) then Inl (ValueError ''evaluated_at must be timezone-aware'')
      else if op_status r = Op_OK \<and> op_workflow r = None
      then Inl (ValueError ''ok results require a workflow'')
      else Inr r)"

definition reply ::
    "operation_status \<Rightarrow> string \<Rightarrow> research_workflow option \<Rightarrow> datetime \<Rightarrow> operation_result res" where
  "reply st msg w now = operation_post_init
     \<lparr>op_status = st, op_message = msg, op_workflow = w, op_resolution = None,
      op_evaluated_at = Some now\<rparr>"

record list_query =
  lq_status :: "workflow_status option"
  lq_company_id :: "string option"
  lq_limit :: int
  lq_offset :: int

definition list_query_post_init :: "list_query \<Rightarrow> list_query res" where
  "list_query_post_init q =
     (if lq_limit q < 1 \<or> lq_limit q > 200 then Inl (ValueError ''limit must be between 1 and 200'')
      else if lq_offset q < 0 then Inl (ValueError ''offset must be non-negative'')
      else if (case lq_company_id q of None \<Rightarrow> False | Some c \<Rightarrow> length c > 128)
      then Inl (ValueError ''company_id filter exceeds bounds'')
      else Inr q)"

record list_result =
  lr_status :: operation_status
  lr_message :: string
  lr_workflows :: "research_workflow list"
  lr_limit :: int
  lr_offset :: int
  lr_evaluated_at :: "datetime option"

record approval_query =
  aq_workflow_id :: workflow_id
  aq_decision :: approval_status
  aq_note :: "string option"
  aq_source :: string

definition approval_query_post_init :: "approval_query \<Rightarrow> approval_query res" where
  "approval_query_post_init q =
     (if aq_decision q \<notin> {Approval_APPROVED, Approval_REJECTED}
      then Inl (ValueError ''approval decision must be approved or rejected'')
      else
        let source = norm_text (aq_source q) in
        if source = [] \<or> length source > 64
        then Inl (ValueError ''decision_source empty or exceeds bounds'')
        else Inr (q\<lparr>aq_source := source\<rparr>))"

section \<open>Ports\<close>

text \<open>\<open>mp_engine\<close> is the engine's clock and executor; the token it reads is that of the call.\<close>

record 'w manage_ports =
  mp_clock :: "'w \<Rightarrow> datetime \<times> 'w"
  mp_fresh :: "'w \<Rightarrow> uuid \<times> 'w"
  mp_get :: "workflow_id \<Rightarrow> 'w \<Rightarrow> research_workflow option \<times> 'w"
  mp_list :: "list_query \<Rightarrow> ('w, research_workflow list) action"
  mp_save :: "research_workflow \<Rightarrow> ('w, unit) action"
  mp_save_checkpoint :: "checkpoint \<Rightarrow> ('w, unit) action"
  mp_resolve :: "company_query \<Rightarrow> ('w, resolution_result) action"
  mp_engine :: "'w engine_ports"
  mp_budget :: execution_budget
  mp_memory :: "(memory_record \<Rightarrow> ('w, unit) action) option"
  mp_notifications :: "(notification_event \<Rightarrow> ('w, unit) action) option"

section \<open>Shared steps\<close>

definition commit_or_conflict ::
    "'w manage_ports \<Rightarrow> workflow_id \<Rightarrow> research_workflow \<Rightarrow> datetime \<Rightarrow> ('w, operation_result option) action"
where
  "commit_or_conflict M i rw now =
     catch_act (bind_act (mp_save M rw) (\<lambda>_. return_act None))
       (\<lambda>e. case e of
          WorkflowTransitionError m \<Rightarrow>
            bind_act (ask (mp_get M i)) (\<lambda>current.
            bind_act (lift_res (reply Op_CONFLICT
                (''workflow lifecycle changed concurrently; stale execution result discarded: '' @ m)
                current now)) (\<lambda>r. return_act (Some r)))
        | _ \<Rightarrow> lift_res (Inl e))"

text \<open>\<open>conflict = ...; if conflict is not None: return conflict\<close>\<close>

definition unless_conflict ::
    "('w, operation_result option) action \<Rightarrow> ('w, operation_result) action \<Rightarrow> ('w, operation_result) action"
where
  "unless_conflict c k = bind_act c (\<lambda>x. case x of None \<Rightarrow> k | Some r \<Rightarrow> return_act r)"

definition notify ::
    "'w manage_ports \<Rightarrow> notification_type \<Rightarrow> research_workflow \<Rightarrow> string \<Rightarrow> ('w, string option) action" where
  "notify M ty rw msg =
     (case mp_notifications M of
        None \<Rightarrow> return_act None
      | Some publish \<Rightarrow>
          bind_act (ask (mp_fresh M)) (\<lambda>u.
          bind_act (lift_res (mk_notification_id u)) (\<lambda>nid.
          bind_act (ask (mp_clock M)) (\<lambda>stamp.
          bind_act (lift_res (event_post_init
              \<lparr>ne_id = nid, ne_type = ty, ne_created_at = stamp, ne_workflow_id = Some (rw_id rw),
               ne_company_id = Some (company_id_text (rw_company_id rw)), ne_message = msg,
               ne_metadata = [(''status'', workflow_status_value (rw_status rw)),
                              (''approval_status'', approval_status_value (rw_approval_status rw))]\<rparr>))
            (\<lambda>event.
              catch_act (bind_act (publish event) (\<lambda>_. return_act None))
                (\<lambda>e. return_act (Some (''notification_failed:'' @ error_class e))))))))"

text \<open>\<open>status_map\<close>; the statuses outside it are not recorded.\<close>

fun memory_status_of :: "task_status \<Rightarrow> memory_status option" where
  "memory_status_of Task_SUCCEEDED = Some Mem_SUCCEEDED"
| "memory_status_of Task_FAILED = Some Mem_FAILED"
| "memory_status_of Task_SKIPPED = Some Mem_SKIPPED"
| "memory_status_of Task_BLOCKED = Some Mem_FAILED"
| "memory_status_of _ = None"

definition own_evidence :: "research_workflow \<Rightarrow> evidence_ref list" where
  "own_evidence rw =
     filter (\<lambda>r. ref_company_id r = rw_company_id rw)
       (case rw_checkpoint rw of None \<Rightarrow> [] | Some c \<Rightarrow> ck_evidence c)"

definition memory_record_of ::
    "research_workflow \<Rightarrow> research_task \<Rightarrow> memory_status \<Rightarrow> datetime \<Rightarrow> memory_record_id \<Rightarrow> memory_record"
where
  "memory_record_of rw t st at' rid =
     \<lparr>mr_id = rid, mr_workflow_id = rw_id rw, mr_run_id = rw_run_id rw,
      mr_company_id = rw_company_id rw, mr_capability = capability_id t, mr_task_id = task_id t,
      mr_status = st,
      mr_summary = (if description t \<noteq> [] then take 1000 (description t) else capability_id t),
      mr_created_at = at', mr_evidence = own_evidence rw, mr_as_of = None,
      mr_origin = (case own_evidence rw of [] \<Rightarrow> None | r # _ \<Rightarrow> ref_data_origin r)\<rparr>"

text \<open>One task of the loop: the inner \<open>try\<close> skips what \<open>except ValueError\<close> catches.\<close>

definition persist_task ::
    "'w manage_ports \<Rightarrow> (memory_record \<Rightarrow> ('w, unit) action) \<Rightarrow> research_workflow \<Rightarrow> datetime
      \<Rightarrow> research_task \<Rightarrow> ('w, unit) action"
where
  "persist_task M put rw at' t =
     (case memory_status_of (task_status t) of
        None \<Rightarrow> return_act ()
      | Some st \<Rightarrow>
          bind_act (ask (mp_fresh M)) (\<lambda>u.
          bind_act (lift_res (and_then (mk_memory_id u)
              (\<lambda>rid. memory_post_init (memory_record_of rw t st at' rid)))) (\<lambda>record.
            catch_act (put record)
              (\<lambda>e. if is_value_error e then return_act () else lift_res (Inl e)))))"

fun persist_tasks ::
    "'w manage_ports \<Rightarrow> (memory_record \<Rightarrow> ('w, unit) action) \<Rightarrow> research_workflow \<Rightarrow> datetime
      \<Rightarrow> research_task list \<Rightarrow> ('w, unit) action"
where
  "persist_tasks M put rw at' [] = return_act ()"
| "persist_tasks M put rw at' (t # ts) =
     bind_act (persist_task M put rw at' t) (\<lambda>_. persist_tasks M put rw at' ts)"

definition persist_memory ::
    "'w manage_ports \<Rightarrow> research_workflow \<Rightarrow> research_plan \<Rightarrow> datetime \<Rightarrow> ('w, string option) action"
where
  "persist_memory M rw plan at' =
     (case mp_memory M of
        None \<Rightarrow> return_act None
      | Some put \<Rightarrow>
          catch_act
            (bind_act (persist_tasks M put rw at' (plan_tasks plan)) (\<lambda>_. return_act None))
            (\<lambda>e. return_act (Some (''research_memory_write_failed:'' @ error_class e))))"

text \<open>\<open>_build_checkpoint\<close>\<close>

definition build_checkpoint :: "research_workflow \<Rightarrow> datetime \<Rightarrow> string \<Rightarrow> checkpoint res" where
  "build_checkpoint rw at' msg = checkpoint_post_init
     \<lparr>ck_workflow_id = rw_id rw, ck_run_id = rw_run_id rw, ck_version = rw_version rw + 1,
      ck_plan = rw_plan rw, ck_created_at = at',
      ck_attempts = (case rw_checkpoint rw of None \<Rightarrow> 0 | Some c \<Rightarrow> ck_attempts c),
      ck_calls = (case rw_checkpoint rw of None \<Rightarrow> 0 | Some c \<Rightarrow> ck_calls c),
      ck_warnings = rw_warnings rw,
      ck_results = (case rw_checkpoint rw of None \<Rightarrow> [] | Some c \<Rightarrow> ck_results c),
      ck_evidence = (case rw_checkpoint rw of None \<Rightarrow> [] | Some c \<Rightarrow> ck_evidence c),
      ck_message = msg\<rparr>"

section \<open>Get, list\<close>

text \<open>\<open>now = self._clock(); workflow = self._store.get_workflow(...)\<close>, then the operation's body.\<close>

definition with_workflow ::
    "'w manage_ports \<Rightarrow> workflow_id \<Rightarrow> (datetime \<Rightarrow> research_workflow \<Rightarrow> ('w, operation_result) action)
      \<Rightarrow> ('w, operation_result) action"
where
  "with_workflow M i k =
     bind_act (ask (mp_clock M)) (\<lambda>now.
     bind_act (ask (mp_get M i)) (\<lambda>found.
       case found of
         None \<Rightarrow> lift_res (reply Op_NOT_FOUND ''workflow not found'' None now)
       | Some rw \<Rightarrow> k now rw))"

definition manage_get :: "'w manage_ports \<Rightarrow> workflow_id \<Rightarrow> ('w, operation_result) action" where
  "manage_get M i = with_workflow M i (\<lambda>now rw. lift_res (reply Op_OK ''workflow loaded'' (Some rw) now))"

definition manage_list :: "'w manage_ports \<Rightarrow> list_query \<Rightarrow> ('w, list_result) action" where
  "manage_list M q =
     bind_act (ask (mp_clock M)) (\<lambda>now.
     bind_act (mp_list M q) (\<lambda>ws.
       return_act \<lparr>lr_status = Op_OK, lr_message = ''workflow list'', lr_workflows = ws,
         lr_limit = lq_limit q, lr_offset = lq_offset q, lr_evaluated_at = Some now\<rparr>))"

section \<open>Applying an execution result\<close>

text \<open>The chain of \<open>if\<close>s: next status, outcome, message, notification.\<close>

definition classify_execution ::
    "bool \<Rightarrow> execution_status
      \<Rightarrow> workflow_status \<times> operation_status \<times> string \<times> notification_type option"
where
  "classify_execution pause st =
     (if pause then (Wf_PAUSED, Op_OK, ''workflow paused with checkpoint'', None)
      else case st of
        Exec_CANCELLED \<Rightarrow>
          (Wf_CANCELLED, Op_OK, ''workflow cancelled'', Some Notify_WORKFLOW_CANCELLED)
      | Exec_COMPLETED \<Rightarrow>
          (Wf_COMPLETED, Op_OK, ''workflow completed'', Some Notify_WORKFLOW_COMPLETED)
      | Exec_PARTIAL \<Rightarrow>
          (Wf_PARTIAL, Op_OK, ''workflow completed with partial results'', Some Notify_WORKFLOW_PARTIAL)
      | Exec_BUDGET_EXCEEDED \<Rightarrow>
          (Wf_FAILED, Op_FAILED, ''workflow failed: budget exceeded'', Some Notify_WORKFLOW_FAILED)
      | _ \<Rightarrow>
          (Wf_FAILED, Op_FAILED, ''workflow failed: '' @ execution_status_value st,
           Some Notify_WORKFLOW_FAILED))"

definition executed_plan :: "research_workflow \<Rightarrow> execution_result \<Rightarrow> research_plan" where
  "executed_plan rw r = (case er_plan r of None \<Rightarrow> rw_plan rw | Some p \<Rightarrow> p)"

definition result_checkpoint ::
    "research_workflow \<Rightarrow> execution_result \<Rightarrow> datetime \<Rightarrow> checkpoint res" where
  "result_checkpoint rw r now = checkpoint_post_init
     \<lparr>ck_workflow_id = rw_id rw, ck_run_id = rw_run_id rw, ck_version = rw_version rw + 1,
      ck_plan = executed_plan rw r, ck_created_at = now,
      ck_attempts = (case er_orchestration r of None \<Rightarrow> 0 | Some s \<Rightarrow> total_attempts s),
      ck_calls = (case er_orchestration r of None \<Rightarrow> 0 | Some s \<Rightarrow> external_calls s),
      ck_warnings = er_warnings r, ck_results = er_task_results r,
      ck_evidence = er_evidence_refs r, ck_message = er_message r\<rparr>"

definition with_counts ::
    "research_workflow \<Rightarrow> execution_result \<Rightarrow> string list \<Rightarrow> research_workflow res" where
  "with_counts rw r warnings = workflow_post_init
     (rw\<lparr>rw_completed_count := er_completed_count r, rw_failed_count := er_failed_count r,
         rw_blocked_count := er_blocked_count r, rw_partial_count := er_partial_count r,
         rw_evidence_count := length (er_evidence_refs r), rw_message := Some (er_message r),
         rw_warnings := warnings\<rparr>)"

text \<open>The tail after the commit: the notification, and a second save when it failed.\<close>

definition announce ::
    "'w manage_ports \<Rightarrow> notification_type option \<Rightarrow> research_workflow \<Rightarrow> string
      \<Rightarrow> ('w, research_workflow) action"
where
  "announce M ty rw msg =
     (case ty of
        None \<Rightarrow> return_act rw
      | Some t \<Rightarrow>
          bind_act (notify M t rw msg) (\<lambda>warning.
            case warning of
              None \<Rightarrow> return_act rw
            | Some x \<Rightarrow>
                bind_act (lift_res (workflow_post_init (rw\<lparr>rw_warnings := rw_warnings rw @ [x]\<rparr>)))
                  (\<lambda>u. bind_act (mp_save M u) (\<lambda>_. return_act u))))"

definition apply_execution_result ::
    "'w manage_ports \<Rightarrow> research_workflow \<Rightarrow> execution_result \<Rightarrow> bool \<Rightarrow> ('w, operation_result) action"
where
  "apply_execution_result M rw r pause =
     bind_act (ask (mp_clock M)) (\<lambda>now.
     bind_act (lift_res (result_checkpoint rw r now)) (\<lambda>ck.
     bind_act (lift_res (with_checkpoint rw ck now)) (\<lambda>updated.
     let (next, op, msg, ty) = classify_execution pause (er_status r) in
     bind_act (persist_memory M updated (executed_plan rw r) now) (\<lambda>memory_warning.
     bind_act (lift_res (with_counts updated r
         (er_warnings r @ (case memory_warning of None \<Rightarrow> [] | Some x \<Rightarrow> [x])))) (\<lambda>counted.
     bind_act (lift_res (rw_with_status counted next now)) (\<lambda>final.
     unless_conflict (commit_or_conflict M (rw_id rw) final now)
       (bind_act (mp_save_checkpoint M ck) (\<lambda>_.
        bind_act (announce M ty final msg) (\<lambda>final.
          lift_res (reply op msg (Some final) now))))))))))"

section \<open>Execute\<close>

text \<open>The guards of \<open>execute\<close>, each with its reply.\<close>

definition execute_guard :: "research_workflow \<Rightarrow> (operation_status \<times> string) option" where
  "execute_guard rw =
     (if is_terminal (rw_status rw)
      then Some (Op_CONFLICT, ''cannot execute terminal workflow status='' @
             workflow_status_value (rw_status rw))
      else if rw_approval_status rw = Approval_PENDING
      then Some (Op_APPROVAL_REQUIRED, ''human approval required before execution'')
      else if rw_approval_status rw = Approval_REJECTED
      then Some (Op_REJECTED, ''workflow approval was rejected'')
      else if rw_status rw \<notin> {Wf_READY, Wf_PAUSED, Wf_RUNNING}
      then Some (Op_CONFLICT, ''invalid status for execution: '' @
             workflow_status_value (rw_status rw))
      else None)"

definition workflow_query :: "research_workflow \<Rightarrow> company_query" where
  "workflow_query rw =
     \<lparr>raw_query = wq_raw_query (rw_company_query rw), query_country = wq_country (rw_company_query rw),
      query_exchange = wq_exchange (rw_company_query rw), query_ticker = wq_ticker (rw_company_query rw)\<rparr>"

definition workflow_execute_query :: "research_workflow \<Rightarrow> execute_query" where
  "workflow_execute_query rw =
     \<lparr>eq_company_query = workflow_query rw, eq_objective = rw_objective rw, eq_objective_text = None,
      eq_jurisdiction = None, eq_time_horizon_days = None, eq_budget = None\<rparr>"

text \<open>The counters and results a run resumes from.\<close>

definition checkpoint_seed :: "research_workflow \<Rightarrow> resume_seed" where
  "checkpoint_seed rw =
     (case rw_checkpoint rw of
        None \<Rightarrow> fresh_seed
      | Some c \<Rightarrow> \<lparr>seed_attempts = ck_attempts c, seed_calls = ck_calls c,
                    seed_results = ck_results c, seed_warnings = ck_warnings c\<rparr>)"

definition mismatch_message :: string where
  "mismatch_message = ''company identity mismatch on execute''"

definition fail_mismatch ::
    "'w manage_ports \<Rightarrow> workflow_id \<Rightarrow> research_workflow \<Rightarrow> resolution_result \<Rightarrow> ('w, operation_result) action"
where
  "fail_mismatch M i running resolution =
     bind_act (ask (mp_clock M)) (\<lambda>at'.
     bind_act (lift_res (and_then (rw_with_status running Wf_FAILED at')
         (\<lambda>u. workflow_post_init (u\<lparr>rw_message := Some mismatch_message\<rparr>)))) (\<lambda>failed.
     bind_act (ask (mp_clock M)) (\<lambda>now.
     unless_conflict (commit_or_conflict M i failed now)
       (bind_act (notify M Notify_WORKFLOW_FAILED failed mismatch_message) (\<lambda>_.
        bind_act (ask (mp_clock M)) (\<lambda>stamp.
          lift_res (operation_post_init
            \<lparr>op_status = Op_FAILED, op_message = mismatch_message, op_workflow = Some failed,
             op_resolution = Some resolution, op_evaluated_at = Some stamp\<rparr>)))))))"

text \<open>
  \<open>control or ExecutionControl()\<close>: without a token the run reads a fresh one, which nobody else
  holds.
\<close>

definition control_reader :: "('w \<Rightarrow> execution_control) option \<Rightarrow> 'w \<Rightarrow> execution_control" where
  "control_reader ctl = (case ctl of None \<Rightarrow> (\<lambda>_. new_control) | Some f \<Rightarrow> f)"

text \<open>From the committed \<open>running\<close> record on: resolve, run the plan, apply the result.\<close>

definition run_workflow ::
    "'w manage_ports \<Rightarrow> workflow_id \<Rightarrow> ('w \<Rightarrow> execution_control) option \<Rightarrow> datetime \<Rightarrow> research_workflow
      \<Rightarrow> ('w, operation_result) action"
where
  "run_workflow M i ctl now running =
     bind_act (mp_resolve M (workflow_query running)) (\<lambda>resolution.
       case resolved_company resolution of
         None \<Rightarrow> fail_mismatch M i running resolution
       | Some company \<Rightarrow>
           if company_id company \<noteq> rw_company_id running
           then fail_mismatch M i running resolution
           else
             bind_act (execute_prepared ((mp_engine M)\<lparr>read_control := control_reader ctl\<rparr>)
                 (rw_plan running) company (workflow_query running) resolution
                 (workflow_execute_query running) (mp_budget M) now (checkpoint_seed running)) (\<lambda>r.
             bind_act (ask (\<lambda>w. (is_pause (control_reader ctl w), w))) (\<lambda>pause.
               apply_execution_result M running r pause)))"

definition manage_execute ::
    "'w manage_ports \<Rightarrow> workflow_id \<Rightarrow> ('w \<Rightarrow> execution_control) option \<Rightarrow> ('w, operation_result) action"
where
  "manage_execute M i ctl =
     with_workflow M i (\<lambda>now rw.
       case execute_guard rw of
         Some (st, msg) \<Rightarrow> lift_res (reply st msg (Some rw) now)
       | None \<Rightarrow>
           (case rw_with_status rw Wf_RUNNING now of
              Inl e \<Rightarrow>
                if is_value_error e then lift_res (reply Op_CONFLICT (error_text e) (Some rw) now)
                else lift_res (Inl e)
            | Inr running \<Rightarrow>
                unless_conflict (commit_or_conflict M i running now)
                  (run_workflow M i ctl now running)))"

section \<open>Pause, resume, cancel, approve\<close>

definition manage_pause :: "'w manage_ports \<Rightarrow> workflow_id \<Rightarrow> ('w, operation_result) action" where
  "manage_pause M i =
     with_workflow M i (\<lambda>now rw.
       if rw_status rw = Wf_PAUSED then lift_res (reply Op_OK ''workflow already paused'' (Some rw) now)
       else if rw_status rw \<noteq> Wf_RUNNING
       then lift_res (reply Op_CONFLICT (''cannot pause workflow status='' @
              workflow_status_value (rw_status rw)) (Some rw) now)
       else
         bind_act (lift_res (build_checkpoint rw now ''manual pause checkpoint'')) (\<lambda>ck.
         bind_act (lift_res (and_then (with_checkpoint rw ck now) (\<lambda>u. rw_with_status u Wf_PAUSED now)))
           (\<lambda>paused.
         unless_conflict (commit_or_conflict M i paused now)
           (bind_act (mp_save_checkpoint M ck) (\<lambda>_.
              lift_res (reply Op_OK ''workflow paused'' (Some paused) now))))))"

definition manage_resume :: "'w manage_ports \<Rightarrow> workflow_id \<Rightarrow> ('w, operation_result) action" where
  "manage_resume M i =
     with_workflow M i (\<lambda>now rw.
       if rw_status rw \<noteq> Wf_PAUSED
       then lift_res (reply Op_CONFLICT (''cannot resume workflow status='' @
              workflow_status_value (rw_status rw)) (Some rw) now)
       else if rw_approval_status rw = Approval_PENDING
       then lift_res (reply Op_APPROVAL_REQUIRED ''human approval required before resume'' (Some rw) now)
       else
         bind_act (lift_res (rw_with_status rw Wf_READY now)) (\<lambda>ready.
         unless_conflict (commit_or_conflict M i ready now) (manage_execute M i None)))"

definition manage_cancel :: "'w manage_ports \<Rightarrow> workflow_id \<Rightarrow> ('w, operation_result) action" where
  "manage_cancel M i =
     with_workflow M i (\<lambda>now rw.
       if is_terminal (rw_status rw)
       then lift_res (reply Op_CONFLICT (''cannot cancel terminal workflow status='' @
              workflow_status_value (rw_status rw)) (Some rw) now)
       else
         case rw_with_status rw Wf_CANCELLED now of
           Inl e \<Rightarrow>
             if is_value_error e then lift_res (reply Op_CONFLICT (error_text e) (Some rw) now)
             else lift_res (Inl e)
         | Inr cancelled \<Rightarrow>
             bind_act (lift_res (workflow_post_init
                 (cancelled\<lparr>rw_message := Some ''workflow cancelled by trusted API''\<rparr>))) (\<lambda>cancelled.
             unless_conflict (commit_or_conflict M i cancelled now)
               (bind_act (notify M Notify_WORKFLOW_CANCELLED cancelled ''workflow cancelled'') (\<lambda>_.
                  lift_res (reply Op_OK ''workflow cancelled'' (Some cancelled) now)))))"

definition manage_approve :: "'w manage_ports \<Rightarrow> approval_query \<Rightarrow> ('w, operation_result) action" where
  "manage_approve M q =
     with_workflow M (aq_workflow_id q) (\<lambda>now rw.
       if rw_status rw \<noteq> Wf_AWAITING_APPROVAL
       then lift_res (reply Op_CONFLICT (''workflow not awaiting approval status='' @
              workflow_status_value (rw_status rw)) (Some rw) now)
       else
         bind_act (lift_res (decision_post_init
             \<lparr>decision_status = aq_decision q, decided_at = now, decision_note = aq_note q,
              decision_source = aq_source q\<rparr>)) (\<lambda>decision.
         let (updated, msg, op) =
           (if aq_decision q = Approval_APPROVED
            then (with_approval rw decision now Wf_READY, ''workflow approved'', Op_OK)
            else (and_then (with_approval rw decision now Wf_FAILED) (\<lambda>u.
                    workflow_post_init (u\<lparr>rw_message := Some ''approval rejected''\<rparr>)),
                  ''workflow approval rejected'', Op_REJECTED))
         in bind_act (lift_res updated) (\<lambda>updated.
            unless_conflict (commit_or_conflict M (aq_workflow_id q) updated now)
              (lift_res (reply op msg (Some updated) now)))))"

end
