(* ===== verification/Workflow_Safety.thy ===== *)
theory Workflow_Safety
  imports Manage_Workflow
begin

text \<open>
  What the workflow operations guarantee under interleaving. The interface \<open>workflow_ports\<close> states
  what the use case relies on: a store that checks every record against the one it holds, and other
  ports that leave the stored records to legal evolution. Its lemmas show that every operation only
  lets the store evolve, and that a workflow an operation returns was the stored record at some
  instant between its call and its return.
\<close>

section \<open>Relations kept by the engine\<close>

context kept_relation
begin

lemma ask_kept: "(\<And>w. R w (snd (g w))) \<Longrightarrow> keeps R (ask g)"
  by (rule keeps_ask)

lemma exec_round_kept:
  assumes "\<And>w. R w (snd (clock P w))" "\<And>t c q w. R w (snd (execute_task P t c q w))"
  shows "R w (snd (exec_round P b c q ls w))"
proof -
  obtain now w1 where 1: "clock P w = (now, w1)" "R w w1" using assms(1) by (metis prod.collapse)
  have 2: "R w (snd (execute_task P t c q w1))" for t using trans [OF 1(2) assms(2)] .
  show ?thesis using 1 2
    by (auto simp: exec_round_def split: prod.splits sum.splits decision.splits) (metis snd_conv)+
qed

lemma exec_loop_kept:
  assumes "\<And>w. R w (snd (clock P w))" "\<And>t c q w. R w (snd (execute_task P t c q w))"
  shows "R w (snd (exec_loop P b c q n ls w))"
proof (induction n arbitrary: ls w)
  case 0
  then show ?case using assms(1) [of w] by (cases "clock P w") simp
next
  case (Suc n)
  obtain r w1 where r: "exec_round P b c q ls w = (r, w1)" by fastforce
  then have "R w w1" using exec_round_kept [OF assms, where b = b and c = c and q = q and ls = ls and w = w] by simp
  then show ?case using r Suc trans by (auto split: sum.splits prod.splits)
qed

lemma execute_prepared_kept:
  assumes "\<And>w. R w (snd (clock P w))" "\<And>t c q w. R w (snd (execute_task P t c q w))"
  shows "keeps R (execute_prepared P plan c cq rsl q b started_at seed)"
  unfolding keeps_def
proof
  fix w
  obtain now w1 where 1: "clock P w = (now, w1)" "R w w1" using assms(1) by (metis prod.collapse)
  have 2: "R w (snd (clock P (snd (exec_loop P b c cq n ls w))))" for n ls
    using trans [OF exec_loop_kept [OF assms] assms(1)] .
  have 3: "R w (snd (exec_loop P b c cq n ls w))" for n ls using exec_loop_kept [OF assms] .
  show "R w (snd (execute_prepared P plan c cq rsl q b started_at seed w))"
    unfolding execute_prepared_def using 1 2 3 refl
    by (auto split: prod.splits sum.splits) (metis snd_conv)+
qed

text \<open>Notifying and remembering keep what their ports keep.\<close>

lemma notify_keeps:
  assumes "keeps R (ask (mp_clock M))" "keeps R (ask (mp_fresh M))"
    "\<And>publish ev. mp_notifications M = Some publish \<Longrightarrow> keeps R (publish ev)"
  shows "keeps R (notify M ty x msg)"
proof (cases "mp_notifications M")
  case None
  then show ?thesis by (simp add: notify_def keeps_return)
next
  case (Some publish)
  show ?thesis
    unfolding notify_def Some option.case
    by (intro keeps_bind keeps_lift keeps_catch keeps_return assms(1,2) assms(3) [OF Some])
qed

lemma persist_keeps:
  assumes "keeps R (ask (mp_fresh M))" "\<And>put r. mp_memory M = Some put \<Longrightarrow> keeps R (put r)"
  shows "keeps R (persist_memory M x plan at')"
proof (cases "mp_memory M")
  case None
  then show ?thesis by (simp add: persist_memory_def keeps_return)
next
  case (Some put)
  have "keeps R (persist_task M put x at' t)" for t
    unfolding persist_task_def
    by (auto intro!: keeps_bind keeps_catch keeps_lift keeps_return assms(1) assms(2) [OF Some] split: option.split)
  then have "keeps R (persist_tasks M put x at' ts)" for ts
    by (induction ts) (auto intro!: keeps_return keeps_bind)
  then show ?thesis
    unfolding persist_memory_def Some option.case by (intro keeps_bind keeps_catch keeps_return)
qed

end

section \<open>The interface\<close>

definition legal :: "('w \<Rightarrow> bool) \<Rightarrow> ('w \<Rightarrow> workflow_map) \<Rightarrow> 'w \<Rightarrow> 'w \<Rightarrow> bool" where
  "legal good view w w' \<longleftrightarrow> (good w \<longrightarrow> good w' \<and> evolves (view w) (view w'))"

lemma legal_refl [simp]: "legal good view w w"
  by (simp add: legal_def)

lemma legal_trans: "legal good view u v \<Longrightarrow> legal good view v w \<Longrightarrow> legal good view u w"
  by (auto simp: legal_def intro: evolves_trans)

locale workflow_ports =
  fixes M :: "'w manage_ports" and good :: "'w \<Rightarrow> bool" and view :: "'w \<Rightarrow> workflow_map"
  assumes keyed: "good w \<Longrightarrow> view w k = Some x \<Longrightarrow> rw_key x = k"
    and get_legal: "legal good view w (snd (mp_get M i w))"
    and get_current: "fst (mp_get M i w) = view (snd (mp_get M i w)) (workflow_id_text i)"
    and stored_governed: "good w \<Longrightarrow> view w k = Some x \<Longrightarrow> governed x"
    and save_ok: "good w \<Longrightarrow> governed x \<Longrightarrow> mp_save M x w = (Inr u, w') \<Longrightarrow>
      good w' \<and> (\<exists>m. evolves (view w) m \<and> accepts m x \<and> view w' = m(rw_key x \<mapsto> x))"
    and save_error: "good w \<Longrightarrow> mp_save M x w = (Inl e, w') \<Longrightarrow>
      good w' \<and> evolves (view w) (view w') \<and> \<not> accepts (view w') x \<and>
      ((\<exists>m. e = WorkflowStoreError m) \<or> (\<exists>m. e = WorkflowTransitionError m))"
    and checkpoint_legal: "legal good view w (snd (mp_save_checkpoint M c w))"
    and list_legal: "legal good view w (snd (mp_list M q w))"
    and clock_legal: "legal good view w (snd (mp_clock M w))"
    and fresh_legal: "legal good view w (snd (mp_fresh M w))"
    and resolve_legal: "legal good view w (snd (mp_resolve M cq w))"
    and engine_legal: "legal good view w (snd (clock (mp_engine M) w))"
      "legal good view w (snd (execute_task (mp_engine M) t co cq w))"
    and memory_legal: "mp_memory M = Some put \<Longrightarrow> legal good view w (snd (put r w))"
    and notify_legal: "mp_notifications M = Some publish \<Longrightarrow> legal good view w (snd (publish ev w))"

text \<open>The relation is reflexive and transitive, so actions compose over it.\<close>

interpretation legal_rel: kept_relation "legal good view" for good view
  by unfold_locales (auto intro: legal_trans)

section \<open>Every operation lets the store evolve\<close>

context workflow_ports
begin

lemmas kept = legal_rel.keeps_return legal_rel.keeps_lift legal_rel.keeps_bind legal_rel.keeps_catch
  legal_rel.keeps_lift_bind

lemma save_kept:
  assumes x: "governed x" shows "keeps (legal good view) (mp_save M x)"
  unfolding keeps_def legal_def
proof (intro allI impI)
  fix w assume g: "good w"
  obtain r w' where s: "mp_save M x w = (r, w')" by fastforce
  show "good (snd (mp_save M x w)) \<and> evolves (view w) (view (snd (mp_save M x w)))"
  proof (cases r)
    case (Inl e)
    then show ?thesis using save_error [OF g, of x e w'] s by simp
  next
    case (Inr u)
    then obtain m where "good w'" "evolves (view w) m" "accepts m x" "view w' = m(rw_key x \<mapsto> x)"
      using save_ok [OF g x, of u w'] s by auto
    then show ?thesis using s evolves_trans [OF _ accepts_evolves] by auto
  qed
qed

lemma ports_kept:
  "keeps (legal good view) (ask (mp_clock M))" "keeps (legal good view) (ask (mp_fresh M))"
  "keeps (legal good view) (ask (mp_get M i))" "keeps (legal good view) (mp_list M q)"
  "keeps (legal good view) (mp_save_checkpoint M c)" "keeps (legal good view) (mp_resolve M cq)"
  by (auto simp: keeps_def clock_legal fresh_legal get_legal list_legal checkpoint_legal resolve_legal)

lemma commit_kept: "governed x \<Longrightarrow> keeps (legal good view) (commit_or_conflict M i x now)"
  unfolding commit_or_conflict_def
  by (rule legal_rel.keeps_catch)
    (auto intro!: legal_rel.keeps_bind kept(1,2) save_kept ports_kept split: error.split)

lemma unless_conflict_kept:
  "keeps (legal good view) c \<Longrightarrow> keeps (legal good view) k \<Longrightarrow> keeps (legal good view) (unless_conflict c k)"
  unfolding unless_conflict_def by (auto intro!: legal_rel.keeps_bind kept(1) split: option.split)

lemma notify_kept: "keeps (legal good view) (notify M ty x msg)"
  by (rule legal_rel.notify_keeps) (simp_all add: ports_kept, simp add: keeps_def notify_legal)

lemma persist_kept: "keeps (legal good view) (persist_memory M x plan at')"
  by (rule legal_rel.persist_keeps) (simp_all add: ports_kept, simp add: keeps_def memory_legal)

lemma announce_kept: "governed x \<Longrightarrow> keeps (legal good view) (announce M ty x msg)"
  unfolding announce_def
  by (cases ty)
    (auto intro!: kept(1) legal_rel.keeps_bind [OF notify_kept] legal_rel.keeps_lift_bind
      legal_rel.keeps_bind [OF save_kept] dest!: workflow_post_init_eq split: option.split)

text \<open>The record that an execution result is saved as.\<close>

lemma applied_governed:
  assumes "governed x" "cleared x" "with_checkpoint x ck now = Inr u" "with_counts u r ws = Inr v"
    "rw_with_status v st now = Inr z"
  shows "governed z"
proof -
  have u: "governed u" "cleared u" using governed_with_checkpoint assms(1-3) by blast+
  have "cleared v" using governed_cong(2) [OF u(1), of _ v] assms(4) u(2) by (simp add: with_counts_def)
  then show ?thesis using governed_with_status(1) [OF assms(5)] by blast
qed

lemma apply_kept:
  assumes "governed x" "cleared x"
  shows "keeps (legal good view) (apply_execution_result M x r pause)"
proof -
  obtain nxt op msg ty where cl: "classify_execution pause (er_status r) = (nxt, op, msg, ty)"
    by (metis prod_cases4)
  show ?thesis
    unfolding apply_execution_result_def cl Let_def prod.case
    by (intro legal_rel.keeps_bind [OF ports_kept(1)] legal_rel.keeps_lift_bind
        legal_rel.keeps_bind [OF persist_kept] unless_conflict_kept commit_kept
        legal_rel.keeps_bind [OF ports_kept(5)] legal_rel.keeps_bind [OF announce_kept] kept(2))
      (auto intro: applied_governed [OF assms])
qed

lemma mismatch_governed:
  "and_then (rw_with_status x Wf_FAILED at') (\<lambda>u. workflow_post_init (u\<lparr>rw_message := m\<rparr>)) = Inr y \<Longrightarrow> governed y"
  by (auto dest!: workflow_post_init_eq dest: governed_with_status(1))

lemma fail_mismatch_kept: "keeps (legal good view) (fail_mismatch M i x rsl)"
  unfolding fail_mismatch_def
  by (intro legal_rel.keeps_bind [OF ports_kept(1)] legal_rel.keeps_lift_bind unless_conflict_kept
      commit_kept legal_rel.keeps_bind [OF notify_kept] kept(2)) (rule mismatch_governed)

lemma run_kept:
  assumes "governed x" "cleared x"
  shows "keeps (legal good view) (run_workflow M i ctl now x)"
proof -
  have "keeps (legal good view) (execute_prepared ((mp_engine M)\<lparr>read_control := f\<rparr>) p c cq rsl q b st seed)"
    for f p c cq rsl q b st seed
    by (rule legal_rel.execute_prepared_kept) (simp_all add: engine_legal)
  then show ?thesis
    unfolding run_workflow_def
    by (auto split: option.split
        intro!: legal_rel.keeps_bind ports_kept fail_mismatch_kept apply_kept assms keeps_ask)
qed

lemma with_workflow_kept:
  assumes "\<And>now x. governed x \<Longrightarrow> rw_key x = workflow_id_text i \<Longrightarrow> keeps (legal good view) (k now x)"
  shows "keeps (legal good view) (with_workflow M i k)"
  unfolding with_workflow_def
proof (intro legal_rel.keeps_bind [OF ports_kept(1)])
  fix now
  show "keeps (legal good view) (bind_act (ask (mp_get M i)) (\<lambda>found. case found of
      None \<Rightarrow> lift_res (reply Op_NOT_FOUND ''workflow not found'' None now) | Some rw \<Rightarrow> k now rw))"
    unfolding keeps_def
  proof
    fix w
    let ?w1 = "snd (mp_get M i w)"
    have g: "legal good view w ?w1" "fst (mp_get M i w) = view ?w1 (workflow_id_text i)"
      using get_legal get_current by auto
    show "legal good view w (snd (bind_act (ask (mp_get M i)) (\<lambda>found. case found of
        None \<Rightarrow> lift_res (reply Op_NOT_FOUND ''workflow not found'' None now) | Some rw \<Rightarrow> k now rw) w))"
    proof (cases "view ?w1 (workflow_id_text i)")
      case None
      then show ?thesis using g by simp
    next
      case (Some x)
      have "legal good view ?w1 (snd (k now x ?w1))"
      proof (cases "good ?w1")
        case True
        then show ?thesis
          using assms [of x now] stored_governed [OF True Some] keyed [OF True Some]
          unfolding keeps_def by blast
      qed (simp add: legal_def)
      then show ?thesis using g Some legal_trans by simp
    qed
  qed
qed

text \<open>The guards of \<open>execute\<close> let only cleared workflows through.\<close>

lemma guard_governed:
  assumes "governed x" "execute_guard x = None" shows "cleared x"
  using assms by (auto simp: execute_guard_def governed_def split: if_splits)

lemma execute_kept: "keeps (legal good view) (manage_execute M i ctl)"
  unfolding manage_execute_def
proof (rule with_workflow_kept, goal_cases)
  case (1 now x)
  show ?case
  proof (cases "execute_guard x")
    case None
    then have "governed y \<and> cleared y" if "rw_with_status x Wf_RUNNING now = Inr y" for y
      using guard_governed [OF 1(1)] governed_with_status [OF that] by blast
    then show ?thesis using None
      by (auto simp del: act_apply intro!: kept(2) unless_conflict_kept commit_kept run_kept split: sum.split)
  qed (auto simp del: act_apply intro!: kept(2))
qed

lemma approval_governed:
  assumes "decision_post_init \<lparr>decision_status = Approval_APPROVED, decided_at = now, decision_note = n,
      decision_source = src\<rparr> = Inr d"
    "with_approval x d now Wf_READY = Inr y"
  shows "governed y"
proof -
  have "decision_status d = Approval_APPROVED"
    using assms(1) by (auto simp: decision_post_init_def Let_def and_then_Inr_iff split: if_splits)
  then show ?thesis using governed_with_approval(1) [OF assms(2)] by blast
qed

lemma rejection_governed:
  assumes "with_approval x d now Wf_FAILED = Inr u" "workflow_post_init (u\<lparr>rw_message := m\<rparr>) = Inr y"
  shows "governed y"
  using workflow_post_init_eq [OF assms(2)] governed_with_approval(1) [OF assms(1)] by simp

lemma cancel_governed:
  assumes "rw_with_status x Wf_CANCELLED now = Inr u" "workflow_post_init (u\<lparr>rw_message := m\<rparr>) = Inr y"
  shows "governed y"
  using workflow_post_init_eq [OF assms(2)] governed_with_status(1) [OF assms(1)] by simp

lemma pause_governed:
  assumes "governed x" "rw_status x = Wf_RUNNING" "with_checkpoint x ck now = Inr u"
    "rw_with_status u Wf_PAUSED now = Inr y"
  shows "governed y"
proof -
  have "cleared u"
    using governed_with_checkpoint(2) [OF assms(3,1)] governed_cleared [OF assms(1)] assms(2) by simp
  then show ?thesis using governed_with_status(1) [OF assms(4)] by blast
qed

lemma resume_governed:
  "governed x \<Longrightarrow> rw_status x = Wf_PAUSED \<Longrightarrow> rw_with_status x Wf_READY now = Inr y \<Longrightarrow> governed y"
  using governed_with_status(1) governed_cleared by fastforce

lemma operations_kept:
  "keeps (legal good view) (manage_get M i)" "keeps (legal good view) (manage_list M q)"
  "keeps (legal good view) (manage_pause M i)" "keeps (legal good view) (manage_resume M i)"
  "keeps (legal good view) (manage_cancel M i)" "keeps (legal good view) (manage_approve M aq)"
proof -
  show "keeps (legal good view) (manage_get M i)"
    unfolding manage_get_def by (intro with_workflow_kept kept(2))
  show "keeps (legal good view) (manage_list M q)"
    unfolding manage_list_def by (intro legal_rel.keeps_bind ports_kept kept(1))
  show "keeps (legal good view) (manage_pause M i)"
    unfolding manage_pause_def
    by (rule with_workflow_kept)
      (auto simp del: act_apply intro!: kept(2) legal_rel.keeps_lift_bind legal_rel.keeps_bind [OF ports_kept(5)]
        unless_conflict_kept commit_kept intro: pause_governed)
  show "keeps (legal good view) (manage_resume M i)"
    unfolding manage_resume_def
    by (rule with_workflow_kept)
      (auto simp del: act_apply intro!: kept(2) legal_rel.keeps_lift_bind
        unless_conflict_kept commit_kept execute_kept intro: resume_governed)
  show "keeps (legal good view) (manage_cancel M i)"
    unfolding manage_cancel_def
    by (rule with_workflow_kept)
      (auto simp del: act_apply intro!: kept(2) legal_rel.keeps_lift_bind legal_rel.keeps_bind [OF notify_kept]
        unless_conflict_kept commit_kept intro: cancel_governed split: sum.split)
  show "keeps (legal good view) (manage_approve M aq)"
    unfolding manage_approve_def
    by (rule with_workflow_kept)
      (auto simp del: act_apply simp: Let_def intro!: kept(2) legal_rel.keeps_lift_bind
        unless_conflict_kept commit_kept,
        (erule (1) approval_governed | erule (1) rejection_governed)+)
qed

end

section \<open>A returned workflow was stored\<close>

text \<open>
  \<open>seen view m k x w\<close>: since the store was \<open>m\<close>, and not later than \<open>w\<close>, the record under \<open>k\<close> was
  \<open>x\<close>. An action is \<open>faithful\<close> for the records \<open>X\<close> when the workflow in its reply was seen,
  given that those of \<open>X\<close> were.
\<close>

definition seen :: "('w \<Rightarrow> workflow_map) \<Rightarrow> workflow_map \<Rightarrow> string \<Rightarrow> research_workflow \<Rightarrow> 'w \<Rightarrow> bool" where
  "seen view m k x w \<longleftrightarrow> (\<exists>n. evolves m n \<and> n k = Some x \<and> evolves n (view w))"

definition faithful ::
    "('w \<Rightarrow> bool) \<Rightarrow> ('w \<Rightarrow> workflow_map) \<Rightarrow> string \<Rightarrow> research_workflow set
      \<Rightarrow> ('w, operation_result) action \<Rightarrow> bool"
where
  "faithful good view k X a \<longleftrightarrow>
     (\<forall>m w r w' x. good w \<and> evolves m (view w) \<and> (\<forall>y \<in> X. seen view m k y w) \<and>
        a w = (Inr r, w') \<and> op_workflow r = Some x \<longrightarrow> seen view m k x w')"

lemma faithfulI:
  assumes "\<And>m w r w' x. good w \<Longrightarrow> evolves m (view w) \<Longrightarrow> (\<And>y. y \<in> X \<Longrightarrow> seen view m k y w) \<Longrightarrow>
    a w = (Inr r, w') \<Longrightarrow> op_workflow r = Some x \<Longrightarrow> seen view m k x w'"
  shows "faithful good view k X a"
  using assms unfolding faithful_def by blast

lemma faithfulD:
  assumes "faithful good view k X a" "good w" "evolves m (view w)" "\<And>y. y \<in> X \<Longrightarrow> seen view m k y w"
    "a w = (Inr r, w')" "op_workflow r = Some x"
  shows "seen view m k x w'"
  using assms unfolding faithful_def by blast

lemma seen_legal: "seen view m k x w \<Longrightarrow> good w \<Longrightarrow> legal good view w w' \<Longrightarrow> seen view m k x w'"
  unfolding seen_def legal_def by (blast intro: evolves_trans)

lemma reply_InrD: "reply st msg x now = Inr r \<Longrightarrow> op_workflow r = x \<and> op_status r = st"
  by (auto simp: reply_def operation_post_init_def split: if_splits)

lemma faithful_reply: "x \<in> X \<Longrightarrow> faithful good view k X (lift_res (reply st msg (Some x) now))"
  by (rule faithfulI) (auto dest: reply_InrD)

lemma faithful_none: "faithful good view k X (lift_res (reply st msg None now))"
  by (rule faithfulI) (auto dest: reply_InrD)

lemma faithful_raise: "faithful good view k X (lift_res (Inl e))"
  by (rule faithfulI) auto

lemma faithful_lift:
  "(\<And>y. r = Inr y \<Longrightarrow> faithful good view k X (f y)) \<Longrightarrow> faithful good view k X (bind_act (lift_res r) f)"
  by (cases r) (auto intro!: faithfulI dest: faithfulD)

lemma faithful_bind:
  assumes "keeps (legal good view) a" "\<And>y. faithful good view k X (f y)"
  shows "faithful good view k X (bind_act a f)"
proof (rule faithfulI)
  fix m w r w' x
  assume w: "good w" "evolves m (view w)" "\<And>y. y \<in> X \<Longrightarrow> seen view m k y w"
    and run: "bind_act a f w = (Inr r, w')" and x: "op_workflow r = Some x"
  obtain y w1 where y: "a w = (Inr y, w1)" "f y w1 = (Inr r, w')" using bind_act_InrE [OF run] .
  have l: "legal good view w w1" using assms(1) y(1) unfolding keeps_def by (metis snd_conv)
  then have "good w1" "evolves m (view w1)" using w(1,2) evolves_trans unfolding legal_def by blast+
  then show "seen view m k x w'"
    using faithfulD [OF assms(2) _ _ _ y(2) x] seen_legal [where good = good, OF w(3) w(1) l] by blast
qed

context workflow_ports
begin

lemma faithful_commit:
  assumes gov: "governed y" and k: "rw_key y = workflow_id_text i" and c: "faithful good view (rw_key y) (insert y X) cont"
  shows "faithful good view (rw_key y) X (unless_conflict (commit_or_conflict M i y now) cont)"
proof (rule faithfulI)
  fix m w r w' x
  assume w: "good w" "evolves m (view w)" "\<And>z. z \<in> X \<Longrightarrow> seen view m (rw_key y) z w"
    and run: "unless_conflict (commit_or_conflict M i y now) cont w = (Inr r, w')"
    and x: "op_workflow r = Some x"
  obtain s w1 where s: "mp_save M y w = (s, w1)" by fastforce
  show "seen view m (rw_key y) x w'"
  proof (cases s)
    case (Inr u)
    then have cont: "cont w1 = (Inr r, w')"
      using run s by (simp add: unless_conflict_def commit_or_conflict_def catch_act_def bind_act_def)
    obtain n where n: "good w1" "evolves (view w) n" "accepts n y" "view w1 = n(rw_key y \<mapsto> y)"
      using save_ok [OF w(1) gov] s Inr by blast
    have "evolves (view w) (view w1)" using n(2,4) accepts_evolves [OF n(3)] evolves_trans by metis
    then have "evolves m (view w1)" "legal good view w w1"
      using w(2) n(1) evolves_trans by (auto simp: legal_def)
    moreover from this have "seen view m (rw_key y) y w1"
      using n(4) unfolding seen_def by (metis evolves_refl fun_upd_same)
    moreover from calculation have "seen view m (rw_key y) z w1" if "z \<in> X" for z
      using seen_legal [where good = good, OF w(3) [OF that] w(1)] by blast
    ultimately show ?thesis
      by (intro faithfulD [OF c n(1) _ _ cont x]) auto
  next
    case (Inl e)
    have l: "good w1 \<and> evolves (view w) (view w1)" using save_error [OF w(1)] s Inl by blast
    obtain msg where e: "e = WorkflowTransitionError msg"
      using run s Inl by (cases e) (auto simp: unless_conflict_def commit_or_conflict_def catch_act_def bind_act_def)
    let ?w2 = "snd (mp_get M i w1)"
    have w2: "legal good view w1 ?w2" "fst (mp_get M i w1) = view ?w2 (rw_key y)"
      using get_legal get_current k by auto
    have "w' = ?w2" "op_workflow r = view ?w2 (rw_key y)"
      using run s Inl e w2(2)
      by (auto simp: unless_conflict_def commit_or_conflict_def catch_act_def bind_act_def
          split: sum.splits dest!: reply_InrD)
    moreover have "evolves m (view ?w2)" using w(2) l w2(1) evolves_trans unfolding legal_def by blast
    ultimately show ?thesis using x unfolding seen_def by (metis evolves_refl)
  qed
qed

lemma faithful_with_workflow:
  assumes "\<And>now x. rw_key x = workflow_id_text i \<Longrightarrow> governed x \<Longrightarrow> faithful good view (rw_key x) {x} (cont now x)"
  shows "faithful good view (workflow_id_text i) {} (with_workflow M i cont)"
  unfolding with_workflow_def
proof (rule faithful_bind [OF ports_kept(1)], rule faithfulI)
  fix now m w r w' x
  let ?k = "workflow_id_text i" and ?w1 = "snd (mp_get M i w)"
  assume w: "good w" "evolves m (view w)" and x: "op_workflow r = Some x"
    and run: "bind_act (ask (mp_get M i)) (\<lambda>found. case found of
       None \<Rightarrow> lift_res (reply Op_NOT_FOUND ''workflow not found'' None now)
     | Some rw \<Rightarrow> cont now rw) w = (Inr r, w')"
  have g: "legal good view w ?w1" "fst (mp_get M i w) = view ?w1 ?k"
    using get_legal get_current by auto
  then have w1: "good ?w1" "evolves m (view ?w1)" using w evolves_trans unfolding legal_def by blast+
  show "seen view m ?k x w'"
  proof (cases "view ?w1 ?k")
    case None
    then show ?thesis using run x g(2) by (auto dest: reply_InrD)
  next
    case (Some y)
    then have "rw_key y = ?k" "governed y" "seen view m ?k y ?w1"
      using keyed [OF w1(1)] stored_governed [OF w1(1)] w1(2) unfolding seen_def by (metis evolves_refl)+
    moreover have "cont now y ?w1 = (Inr r, w')" using run g(2) Some by simp
    ultimately show ?thesis
      using faithfulD [OF assms w1(1)] w1(2) x by (metis singletonD)
  qed
qed

lemma faithful_announce:
  assumes "y \<in> X" "rw_key y = k" "governed y"
  shows "faithful good view k X (bind_act (announce M ty y msg) (\<lambda>u. lift_res (reply op msg' (Some u) now)))"
proof (cases ty)
  case None
  then show ?thesis using faithful_reply [OF assms(1)] by (simp add: announce_def del: act_apply)
next
  case (Some t)
  have resave: "faithful good view k X (bind_act (bind_act
      (lift_res (workflow_post_init (y\<lparr>rw_warnings := ws\<rparr>)))
      (\<lambda>u. bind_act (mp_save M u) (\<lambda>_. return_act u))) (\<lambda>u. lift_res (reply op msg' (Some u) now)))" for ws
  proof (rule faithfulI)
    fix m w r w' x
    let ?u = "y\<lparr>rw_warnings := ws\<rparr>"
    assume w: "good w" "evolves m (view w)" and x: "op_workflow r = Some x"
      and run: "bind_act (bind_act (lift_res (workflow_post_init ?u))
        (\<lambda>u. bind_act (mp_save M u) (\<lambda>_. return_act u))) (\<lambda>u. lift_res (reply op msg' (Some u) now)) w = (Inr r, w')"
    obtain z w1 where z:
      "bind_act (lift_res (workflow_post_init ?u)) (\<lambda>u. bind_act (mp_save M u) (\<lambda>_. return_act u)) w = (Inr z, w1)"
      "lift_res (reply op msg' (Some z) now) w1 = (Inr r, w')" using bind_act_InrE [OF run] .
    have u: "workflow_post_init ?u = Inr ?u"
      using z(1) by (cases "workflow_post_init ?u") (auto simp: workflow_post_init_Inr_iff)
    have zx: "z = x" "w' = w1" using z(2) x by (auto dest: reply_InrD)
    obtain v where "mp_save M ?u w = (Inr v, w1)" "z = ?u"
      using z(1) u by (auto elim!: bind_act_InrE)
    then obtain n where n: "evolves (view w) n" "accepts n ?u" "view w1 = n(rw_key ?u \<mapsto> ?u)"
      using save_ok [OF w(1), of ?u] assms(3) by auto
    have "evolves m (view w1)" using w(2) n(1) accepts_evolves [OF n(2)] n(3) evolves_trans by metis
    moreover have "rw_key ?u = k" using assms(2) by (simp add: rw_key_def)
    ultimately show "seen view m k x w'"
      using n(3) \<open>z = ?u\<close> zx unfolding seen_def by (metis evolves_refl fun_upd_same)
  qed
  have "faithful good view k X (bind_act (case v of
        None \<Rightarrow> return_act y
      | Some x \<Rightarrow> bind_act (lift_res (workflow_post_init (y\<lparr>rw_warnings := rw_warnings y @ [x]\<rparr>)))
          (\<lambda>u. bind_act (mp_save M u) (\<lambda>_. return_act u)))
      (\<lambda>u. lift_res (reply op msg' (Some u) now)))" for v
    using faithful_reply [OF assms(1)] resave by (cases v) (simp_all del: act_apply)
  then show ?thesis
    unfolding announce_def Some option.case bind_act_assoc by (rule faithful_bind [OF notify_kept])
qed

text \<open>The updates of a record keep its key.\<close>

lemma update_keys:
  "rw_with_status x st at' = Inr y \<Longrightarrow> rw_key y = rw_key x"
  "with_checkpoint x c at' = Inr y \<Longrightarrow> rw_key y = rw_key x"
  "with_approval x d at' st = Inr y \<Longrightarrow> rw_key y = rw_key x"
  "with_counts x r ws = Inr y \<Longrightarrow> rw_key y = rw_key x"
  "workflow_post_init x = Inr y \<Longrightarrow> y = x"
  by (auto simp: rw_with_status_Inr_iff with_checkpoint_Inr_iff with_approval_Inr_iff with_counts_def
      workflow_post_init_Inr_iff rw_key_def)

lemma mismatch_key:
  "and_then (rw_with_status x st at') (\<lambda>u. workflow_post_init (u\<lparr>rw_message := m\<rparr>)) = Inr y \<Longrightarrow>
    rw_key y = rw_key x"
  by (auto simp: rw_key_def dest!: workflow_post_init_eq dest: update_keys(1))

lemma rejection_key:
  "with_approval x d now st = Inr u \<Longrightarrow> workflow_post_init (u\<lparr>rw_message := m\<rparr>) = Inr y \<Longrightarrow>
    rw_key y = rw_key x"
  by (auto simp: rw_key_def dest!: workflow_post_init_eq dest: update_keys(3))

lemma pause_key:
  "with_checkpoint x ck now = Inr u \<Longrightarrow> rw_with_status u st now = Inr y \<Longrightarrow> rw_key y = rw_key x"
  using update_keys(1,2) by metis

lemma applied_key:
  assumes "with_checkpoint x ck now = Inr u" "with_counts u r ws = Inr v" "rw_with_status v st now = Inr z"
  shows "rw_key z = rw_key x"
  using update_keys(2) [OF assms(1)] update_keys(4) [OF assms(2)] update_keys(1) [OF assms(3)] by simp

lemma faithful_apply:
  assumes k: "k = rw_key x" and x: "governed x" "cleared x"
  shows "faithful good view k X (apply_execution_result M x r pause)"
proof -
  obtain nxt op msg ty where cl: "classify_execution pause (er_status r) = (nxt, op, msg, ty)"
    by (metis prod_cases4)
  have tail: "faithful good view k X
      (unless_conflict (commit_or_conflict M (rw_id x) final now)
        (bind_act (mp_save_checkpoint M ck) (\<lambda>_. bind_act (announce M ty final msg)
          (\<lambda>final. lift_res (reply op msg (Some final) now)))))"
    if "rw_key final = rw_key x" "governed final" for final ck now
    unfolding k that(1) [symmetric]
    by (intro faithful_commit faithful_bind [OF ports_kept(5)] faithful_announce)
      (use that in \<open>auto simp: rw_key_def\<close>)
  show ?thesis
    unfolding apply_execution_result_def cl Let_def prod.case
    by (intro faithful_bind [OF ports_kept(1)] faithful_lift faithful_bind [OF persist_kept] tail)
      (use applied_governed [OF x] applied_key in blast)+
qed

lemma faithful_fail_mismatch:
  assumes "rw_key x = workflow_id_text i"
  shows "faithful good view (rw_key x) X (fail_mismatch M i x rsl)"
proof -
  have tail: "faithful good view (rw_key x) X (unless_conflict (commit_or_conflict M i failed now)
      (bind_act (notify M Notify_WORKFLOW_FAILED failed mismatch_message) (\<lambda>_.
       bind_act (ask (mp_clock M)) (\<lambda>stamp. lift_res (operation_post_init
        \<lparr>op_status = Op_FAILED, op_message = mismatch_message, op_workflow = Some failed,
         op_resolution = Some rsl, op_evaluated_at = Some stamp\<rparr>)))))"
    if "rw_key failed = rw_key x" "governed failed" for failed now
  proof -
    have "faithful good view (rw_key failed) (insert failed X) (lift_res (operation_post_init
        \<lparr>op_status = Op_FAILED, op_message = mismatch_message, op_workflow = Some failed,
         op_resolution = Some rsl, op_evaluated_at = Some stamp\<rparr>))" for stamp
      by (rule faithfulI) (auto simp: operation_post_init_def split: if_splits)
    then show ?thesis
      using that assms unfolding that(1) [symmetric]
      by (intro faithful_commit faithful_bind [OF notify_kept] faithful_bind [OF ports_kept(1)]) auto
  qed
  show ?thesis
    unfolding fail_mismatch_def
    by (intro faithful_bind [OF ports_kept(1)] faithful_lift tail)
      (erule mismatch_governed mismatch_key)+
qed

lemma faithful_run:
  assumes "rw_key x = workflow_id_text i" "governed x" "cleared x"
  shows "faithful good view (rw_key x) X (run_workflow M i ctl now x)"
proof -
  have ex: "keeps (legal good view) (execute_prepared ((mp_engine M)\<lparr>read_control := f\<rparr>) p c cq rsl q b st seed)"
    for f p c cq rsl q b st seed
    by (rule legal_rel.execute_prepared_kept) (simp_all add: engine_legal)
  have ct: "keeps (legal good view) (ask (\<lambda>w. (f w, w)))" for f :: "'w \<Rightarrow> bool"
    by (simp add: keeps_def)
  have run: "faithful good view (rw_key x) X
      (bind_act (execute_prepared ((mp_engine M)\<lparr>read_control := f\<rparr>) p c cq rsl q b st seed) (\<lambda>r.
       bind_act (ask (\<lambda>w. (g w, w))) (\<lambda>pause. apply_execution_result M x r pause)))"
    for f p c cq rsl q b st seed g
    by (intro faithful_bind [OF ex] faithful_bind [OF ct] faithful_apply assms(2,3) refl)
  show ?thesis
    unfolding run_workflow_def
    using run faithful_fail_mismatch [OF assms(1)]
    by (intro faithful_bind [OF ports_kept(6)]) (auto split: option.split)
qed

lemma faithful_execute: "faithful good view (workflow_id_text i) {} (manage_execute M i ctl)"
  unfolding manage_execute_def
proof (rule faithful_with_workflow, goal_cases)
  case (1 now x)
  show ?case
  proof (cases "execute_guard x")
    case None
    have "faithful good view (rw_key x) {x}
        (unless_conflict (commit_or_conflict M i y now) (run_workflow M i ctl now y))"
      if "rw_with_status x Wf_RUNNING now = Inr y" for y
    proof -
      have y: "governed y" "cleared y" "rw_key y = workflow_id_text i" "rw_key x = rw_key y"
        using guard_governed [OF 1(2) None] governed_with_status [OF that] update_keys(1) [OF that] 1(1) by auto
      show ?thesis unfolding y(4) by (rule faithful_commit [OF y(1,3) faithful_run [OF y(3,1,2)]])
    qed
    then show ?thesis using None
      by (auto simp del: act_apply intro!: faithful_reply faithful_raise split: sum.split)
  qed (auto simp del: act_apply intro!: faithful_reply)
qed

text \<open>An action that is faithful for no records is so for any.\<close>

lemma faithful_mono: "faithful good view k {} a \<Longrightarrow> faithful good view k X a"
  unfolding faithful_def by blast

lemma faithful_operations:
  "faithful good view (workflow_id_text i) {} (manage_get M i)"
  "faithful good view (workflow_id_text i) {} (manage_pause M i)"
  "faithful good view (workflow_id_text i) {} (manage_resume M i)"
  "faithful good view (workflow_id_text i) {} (manage_cancel M i)"
  "faithful good view (workflow_id_text (aq_workflow_id q)) {} (manage_approve M q)"
proof -
  show "faithful good view (workflow_id_text i) {} (manage_get M i)"
    unfolding manage_get_def by (intro faithful_with_workflow faithful_reply) simp
  have tail: "faithful good view kk {x} (unless_conflict (commit_or_conflict M i y now) k)"
    if "kk = workflow_id_text i" "rw_key y = kk" "governed y" "faithful good view kk {y, x} k" for kk x y k now i
    using faithful_commit [of y i "{x}" k] that by simp
  show "faithful good view (workflow_id_text i) {} (manage_pause M i)"
    unfolding manage_pause_def
    by (rule faithful_with_workflow)
      (auto simp del: act_apply simp: pause_key intro: pause_governed
        intro!: faithful_reply faithful_lift tail faithful_bind [OF ports_kept(5)])
  show "faithful good view (workflow_id_text i) {} (manage_resume M i)"
    unfolding manage_resume_def
    by (rule faithful_with_workflow)
      (auto simp del: act_apply dest: update_keys intro: resume_governed
        intro!: faithful_reply faithful_lift tail faithful_mono [OF faithful_execute])
  show "faithful good view (workflow_id_text i) {} (manage_cancel M i)"
    unfolding manage_cancel_def
  proof (rule faithful_with_workflow, goal_cases)
    case (1 now x)
    have "faithful good view (rw_key x) {x} (bind_act (lift_res (workflow_post_init (y\<lparr>rw_message := m\<rparr>)))
        (\<lambda>y. unless_conflict (commit_or_conflict M i y now)
          (bind_act (notify M ty y msg) (\<lambda>_. lift_res (reply st msg' (Some y) now)))))"
      if "rw_with_status x Wf_CANCELLED now = Inr y" for y m ty msg st msg'
      using update_keys(1) [OF that] governed_with_status(1) [OF that]
      by (intro faithful_lift tail [OF 1(1)] faithful_bind [OF notify_kept] faithful_reply)
        (auto dest!: update_keys(5) simp: rw_key_def)
    then show ?case
      by (auto simp del: act_apply intro!: faithful_reply faithful_raise split: sum.split)
  qed
  show "faithful good view (workflow_id_text (aq_workflow_id q)) {} (manage_approve M q)"
    unfolding manage_approve_def
    by (rule faithful_with_workflow)
      (auto simp del: act_apply simp: Let_def intro!: faithful_reply faithful_lift tail,
        (erule (1) approval_governed | erule (1) rejection_governed
         | simp add: update_keys(3) | simp add: rejection_key)+)
qed

end

end
