(* ===== verification/Workflow_System.thy ===== *)
theory Workflow_System
  imports Workflow_Safety Create_Plan
begin

text \<open>
  The workflow use case over the in-memory adapters, run concurrently. A world holds the workflow
  store, the research memory and the notification log, the rest of the environment, and a schedule:
  the batches of adapter calls that other threads make. Every adapter method takes its lock, so a
  call is atomic; before it, the next batch of the schedule runs. Quantifying over schedules covers
  every interleaving of the operation with other threads.
\<close>

section \<open>Worlds and schedules\<close>

datatype store_call =
    Call_save research_workflow
  | Call_checkpoint checkpoint
  | Call_append memory_record
  | Call_publish notification_event

record 'e workflow_system =
  sys_store :: wf_store
  sys_memory :: memory_store
  sys_log :: notification_log
  sys_schedule :: "store_call list list"
  sys_env :: 'e

text \<open>A method that raises leaves its adapter as it was.\<close>

definition or_same :: "'s \<Rightarrow> 's res \<Rightarrow> 's" where
  "or_same s r = (case r of Inl e \<Rightarrow> s | Inr s' \<Rightarrow> s')"

fun run_call :: "store_call \<Rightarrow> 'e workflow_system \<Rightarrow> 'e workflow_system" where
  "run_call (Call_save x) w = w\<lparr>sys_store := or_same (sys_store w) (save_workflow x (sys_store w))\<rparr>"
| "run_call (Call_checkpoint c) w =
     w\<lparr>sys_store := or_same (sys_store w) (save_checkpoint c (sys_store w))\<rparr>"
| "run_call (Call_append r) w = w\<lparr>sys_memory := or_same (sys_memory w) (memory_append r (sys_memory w))\<rparr>"
| "run_call (Call_publish e) w = w\<lparr>sys_log := or_same (sys_log w) (publish_event e (sys_log w))\<rparr>"

definition interleave :: "'e workflow_system \<Rightarrow> 'e workflow_system" where
  "interleave w = (case sys_schedule w of [] \<Rightarrow> w | b # rest \<Rightarrow> fold run_call b (w\<lparr>sys_schedule := rest\<rparr>))"

section \<open>The ports on the adapters\<close>

text \<open>The environment: the clock, \<open>uuid4\<close>, company resolution, plan creation and the executor.\<close>

record 'e env_ports =
  env_clock :: "'e \<Rightarrow> datetime \<times> 'e"
  env_fresh :: "'e \<Rightarrow> uuid \<times> 'e"
  env_resolve :: "company_query \<Rightarrow> ('e, resolution_result) action"
  env_create_plan :: "create_plan_query \<Rightarrow> ('e, create_plan_result) action"
  env_execute :: "research_task \<Rightarrow> company_identity \<Rightarrow> company_query \<Rightarrow> ('e, task_result) action"
  env_limits :: execution_budget
  env_remembers :: bool
  env_notifies :: bool

definition in_env :: "('e \<Rightarrow> 'a \<times> 'e) \<Rightarrow> 'e workflow_system \<Rightarrow> 'a \<times> 'e workflow_system" where
  "in_env f w = (case f (sys_env w) of (x, e) \<Rightarrow> (x, w\<lparr>sys_env := e\<rparr>))"

definition store_update ::
    "(wf_store \<Rightarrow> wf_store res) \<Rightarrow> ('e workflow_system, unit) action" where
  "store_update f w0 = (let w = interleave w0 in
     case f (sys_store w) of Inl e \<Rightarrow> (Inl e, w) | Inr s \<Rightarrow> (Inr (), w\<lparr>sys_store := s\<rparr>))"

definition store_get ::
    "workflow_id \<Rightarrow> 'e workflow_system \<Rightarrow> research_workflow option \<times> 'e workflow_system" where
  "store_get i w0 = (let w = interleave w0 in (get_workflow i (sys_store w), w))"

definition store_list :: "list_query \<Rightarrow> ('e workflow_system, research_workflow list) action" where
  "store_list q w0 = (let w = interleave w0 in
     (list_workflows (lq_status q) (lq_company_id q) (lq_limit q) (lq_offset q) (sys_store w), w))"

definition append_port :: "memory_record \<Rightarrow> ('e workflow_system, unit) action" where
  "append_port r w0 = (let w = interleave w0 in
     case memory_append r (sys_memory w) of
       Inl e \<Rightarrow> (Inl e, w) | Inr s \<Rightarrow> (Inr (), w\<lparr>sys_memory := s\<rparr>))"

definition publish_port :: "notification_event \<Rightarrow> ('e workflow_system, unit) action" where
  "publish_port ev w0 = (let w = interleave w0 in
     case publish_event ev (sys_log w) of
       Inl e \<Rightarrow> (Inl e, w) | Inr s \<Rightarrow> (Inr (), w\<lparr>sys_log := s\<rparr>))"

definition system_ports :: "'e env_ports \<Rightarrow> 'e workflow_system manage_ports" where
  "system_ports E =
     \<lparr>mp_clock = in_env (env_clock E), mp_fresh = in_env (env_fresh E), mp_get = store_get,
      mp_list = store_list, mp_save = (\<lambda>x. store_update (save_workflow x)),
      mp_save_checkpoint = (\<lambda>c. store_update (save_checkpoint c)),
      mp_resolve = (\<lambda>q. in_env (env_resolve E q)),
      mp_engine = \<lparr>clock = in_env (env_clock E), read_control = (\<lambda>_. new_control),
                   execute_task = (\<lambda>t c q. in_env (env_execute E t c q))\<rparr>,
      mp_budget = env_limits E,
      mp_memory = (if env_remembers E then Some append_port else None),
      mp_notifications = (if env_notifies E then Some publish_port else None)\<rparr>"

section \<open>The adapters provide the interface\<close>

text \<open>
  A good world: well-formed dictionaries, only governed records, and other threads that save only
  governed records.
\<close>

definition all_governed :: "wf_store \<Rightarrow> bool" where
  "all_governed s \<longleftrightarrow> list_all (\<lambda>(k, x). governed x) (st_workflows s)"

fun governed_call :: "store_call \<Rightarrow> bool" where
  "governed_call (Call_save x) = governed x"
| "governed_call _ = True"

definition good_system :: "'e workflow_system \<Rightarrow> bool" where
  "good_system w \<longleftrightarrow> wf_store (sys_store w) \<and> wf_memory (sys_memory w) \<and> all_governed (sys_store w) \<and>
     list_all (list_all governed_call) (sys_schedule w)"

definition system_view :: "'e workflow_system \<Rightarrow> workflow_map" where
  "system_view w = store_view (sys_store w)"

lemma system_view_keyed: "good_system w \<Longrightarrow> system_view w k = Some x \<Longrightarrow> rw_key x = k"
  using wf_dict_map_of by (auto simp: good_system_def wf_store_def system_view_def store_view_def)

lemma save_workflow_evolves:
  "save_workflow x s = Inr s' \<Longrightarrow> evolves (store_view s) (store_view s')"
  by (auto simp: save_workflow_refines accepts_evolves)

lemma save_checkpoint_evolves:
  "save_checkpoint c s = Inr s' \<Longrightarrow> evolves (store_view s) (store_view s')"
  by (simp add: store_view_def save_checkpoint_view)

lemma or_same_rule: "P s \<Longrightarrow> (\<And>s'. r = Inr s' \<Longrightarrow> P s') \<Longrightarrow> P (or_same s r)"
  by (cases r) (simp_all add: or_same_def)

text \<open>What every store method leaves of a store.\<close>

definition store_step :: "wf_store \<Rightarrow> wf_store \<Rightarrow> bool" where
  "store_step s s' \<longleftrightarrow> (wf_store s \<and> all_governed s \<longrightarrow>
     wf_store s' \<and> all_governed s' \<and> evolves (store_view s) (store_view s'))"

lemma all_governed_update:
  "all_governed s \<Longrightarrow> governed x \<Longrightarrow> all_governed (s\<lparr>st_workflows := AList.update k x (st_workflows s)\<rparr>)"
proof -
  have "list_all (\<lambda>(k, x). governed x) d \<Longrightarrow> governed x \<Longrightarrow> list_all (\<lambda>(k, x). governed x) (AList.update k x d)" for d
    by (induction d) auto
  then show "all_governed s \<Longrightarrow> governed x \<Longrightarrow> ?thesis" by (simp add: all_governed_def)
qed

lemma store_steps:
  "store_step s s" "governed x \<Longrightarrow> save_workflow x s = Inr s' \<Longrightarrow> store_step s s'"
  "save_checkpoint c s = Inr s' \<Longrightarrow> store_step s s'"
proof -
  show "store_step s s" by (simp add: store_step_def)
  show "store_step s s'" if "governed x" "save_workflow x s = Inr s'"
    using wf_store_ops(1) [OF _ that(2)] save_workflow_evolves [OF that(2)] all_governed_update that
    by (auto simp: store_step_def save_workflow_refines)
  show "store_step s s'" if "save_checkpoint c s = Inr s'"
    using wf_store_ops(2) [OF _ that] save_checkpoint_evolves [OF that] save_checkpoint_view [OF that]
    by (auto simp: store_step_def all_governed_def)
qed

lemma store_step_legal:
  "store_step (sys_store w) s \<Longrightarrow> legal good_system system_view w (w\<lparr>sys_store := s\<rparr>)"
  by (simp add: store_step_def legal_def good_system_def system_view_def)

lemma run_call_legal:
  assumes "governed_call c" shows "legal good_system system_view w (run_call c w)"
proof (cases c)
  case (Call_save x)
  then show ?thesis
    using or_same_rule [of "store_step (sys_store w)"] store_steps assms by (auto intro!: store_step_legal)
next
  case (Call_checkpoint x)
  then show ?thesis
    using or_same_rule [of "store_step (sys_store w)"] store_steps by (auto intro!: store_step_legal)
next
  case (Call_append r)
  have "wf_memory (sys_memory w) \<Longrightarrow> wf_memory (or_same (sys_memory w) (memory_append r (sys_memory w)))"
    by (rule or_same_rule) (auto intro: memory_append_wf)
  then show ?thesis using Call_append by (simp add: legal_def good_system_def system_view_def)
next
  case (Call_publish e)
  then show ?thesis by (simp add: legal_def good_system_def system_view_def)
qed

lemma interleave_legal: "legal good_system system_view w (interleave w)"
proof (cases "sys_schedule w")
  case Nil
  then show ?thesis by (simp add: interleave_def)
next
  case (Cons b rest)
  have fold: "list_all governed_call b \<Longrightarrow> legal good_system system_view v (fold run_call b v)" for b v
    by (induction b arbitrary: v) (auto intro: legal_trans run_call_legal)
  show ?thesis
  proof (cases "list_all governed_call b")
    case True
    have "good_system w \<Longrightarrow> good_system (w\<lparr>sys_schedule := rest\<rparr>)" using Cons by (simp add: good_system_def)
    then have "legal good_system system_view w (w\<lparr>sys_schedule := rest\<rparr>)"
      by (simp add: legal_def system_view_def)
    then show ?thesis using legal_trans [OF _ fold [OF True]] Cons by (simp add: interleave_def)
  next
    case False
    then show ?thesis using Cons by (simp add: legal_def good_system_def)
  qed
qed

lemma in_env_legal: "legal good_system system_view w (snd (in_env f w))"
  by (auto simp: in_env_def legal_def good_system_def system_view_def split: prod.split)

lemma store_update_legal:
  assumes "\<And>s s'. f s = Inr s' \<Longrightarrow> store_step s s'"
  shows "legal good_system system_view w (snd (store_update f w))"
proof -
  have "legal good_system system_view v (case f (sys_store v) of Inl e \<Rightarrow> v | Inr s \<Rightarrow> v\<lparr>sys_store := s\<rparr>)" for v
    using assms [of "sys_store v"] store_step_legal by (auto split: sum.split)
  from legal_trans [OF interleave_legal this [of "interleave w"]] show ?thesis
    by (cases "f (sys_store (interleave w))") (auto simp: store_update_def Let_def)
qed

interpretation in_memory: workflow_ports "system_ports E" good_system system_view for E
proof (unfold_locales, goal_cases)
  case (1 w k x)
  then show ?case by (rule system_view_keyed)
next
  case (2 w i)
  then show ?case using interleave_legal by (simp add: system_ports_def store_get_def Let_def)
next
  case (3 w i)
  then show ?case
    by (simp add: system_ports_def store_get_def Let_def get_workflow_def system_view_def store_view_def)
next
  case (4 w k x)
  then show ?case
    by (auto simp: good_system_def all_governed_def list_all_iff system_view_def store_view_def dest!: map_of_SomeD)
next
  case (5 w x u w')
  have "legal good_system system_view w w'"
    using store_update_legal [of "save_workflow x" w] store_steps(2) [OF 5(2)] 5(3) by (simp add: system_ports_def)
  moreover have "\<exists>m. evolves (system_view w) m \<and> accepts m x \<and> system_view w' = m(rw_key x \<mapsto> x)"
    using interleave_legal [of w] 5(1,3)
    by (auto simp: system_ports_def store_update_def Let_def system_view_def save_workflow_refines legal_def
        split: sum.splits)
  ultimately show ?case using 5(1) by (simp add: legal_def)
next
  case (6 w x e w')
  have err: "\<not> accepts (store_view s) x \<and> ((\<exists>m. e = WorkflowStoreError m) \<or> (\<exists>m. e = WorkflowTransitionError m))"
    if bad: "save_workflow x s = Inl e" for s
  proof -
    obtain y where "map_of (st_workflows s) (rw_key x) = Some y" "check_existing y x = Inl e"
      using bad by (auto simp: save_workflow_def and_then_Inl_iff split: option.splits)
    then show ?thesis using check_existing_error by (auto simp: accepts_def store_view_def)
  qed
  have w': "w' = interleave w" "save_workflow x (sys_store w') = Inl e"
    using 6(2) by (auto simp: system_ports_def store_update_def Let_def split: sum.splits)
  then show ?case using err [OF w'(2)] interleave_legal [of w] 6(1) by (simp add: legal_def system_view_def)
next
  case (7 w c)
  then show ?case
    using store_update_legal [of "save_checkpoint c" w] store_steps(3) by (simp add: system_ports_def)
next
  case (8 w q)
  then show ?case using interleave_legal by (simp add: system_ports_def store_list_def Let_def)
next
  case (14 put w r)
  have "legal good_system system_view v
      (case memory_append r (sys_memory v) of Inl e \<Rightarrow> v | Inr s \<Rightarrow> v\<lparr>sys_memory := s\<rparr>)" for v
    by (auto simp: legal_def good_system_def system_view_def dest: memory_append_wf split: sum.split)
  from legal_trans [OF interleave_legal this [of "interleave w"]] show ?case
    using 14 by (cases "memory_append r (sys_memory (interleave w))")
      (auto simp: system_ports_def append_port_def Let_def split: if_splits)
next
  case (15 publish w ev)
  have "legal good_system system_view v
      (case publish_event ev (sys_log v) of Inl e \<Rightarrow> v | Inr s \<Rightarrow> v\<lparr>sys_log := s\<rparr>)" for v
    by (auto simp: legal_def good_system_def system_view_def split: sum.split)
  from legal_trans [OF interleave_legal this [of "interleave w"]] show ?case
    using 15 by (cases "publish_event ev (sys_log (interleave w))")
      (auto simp: system_ports_def publish_port_def Let_def split: if_splits)
qed (simp_all add: system_ports_def in_env_legal)

end
