(* ===== verification/Create_Workflow.thy ===== *)
theory Create_Workflow
  imports Create_Plan Workflow_System
begin

text \<open>
  Creating workflows (\<open>application/create_research_workflow.py\<close>), the approval policy
  (\<open>application/approval_policy.py\<close>) and the orchestrator that hands a planner's plan to the
  workflow use case (\<open>application/research_orchestrator.py\<close>,
  \<open>application/orchestrator_contracts.py\<close>).
\<close>

section \<open>The approval policy\<close>

definition approval_policy :: "objective \<Rightarrow> bool \<Rightarrow> approval_requirement res" where
  "approval_policy obj require_approval =
     (if require_approval
      then requirement_post_init \<lparr>approval_required = True,
             approval_reason = ''caller requested human approval before workflow execution''\<rparr>
      else if obj = Objective_COMPREHENSIVE_EQUITY_RESEARCH
      then requirement_post_init \<lparr>approval_required = True,
             approval_reason = ''comprehensive equity research requires human approval before execution''\<rparr>
      else requirement_post_init \<lparr>approval_required = False,
             approval_reason = ''approval not required for this objective''\<rparr>)"

section \<open>Contracts\<close>

record create_workflow_query =
  cw_company_query :: company_query
  cw_objective :: objective
  cw_objective_text :: "string option"
  cw_jurisdiction :: "string option"
  cw_time_horizon_days :: "int option"
  cw_require_approval :: bool

record prepared_plan =
  prepared_plan :: research_plan
  prepared_request :: research_request

definition workflow_plan_query :: "create_workflow_query \<Rightarrow> create_plan_query" where
  "workflow_plan_query q =
     \<lparr>cq_company_query = cw_company_query q, cq_objective = cw_objective q,
      cq_objective_text = cw_objective_text q, cq_jurisdiction = cw_jurisdiction q,
      cq_time_horizon_days = cw_time_horizon_days q\<rparr>"

section \<open>The use case\<close>

record 'w creation_ports =
  wp_clock :: "'w \<Rightarrow> datetime \<times> 'w"
  wp_fresh :: "'w \<Rightarrow> uuid \<times> 'w"
  wp_create_plan :: "create_plan_query \<Rightarrow> ('w, create_plan_result) action"
  wp_save :: "research_workflow \<Rightarrow> ('w, unit) action"
  wp_notifications :: "(notification_event \<Rightarrow> ('w, unit) action) option"

text \<open>The early return of a plan that was not created, if there is one.\<close>

definition plan_refusal :: "create_plan_result \<Rightarrow> (operation_status \<times> string) option" where
  "plan_refusal pr =
     (if cp_status pr = Creation_INVALID then Some (Op_INVALID, cp_message pr)
      else if cp_status pr = Creation_RESOLUTION_BLOCKED then Some (Op_RESOLUTION_BLOCKED, cp_message pr)
      else if cp_status pr \<noteq> Creation_OK \<or> cp_plan pr = None
      then Some (Op_FAILED, if cp_message pr = [] then ''plan unavailable'' else cp_message pr)
      else None)"

text \<open>The two \<open>assert\<close>s, and what the plan result is used for.\<close>

definition plan_parts :: "create_plan_result \<Rightarrow> (research_plan \<times> request_id \<times> resolution_result) res" where
  "plan_parts pr =
     (case (cp_request pr, cp_resolution pr, cp_plan pr) of
        (Some request, Some resolution, Some plan) \<Rightarrow>
          if resolved_company resolution = None then Inl AssertionError
          else Inr (plan, request_id request, resolution)
      | _ \<Rightarrow> Inl AssertionError)"

text \<open>The new record: status \<open>CREATED\<close>, then the status its requirement asks for.\<close>

definition new_workflow ::
    "create_workflow_query \<Rightarrow> research_plan \<Rightarrow> request_id \<Rightarrow> approval_requirement \<Rightarrow> datetime \<Rightarrow> uuid
      \<Rightarrow> research_workflow res"
where
  "new_workflow q plan rid requirement now u =
     (let (status, approval) =
        (if approval_required requirement then (Wf_AWAITING_APPROVAL, Approval_PENDING)
         else (Wf_READY, Approval_NOT_REQUIRED)); cq = cw_company_query q
      in and_then (mk_workflow_id u) (\<lambda>wid.
         and_then (workflow_query_post_init \<lparr>wq_raw_query = raw_query cq, wq_country = query_country cq,
             wq_exchange = query_exchange cq, wq_ticker = query_ticker cq\<rparr>) (\<lambda>wq.
         and_then (workflow_post_init
           \<lparr>rw_id = wid, rw_run_id = plan_run_id plan, rw_request_id = rid,
            rw_company_id = plan_company_id plan, rw_objective = cw_objective q, rw_plan = plan,
            rw_company_query = wq, rw_status = Wf_CREATED, rw_approval_status = approval,
            rw_requirement = requirement, rw_created_at = now, rw_updated_at = now, rw_version = 0,
            rw_checkpoint = None, rw_decision = None, rw_message = None, rw_completed_count = 0,
            rw_failed_count = 0, rw_blocked_count = 0, rw_partial_count = 0, rw_evidence_count = 0,
            rw_warnings = []\<rparr>) (\<lambda>rw.
           rw_with_status rw status now))))"

text \<open>\<open>with suppress(Exception): ... publish(...)\<close>\<close>

definition publish_quietly ::
    "'w creation_ports \<Rightarrow> notification_type \<Rightarrow> datetime \<Rightarrow> workflow_id option \<Rightarrow> string option \<Rightarrow> string
      \<Rightarrow> (string \<times> string) list \<Rightarrow> ('w, unit) action"
where
  "publish_quietly P ty now wid cid msg meta =
     (case wp_notifications P of
        None \<Rightarrow> return_act ()
      | Some publish \<Rightarrow>
          catch_act
            (bind_act (ask (wp_fresh P)) (\<lambda>u.
             bind_act (lift_res (and_then (mk_notification_id u) (\<lambda>nid. event_post_init
               \<lparr>ne_id = nid, ne_type = ty, ne_created_at = now, ne_workflow_id = wid,
                ne_company_id = cid, ne_message = msg, ne_metadata = meta\<rparr>))) publish))
            (\<lambda>_. return_act ()))"

definition announce_approval :: "'w creation_ports \<Rightarrow> research_workflow \<Rightarrow> datetime \<Rightarrow> ('w, unit) action" where
  "announce_approval P rw now =
     (if rw_status rw = Wf_AWAITING_APPROVAL
      then publish_quietly P Notify_APPROVAL_REQUIRED now (Some (rw_id rw))
             (Some (company_id_text (rw_company_id rw)))
             ''human approval required before workflow execution''
             [(''status'', workflow_status_value (rw_status rw))]
      else return_act ())"

definition store_new_workflow ::
    "'w creation_ports \<Rightarrow> create_workflow_query \<Rightarrow> datetime
      \<Rightarrow> research_plan \<times> request_id \<times> resolution_result option \<Rightarrow> ('w, operation_result) action"
where
  "store_new_workflow P q now parts =
     (case parts of (plan, rid, resolution) \<Rightarrow>
       bind_act (lift_res (approval_policy (cw_objective q) (cw_require_approval q))) (\<lambda>requirement.
       bind_act (ask (wp_fresh P)) (\<lambda>u.
       bind_act (lift_res (new_workflow q plan rid requirement now u)) (\<lambda>rw.
       bind_act (wp_save P rw) (\<lambda>_.
       bind_act (announce_approval P rw now) (\<lambda>_.
         lift_res (operation_post_init
           \<lparr>op_status = Op_OK, op_message = ''research workflow created'', op_workflow = Some rw,
            op_resolution = resolution, op_evaluated_at = Some now\<rparr>)))))))"

definition create_workflow ::
    "'w creation_ports \<Rightarrow> create_workflow_query \<Rightarrow> prepared_plan option \<Rightarrow> ('w, operation_result) action"
where
  "create_workflow P q prepared =
     bind_act (ask (wp_clock P)) (\<lambda>now.
       if \<not> tz_aware now
       then lift_res (Inl (ValueError ''clock must return timezone-aware datetime''))
       else case prepared of
         Some pp \<Rightarrow>
           store_new_workflow P q now
             (prepared_plan pp, request_id (prepared_request pp), None)
       | None \<Rightarrow>
           bind_act (wp_create_plan P (workflow_plan_query q)) (\<lambda>pr.
             case plan_refusal pr of
               Some (st, msg) \<Rightarrow>
                 lift_res (operation_post_init
                   \<lparr>op_status = st, op_message = msg, op_workflow = None,
                    op_resolution = cp_resolution pr, op_evaluated_at = Some now\<rparr>)
             | None \<Rightarrow>
                 bind_act (lift_res (plan_parts pr)) (\<lambda>(plan, rid, resolution).
                   store_new_workflow P q now (plan, rid, Some resolution))))"

section \<open>The orchestrator\<close>

datatype orchestration_outcome =
    Outcome_OK | Outcome_INVALID | Outcome_PLANNER_UNAVAILABLE | Outcome_PLANNER_FAILED
  | Outcome_WORKFLOW_FAILED

record orchestrate_result =
  or_status :: orchestration_outcome
  or_message :: string
  or_planner_outcome :: "planner_outcome option"
  or_workflow_result :: "operation_result option"
  or_correlation_id :: "string option"
  or_evaluated_at :: "datetime option"

definition orchestrate_post_init :: "orchestrate_result \<Rightarrow> orchestrate_result res" where
  "orchestrate_post_init r =
     (if naive_stamp (or_evaluated_at r) then Inl (ValueError ''evaluated_at must be timezone-aware'')
      else if or_status r = Outcome_OK \<and> or_workflow_result r = None
      then Inl (ValueError ''ok results require a workflow result'')
      else Inr r)"

definition orchestrate_reply ::
    "orchestration_outcome \<Rightarrow> string \<Rightarrow> planner_outcome option \<Rightarrow> operation_result option \<Rightarrow> string option
      \<Rightarrow> datetime \<Rightarrow> orchestrate_result res"
where
  "orchestrate_reply st msg outcome wr corr now = orchestrate_post_init
     \<lparr>or_status = st, or_message = msg, or_planner_outcome = outcome, or_workflow_result = wr,
      or_correlation_id = corr, or_evaluated_at = Some now\<rparr>"

text \<open>The request of the \<open>try\<close> block: \<open>u1\<close> for the request id, \<open>u2\<close> for the run id.\<close>

definition orchestrator_request ::
    "create_workflow_query \<Rightarrow> uuid \<Rightarrow> uuid \<Rightarrow> datetime \<Rightarrow> research_request res" where
  "orchestrator_request q u1 u2 now =
     and_then (mk_request_id u1) (\<lambda>rid.
     and_then (new_run_id u2 now) (\<lambda>run_id.
       request_post_init (request_of (workflow_plan_query q) rid run_id now)))"

definition orchestrate ::
    "(research_request \<Rightarrow> ('w, planner_outcome) action) \<Rightarrow> 'w creation_ports \<Rightarrow> create_workflow_query
      \<Rightarrow> string option \<Rightarrow> ('w, orchestrate_result) action"
where
  "orchestrate planner P q corr =
     bind_act (ask (wp_clock P)) (\<lambda>now.
       if \<not> tz_aware now
       then lift_res (Inl (ValueError ''clock must return timezone-aware datetime''))
       else
         bind_act (ask (wp_fresh P)) (\<lambda>u1.
         bind_act (ask (wp_fresh P)) (\<lambda>u2.
           case orchestrator_request q u1 u2 now of
             Inl e \<Rightarrow>
               if is_value_error e
               then lift_res (orchestrate_reply Outcome_INVALID (error_text e) None None corr now)
               else lift_res (Inl e)
           | Inr request \<Rightarrow>
               bind_act (planner request) (\<lambda>outcome.
                 if outcome_status outcome = Planner_UNAVAILABLE
                 then lift_res (orchestrate_reply Outcome_PLANNER_UNAVAILABLE (outcome_message outcome)
                        (Some outcome) None corr now)
                 else if outcome_status outcome \<noteq> Planner_OK
                 then lift_res (orchestrate_reply Outcome_PLANNER_FAILED (outcome_message outcome)
                        (Some outcome) None corr now)
                 else case outcome_plan outcome of
                   None \<Rightarrow> lift_res (Inl AssertionError)
                 | Some plan \<Rightarrow>
                     bind_act (create_workflow P q
                         (Some \<lparr>prepared_plan = plan, prepared_request = request\<rparr>)) (\<lambda>wr.
                       if op_status wr \<noteq> Op_OK
                       then lift_res (orchestrate_reply Outcome_WORKFLOW_FAILED (op_message wr)
                              (Some outcome) (Some wr) corr now)
                       else lift_res (orchestrate_reply Outcome_OK
                              ''workflow created after planner-approved request''
                              (Some outcome) (Some wr) corr now))))))"

end
