(* ===== verification/Workflow_History.thy ===== *)
theory Workflow_History
  imports Create_Workflow
begin

text \<open>
  Histories of a workflow system: any sequence of operations, of adapter calls by other threads and
  of changes of the environment. The invariants of the stored records follow by rule induction from
  what every operation keeps.
\<close>

section \<open>Creating workflows on the adapters\<close>

definition creation_on :: "'e env_ports \<Rightarrow> 'e workflow_system creation_ports" where
  "creation_on E =
     \<lparr>wp_clock = in_env (env_clock E), wp_fresh = in_env (env_fresh E),
      wp_create_plan = (\<lambda>q. in_env (env_create_plan E q)),
      wp_save = (\<lambda>x. store_update (save_workflow x)),
      wp_notifications = (if env_notifies E then Some publish_port else None)\<rparr>"

text \<open>A new workflow is governed: it waits for its approval, or none is required.\<close>

lemma new_workflow_governed:
  assumes "new_workflow q plan rid requirement now u = Inr rw" shows "governed rw"
proof (cases "approval_required requirement")
  case True
  then obtain x where "rw_with_status x Wf_AWAITING_APPROVAL now = Inr rw"
    using assms by (auto simp: new_workflow_def Let_def)
  then show ?thesis using governed_with_status(1) by fastforce
next
  case False
  then obtain x where x: "rw_with_status x Wf_READY now = Inr rw" "rw_approval_status x = Approval_NOT_REQUIRED"
    "rw_requirement x = requirement"
    using assms by (auto simp: new_workflow_def Let_def workflow_post_init_Inr_iff)
  then show ?thesis using governed_with_status(1) [OF x(1)] False by (simp add: cleared_def)
qed

lemma creation_ports_kept:
  "keeps (legal good_system system_view) (ask (wp_clock (creation_on E)))"
  "keeps (legal good_system system_view) (ask (wp_fresh (creation_on E)))"
  "keeps (legal good_system system_view) (wp_create_plan (creation_on E) pq)"
  "governed x \<Longrightarrow> keeps (legal good_system system_view) (wp_save (creation_on E) x)"
  "wp_notifications (creation_on E) = Some publish \<Longrightarrow> keeps (legal good_system system_view) (publish ev)"
  using store_update_legal [of "save_workflow x"] store_steps(2) in_memory.notify_legal [of E]
  by (auto simp: keeps_def creation_on_def in_env_legal system_ports_def split: if_splits)

lemma publish_quietly_kept:
  "keeps (legal good_system system_view) (publish_quietly (creation_on E) ty now wid cid msg meta)"
proof (cases "wp_notifications (creation_on E)")
  case None
  then show ?thesis by (simp add: publish_quietly_def legal_rel.keeps_return del: act_apply)
next
  case (Some publish)
  show ?thesis
    unfolding publish_quietly_def Some option.case
    by (intro legal_rel.keeps_return legal_rel.keeps_catch legal_rel.keeps_bind legal_rel.keeps_lift
        creation_ports_kept(2) creation_ports_kept(5) [OF Some])
qed

lemma store_new_kept: "keeps (legal good_system system_view) (store_new_workflow (creation_on E) q now parts)"
proof -
  have "keeps (legal good_system system_view) (announce_approval (creation_on E) rw now)" for rw
    by (simp add: announce_approval_def publish_quietly_kept legal_rel.keeps_return)
  then show ?thesis
    unfolding store_new_workflow_def
    by (auto intro!: legal_rel.keeps_lift_bind legal_rel.keeps_bind legal_rel.keeps_lift
        creation_ports_kept(1-4) intro: new_workflow_governed split: prod.split)
qed

lemma create_kept: "keeps (legal good_system system_view) (create_workflow (creation_on E) q prepared)"
  unfolding create_workflow_def
  by (auto intro!: legal_rel.keeps_lift_bind legal_rel.keeps_bind legal_rel.keeps_lift
      creation_ports_kept(1-4) store_new_kept split: option.split)

section \<open>Histories of a system\<close>

text \<open>
  The operations of the use case, and the steps of a system: an operation, a call another thread
  makes on an adapter, or a change of the environment.
\<close>

datatype 'e workflow_operation =
    Do_create create_workflow_query "prepared_plan option"
  | Do_get workflow_id
  | Do_list list_query
  | Do_execute workflow_id "('e workflow_system \<Rightarrow> execution_control) option"
  | Do_pause workflow_id
  | Do_resume workflow_id
  | Do_cancel workflow_id
  | Do_approve approval_query

text \<open>What an operation replies, if it replies with an operation result, and the world after it.\<close>

fun perform ::
    "'e env_ports \<Rightarrow> 'e workflow_operation \<Rightarrow> 'e workflow_system
      \<Rightarrow> operation_result res option \<times> 'e workflow_system"
where
  "perform E (Do_create q p) w = map_prod Some id (create_workflow (creation_on E) q p w)"
| "perform E (Do_get i) w = map_prod Some id (manage_get (system_ports E) i w)"
| "perform E (Do_list q) w = (None, snd (manage_list (system_ports E) q w))"
| "perform E (Do_execute i ctl) w = map_prod Some id (manage_execute (system_ports E) i ctl w)"
| "perform E (Do_pause i) w = map_prod Some id (manage_pause (system_ports E) i w)"
| "perform E (Do_resume i) w = map_prod Some id (manage_resume (system_ports E) i w)"
| "perform E (Do_cancel i) w = map_prod Some id (manage_cancel (system_ports E) i w)"
| "perform E (Do_approve q) w = map_prod Some id (manage_approve (system_ports E) q w)"

inductive system_step :: "'e env_ports \<Rightarrow> 'e workflow_system \<Rightarrow> 'e workflow_system \<Rightarrow> bool" for E where
  operation: "system_step E w (snd (perform E op w))"
| foreign_call: "governed_call c \<Longrightarrow> system_step E w (run_call c w)"
| environment: "system_step E w (w\<lparr>sys_env := e\<rparr>)"

inductive_cases system_stepE: "system_step E w w'"

lemma perform_legal: "legal good_system system_view w (snd (perform E op w))"
  by (cases op)
    (simp_all add: create_kept [unfolded keeps_def, rule_format] in_memory.operations_kept [unfolded keeps_def, rule_format]
      in_memory.execute_kept [unfolded keeps_def, rule_format])

lemma environment_legal: "legal good_system system_view w (w\<lparr>sys_env := e\<rparr>)"
  by (simp add: legal_def good_system_def system_view_def)

lemma system_step_legal: "system_step E w w' \<Longrightarrow> legal good_system system_view w w'"
  by (erule system_stepE) (simp_all add: perform_legal run_call_legal environment_legal)

lemma system_steps_legal: "(system_step E)\<^sup>*\<^sup>* w w' \<Longrightarrow> legal good_system system_view w w'"
  by (induction rule: rtranclp_induct) (auto intro: legal_trans system_step_legal)

text \<open>A workflow in the reply of an operation on an existing workflow was stored under its key.\<close>

fun operation_key :: "'e workflow_operation \<Rightarrow> string option" where
  "operation_key (Do_get i) = Some (workflow_id_text i)"
| "operation_key (Do_execute i ctl) = Some (workflow_id_text i)"
| "operation_key (Do_pause i) = Some (workflow_id_text i)"
| "operation_key (Do_resume i) = Some (workflow_id_text i)"
| "operation_key (Do_cancel i) = Some (workflow_id_text i)"
| "operation_key (Do_approve q) = Some (workflow_id_text (aq_workflow_id q))"
| "operation_key _ = None"

lemma faithful_seen:
  assumes "faithful good_system system_view k {} a" "good_system w" "op_workflow r = Some x"
    "map_prod Some id (a w) = (Some (Inr r), w')"
  shows "seen system_view (system_view w) k x w'"
proof -
  have "a w = (Inr r, w')" using assms(4) by (cases "a w") auto
  then show ?thesis
    using faithfulD [where good = good_system and view = system_view and w = w and m = "system_view w"]
      assms(1-3) evolves_refl by (metis empty_iff)
qed

lemma perform_seen:
  assumes "good_system w" "operation_key op = Some k" "perform E op w = (Some (Inr r), w')"
    "op_workflow r = Some x"
  shows "seen system_view (system_view w) k x w'"
  using assms
  by (cases op)
    (auto intro: in_memory.faithful_operations [THEN faithful_seen]
      in_memory.faithful_execute [THEN faithful_seen])

lemma history_single: "(system_step E)\<^sup>*\<^sup>* w (snd (perform E op w))"
  by (intro r_into_rtranclp system_step.operation)

end
