(* ===== verification/Workflow_Samples.thy ===== *)
theory Workflow_Samples
  imports Workflow_History Samples
begin

text \<open>Concrete workflows and worlds for the witnesses of the workflow properties.\<close>

definition sample_workflow_id :: workflow_id where
  "sample_workflow_id = WorkflowId (uuid_of (CHR ''d''))"

definition sample_workflow :: "workflow_status \<Rightarrow> approval_status \<Rightarrow> research_workflow" where
  "sample_workflow st ap =
     \<lparr>rw_id = sample_workflow_id, rw_run_id = sample_run_id, rw_request_id = RequestId (uuid_of (CHR ''e'')),
      rw_company_id = sample_company_id, rw_objective = Objective_FINANCIAL_ANALYSIS,
      rw_plan = single_plan,
      rw_company_query = \<lparr>wq_raw_query = ''Acme'', wq_country = None, wq_exchange = None, wq_ticker = None\<rparr>,
      rw_status = st, rw_approval_status = ap,
      rw_requirement = \<lparr>approval_required = (ap \<noteq> Approval_NOT_REQUIRED), approval_reason = ''policy''\<rparr>,
      rw_created_at = sample_time, rw_updated_at = sample_time, rw_version = 0, rw_checkpoint = None,
      rw_decision = None, rw_message = None, rw_completed_count = 0, rw_failed_count = 0,
      rw_blocked_count = 0, rw_partial_count = 0, rw_evidence_count = 0, rw_warnings = []\<rparr>"

text \<open>Fresh ids count up in their last two digits.\<close>

definition numbered_uuid :: "nat \<Rightarrow> uuid" where
  "numbered_uuid n = ''f0000000-0000-4000-8000-0000000000'' @ pad_text 2 n"

definition sample_env :: "nat env_ports" where
  "sample_env =
     \<lparr>env_clock = (\<lambda>n. (sample_time, n)), env_fresh = (\<lambda>n. (numbered_uuid n, n + 1)),
      env_resolve = (\<lambda>q n. (Inr sample_resolution, n)),
      env_create_plan = (\<lambda>q n. (Inl (OtherException ''RuntimeError'' ''unused''), n)),
      env_execute = (\<lambda>t c q n. (Inr (sample_result (task_id t)), n)),
      env_limits = default_budget, env_remembers = True, env_notifies = True\<rparr>"

text \<open>A world holding one workflow, with the given schedule of other threads.\<close>

definition sample_world :: "research_workflow \<Rightarrow> store_call list list \<Rightarrow> nat workflow_system" where
  "sample_world x sched =
     \<lparr>sys_store = \<lparr>st_workflows = [(rw_key x, x)], st_checkpoints = []\<rparr>, sys_memory = empty_memory,
      sys_log = \<lparr>nl_events = [], nl_fail_closed = False\<rparr>, sys_schedule = sched, sys_env = 0\<rparr>"

lemma sample_single_plan: "plan_run_id single_plan = sample_run_id" "plan_company_id single_plan = sample_company_id"
  by (simp_all add: single_plan_def sample_plan_def)

lemma sample_tz [simp]: "tz_aware sample_time"
  by (simp add: tz_aware_def sample_time_def)

lemma sample_governed:
  "ap \<in> {Approval_NOT_REQUIRED, Approval_APPROVED} \<or> \<not> may_have_run st \<Longrightarrow> governed (sample_workflow st ap)"
  by (auto simp: governed_def wf_workflow_iff cleared_def sample_workflow_def sample_single_plan)

lemma sample_good:
  "governed x \<Longrightarrow> list_all (list_all governed_call) sched \<Longrightarrow> good_system (sample_world x sched)"
  by (simp add: good_system_def sample_world_def wf_store_def wf_dict_def all_governed_def)

lemma sample_view: "system_view (sample_world x sched) (rw_key x) = Some x"
  by (simp add: system_view_def store_view_def sample_world_def)

lemma sample_workflow_sel [simp]:
  "rw_status (sample_workflow st ap) = st" "rw_approval_status (sample_workflow st ap) = ap"
  "rw_id (sample_workflow st ap) = sample_workflow_id" "rw_plan (sample_workflow st ap) = single_plan"
  "rw_version (sample_workflow st ap) = 0" "rw_checkpoint (sample_workflow st ap) = None"
  by (simp_all add: sample_workflow_def)

lemma sample_key: "rw_key (sample_workflow st ap) = workflow_id_text sample_workflow_id"
  by (simp add: rw_key_def sample_workflow_def)

end
