(* ===== verification/Engine_Frame.thy ===== *)
theory Engine_Frame
  imports Engine_Result
begin

text \<open>
  What a run that is never cancelled leaves alone: the identity of its plan, and the messages its
  result can carry. These are the facts the workflow layer needs to turn a result into a
  checkpoint.
\<close>

definition plan_frame :: "research_plan \<Rightarrow> plan_id \<times> research_run_id \<times> company_id" where
  "plan_frame p = (plan_id p, plan_run_id p, plan_company_id p)"

definition budget_reasons :: "string set" where
  "budget_reasons = {''max_total_attempts exhausted'', ''max_external_calls exhausted'',
     ''max_external_calls would be exceeded'', ''max_total_attempts would be exceeded''}"

definition status_frame :: "orchestration_state \<Rightarrow> bool" where
  "status_frame s \<longleftrightarrow> 0 \<le> total_attempts s \<and> 0 \<le> external_calls s \<and> state_status s \<noteq> Orch_CANCELLED \<and>
     (state_status s = Orch_BUDGET_EXCEEDED \<longrightarrow> (\<exists>m \<in> budget_reasons. terminal_reason s = Some m))"

definition framed :: "plan_id \<times> research_run_id \<times> company_id \<Rightarrow> orchestration_state \<Rightarrow> bool" where
  "framed F s \<longleftrightarrow> plan_frame (state_plan s) = F \<and> status_frame s"

lemma plan_post_init_frame: "plan_post_init p = Inr p' \<Longrightarrow> plan_frame p' = plan_frame p"
  by (auto simp: plan_post_init_Inr_iff plan_frame_def)

lemma plan_frame_updates [simp]:
  "plan_frame (p\<lparr>plan_tasks := ts\<rparr>) = plan_frame p" "plan_frame (p\<lparr>plan_status := st\<rparr>) = plan_frame p"
  by (simp_all add: plan_frame_def)

lemma plan_updates_frame:
  "with_tasks p ts st = Inr p' \<Longrightarrow> plan_frame p' = plan_frame p"
  "plan_with_status p st' = Inr p' \<Longrightarrow> plan_frame p' = plan_frame p"
  by (auto simp: with_tasks_def plan_with_status_def dest!: plan_post_init_frame)

text \<open>The state updates of a round: what they leave alone, and what a halt sets.\<close>

definition same_frame :: "orchestration_state \<Rightarrow> orchestration_state \<Rightarrow> bool" where
  "same_frame s s' \<longleftrightarrow> plan_frame (state_plan s') = plan_frame (state_plan s) \<and>
     total_attempts s' = total_attempts s \<and> external_calls s' = external_calls s \<and>
     state_status s' = state_status s \<and> terminal_reason s' = terminal_reason s"

lemma same_frameD: "same_frame s s' \<Longrightarrow> framed F s' = framed F s"
  by (simp add: same_frame_def framed_def status_frame_def)

lemma frame_updates:
  "plan_frame p = plan_frame (state_plan s) \<Longrightarrow> with_updated_plan s p now = Inr s' \<Longrightarrow> same_frame s s'"
  "replace_task s t now = Inr s' \<Longrightarrow> same_frame s s'"
  "add_result r now s = Inr s' \<Longrightarrow> same_frame s s'"
  "finalize_no_ready s now ws = Inr s' \<Longrightarrow> same_frame s s'"
  by (auto simp: same_frame_def with_updated_plan_def replace_task_def add_result_def
      finalize_no_ready_def state_post_init_Inr_iff dest!: plan_updates_frame)

lemmas frame_eqs = frame_updates(2-4) [THEN same_frameD]

lemma halt_framed:
  assumes "halt st m now s = Inr s'" "framed F s" "st = Orch_FAILED \<or> st = Orch_BUDGET_EXCEEDED \<and> m \<in> budget_reasons"
  shows "framed F s'"
  using assms by (auto simp: framed_def status_frame_def halt_def state_post_init_Inr_iff dest!: plan_updates_frame)

definition decided :: "decision \<Rightarrow> loop_state" where
  "decided d = (case d of Stop ls \<Rightarrow> ls | Again ls \<Rightarrow> ls | Call t ls \<Rightarrow> ls)"

lemma decided_simps [simp]: "decided (Stop ls) = ls" "decided (Again ls) = ls" "decided (Call t ls) = ls"
  by (simp_all add: decided_def)

lemma set_state_frame: "set_state ls k s = Inr d \<Longrightarrow> k = Stop \<or> k = Again \<Longrightarrow> ls_state (decided d) = s"
  by (auto simp: set_state_def)

lemma budget_reasons_mem [simp]:
  "''max_total_attempts exhausted'' \<in> budget_reasons" "''max_external_calls exhausted'' \<in> budget_reasons"
  "''max_external_calls would be exceeded'' \<in> budget_reasons"
  "''max_total_attempts would be exceeded'' \<in> budget_reasons"
  by (simp_all add: budget_reasons_def)

lemma overrun_framed:
  assumes "framed F (ls_state ls)" "overrun_branch now ls t = Inr d"
  shows "framed F (ls_state (decided d))"
  using assms
  by (auto simp: overrun_branch_def set_state_def dest!: frame_updates(2))
    (auto simp: same_frame_def framed_def status_frame_def state_post_init_Inr_iff dest!: plan_updates_frame)

lemma branches_framed:
  assumes "framed F (ls_state ls)"
  shows "duplicate_branch now ls t = Inr d \<Longrightarrow> framed F (ls_state (decided d))"
    and "exhausted_branch now ls t = Inr d \<Longrightarrow> framed F (ls_state (decided d))"
  using assms
  by (auto simp: duplicate_branch_def exhausted_branch_def Let_def set_state_def frame_eqs)

lemma run_branch_framed:
  assumes F: "framed F (ls_state ls)" and run: "run_branch b now ls t = Inr d"
  shows "framed F (ls_state (decided d))"
proof -
  have called: "framed F s \<Longrightarrow> (if c then overrun_branch now (ls\<lparr>ls_state := s\<rparr>) running
      else Inr (Call running (ls\<lparr>ls_state := s\<rparr>))) = Inr d \<Longrightarrow> ?thesis" for s c running
    using overrun_framed [of F "ls\<lparr>ls_state := s\<rparr>"] by (auto split: if_splits)
  have failed: "halt Orch_FAILED m now (ls_state ls) = Inr s \<Longrightarrow>
      set_state (ls\<lparr>ls_warnings := ws\<rparr>) Stop s = Inr d \<Longrightarrow> ?thesis" for m s ws
    using halt_framed [OF _ F] set_state_frame by metis
  obtain ready where "(if task_status t = Task_PENDING then with_status t Task_READY None False else Inr t) = Inr ready"
    and rest: "(case with_status ready Task_RUNNING (Some now) False of
          Inl e \<Rightarrow>
            if is_value_error e
            then and_then (halt Orch_FAILED (error_text e) now (ls_state ls))
                   (set_state (ls\<lparr>ls_warnings := ls_warnings ls @ [error_text e]\<rparr>) Stop)
            else Inl e
        | Inr running \<Rightarrow>
            and_then (replace_task (ls_state ls) running now) (\<lambda>s.
              if total_attempts s + 1 > max_total_attempts b
              then overrun_branch now (ls\<lparr>ls_state := s\<rparr>) running
              else Inr (Call running (ls\<lparr>ls_state := s\<rparr>)))) = Inr d"
    using run unfolding run_branch_def by blast
  show ?thesis
  proof (cases "with_status ready Task_RUNNING (Some now) False")
    case (Inl e)
    then show ?thesis using rest failed by (auto split: if_splits)
  next
    case (Inr running)
    then obtain s where "replace_task (ls_state ls) running now = Inr s"
      "(if total_attempts s + 1 > max_total_attempts b
        then overrun_branch now (ls\<lparr>ls_state := s\<rparr>) running
        else Inr (Call running (ls\<lparr>ls_state := s\<rparr>))) = Inr d"
      using rest by auto
    then show ?thesis using called frame_eqs(1) F by metis
  qed
qed

lemma start_task_framed:
  assumes F: "framed F (ls_state ls)" and "start_task b now ls t = Inr d"
  shows "framed F (ls_state (decided d))"
  using assms branches_framed [OF F] run_branch_framed [OF F]
  by (auto simp: start_task_def set_state_def split: if_splits) (erule halt_framed [OF _ F]; simp)

lemma schedule_framed:
  assumes F: "framed F (ls_state ls)" and run: "schedule b ctl now ls = Inr d" and "\<not> is_cancelled ctl"
  shows "framed F (ls_state (decided d))"
proof (cases "total_attempts (ls_state ls) \<ge> max_total_attempts b \<or> external_calls (ls_state ls) \<ge> max_external_calls b")
  case True
  then show ?thesis using assms
    by (auto simp: schedule_def Let_def set_state_def split: if_splits) (erule halt_framed [OF _ F]; simp)+
next
  case False
  then obtain ts p s nxt where 1: "with_tasks (state_plan (ls_state ls)) ts (Some Plan_EXECUTING) = Inr p"
    "with_updated_plan (ls_state ls) p now = Inr s"
    "(case nxt of None \<Rightarrow> and_then (finalize_no_ready s now (ls_warnings ls)) (set_state ls Stop)
      | Some t \<Rightarrow> start_task b now (ls\<lparr>ls_state := s\<rparr>) t) = Inr d"
    using run assms(3) by (auto simp: schedule_def Let_def)
  have s: "framed F s"
    using same_frameD [OF frame_updates(1) [OF plan_updates_frame(1) [OF 1(1)] 1(2)]] F by simp
  show ?thesis
    using 1(3) s start_task_framed [of F "ls\<lparr>ls_state := s\<rparr>"]
    by (cases nxt) (auto simp: set_state_def frame_eqs)
qed

lemma after_call_framed:
  assumes "framed F (ls_state ls)" "after_call b c now t ls r = Inr ls'"
  shows "framed F (ls_state ls')"
proof -
  have "framed F s" if "state_post_init (ls_state ls\<lparr>total_attempts := total_attempts (ls_state ls) + 1,
      external_calls := external_calls (ls_state ls) + 1, state_updated_at := now\<rparr>) = Inr s" for s
    using that assms(1) by (auto simp: framed_def status_frame_def state_post_init_Inr_iff)
  then show ?thesis
    using assms(2) by (auto simp: after_call_def Let_def frame_eqs)
qed

lemma loop_framed:
  assumes nc: "\<And>w. \<not> is_cancelled (read_control P w)"
  shows "framed F (ls_state ls) \<Longrightarrow> exec_loop P b c q n ls w = (Inr ls', w') \<Longrightarrow> framed F (ls_state ls')"
proof (induction n arbitrary: ls w)
  case 0
  then show ?case
    by (auto simp: no_progress_guard_def Let_def framed_def status_frame_def state_post_init_Inr_iff
        split: prod.splits dest!: plan_updates_frame)
next
  case (Suc n)
  have round: "framed F (ls_state l)" if run: "exec_round P b c q ls w = (Inr (l, go), w1)" for l go w1
  proof -
    obtain now v d where d: "clock P w = (now, v)" "schedule b (read_control P v) now ls = Inr d"
      using run by (auto simp: exec_round_def split: prod.splits sum.splits)
    have "framed F (ls_state (decided d))" by (rule schedule_framed [OF Suc.prems(1) d(2) nc])
    then show ?thesis using run d
      by (cases d) (auto simp: exec_round_def split: prod.splits sum.splits elim: after_call_framed [rotated])
  qed
  then show ?case using Suc by (auto split: prod.splits sum.splits if_splits)
qed

section \<open>The result of a run that is not cancelled\<close>

definition run_messages :: "string list" where
  "run_messages =
     [''max_total_attempts exhausted'', ''max_external_calls exhausted'',
      ''max_external_calls would be exceeded'', ''max_total_attempts would be exceeded'',
      ''transparent partial: one or more required tasks failed while others succeeded'',
      ''one or more required tasks failed'',
      ''transparent partial: one or more required tasks blocked while others succeeded'',
      ''one or more required tasks blocked'',
      ''required tasks finished with PARTIAL capability results and/or optional task failures'',
      ''research plan executed within bounds'',
      ''execution finished with incomplete required coverage'']"

definition stored_message :: "string \<Rightarrow> bool" where
  "stored_message m \<longleftrightarrow> norm_text m \<noteq> [] \<and> length (norm_text m) \<le> 1000"

lemma run_messages_ok: "list_all stored_message run_messages"
  by code_simp

lemma run_outcome_framed:
  assumes "framed F s" "run_outcome s = (st, ps, m)"
  shows "m \<in> set run_messages"
    "st \<in> {Exec_COMPLETED, Exec_PARTIAL, Exec_FAILED, Exec_BLOCKED, Exec_BUDGET_EXCEEDED}"
proof -
  have "state_status s = Orch_BUDGET_EXCEEDED \<Longrightarrow> reason_or s d \<in> set run_messages" for d
    using assms(1) by (auto simp: framed_def status_frame_def budget_reasons_def run_messages_def reason_or_def)
  moreover have "state_status s \<noteq> Orch_CANCELLED" using assms(1) by (simp add: framed_def status_frame_def)
  ultimately show "m \<in> set run_messages"
    "st \<in> {Exec_COMPLETED, Exec_PARTIAL, Exec_FAILED, Exec_BLOCKED, Exec_BUDGET_EXCEEDED}"
    using assms(2) by (auto simp: run_outcome_def Let_def run_messages_def split: if_splits)
qed

lemma to_result_framed:
  assumes "framed F s" "to_result q s rsl b started ws now = Inr res"
  shows "er_message res \<in> set run_messages"
    "er_status res \<in> {Exec_COMPLETED, Exec_PARTIAL, Exec_FAILED, Exec_BLOCKED, Exec_BUDGET_EXCEEDED}"
    "\<exists>p. er_plan res = Some p \<and> plan_frame p = F"
    "\<exists>f. er_orchestration res = Some f \<and> total_attempts f = total_attempts s \<and>
       external_calls f = external_calls s"
    "0 \<le> total_attempts s" "0 \<le> external_calls s"
proof -
  obtain st ps m where o: "run_outcome s = (st, ps, m)" by (metis prod_cases3)
  note r = run_outcome_framed [OF assms(1) o]
  show "er_message res \<in> set run_messages"
    "er_status res \<in> {Exec_COMPLETED, Exec_PARTIAL, Exec_FAILED, Exec_BLOCKED, Exec_BUDGET_EXCEEDED}"
    "\<exists>p. er_plan res = Some p \<and> plan_frame p = F"
    "\<exists>f. er_orchestration res = Some f \<and> total_attempts f = total_attempts s \<and>
       external_calls f = external_calls s"
    using assms r
    by (auto simp: to_result_def o Let_def execution_result_post_init_def state_post_init_Inr_iff
        framed_def split: if_splits dest!: plan_updates_frame)
  show "0 \<le> total_attempts s" "0 \<le> external_calls s"
    using assms(1) by (simp_all add: framed_def status_frame_def)
qed

lemma prepared_framed:
  assumes nc: "\<And>w. \<not> is_cancelled (read_control P w)"
    and enter: "enters_loop plan c b started_at seed (read_control P w)"
    and run: "execute_prepared P plan c cq rsl q b started_at seed w = (Inr res, w')"
  obtains s ws now where "framed (plan_frame plan) s" "to_result q s rsl b started_at ws now = Inr res"
proof -
  obtain p ls where ls: "plan_with_status plan Plan_EXECUTING = Inr p"
    "initial_loop_state plan p started_at seed = Inr ls"
    using run enter
    by (auto simp: execute_prepared_def enters_loop_def and_then_Inl_iff split: prod.splits sum.splits if_splits)
  then obtain ls' w1 now w2 where loop: "exec_loop P b c cq (max_rounds plan b) ls w = (Inr ls', w1)"
    and res: "to_result q (ls_state ls') rsl b started_at (ls_warnings ls') now = Inr res"
    using run enter by (auto simp: execute_prepared_def enters_loop_def split: prod.splits sum.splits if_splits)
  have "framed (plan_frame plan) (ls_state ls)"
    using ls enter plan_updates_frame(2) [OF ls(1)]
    by (auto simp: initial_loop_state_def framed_def status_frame_def state_post_init_Inr_iff enters_loop_def)
  from loop_framed [OF nc this loop] res show ?thesis by (rule that)
qed

end
