(* ===== verification/Workflow_Runs.thy ===== *)
theory Workflow_Runs
  imports Workflow_History Engine_Frame
begin

text \<open>
  The workflow use case when no other thread interferes: the schedule is empty. An execution then
  settles its workflow, and a result that arrives after the workflow became terminal changes neither
  the store nor the notification log.
\<close>

section \<open>Calm steps\<close>

definition alone :: "'e workflow_system \<Rightarrow> bool" where
  "alone w \<longleftrightarrow> sys_schedule w = []"

text \<open>A calm step leaves the workflow store as it is.\<close>

definition calm :: "'e workflow_system \<Rightarrow> 'e workflow_system \<Rightarrow> bool" where
  "calm w w' \<longleftrightarrow> (alone w \<longrightarrow> alone w' \<and> sys_store w' = sys_store w)"

text \<open>A silent one leaves the notification log as it is, too.\<close>

definition silent :: "'e workflow_system \<Rightarrow> 'e workflow_system \<Rightarrow> bool" where
  "silent w w' \<longleftrightarrow> (alone w \<longrightarrow> alone w' \<and> sys_store w' = sys_store w \<and> sys_log w' = sys_log w)"

interpretation calm_rel: kept_relation calm
  by unfold_locales (auto simp: calm_def)

interpretation silent_rel: kept_relation silent
  by unfold_locales (auto simp: silent_def)

lemma silent_calm: "silent w w' \<Longrightarrow> calm w w'"
  by (simp add: silent_def calm_def)

lemma interleave_alone [simp]: "alone w \<Longrightarrow> interleave w = w"
  by (simp add: alone_def interleave_def)

lemma alone_updates [simp]:
  "alone (w\<lparr>sys_store := s\<rparr>) = alone w" "alone (w\<lparr>sys_memory := m\<rparr>) = alone w"
  "alone (w\<lparr>sys_log := l\<rparr>) = alone w" "alone (w\<lparr>sys_env := e\<rparr>) = alone w"
  by (simp_all add: alone_def)

lemma in_env_silent: "silent w (snd (in_env f w))"
  by (simp add: silent_def in_env_def split: prod.split)

lemma system_ports_sel [simp]:
  "mp_clock (system_ports E) = in_env (env_clock E)" "mp_fresh (system_ports E) = in_env (env_fresh E)"
  "mp_get (system_ports E) = store_get" "mp_save (system_ports E) x = store_update (save_workflow x)"
  "mp_save_checkpoint (system_ports E) c = store_update (save_checkpoint c)"
  "mp_resolve (system_ports E) q = in_env (env_resolve E q)" "mp_budget (system_ports E) = env_limits E"
  "clock (mp_engine (system_ports E)) = in_env (env_clock E)"
  "execute_task (mp_engine (system_ports E)) t co cq = in_env (env_execute E t co cq)"
  by (simp_all add: system_ports_def)

lemma persist_silent: "keeps silent (persist_memory (system_ports E) x plan at')"
proof (rule silent_rel.persist_keeps)
  show "keeps silent (ask (mp_fresh (system_ports E)))" by (simp add: keeps_def in_env_silent)
  show "keeps silent (put r)" if "mp_memory (system_ports E) = Some put" for put r
    using that by (auto simp: keeps_def system_ports_def append_port_def Let_def silent_def
        split: if_splits sum.split)
qed

lemma execute_silent:
  "keeps silent (execute_prepared ((mp_engine (system_ports E))\<lparr>read_control := f\<rparr>) p c cq rsl q b st seed)"
  by (rule silent_rel.execute_prepared_kept) (simp_all add: in_env_silent)

section \<open>Committing alone\<close>

lemma store_get_alone: "alone w \<Longrightarrow> store_get i w = (system_view w (workflow_id_text i), w)"
  by (simp add: store_get_def get_workflow_def system_view_def store_view_def)

lemma commit_alone:
  assumes "alone w"
  shows "accepts (system_view w) x \<Longrightarrow> \<exists>w1. commit_or_conflict (system_ports E) i x now w = (Inr None, w1) \<and>
      alone w1 \<and> system_view w1 = (system_view w)(rw_key x \<mapsto> x)"
    and "\<not> accepts (system_view w) x \<Longrightarrow> \<exists>r. commit_or_conflict (system_ports E) i x now w = (r, w) \<and> r \<noteq> Inr None \<and>
      (\<forall>res. r = Inr (Some res) \<longrightarrow> op_status res = Op_CONFLICT \<and>
         op_workflow res = system_view w (workflow_id_text i))"
proof -
  assume acc: "accepts (system_view w) x"
  then obtain s where s: "save_workflow x (sys_store w) = Inr s"
    "store_view s = (store_view (sys_store w))(rw_key x \<mapsto> x)"
    by (simp add: save_workflow_refines system_view_def)
  then show "\<exists>w1. commit_or_conflict (system_ports E) i x now w = (Inr None, w1) \<and>
      alone w1 \<and> system_view w1 = (system_view w)(rw_key x \<mapsto> x)"
    using assms
    by (simp add: commit_or_conflict_def catch_act_def bind_act_def store_update_def system_view_def)
next
  assume nacc: "\<not> accepts (system_view w) x"
  then obtain e where e: "save_workflow x (sys_store w) = Inl e"
    by (cases "save_workflow x (sys_store w)") (auto simp: save_workflow_refines system_view_def)
  have c: "commit_or_conflict (system_ports E) i x now w =
    (case e of WorkflowTransitionError m \<Rightarrow>
       bind_act (lift_res (reply Op_CONFLICT
         (''workflow lifecycle changed concurrently; stale execution result discarded: '' @ m)
         (system_view w (workflow_id_text i)) now)) (\<lambda>r. return_act (Some r)) w
     | _ \<Rightarrow> (Inl e, w))"
    using assms e
    by (simp add: commit_or_conflict_def catch_act_def bind_act_def store_update_def store_get_alone
        split: error.split)
  show "\<exists>r. commit_or_conflict (system_ports E) i x now w = (r, w) \<and> r \<noteq> Inr None \<and>
      (\<forall>res. r = Inr (Some res) \<longrightarrow> op_status res = Op_CONFLICT \<and>
         op_workflow res = system_view w (workflow_id_text i))"
    unfolding c by (cases e) (auto simp: bind_act_def split: sum.split dest!: reply_InrD)
qed

section \<open>Stale results\<close>

text \<open>
  \<open>stale s l cur a\<close>: run alone on the store \<open>s\<close> and the log \<open>l\<close>, the action \<open>a\<close> changes neither,
  and if it replies, then with a conflict that shows the record \<open>cur\<close>.
\<close>

definition stale ::
    "wf_store \<Rightarrow> notification_log \<Rightarrow> research_workflow \<Rightarrow> ('e workflow_system, operation_result) action \<Rightarrow> bool"
where
  "stale s l cur a \<longleftrightarrow> (\<forall>w r w'. alone w \<and> sys_store w = s \<and> sys_log w = l \<and> a w = (r, w') \<longrightarrow>
     sys_store w' = s \<and> sys_log w' = l \<and>
     (\<forall>res. r = Inr res \<longrightarrow> op_status res = Op_CONFLICT \<and> op_workflow res = Some cur))"

lemma staleI:
  assumes "\<And>w r w'. alone w \<Longrightarrow> sys_store w = s \<Longrightarrow> sys_log w = l \<Longrightarrow> a w = (r, w') \<Longrightarrow>
    sys_store w' = s \<and> sys_log w' = l \<and>
    (\<forall>res. r = Inr res \<longrightarrow> op_status res = Op_CONFLICT \<and> op_workflow res = Some cur)"
  shows "stale s l cur a"
  unfolding stale_def by (intro allI impI, elim conjE) (rule assms)

lemma staleD:
  assumes "stale s l cur a" "alone w" "sys_store w = s" "sys_log w = l" "a w = (r, w')"
  shows "sys_store w' = s \<and> sys_log w' = l \<and>
    (\<forall>res. r = Inr res \<longrightarrow> op_status res = Op_CONFLICT \<and> op_workflow res = Some cur)"
  using assms(1) [unfolded stale_def, rule_format, of w r w'] assms(2-5) by simp

lemma stale_raise: "stale s l cur (lift_res (Inl e))"
  by (rule staleI) auto

lemma stale_bind:
  assumes "keeps silent a" "\<And>y. stale s l cur (f y)" shows "stale s l cur (bind_act a f)"
proof (rule staleI)
  fix w r w'
  assume w: "alone w" "sys_store w = s" "sys_log w = l" and run: "bind_act a f w = (r, w')"
  obtain y w1 where y: "a w = (y, w1)" by fastforce
  have "silent w w1" using assms(1) y unfolding keeps_def by (metis snd_conv)
  then have w1: "alone w1" "sys_store w1 = s" "sys_log w1 = l"
    using w by (simp_all add: silent_def)
  show "sys_store w' = s \<and> sys_log w' = l \<and>
      (\<forall>res. r = Inr res \<longrightarrow> op_status res = Op_CONFLICT \<and> op_workflow res = Some cur)"
  proof (cases y)
    case (Inl e)
    then show ?thesis using bind_act_Inl [of a w e w1 f] run y w1 by auto
  next
    case (Inr z)
    then have "f z w1 = (r, w')" using bind_act_Inr [of a w z w1 f] run y by simp
    from staleD [OF assms(2) w1 this] show ?thesis .
  qed
qed

lemma stale_lift: "(\<And>y. r = Inr y \<Longrightarrow> stale s l cur (f y)) \<Longrightarrow> stale s l cur (bind_act (lift_res r) f)"
proof (cases r)
  case (Inl e)
  then have "bind_act (lift_res r) f = lift_res (Inl e)" by (intro ext) simp
  then show ?thesis using stale_raise by metis
next
  case (Inr y)
  then have "bind_act (lift_res r) f = f y" by (intro ext) simp
  then show "(\<And>y. r = Inr y \<Longrightarrow> stale s l cur (f y)) \<Longrightarrow> ?thesis" using Inr by metis
qed

lemma stale_commit:
  assumes "store_view s (workflow_id_text i) = Some cur" "\<not> accepts (store_view s) x"
  shows "stale s l cur (unless_conflict (commit_or_conflict (system_ports E) i x now) k)"
proof (rule staleI)
  fix w r w'
  assume w: "alone w" "sys_store w = s" "sys_log w = l"
    and run: "unless_conflict (commit_or_conflict (system_ports E) i x now) k w = (r, w')"
  from commit_alone(2) [OF w(1), of x E i now] obtain c where
    c: "commit_or_conflict (system_ports E) i x now w = (c, w)" "c \<noteq> Inr None"
      "\<And>res. c = Inr (Some res) \<Longrightarrow> op_status res = Op_CONFLICT \<and> op_workflow res = Some cur"
    using assms w(2) by (auto simp: system_view_def)
  show "sys_store w' = s \<and> sys_log w' = l \<and>
      (\<forall>res. r = Inr res \<longrightarrow> op_status res = Op_CONFLICT \<and> op_workflow res = Some cur)"
  proof (cases c)
    case (Inl e)
    then have "r = Inl e" "w' = w" using run c(1) by (simp_all add: unless_conflict_def bind_act_def)
    then show ?thesis using w by simp
  next
    case (Inr o')
    then obtain res where res: "c = Inr (Some res)" using c(2) by (cases o') auto
    then have "r = Inr res" "w' = w" using run c(1) by (simp_all add: unless_conflict_def bind_act_def)
    then show ?thesis using w c(3) [OF res] by simp
  qed
qed

lemma apply_stale:
  assumes x: "store_view s (rw_key x) = Some cur" "is_terminal (rw_status cur)"
    "rw_status cur \<noteq> fst (classify_execution pause (er_status r))"
  shows "stale s l cur (apply_execution_result (system_ports E) x r pause)"
proof -
  obtain nxt op msg ty where cl: "classify_execution pause (er_status r) = (nxt, op, msg, ty)"
    by (metis prod_cases4)
  have final: "\<not> accepts (store_view s) z" if "rw_key z = rw_key x" "rw_status z = nxt" for z
    using that x cl workflow_lc.final_no_successor [OF x(2)]
    by (simp add: accepts_def check_existing_iff)
  have clock: "keeps silent (ask (mp_clock (system_ports E)))" by (simp add: keeps_def in_env_silent)
  show ?thesis
    unfolding apply_execution_result_def cl Let_def prod.case
  proof (intro stale_bind [OF clock] stale_lift stale_bind [OF persist_silent] stale_commit, goal_cases)
    case (1 now ck u mw v z)
    then show ?case using x by (simp add: rw_key_def)
  next
    case (2 now ck u mw v z)
    then have "rw_key z = rw_key x" "rw_status z = nxt"
      using in_memory.applied_key by (blast, simp add: rw_with_status_Inr_iff)
    then show ?case by (rule final)
  qed
qed

section \<open>An execution settles its workflow\<close>

definition honest_env :: "'e env_ports \<Rightarrow> bool" where
  "honest_env E \<longleftrightarrow> (\<forall>e. tz_aware (fst (env_clock E e))) \<and> (\<forall>q e. \<exists>x. fst (env_resolve E q e) = Inr x) \<and>
     (\<forall>t c q e. \<exists>x. fst (env_execute E t c q e) = Inr x)"

definition run_ports :: "'e env_ports \<Rightarrow> 'e workflow_system engine_ports" where
  "run_ports E = (mp_engine (system_ports E))\<lparr>read_control := control_reader None\<rparr>"

lemma run_ports_sel [simp]:
  "clock (run_ports E) = in_env (env_clock E)" "read_control (run_ports E) w = new_control"
  "execute_task (run_ports E) t co cq = in_env (env_execute E t co cq)"
  by (simp_all add: run_ports_def control_reader_def)

lemma fst_in_env [simp]: "fst (in_env f w) = fst (f (sys_env w))"
  by (simp add: in_env_def split: prod.split)

lemma run_ports_honest:
  assumes "honest_env E" shows "honest_clock (run_ports E)" "never_raises (run_ports E)"
  using assms by (simp_all add: honest_env_def honest_clock_def never_raises_def)

lemma not_cancelled [simp]: "\<not> is_cancelled new_control" "\<not> is_pause new_control"
  by (simp_all add: new_control_def)

text \<open>The record an execution result is saved as, and where it leads.\<close>

lemma persist_returns: "\<exists>x w'. persist_memory M rw plan at' w = (Inr x, w')"
  by (auto simp: persist_memory_def catch_act_def split: option.split prod.split sum.split)

lemma settled_status:
  assumes "st \<in> {Exec_COMPLETED, Exec_PARTIAL, Exec_FAILED, Exec_BLOCKED, Exec_BUDGET_EXCEEDED}"
    "classify_execution False st = (nxt, op, msg, ty)"
  shows "nxt \<in> {Wf_COMPLETED, Wf_PARTIAL, Wf_FAILED}"
  using assms by (auto simp: classify_execution_def)

lemma result_checkpoint_ok:
  assumes res: "framed (plan_frame (rw_plan x)) s" "to_result q s rsl b started ws now' = Inr r"
    and x: "wf_workflow x" and now: "tz_aware now"
  obtains ck u where "result_checkpoint x r now = Inr ck" "with_checkpoint x ck now = Inr u"
    "rw_status u = rw_status x" "same_identity x u" "plan_id (rw_plan u) = plan_id (rw_plan x)"
    "wf_workflow u" "rw_version u = rw_version x + 1"
proof -
  note f = to_result_framed [OF res]
  obtain p where p: "er_plan r = Some p" "plan_frame p = plan_frame (rw_plan x)" using f(3) by blast
  have m: "stored_message (er_message r)" using f(1) run_messages_ok by (simp add: list_all_iff)
  obtain ck where ck: "result_checkpoint x r now = Inr ck" "ck_plan ck = p" "ck_workflow_id ck = rw_id x"
    "ck_version ck = rw_version x + 1"
    using f(4-6) p m now x
    by (auto simp: result_checkpoint_def checkpoint_post_init_def Let_def executed_plan_def plan_frame_def
        stored_message_def wf_workflow_iff)
  let ?u = "x\<lparr>rw_plan := ck_plan ck, rw_checkpoint := Some ck, rw_version := ck_version ck,
    rw_updated_at := now, rw_warnings := ck_warnings ck\<rparr>"
  have "wf_workflow ?u" using x now p(2) ck by (auto simp: wf_workflow_iff plan_frame_def)
  moreover from this have "with_checkpoint x ck now = Inr ?u" using ck by (simp add: with_checkpoint_Inr_iff)
  ultimately show ?thesis
    using ck p(2) by (intro that [of ck ?u]) (auto simp: same_identity_def plan_frame_def)
qed

lemma apply_settles:
  assumes w: "good_system w" "alone w" "system_view w (rw_key x) = Some x"
    and x: "governed x" "rw_status x = Wf_RUNNING" and E: "honest_env E"
    and res: "framed (plan_frame (rw_plan x)) s" "to_result q s rsl b started ws now' = Inr r"
  shows "\<exists>y. system_view (snd (apply_execution_result (system_ports E) x r False w)) (rw_key x) = Some y \<and>
    rw_status y \<in> {Wf_COMPLETED, Wf_PARTIAL, Wf_FAILED}"
proof -
  obtain nxt op msg ty where cl: "classify_execution False (er_status r) = (nxt, op, msg, ty)"
    by (metis prod_cases4)
  have nxt: "nxt \<in> {Wf_COMPLETED, Wf_PARTIAL, Wf_FAILED}"
    by (rule settled_status [OF to_result_framed(2) [OF res] cl])
  have wfx: "wf_workflow x" "cleared x" using x by (simp_all add: governed_def)
  let ?now = "fst (env_clock E (sys_env w))" and ?w1 = "snd (in_env (env_clock E) w)"
  have now: "tz_aware ?now" using E by (simp add: honest_env_def)
  obtain ck u where u: "result_checkpoint x r ?now = Inr ck" "with_checkpoint x ck ?now = Inr u"
    "rw_status u = rw_status x" "same_identity x u" "plan_id (rw_plan u) = plan_id (rw_plan x)"
    "wf_workflow u" "rw_version u = rw_version x + 1"
    by (rule result_checkpoint_ok [OF res wfx(1) now])
  obtain mw w2 where mw: "persist_memory (system_ports E) u (executed_plan x r) ?now ?w1 = (Inr mw, w2)"
    using persist_returns [of "system_ports E" u "executed_plan x r" ?now ?w1] by blast
  have w2: "alone w2" "system_view w2 = system_view w"
    using in_env_silent [of w "env_clock E"] persist_silent [of E u "executed_plan x r" ?now] mw w(2)
    unfolding keeps_def silent_def system_view_def by (metis snd_conv)+
  obtain v where v: "with_counts u r (er_warnings r @ (case mw of None \<Rightarrow> [] | Some x \<Rightarrow> [x])) = Inr v"
    "rw_status v = rw_status u" "same_identity u v" "rw_plan v = rw_plan u" "rw_version v = rw_version u" "wf_workflow v"
    using u(6) by (auto simp: with_counts_def wf_workflow_iff workflow_post_init_Inr_iff same_identity_def)
  obtain z where z: "rw_with_status v nxt ?now = Inr z" "rw_status z = nxt" "same_identity v z"
    "rw_plan z = rw_plan v" "rw_version z = rw_version v"
    using rw_with_status_wf [OF v(6) now, of nxt] nxt v(2) u(3) x(2) by (auto simp: same_identity_def)
  have key: "rw_key z = rw_key x" using u(4) v(3) z(3) by (simp add: same_identity_def rw_key_def)
  have acc: "accepts (system_view w2) z"
    using w(3) w2(2) key u(4,5,7) v(3-5) z nxt x(2)
    by (auto simp: accepts_def check_existing_iff same_identity_def)
  obtain w3 where w3: "commit_or_conflict (system_ports E) (rw_id x) z ?now w2 = (Inr None, w3)"
    "system_view w3 = (system_view w2)(rw_key z \<mapsto> z)"
    using commit_alone(1) [OF w2(1) acc] by blast
  let ?tail = "bind_act (mp_save_checkpoint (system_ports E) ck) (\<lambda>_. bind_act (announce (system_ports E) ty z msg)
     (\<lambda>final. lift_res (reply op msg (Some final) ?now)))"
  have run: "apply_execution_result (system_ports E) x r False w = ?tail w3"
    unfolding apply_execution_result_def cl Let_def prod.case
    using u(1,2) mw v(1) z(1) w3(1) by (simp add: bind_act_def unless_conflict_def)
  have gz: "governed z"
    using in_memory.applied_governed [OF x(1) wfx(2) u(2) v(1) z(1)] .
  have tail: "keeps (legal good_system system_view) ?tail"
    by (intro legal_rel.keeps_bind in_memory.ports_kept(5) in_memory.announce_kept gz legal_rel.keeps_lift)
  have "legal good_system system_view w w3"
    using w3(1) in_memory.commit_kept [OF gz, of E "rw_id x" ?now] mw
      in_memory.persist_kept [of E u "executed_plan x r" ?now] in_env_legal [of w "env_clock E"] legal_trans
    unfolding keeps_def by (metis snd_conv)
  then have "good_system w3" using w(1) by (simp add: legal_def)
  then have "evolves (system_view w3) (system_view (snd (?tail w3)))"
    using tail unfolding keeps_def legal_def by blast
  moreover have "system_view w3 (rw_key x) = Some z" using w3(2) key by simp
  ultimately obtain y where "system_view (snd (?tail w3)) (rw_key x) = Some y" "rw_status y = rw_status z"
    using evolves_terminal [of "system_view w3" _ "rw_key x" z] z(2) nxt by (auto simp: is_terminal_def)
  then show ?thesis using run z(2) nxt by simp
qed

text \<open>The failure of an identity check settles the workflow, too.\<close>

lemma mismatch_settles:
  assumes w: "good_system w" "alone w" "system_view w (rw_key x) = Some x"
    and x: "governed x" "rw_status x = Wf_RUNNING" and E: "honest_env E" and i: "workflow_id_text i = rw_key x"
  shows "\<exists>y. system_view (snd (fail_mismatch (system_ports E) i x rsl w)) (rw_key x) = Some y \<and>
    rw_status y = Wf_FAILED"
proof -
  let ?at = "fst (env_clock E (sys_env w))" and ?w1 = "snd (in_env (env_clock E) w)"
  let ?w2 = "snd (in_env (env_clock E) ?w1)"
  define z where "z = x\<lparr>rw_status := Wf_FAILED, rw_updated_at := ?at, rw_message := Some mismatch_message\<rparr>"
  have at': "tz_aware ?at" using E by (simp add: honest_env_def)
  have z: "and_then (rw_with_status x Wf_FAILED ?at)
      (\<lambda>u. workflow_post_init (u\<lparr>rw_message := Some mismatch_message\<rparr>)) = Inr z"
    using x at' by (auto simp: rw_with_status_Inr_iff and_then_Inr_iff governed_def wf_workflow_iff
        workflow_post_init_Inr_iff z_def)
  have w2: "alone ?w2" "system_view ?w2 = system_view w"
    using in_env_silent [of w "env_clock E"] in_env_silent [of ?w1 "env_clock E"] w(2)
    by (simp_all add: silent_def system_view_def)
  have gz: "governed z" and key: "rw_key z = rw_key x"
    using in_memory.mismatch_governed [OF z] in_memory.mismatch_key [OF z] by blast+
  have acc: "accepts (system_view ?w2) z"
    using w(3) w2(2) key x(2) by (simp add: accepts_def check_existing_iff z_def)
  obtain w3 where w3: "commit_or_conflict (system_ports E) i z (fst (env_clock E (sys_env ?w1))) ?w2 = (Inr None, w3)"
    "system_view w3 = (system_view ?w2)(rw_key z \<mapsto> z)"
    using commit_alone(1) [OF w2(1) acc] by blast
  let ?tail = "bind_act (notify (system_ports E) Notify_WORKFLOW_FAILED z mismatch_message) (\<lambda>_.
     bind_act (ask (mp_clock (system_ports E))) (\<lambda>stamp. lift_res (operation_post_init
       \<lparr>op_status = Op_FAILED, op_message = mismatch_message, op_workflow = Some z,
        op_resolution = Some rsl, op_evaluated_at = Some stamp\<rparr>)))"
  have run: "fail_mismatch (system_ports E) i x rsl w = ?tail w3"
    unfolding fail_mismatch_def using z w3(1) by (simp add: bind_act_def unless_conflict_def)
  have tail: "keeps (legal good_system system_view) ?tail"
    by (intro legal_rel.keeps_bind in_memory.ports_kept(1) in_memory.notify_kept legal_rel.keeps_lift)
  have "legal good_system system_view w w3"
    using w3(1) in_memory.commit_kept [OF gz, of E i "fst (env_clock E (sys_env ?w1))"]
      in_env_legal [of w "env_clock E"] in_env_legal [of ?w1 "env_clock E"] legal_trans
    unfolding keeps_def by (metis snd_conv)
  then have "good_system w3" using w(1) by (simp add: legal_def)
  then have "evolves (system_view w3) (system_view (snd (?tail w3)))"
    using tail unfolding keeps_def legal_def by blast
  moreover have "system_view w3 (rw_key x) = Some z" using w3(2) key by simp
  ultimately obtain y where "system_view (snd (?tail w3)) (rw_key x) = Some y" "rw_status y = rw_status z"
    using evolves_terminal [of "system_view w3" _ "rw_key x" z] by (auto simp: is_terminal_def z_def)
  then show ?thesis using run by (simp add: z_def)
qed

lemma run_settles:
  assumes w: "good_system w" "alone w" "system_view w (rw_key x) = Some x"
    and x: "governed x" "rw_status x = Wf_RUNNING" and E: "honest_env E" and i: "workflow_id_text i = rw_key x"
    and plan: "wf_prepared (rw_plan x)" "validate_tasks (env_limits E) (plan_tasks (rw_plan x)) = Inr ()"
    and seed: "0 \<le> seed_attempts (checkpoint_seed x)" "0 \<le> seed_calls (checkpoint_seed x)" and now: "tz_aware now"
  shows "\<exists>y. system_view (snd (run_workflow (system_ports E) i None now x w)) (rw_key x) = Some y \<and>
    rw_status y \<in> {Wf_COMPLETED, Wf_PARTIAL, Wf_FAILED}"
proof -
  obtain rsl where rsl: "fst (env_resolve E (workflow_query x) (sys_env w)) = Inr rsl"
    using E unfolding honest_env_def by blast
  then obtain w1 where resolved: "in_env (env_resolve E (workflow_query x)) w = (Inr rsl, w1)"
    by (metis fst_in_env prod.collapse)
  have w1: "good_system w1" "alone w1" "system_view w1 (rw_key x) = Some x"
    using in_env_silent [of w "env_resolve E (workflow_query x)"] in_env_legal [of w "env_resolve E (workflow_query x)"] w resolved
    by (simp_all add: silent_def legal_def system_view_def)
  note mismatch = mismatch_settles [OF w1 x E i, of rsl]
  show ?thesis
  proof (cases "\<exists>co. resolved_company rsl = Some co \<and> company_id co = rw_company_id x")
    case False
    then have "run_workflow (system_ports E) i None now x w = fail_mismatch (system_ports E) i x rsl w1"
      using resolved by (auto simp: run_workflow_def bind_act_def split: option.split)
    then show ?thesis using mismatch by auto
  next
    case True
    then obtain co where co: "resolved_company rsl = Some co" "company_id co = rw_company_id x" by blast
    let ?ex = "execute_prepared (run_ports E) (rw_plan x) co (workflow_query x) rsl (workflow_execute_query x)
      (env_limits E) now (checkpoint_seed x)"
    have wfx: "wf_workflow x" using x(1) by (simp add: governed_def)
    have enter: "enters_loop (rw_plan x) co (env_limits E) now (checkpoint_seed x) (read_control (run_ports E) w1)"
      using plan(2) seed now co(2) wfx by (simp add: enters_loop_def wf_workflow_iff)
    obtain r w2 where r: "?ex w1 = (Inr r, w2)"
      using prepared_returns [OF plan(1) run_ports_honest [OF E] now seed] by blast
    from prepared_framed [OF _ enter r] obtain s ws now' where
      framed: "framed (plan_frame (rw_plan x)) s"
        "to_result (workflow_execute_query x) s rsl (env_limits E) now ws now' = Inr r" by auto
    have "silent w1 w2" using execute_silent r unfolding run_ports_def keeps_def by (metis snd_conv)
    then have view2: "alone w2" "system_view w2 (rw_key x) = Some x"
      using w1 by (simp_all add: silent_def system_view_def)
    have "legal good_system system_view w1 w2"
      using legal_rel.execute_prepared_kept [of good_system system_view "run_ports E"] in_env_legal r
      unfolding keeps_def by (metis run_ports_sel(1,3) snd_conv)
    then have "good_system w2" using w1(1) by (simp add: legal_def)
    from apply_settles [OF this view2 x E framed]
    have "\<exists>y. system_view (snd (apply_execution_result (system_ports E) x r False w2)) (rw_key x) = Some y \<and>
      rw_status y \<in> {Wf_COMPLETED, Wf_PARTIAL, Wf_FAILED}" .
    moreover have "run_workflow (system_ports E) i None now x w =
        apply_execution_result (system_ports E) x r False w2"
      using resolved co r
      by (simp add: run_workflow_def bind_act_def run_ports_def control_reader_def)
    ultimately show ?thesis by simp
  qed
qed

lemma execute_settles:
  assumes w: "good_system w" "alone w" "system_view w (workflow_id_text i) = Some x"
    and x: "execute_guard x = None" "rw_status x \<noteq> Wf_RUNNING" and E: "honest_env E"
    and plan: "wf_prepared (rw_plan x)" "validate_tasks (env_limits E) (plan_tasks (rw_plan x)) = Inr ()"
    and seed: "0 \<le> seed_attempts (checkpoint_seed x)" "0 \<le> seed_calls (checkpoint_seed x)"
  shows "\<exists>y. system_view (snd (manage_execute (system_ports E) i None w)) (workflow_id_text i) = Some y \<and>
    rw_status y \<in> {Wf_COMPLETED, Wf_PARTIAL, Wf_FAILED}"
proof -
  let ?now = "fst (env_clock E (sys_env w))" and ?w1 = "snd (in_env (env_clock E) w)"
  have w1: "good_system ?w1" "alone ?w1" "system_view ?w1 = system_view w"
    using in_env_silent [of w "env_clock E"] in_env_legal [of w "env_clock E"] w(1,2)
    by (simp_all add: silent_def legal_def system_view_def)
  have gx: "governed x" "rw_key x = workflow_id_text i"
    using in_memory.stored_governed [OF w(1,3)] in_memory.keyed [OF w(1,3)] by blast+
  have now: "tz_aware ?now" using E by (simp add: honest_env_def)
  define y where "y = x\<lparr>rw_status := Wf_RUNNING, rw_updated_at := ?now\<rparr>"
  have y: "rw_with_status x Wf_RUNNING ?now = Inr y"
    using rw_with_status_wf [OF _ now, of x Wf_RUNNING] gx(1) x
    by (auto simp: governed_def execute_guard_def y_def split: if_splits)
  have gy: "governed y" "rw_key y = workflow_id_text i"
    using in_memory.guard_governed [OF gx(1) x(1)] governed_with_status(1) [OF y] gx(2) by (auto simp: y_def rw_key_def)
  have acc: "accepts (system_view ?w1) y"
    using w(3) w1(3) gy(2) y by (auto simp: accepts_def check_existing_iff y_def rw_with_status_Inr_iff)
  obtain w2 where w2: "commit_or_conflict (system_ports E) i y ?now ?w1 = (Inr None, w2)" "alone w2"
    "system_view w2 = (system_view ?w1)(rw_key y \<mapsto> y)"
    using commit_alone(1) [OF w1(2) acc] by blast
  have "legal good_system system_view ?w1 w2"
    using w2(1) in_memory.commit_kept [OF gy(1), of E i ?now] unfolding keeps_def by (metis snd_conv)
  then have g2: "good_system w2" using w1(1) by (simp add: legal_def)
  have run: "manage_execute (system_ports E) i None w = run_workflow (system_ports E) i None ?now y w2"
    using w1 w(3) x(1) y w2(1)
    by (simp add: manage_execute_def with_workflow_def store_get_alone bind_act_def unless_conflict_def)
  have "checkpoint_seed y = checkpoint_seed x" "rw_plan y = rw_plan x" by (simp_all add: checkpoint_seed_def y_def)
  then show ?thesis
    using run_settles [OF g2 w2(2) _ gy(1) _ E, of i ?now] w2(3) gy(2) plan seed now run by (simp add: y_def)
qed

end
