(* ===== verification/Workflow_Properties.thy ===== *)
theory Workflow_Properties
  imports Workflow_Samples Workflow_Runs
begin

text \<open>
  The properties of the workflow layer, over the in-memory adapters and any interleaving with other
  threads.
\<close>

section \<open>Stored records\<close>

text \<open>C11: whatever operations run and whatever other threads do, a workflow that has become
  completed, partial, failed or cancelled keeps that status for ever, and its run, request, company
  and plan never change.\<close>

theorem terminal_workflow_is_final:
  assumes "good_system w" "(system_step E)\<^sup>*\<^sup>* w w'" "system_view w k = Some x" "is_terminal (rw_status x)"
  shows "\<exists>y. system_view w' k = Some y \<and> rw_status y = rw_status x \<and> rw_version x \<le> rw_version y \<and>
    run_id_text (rw_run_id y) = run_id_text (rw_run_id x) \<and> rw_request_id y = rw_request_id x \<and>
    rw_company_id y = rw_company_id x \<and> plan_id (rw_plan y) = plan_id (rw_plan x)"
  using system_steps_legal [OF assms(2)] assms(1,3,4) reaches_terminal
  unfolding legal_def evolves_def evolves_to_def by metis

theorem terminal_workflow_is_final_witness:
  "\<exists>y. system_view (snd (perform sample_env (Do_execute sample_workflow_id None)
      (sample_world (sample_workflow Wf_CANCELLED Approval_APPROVED) [[]])))
      (workflow_id_text sample_workflow_id) = Some y \<and> rw_status y = Wf_CANCELLED"
proof -
  let ?x = "sample_workflow Wf_CANCELLED Approval_APPROVED"
  have "good_system (sample_world ?x [[]])" "is_terminal (rw_status ?x)"
    by (rule sample_good [OF sample_governed]) (simp_all add: is_terminal_def)
  from terminal_workflow_is_final [OF this(1)
      history_single [where op = "Do_execute sample_workflow_id None"] sample_view this(2)]
  show ?thesis unfolding sample_key sample_workflow_sel by blast
qed

text \<open>C12: no workflow runs ungoverned: in every reachable world a stored workflow that is ready,
  running, paused, completed or partial has no open or refused approval, and where its requirement
  asks for approval, that approval was given.\<close>

theorem no_run_without_approval:
  assumes "good_system w" "(system_step E)\<^sup>*\<^sup>* w w'" "system_view w' k = Some x"
    "rw_status x \<in> {Wf_READY, Wf_RUNNING, Wf_PAUSED, Wf_COMPLETED, Wf_PARTIAL}"
  shows "rw_approval_status x \<notin> {Approval_PENDING, Approval_REJECTED} \<and>
    (approval_required (rw_requirement x) \<longrightarrow> rw_approval_status x = Approval_APPROVED)"
proof -
  have "good_system w'" using system_steps_legal [OF assms(2)] assms(1) by (simp add: legal_def)
  from in_memory.stored_governed [OF this assms(3)] show ?thesis
    using assms(4) by (auto simp: governed_def may_have_run_def cleared_def)
qed

theorem no_run_without_approval_witness:
  "rw_approval_status (sample_workflow Wf_READY Approval_APPROVED) \<notin> {Approval_PENDING, Approval_REJECTED}"
proof -
  have "good_system (sample_world (sample_workflow Wf_READY Approval_APPROVED) [])"
    by (rule sample_good [OF sample_governed]) simp_all
  from no_run_without_approval [where E = sample_env, OF this rtranclp.rtrancl_refl sample_view]
  show ?thesis by simp
qed



section \<open>Operations\<close>

lemma conflict_reply:
  assumes "commit_or_conflict M i x now w = (Inr (Some r), w')" shows "op_status r = Op_CONFLICT"
  using assms
  by (auto simp: commit_or_conflict_def catch_act_def bind_act_def split: prod.splits sum.splits error.splits
      dest!: reply_InrD)

lemma unless_conflict_OK:
  assumes "unless_conflict (commit_or_conflict M i x now) k w = (Inr r, w')" "op_status r = Op_OK"
  obtains w1 where "commit_or_conflict M i x now w = (Inr None, w1)" "k w1 = (Inr r, w')"
  using assms
  by (auto simp: unless_conflict_def bind_act_def split: prod.splits sum.splits option.splits dest: conflict_reply)

lemma with_workflow_OK:
  assumes "with_workflow M i k w = (Inr r, w')" "op_status r = Op_OK"
  obtains now x w1 where "k now x w1 = (Inr r, w')"
  using assms
  by (auto simp: with_workflow_def bind_act_def ask_def split: prod.splits option.splits dest!: reply_InrD)

lemma lift_bind_Inr:
  assumes "bind_act (lift_res v) f w = (Inr r, w')"
  obtains y where "v = Inr y" "f y w = (Inr r, w')"
  using assms by (auto simp: bind_act_def split: sum.splits)

lemma cancel_reply:
  assumes "manage_cancel M i w = (Inr r, w')" "op_status r = Op_OK"
  shows "\<exists>x. op_workflow r = Some x \<and> rw_status x = Wf_CANCELLED"
  using assms unfolding manage_cancel_def
  by (elim with_workflow_OK)
     (auto split: if_splits sum.splits dest!: reply_InrD workflow_post_init_eq simp: rw_with_status_Inr_iff
        elim!: lift_bind_Inr unless_conflict_OK bind_act_InrE)

text \<open>C14: a cancellation that replies OK is final: the stored workflow is then cancelled, and in
  every later world it still is.\<close>

theorem cancel_reply_is_final:
  assumes "good_system w" "perform E (Do_cancel i) w = (Some (Inr r), w1)" "op_status r = Op_OK"
    "(system_step E)\<^sup>*\<^sup>* w1 w2"
  shows "\<exists>y. system_view w2 (workflow_id_text i) = Some y \<and> rw_status y = Wf_CANCELLED"
proof -
  have "manage_cancel (system_ports E) i w = (Inr r, w1)"
    using assms(2) by (cases "manage_cancel (system_ports E) i w") auto
  from cancel_reply [OF this assms(3)] obtain x where x: "op_workflow r = Some x" "rw_status x = Wf_CANCELLED"
    by blast
  obtain m where m: "m (workflow_id_text i) = Some x" "evolves m (system_view w1)"
    using perform_seen [OF assms(1) _ assms(2) x(1)] by (auto simp: seen_def)
  have "good_system w1" using perform_legal [of w E "Do_cancel i"] assms(1) unfolding assms(2) legal_def by simp
  then have "evolves (system_view w1) (system_view w2)" using system_steps_legal [OF assms(4)] by (simp add: legal_def)
  then have "evolves m (system_view w2)" using m(2) evolves_trans by blast
  from this m(1) show ?thesis by (rule evolves_terminal) (use x(2) in \<open>auto simp: is_terminal_def\<close>)
qed

lemma sample_cancel:
  "case perform sample_env (Do_cancel sample_workflow_id)
      (sample_world (sample_workflow Wf_READY Approval_APPROVED) []) of
     (Some (Inr r), w1) \<Rightarrow> op_status r = Op_OK | _ \<Rightarrow> False"
  by code_simp

theorem cancel_reply_is_final_witness:
  "\<exists>r w1. perform sample_env (Do_cancel sample_workflow_id)
      (sample_world (sample_workflow Wf_READY Approval_APPROVED) []) = (Some (Inr r), w1) \<and> op_status r = Op_OK \<and>
     (\<exists>y. system_view w1 (workflow_id_text sample_workflow_id) = Some y \<and> rw_status y = Wf_CANCELLED)"
proof -
  have good: "good_system (sample_world (sample_workflow Wf_READY Approval_APPROVED) [])"
    by (rule sample_good [OF sample_governed]) simp_all
  obtain r w1 where run: "perform sample_env (Do_cancel sample_workflow_id)
      (sample_world (sample_workflow Wf_READY Approval_APPROVED) []) = (Some (Inr r), w1)" "op_status r = Op_OK"
    using sample_cancel by (auto split: prod.splits option.splits sum.splits)
  show ?thesis using cancel_reply_is_final [OF good run rtranclp.rtrancl_refl] run by blast
qed






end
