(* ===== verification/Planning_Properties.thy ===== *)
theory Planning_Properties
  imports Create_Workflow Samples
begin

text \<open>
  The properties of planning: the capability registry, the deterministic planner behind its port, the
  creation of plans and workflows, and the orchestrator.
\<close>

section \<open>Reordering a plan\<close>


section \<open>The planner's plans\<close>





section \<open>The registry and the planner port\<close>

text \<open>A registry that was built answers exactly for the descriptors it was built from: looking an
  id up returns the descriptor registered under it, and any other id raises the key error.\<close>

theorem registry_lookup:
  assumes "build_registry cs [] = Inr reg"
  shows "(registry_require reg k = Inr c \<longleftrightarrow> c \<in> set cs \<and> cap_id c = k) \<and>
    (registry_require reg k = Inl (KeyError (''unknown capability_id: '' @ k)) \<longleftrightarrow> k \<notin> cap_id ` set cs)"
proof -
  have reg: "reg = cs" "distinct (map cap_id cs)" using assms by (simp_all add: build_registry_iff)
  show ?thesis
  proof (cases "registry_get reg k")
    case None
    then have "k \<notin> cap_id ` set cs" by (auto simp: registry_get_def find_None_iff reg(1))
    then show ?thesis using None by (auto simp: registry_require_def)
  next
    case (Some d)
    then have "d \<in> set cs" "cap_id d = k" by (auto simp: registry_get_def find_Some_iff reg(1))
    then show ?thesis using Some reg(2) by (auto simp: registry_require_def distinct_map dest: inj_onD)
  qed
qed

theorem registry_lookup_witness:
  "registry_require default_capability_registry ''telepathy'' = Inl (KeyError ''unknown capability_id: telepathy'')"
proof -
  have "build_registry default_capability_registry [] = Inr default_capability_registry" by code_simp
  from registry_lookup [OF this, of "''telepathy''" undefined] show ?thesis
    by (simp add: default_capability_registry_def)
qed

text \<open>C17: the deterministic planner behind its port never raises, whatever the resolver, the registry
  and the uuid source do; a plan is attached exactly to an OK outcome.\<close>

theorem planner_never_raises:
  "\<exists>x. fst (deterministic_create_plan P reg b r w) = Inr x \<and>
    (outcome_status x = Planner_OK \<longleftrightarrow> outcome_plan x \<noteq> None)"
  using deterministic.returns [of P reg b r w] deterministic.plan_iff_ok [of P reg b r w] by blast




definition sample_planner :: "nat planner_ports" where
  "sample_planner = \<lparr>resolve_company = (\<lambda>q n. (Inr sample_resolution, n)),
     fresh_uuid = (\<lambda>n. (uuid_of (char_of (49 + n)), n + 1))\<rparr>"

definition sample_request :: research_request where
  "sample_request = \<lparr>request_id = RequestId (uuid_of (CHR ''e'')), request_run_id = sample_run_id,
     request_objective = Objective_COMPANY_OVERVIEW, request_raw_query = ''Acme'',
     request_created_at = sample_time, request_country = None, request_exchange = None,
     request_ticker = None, objective_text = None, jurisdiction = None, time_horizon_days = None\<rparr>"



section \<open>Creating plans and workflows\<close>

text \<open>C19: creating a plan fails closed. A plan reaches the caller only in an OK result that carries a
  uniquely resolved company and the request, and then the plan is for that company and that run,
  whatever plan the planner returned.\<close>

theorem create_plan_fails_closed:
  assumes "create_research_plan P b q w = (Inr r, w')" "cp_plan r = Some p"
  shows "\<exists>resolution company request. cp_status r = Creation_OK \<and> cp_resolution r = Some resolution \<and>
    resolution_status resolution = Resolution_RESOLVED \<and> resolved_company resolution = Some company \<and>
    cp_request r = Some request \<and> plan_company_id p = company_id company \<and>
    plan_run_id p = request_run_id request"
  by (rule create_plan_sound [OF assms])

definition sample_midnight :: datetime where
  "sample_midnight = sample_time\<lparr>dt_hour := 0, dt_minute := 0, dt_second := 0\<rparr>"

definition sample_plan_ports :: "nat plan_ports" where
  "sample_plan_ports = \<lparr>pp_clock = (\<lambda>n. (sample_midnight, n)), pp_fresh = fresh_uuid sample_planner,
     pp_resolve = resolve_company sample_planner,
     pp_planner = deterministic_create_plan sample_planner default_capability_registry default_budget\<rparr>"

definition sample_create_query :: create_plan_query where
  "sample_create_query = \<lparr>cq_company_query = sample_query, cq_objective = Objective_MARKET_ANALYSIS,
     cq_objective_text = None, cq_jurisdiction = None, cq_time_horizon_days = None\<rparr>"

lemma sample_created:
  "case fst (create_research_plan sample_plan_ports default_budget sample_create_query 0) of
     Inr r \<Rightarrow> (case cp_plan r of Some p \<Rightarrow> length (plan_tasks p) = 1 | None \<Rightarrow> False) | Inl _ \<Rightarrow> False"
  by code_simp

theorem create_plan_fails_closed_witness:
  "\<exists>r w' p. create_research_plan sample_plan_ports default_budget sample_create_query 0 = (Inr r, w') \<and>
    cp_plan r = Some p \<and> cp_status r = Creation_OK"
proof -
  obtain res w' where run: "create_research_plan sample_plan_ports default_budget sample_create_query 0 = (res, w')"
    by (metis surj_pair)
  then obtain r p where "res = Inr r" "cp_plan r = Some p"
    using sample_created unfolding run by (auto split: sum.splits option.splits)
  with run have *: "create_research_plan sample_plan_ports default_budget sample_create_query 0 = (Inr r, w')"
    "cp_plan r = Some p" by simp_all
  show ?thesis using create_plan_fails_closed [OF *] * by blast
qed

lemma policy_outcome:
  assumes "approval_policy obj flag = Inr requirement"
  shows "approval_required requirement \<longleftrightarrow> flag \<or> obj = Objective_COMPREHENSIVE_EQUITY_RESEARCH"
  using assms by (auto simp: approval_policy_def requirement_post_init_def Let_def split: if_splits)

lemma new_workflow_fields:
  assumes "new_workflow q plan rid requirement now u = Inr rw"
  shows "rw_plan rw = plan \<and> rw_run_id rw = plan_run_id plan \<and> rw_company_id rw = plan_company_id plan \<and>
    rw_request_id rw = rid \<and> rw_requirement rw = requirement \<and> rw_version rw = 0 \<and> rw_checkpoint rw = None \<and>
    (rw_status rw, rw_approval_status rw) =
      (if approval_required requirement then (Wf_AWAITING_APPROVAL, Approval_PENDING)
       else (Wf_READY, Approval_NOT_REQUIRED))"
  using assms
  by (auto simp: new_workflow_def Let_def and_then_Inr_iff rw_with_status_Inr_iff workflow_post_init_Inr_iff
      split: if_splits prod.splits)

lemma store_new_workflow_ok:
  assumes "store_new_workflow P q now parts w = (Inr r, w')"
  obtains rw requirement where "op_workflow r = Some rw" "op_status r = Op_OK"
    "approval_policy (cw_objective q) (cw_require_approval q) = Inr requirement"
    "rw_plan rw = fst parts" "rw_run_id rw = plan_run_id (fst parts)" "rw_request_id rw = fst (snd parts)"
    "(rw_status rw, rw_approval_status rw) =
      (if approval_required requirement then (Wf_AWAITING_APPROVAL, Approval_PENDING)
       else (Wf_READY, Approval_NOT_REQUIRED))"
proof -
  obtain requirement u rw where *: "approval_policy (cw_objective q) (cw_require_approval q) = Inr requirement"
    "new_workflow q (fst parts) (fst (snd parts)) requirement now u = Inr rw"
    "op_workflow r = Some rw" "op_status r = Op_OK"
    using assms
    by (auto simp: store_new_workflow_def bind_act_def operation_post_init_def
        split: prod.splits sum.splits if_splits)
  with new_workflow_fields [OF *(2)] show thesis using that by blast
qed

text \<open>C20: a workflow is created awaiting approval exactly when the caller asked for it or the research is
  comprehensive; otherwise it is ready and needs none. A plan that was handed in is used as it is.\<close>

theorem created_workflow_waits:
  assumes "create_workflow P q prepared w = (Inr r, w')" "op_status r = Op_OK"
  shows "\<exists>rw. op_workflow r = Some rw \<and>
    (rw_status rw, rw_approval_status rw) =
      (if cw_require_approval q \<or> cw_objective q = Objective_COMPREHENSIVE_EQUITY_RESEARCH
       then (Wf_AWAITING_APPROVAL, Approval_PENDING) else (Wf_READY, Approval_NOT_REQUIRED)) \<and>
    (\<forall>pp. prepared = Some pp \<longrightarrow>
       rw_plan rw = prepared_plan pp \<and> rw_request_id rw = request_id (prepared_request pp))"
proof -
  obtain now parts w1 where *: "store_new_workflow P q now parts w1 = (Inr r, w')"
    "\<forall>pp. prepared = Some pp \<longrightarrow> parts = (prepared_plan pp, request_id (prepared_request pp), None)"
    using assms
    by (auto simp: create_workflow_def bind_act_def operation_post_init_def plan_refusal_def
        split: prod.splits sum.splits if_splits option.splits)
  from store_new_workflow_ok [OF *(1)] show ?thesis
    using *(2) policy_outcome by (metis fst_conv snd_conv)
qed

definition sample_creation :: "nat creation_ports" where
  "sample_creation = \<lparr>wp_clock = (\<lambda>n. (sample_time, n)), wp_fresh = fresh_uuid sample_planner,
     wp_create_plan = (\<lambda>q n. (Inl AssertionError, n)), wp_save = (\<lambda>x. return_act ()),
     wp_notifications = None\<rparr>"

definition sample_workflow_query :: create_workflow_query where
  "sample_workflow_query = \<lparr>cw_company_query = sample_query, cw_objective = Objective_FINANCIAL_ANALYSIS,
     cw_objective_text = None, cw_jurisdiction = None, cw_time_horizon_days = None, cw_require_approval = True\<rparr>"

definition sample_prepared :: prepared_plan where
  "sample_prepared = \<lparr>prepared_plan = single_plan, prepared_request = sample_request\<rparr>"

text \<open>What a witness reads off a reply.\<close>

definition replied_ok :: "('w, operation_result) action \<Rightarrow> 'w \<Rightarrow> bool" where
  "replied_ok a w = (case fst (a w) of Inr r \<Rightarrow> op_status r = Op_OK | Inl _ \<Rightarrow> False)"

lemma replied_okE:
  assumes "replied_ok a w" obtains r w' where "a w = (Inr r, w')" "op_status r = Op_OK"
  using assms by (cases "a w") (auto simp: replied_ok_def split: sum.splits)

lemma sample_workflow_created: "replied_ok (create_workflow sample_creation sample_workflow_query (Some sample_prepared)) 0"
  by code_simp

theorem created_workflow_waits_witness:
  "\<exists>r w' rw. create_workflow sample_creation sample_workflow_query (Some sample_prepared) 0 = (Inr r, w') \<and>
    op_workflow r = Some rw \<and> rw_status rw = Wf_AWAITING_APPROVAL"
proof -
  from sample_workflow_created obtain r w' where
    *: "create_workflow sample_creation sample_workflow_query (Some sample_prepared) 0 = (Inr r, w')" "op_status r = Op_OK"
    by (rule replied_okE)
  have "cw_require_approval sample_workflow_query" by (simp add: sample_workflow_query_def)
  with created_workflow_waits [OF *] * show ?thesis by auto
qed

text \<open>What the orchestrator reports as created is the planner's own plan: an OK outcome carries the
  planner's OK outcome and a workflow over exactly the plan it returned, never a second one.\<close>

theorem orchestrated_plan_is_the_planners:
  assumes "orchestrate planner P q corr w = (Inr r, w')" "or_status r = Outcome_OK"
  shows "\<exists>outcome plan wr rw. or_planner_outcome r = Some outcome \<and> outcome_status outcome = Planner_OK \<and>
    outcome_plan outcome = Some plan \<and> or_workflow_result r = Some wr \<and> op_workflow wr = Some rw \<and>
    rw_plan rw = plan \<and> rw_run_id rw = plan_run_id plan"
proof -
  have reply: "orchestrate_reply st msg out wr c now = Inr r \<Longrightarrow>
      or_status r = st \<and> or_planner_outcome r = out \<and> or_workflow_result r = wr" for st msg out wr c now
    by (auto simp: orchestrate_reply_def orchestrate_post_init_def split: if_splits)
  obtain outcome plan request w1 w2 wr where *: "outcome_status outcome = Planner_OK" "outcome_plan outcome = Some plan"
    "create_workflow P q (Some \<lparr>prepared_plan = plan, prepared_request = request\<rparr>) w1 = (Inr wr, w2)"
    "op_status wr = Op_OK" "or_planner_outcome r = Some outcome" "or_workflow_result r = Some wr"
    using assms
    by (auto simp: orchestrate_def bind_act_def split: prod.splits sum.splits if_splits option.splits dest!: reply)
  obtain now w3 where "store_new_workflow P q now (plan, request_id request, None) w3 = (Inr wr, w2)"
    using *(3) by (auto simp: create_workflow_def bind_act_def split: prod.splits sum.splits if_splits)
  from store_new_workflow_ok [OF this] * show ?thesis by (metis fst_conv)
qed

definition sample_orchestration :: "nat \<Rightarrow> orchestrate_result res \<times> nat" where
  "sample_orchestration = orchestrate
     (deterministic_create_plan sample_planner default_capability_registry default_budget)
     (sample_creation\<lparr>wp_clock := \<lambda>n. (sample_midnight, n)\<rparr>) sample_workflow_query None"

lemma sample_orchestrated:
  "case fst (sample_orchestration 0) of Inr r \<Rightarrow> or_status r = Outcome_OK | Inl _ \<Rightarrow> False"
  by code_simp

theorem orchestrated_plan_is_the_planners_witness:
  "\<exists>r w' wr rw plan outcome. sample_orchestration 0 = (Inr r, w') \<and> or_planner_outcome r = Some outcome \<and>
    outcome_plan outcome = Some plan \<and> or_workflow_result r = Some wr \<and> op_workflow wr = Some rw \<and> rw_plan rw = plan"
proof -
  obtain res w' where run: "sample_orchestration 0 = (res, w')" by (metis surj_pair)
  then obtain r where r: "res = Inr r" "or_status r = Outcome_OK"
    using sample_orchestrated unfolding run by (auto split: sum.splits)
  from orchestrated_plan_is_the_planners [OF run [unfolded sample_orchestration_def r(1)] r(2)]
  show ?thesis using run r(1) by blast
qed

end
