(* ===== verification/Decimals.thy ===== *)
theory Decimals
  imports Base Complex_Main
begin

text \<open>
  Python's \<open>decimal.Decimal\<close> under the default context, as far as the program uses it: 28 digits,
  \<open>ROUND_HALF_EVEN\<close>, exponents up to 999999, with \<open>InvalidOperation\<close>, \<open>DivisionByZero\<close> and \<open>Overflow\<close>
  raised. A finite number is a sign, a coefficient and an exponent, because its text and its zero
  keep them; \<open>dec_rat\<close> is its value.
\<close>

section \<open>Numbers\<close>

datatype decimal =
    Dec (dec_neg: bool) (dec_coeff: int) (dec_exp: int)
  | Dec_Inf bool
  | Dec_NaN

fun is_finite :: "decimal \<Rightarrow> bool" where
  "is_finite (Dec s n e) = True"
| "is_finite _ = False"

fun wf_decimal :: "decimal \<Rightarrow> bool" where
  "wf_decimal (Dec s n e) = (0 \<le> n)"
| "wf_decimal _ = True"

definition signed :: "bool \<Rightarrow> int \<Rightarrow> int" where
  "signed s n = (if s then - n else n)"

fun dec_rat :: "decimal \<Rightarrow> rat" where
  "dec_rat (Dec s n e) = of_int (signed s n) * 10 powi e"
| "dec_rat _ = 0"

function num_digits :: "int \<Rightarrow> int" where
  "num_digits n = (if n < 10 then 1 else 1 + num_digits (n div 10))"
  by pat_completeness auto
termination
  by (relation "measure nat") auto

declare num_digits.simps [simp del]

definition pow10 :: "int \<Rightarrow> int" where
  "pow10 k = 10 ^ nat k"

definition dec_of_int :: "int \<Rightarrow> decimal" where
  "dec_of_int i = Dec (i < 0) \<bar>i\<bar> 0"

text \<open>\<open>a\<close> and \<open>b\<close> on a common exponent.\<close>

definition aligned :: "bool \<Rightarrow> int \<Rightarrow> int \<Rightarrow> int \<Rightarrow> int" where
  "aligned s n e m = signed s n * pow10 (e - m)"

fun dec_eq :: "decimal \<Rightarrow> decimal \<Rightarrow> bool" where
  "dec_eq (Dec s n e) (Dec t k f) = (aligned s n e (min e f) = aligned t k f (min e f))"
| "dec_eq (Dec_Inf s) (Dec_Inf t) = (s = t)"
| "dec_eq _ _ = False"

text \<open>The order comparisons raise on a NaN.\<close>

fun dec_less :: "decimal \<Rightarrow> decimal \<Rightarrow> bool res" where
  "dec_less Dec_NaN _ = Inl (OtherException ''InvalidOperation'' [])"
| "dec_less _ Dec_NaN = Inl (OtherException ''InvalidOperation'' [])"
| "dec_less (Dec s n e) (Dec t k f) = Inr (aligned s n e (min e f) < aligned t k f (min e f))"
| "dec_less (Dec_Inf s) (Dec_Inf t) = Inr (s \<and> \<not> t)"
| "dec_less (Dec_Inf s) (Dec t k f) = Inr s"
| "dec_less (Dec s n e) (Dec_Inf t) = Inr (\<not> t)"

section \<open>Rounding\<close>

text \<open>\<open>n\<close> with its last \<open>k\<close> digits rounded away.\<close>

definition round_half_even :: "int \<Rightarrow> int \<Rightarrow> int" where
  "round_half_even n k =
     (let p = pow10 k; q = n div p; r = n mod p in
      if p < 2 * r \<or> (2 * r = p \<and> odd q) then q + 1 else q)"

definition round_half_up :: "int \<Rightarrow> int \<Rightarrow> int" where
  "round_half_up n k = (let p = pow10 k; q = n div p; r = n mod p in if p \<le> 2 * r then q + 1 else q)"

definition prec :: int where "prec = 28"
definition Emax :: int where "Emax = 999999"
definition Etiny :: int where "Etiny = -1000026"
definition Etop :: int where "Etop = 999972"

definition raise_dec :: "string \<Rightarrow> 'a res" where
  "raise_dec c = Inl (OtherException c [])"

text \<open>\<open>Decimal._fix\<close>\<close>

definition dec_fix :: "bool \<Rightarrow> int \<Rightarrow> int \<Rightarrow> decimal res" where
  "dec_fix s n e =
     (if n = 0 then Inr (Dec s 0 (min (max e Etiny) Emax))
      else
        let m = num_digits n + e - prec in
        if Etop < m then raise_dec ''Overflow''
        else
          let m = max m Etiny in
          if e < m
          then
            let k = round_half_even n (m - e);
                (k, m) = (if prec < num_digits k then (k div 10, m + 1) else (k, m))
            in if Etop < m then raise_dec ''Overflow'' else Inr (Dec s k m)
          else Inr (Dec s n e))"

section \<open>Arithmetic\<close>

fun dec_negate :: "decimal \<Rightarrow> decimal" where
  "dec_negate (Dec s n e) = Dec (\<not> s) n e"
| "dec_negate (Dec_Inf s) = Dec_Inf (\<not> s)"
| "dec_negate Dec_NaN = Dec_NaN"

fun dec_add :: "decimal \<Rightarrow> decimal \<Rightarrow> decimal res" where
  "dec_add Dec_NaN _ = Inr Dec_NaN"
| "dec_add _ Dec_NaN = Inr Dec_NaN"
| "dec_add (Dec_Inf s) (Dec_Inf t) = (if s = t then Inr (Dec_Inf s) else raise_dec ''InvalidOperation'')"
| "dec_add (Dec_Inf s) _ = Inr (Dec_Inf s)"
| "dec_add _ (Dec_Inf t) = Inr (Dec_Inf t)"
| "dec_add (Dec s n e) (Dec t k f) =
     (let m = min e f; i = aligned s n e m + aligned t k f m in
      dec_fix (if i = 0 then s \<and> t else i < 0) \<bar>i\<bar> m)"

definition dec_sub :: "decimal \<Rightarrow> decimal \<Rightarrow> decimal res" where
  "dec_sub a b = dec_add a (dec_negate b)"

fun dec_mult :: "decimal \<Rightarrow> decimal \<Rightarrow> decimal res" where
  "dec_mult Dec_NaN _ = Inr Dec_NaN"
| "dec_mult _ Dec_NaN = Inr Dec_NaN"
| "dec_mult (Dec_Inf s) (Dec_Inf t) = Inr (Dec_Inf (s \<noteq> t))"
| "dec_mult (Dec_Inf s) (Dec t k f) = (if k = 0 then raise_dec ''InvalidOperation'' else Inr (Dec_Inf (s \<noteq> t)))"
| "dec_mult (Dec s n e) (Dec_Inf t) = (if n = 0 then raise_dec ''InvalidOperation'' else Inr (Dec_Inf (s \<noteq> t)))"
| "dec_mult (Dec s n e) (Dec t k f) = dec_fix (s \<noteq> t) (n * k) (e + f)"

text \<open>The exact quotient drops trailing zeros down to the ideal exponent; \<open>fuel\<close> bounds their number.\<close>

fun strip_zeros :: "nat \<Rightarrow> int \<Rightarrow> int \<Rightarrow> int \<Rightarrow> int \<times> int" where
  "strip_zeros 0 n e ideal = (n, e)"
| "strip_zeros (Suc k) n e ideal =
     (if e < ideal \<and> n mod 10 = 0 then strip_zeros k (n div 10) (e + 1) ideal else (n, e))"

definition divided :: "bool \<Rightarrow> int \<Rightarrow> int \<Rightarrow> int \<Rightarrow> int \<Rightarrow> decimal res" where
  "divided s a b x ideal =
     (let q = a div b in
      if a mod b \<noteq> 0 then dec_fix s (if q mod 5 = 0 then q + 1 else q) x
      else case strip_zeros (nat (ideal - x)) q x ideal of (q, x) \<Rightarrow> dec_fix s q x)"

definition quotient :: "bool \<Rightarrow> int \<Rightarrow> int \<Rightarrow> int \<Rightarrow> int \<Rightarrow> decimal res" where
  "quotient s n e k f =
     (let shift = num_digits k - num_digits n + prec + 1 in
      divided s (if 0 \<le> shift then n * pow10 shift else n)
        (if 0 \<le> shift then k else k * pow10 (- shift)) (e - f - shift) (e - f))"

fun dec_div :: "decimal \<Rightarrow> decimal \<Rightarrow> decimal res" where
  "dec_div Dec_NaN _ = Inr Dec_NaN"
| "dec_div _ Dec_NaN = Inr Dec_NaN"
| "dec_div (Dec_Inf s) (Dec_Inf t) = raise_dec ''InvalidOperation''"
| "dec_div (Dec_Inf s) (Dec t k f) = Inr (Dec_Inf (s \<noteq> t))"
| "dec_div (Dec s n e) (Dec_Inf t) = Inr (Dec (s \<noteq> t) 0 Etiny)"
| "dec_div (Dec s n e) (Dec t k f) =
     (if k = 0 then raise_dec (if n = 0 then ''InvalidOperation'' else ''DivisionByZero'')
      else if n = 0 then dec_fix (s \<noteq> t) 0 (e - f)
      else quotient (s \<noteq> t) n e k f)"

text \<open>\<open>quantize(Decimal((0, (1,), q)), rounding=ROUND_HALF_UP)\<close> for an exponent \<open>q\<close> the context allows.\<close>

fun dec_quantize :: "decimal \<Rightarrow> int \<Rightarrow> decimal res" where
  "dec_quantize Dec_NaN q = Inr Dec_NaN"
| "dec_quantize (Dec_Inf s) q = raise_dec ''InvalidOperation''"
| "dec_quantize (Dec s n e) q =
     (if n = 0 then dec_fix s 0 q
      else if Emax < num_digits n + e - 1 \<or> prec < num_digits n + e - q
      then raise_dec ''InvalidOperation''
      else
        let k = (if q \<le> e then n * pow10 (e - q) else round_half_up n (q - e)) in
        if prec < num_digits k then raise_dec ''InvalidOperation'' else dec_fix s k q)"

fun dec_sum :: "decimal list \<Rightarrow> decimal \<Rightarrow> decimal res" where
  "dec_sum [] acc = Inr acc"
| "dec_sum (d # ds) acc = and_then (dec_add acc d) (dec_sum ds)"

section \<open>Text\<close>

function coeff_text :: "int \<Rightarrow> string" where
  "coeff_text n = (if n < 10 then [digit_char (nat n)] else coeff_text (n div 10) @ [digit_char (nat (n mod 10))])"
  by pat_completeness auto
termination
  by (relation "measure nat") auto

declare coeff_text.simps [simp del]

text \<open>\<open>str(Decimal)\<close>\<close>

definition exponent_text :: "int \<Rightarrow> string" where
  "exponent_text x = ''E'' @ (if x < 0 then ''-'' else ''+'') @ coeff_text \<bar>x\<bar>"

fun dec_text :: "decimal \<Rightarrow> string" where
  "dec_text (Dec s n e) =
     (let ds = coeff_text n; left = e + int (length ds);
          dot = (if e \<le> 0 \<and> -6 < left then left else 1)
      in (if s then ''-'' else []) @
         (if dot \<le> 0 then ''0.'' @ replicate (nat (- dot)) (CHR ''0'') @ ds
          else if int (length ds) \<le> dot then ds @ replicate (nat dot - length ds) (CHR ''0'')
          else take (nat dot) ds @ ''.'' @ drop (nat dot) ds) @
         (if left = dot then [] else exponent_text (left - dot)))"
| "dec_text (Dec_Inf s) = (if s then ''-Infinity'' else ''Infinity'')"
| "dec_text Dec_NaN = ''NaN''"

text \<open>\<open>f"{d:.2f}"\<close> of a finite number\<close>

definition dec_fixed2 :: "decimal \<Rightarrow> string" where
  "dec_fixed2 d =
     (let n = dec_coeff d; e = dec_exp d;
          k = (if -2 \<le> e then n * pow10 (e + 2) else round_half_even n (-2 - e)) in
      (if dec_neg d then ''-'' else []) @ coeff_text (k div 100) @ ''.'' @ pad_text 2 (nat (k mod 100)))"

end
