(* ===== verification/Financial.thy ===== *)
theory Financial
  imports Decimals Tasks Identity
begin

text \<open>
  Financial facts and their containers (\<open>domain/financial/\<close>): reporting periods, facts, filings, the
  three statements and the package of one company. A \<open>date\<close> is its year, month and day.
\<close>

section \<open>Periods\<close>

type_synonym date = "int \<times> int \<times> int"

text \<open>\<open>date.toordinal()\<close>\<close>

definition int_leap :: "int \<Rightarrow> bool" where
  "int_leap y \<longleftrightarrow> y mod 4 = 0 \<and> (y mod 100 \<noteq> 0 \<or> y mod 400 = 0)"

definition days_before_month :: "int \<Rightarrow> int \<Rightarrow> int" where
  "days_before_month y m =
     [0, 31, 59, 90, 120, 151, 181, 212, 243, 273, 304, 334] ! nat (m - 1) + (if 2 < m \<and> int_leap y then 1 else 0)"

definition ordinal :: "date \<Rightarrow> int" where
  "ordinal = (\<lambda>(y, m, d). 365 * (y - 1) + (y - 1) div 4 - (y - 1) div 100 + (y - 1) div 400 +
     days_before_month y m + d)"

definition pad_int :: "nat \<Rightarrow> int \<Rightarrow> string" where
  "pad_int k n = (let t = coeff_text n in replicate (k - length t) (CHR ''0'') @ t)"

definition date_text :: "date \<Rightarrow> string" where
  "date_text = (\<lambda>(y, m, d). pad_int 4 y @ ''-'' @ pad_int 2 m @ ''-'' @ pad_int 2 d)"

datatype period_basis = Basis_FISCAL_YEAR | Basis_FISCAL_QUARTER | Basis_YEAR_TO_DATE | Basis_INSTANT

fun period_basis_value :: "period_basis \<Rightarrow> string" where
  "period_basis_value Basis_FISCAL_YEAR = ''fy''"
| "period_basis_value Basis_FISCAL_QUARTER = ''quarter''"
| "period_basis_value Basis_YEAR_TO_DATE = ''ytd''"
| "period_basis_value Basis_INSTANT = ''instant''"

datatype incomparability =
  Incomp_BASIS_MISMATCH | Incomp_INSTANT_NOT_COMPARABLE | Incomp_QUARTER_MISMATCH | Incomp_DURATION_MISMATCH
  | Incomp_MISSING_DURATION

fun incomparability_value :: "incomparability \<Rightarrow> string" where
  "incomparability_value Incomp_BASIS_MISMATCH = ''basis_mismatch''"
| "incomparability_value Incomp_INSTANT_NOT_COMPARABLE = ''instant_not_comparable''"
| "incomparability_value Incomp_QUARTER_MISMATCH = ''quarter_mismatch''"
| "incomparability_value Incomp_DURATION_MISMATCH = ''duration_mismatch''"
| "incomparability_value Incomp_MISSING_DURATION = ''missing_duration''"

definition MAX_DURATION_DRIFT_DAYS :: int where
  "MAX_DURATION_DRIFT_DAYS = 8"

record reporting_period =
  pd_basis :: period_basis
  pd_fiscal_year :: int
  pd_end :: date
  pd_start :: "date option"
  pd_quarter :: "int option"
  pd_as_of :: "date option"
  pd_label :: "string option"

definition check_duration :: "reporting_period \<Rightarrow> unit res" where
  "check_duration p =
     (if pd_basis p = Basis_INSTANT
      then if pd_as_of p = None then Inl (ValueError ''instant basis requires as_of'')
           else if pd_start p \<noteq> None then Inl (ValueError ''instant basis must not set period_start'')
           else Inr ()
      else case pd_start p of
        None \<Rightarrow> Inl (ValueError (period_basis_value (pd_basis p) @ '' basis requires period_start''))
      | Some s \<Rightarrow> if pd_end p < s then Inl (ValueError ''period_start must be <= period_end'') else Inr ())"

definition period_post_init :: "reporting_period \<Rightarrow> reporting_period res" where
  "period_post_init p =
     (if pd_fiscal_year p < 1900 \<or> 2100 < pd_fiscal_year p
      then Inl (ValueError ''fiscal_year out of supported bounds'')
      else if (case pd_quarter p of None \<Rightarrow> False | Some k \<Rightarrow> k \<notin> {1, 2, 3, 4})
      then Inl (ValueError ''fiscal_quarter must be 1..4 when set'')
      else if pd_basis p = Basis_FISCAL_QUARTER \<and> pd_quarter p = None
      then Inl (ValueError ''quarter basis requires fiscal_quarter'')
      else and_then (check_duration p) (\<lambda>_.
        case pd_label p of
          None \<Rightarrow> Inr p
        | Some l \<Rightarrow>
            let t = py_strip l in
            if t = [] \<or> 64 < length t then Inl (ValueError ''period label empty or exceeds bounds'')
            else Inr (p\<lparr>pd_label := Some t\<rparr>)))"

definition duration_days :: "reporting_period \<Rightarrow> int option" where
  "duration_days p =
     (if pd_basis p = Basis_INSTANT then None
      else map_option (\<lambda>s. ordinal (pd_end p) - ordinal s + 1) (pd_start p))"

definition incomparability_reason :: "reporting_period \<Rightarrow> reporting_period \<Rightarrow> incomparability option" where
  "incomparability_reason p q =
     (if pd_basis p = Basis_INSTANT \<or> pd_basis q = Basis_INSTANT then Some Incomp_INSTANT_NOT_COMPARABLE
      else if pd_basis p \<noteq> pd_basis q then Some Incomp_BASIS_MISMATCH
      else if pd_basis p = Basis_FISCAL_QUARTER \<and> pd_quarter p \<noteq> pd_quarter q then Some Incomp_QUARTER_MISMATCH
      else case (duration_days p, duration_days q) of
        (Some l, Some r) \<Rightarrow>
          if MAX_DURATION_DRIFT_DAYS < \<bar>l - r\<bar> then Some Incomp_DURATION_MISMATCH else None
      | _ \<Rightarrow> Some Incomp_MISSING_DURATION)"

definition is_comparable_to :: "reporting_period \<Rightarrow> reporting_period \<Rightarrow> bool" where
  "is_comparable_to p q \<longleftrightarrow> incomparability_reason p q = None"

definition display_label :: "reporting_period \<Rightarrow> string" where
  "display_label p =
     (case pd_label p of
        Some (c # cs) \<Rightarrow> c # cs
      | _ \<Rightarrow>
          (case pd_basis p of
             Basis_FISCAL_YEAR \<Rightarrow> ''FY'' @ coeff_text (pd_fiscal_year p)
           | Basis_FISCAL_QUARTER \<Rightarrow> ''FY'' @ coeff_text (pd_fiscal_year p) @ ''Q'' @
               (case pd_quarter p of None \<Rightarrow> ''None'' | Some k \<Rightarrow> coeff_text k)
           | Basis_YEAR_TO_DATE \<Rightarrow> ''FY'' @ coeff_text (pd_fiscal_year p) @ ''YTD''
           | Basis_INSTANT \<Rightarrow> ''INSTANT:'' @ date_text (case pd_as_of p of None \<Rightarrow> pd_end p | Some d \<Rightarrow> d)))"

section \<open>Facts\<close>

datatype financial_unit = Unit_CURRENCY | Unit_SHARES | Unit_PER_SHARE | Unit_RATIO | Unit_PERCENT

datatype financial_scale = Scale_ONES | Scale_THOUSANDS | Scale_MILLIONS | Scale_BILLIONS

fun scale_int :: "financial_scale \<Rightarrow> int" where
  "scale_int Scale_ONES = 1"
| "scale_int Scale_THOUSANDS = 1000"
| "scale_int Scale_MILLIONS = 1000000"
| "scale_int Scale_BILLIONS = 1000000000"

datatype financial_concept =
    Concept_REVENUE | Concept_COST_OF_REVENUE | Concept_GROSS_PROFIT | Concept_OPERATING_INCOME
  | Concept_EBIT | Concept_EBITDA | Concept_NET_INCOME | Concept_EPS_BASIC | Concept_EPS_DILUTED
  | Concept_CASH | Concept_TOTAL_ASSETS | Concept_CURRENT_ASSETS | Concept_TOTAL_LIABILITIES
  | Concept_CURRENT_LIABILITIES | Concept_TOTAL_DEBT | Concept_SHAREHOLDERS_EQUITY
  | Concept_OPERATING_CASH_FLOW | Concept_CAPITAL_EXPENDITURE | Concept_FREE_CASH_FLOW
  | Concept_SHARES_OUTSTANDING

fun concept_value :: "financial_concept \<Rightarrow> string" where
  "concept_value Concept_REVENUE = ''revenue''"
| "concept_value Concept_COST_OF_REVENUE = ''cost_of_revenue''"
| "concept_value Concept_GROSS_PROFIT = ''gross_profit''"
| "concept_value Concept_OPERATING_INCOME = ''operating_income''"
| "concept_value Concept_EBIT = ''ebit''"
| "concept_value Concept_EBITDA = ''ebitda''"
| "concept_value Concept_NET_INCOME = ''net_income''"
| "concept_value Concept_EPS_BASIC = ''eps_basic''"
| "concept_value Concept_EPS_DILUTED = ''eps_diluted''"
| "concept_value Concept_CASH = ''cash''"
| "concept_value Concept_TOTAL_ASSETS = ''total_assets''"
| "concept_value Concept_CURRENT_ASSETS = ''current_assets''"
| "concept_value Concept_TOTAL_LIABILITIES = ''total_liabilities''"
| "concept_value Concept_CURRENT_LIABILITIES = ''current_liabilities''"
| "concept_value Concept_TOTAL_DEBT = ''total_debt''"
| "concept_value Concept_SHAREHOLDERS_EQUITY = ''shareholders_equity''"
| "concept_value Concept_OPERATING_CASH_FLOW = ''operating_cash_flow''"
| "concept_value Concept_CAPITAL_EXPENDITURE = ''capital_expenditure''"
| "concept_value Concept_FREE_CASH_FLOW = ''free_cash_flow''"
| "concept_value Concept_SHARES_OUTSTANDING = ''shares_outstanding''"

datatype filing_id = FilingId (filing_id_text: uuid)

definition mk_filing_id :: "uuid \<Rightarrow> filing_id res" where
  "mk_filing_id u =
     (if \<not> uuid_is_v4 u then Inl (ValueError ''filing_id must be a UUIDv4'') else Inr (FilingId u))"

record financial_fact =
  ff_company_id :: company_id
  ff_concept :: financial_concept
  ff_period :: reporting_period
  ff_raw_value :: decimal
  ff_value :: decimal
  ff_unit :: financial_unit
  ff_scale :: financial_scale
  ff_source_id :: source_id
  ff_tier :: source_authority_tier
  ff_retrieved_at :: datetime
  ff_currency :: "currency_code option"
  ff_filing_id :: "filing_id option"
  ff_provider_concept :: "string option"

definition require_finite :: "string \<Rightarrow> decimal \<Rightarrow> unit res" where
  "require_finite label v =
     (if \<not> is_finite v then Inl (ValueError (label @ '' must be a finite Decimal'')) else Inr ())"

text \<open>The checks of the unit against the currency.\<close>

definition check_unit :: "financial_fact \<Rightarrow> unit res" where
  "check_unit f =
     (if ff_unit f = Unit_CURRENCY \<and> ff_currency f = None then Inl (ValueError ''currency unit requires currency'')
      else if ff_unit f = Unit_PER_SHARE \<and> ff_currency f = None
      then Inl (ValueError ''per_share unit requires currency'')
      else if ff_unit f = Unit_SHARES \<and> ff_currency f \<noteq> None
      then Inl (ValueError ''shares unit must not carry currency'')
      else if ff_unit f \<in> {Unit_RATIO, Unit_PERCENT} \<and> ff_currency f \<noteq> None
      then Inl (ValueError ''ratio/percent units must not carry currency'')
      else Inr ())"

definition fact_post_init :: "financial_fact \<Rightarrow> financial_fact res" where
  "fact_post_init f =
     and_then (require_finite ''raw_value'' (ff_raw_value f)) (\<lambda>_.
     and_then (require_finite ''normalized_value'' (ff_value f)) (\<lambda>_.
       if \<not> tz_aware (ff_retrieved_at f) then Inl (ValueError ''retrieved_at must be timezone-aware'')
       else
         and_then (dec_mult (ff_raw_value f) (dec_of_int (scale_int (ff_scale f)))) (\<lambda>expected.
           if \<not> dec_eq expected (ff_value f)
           then Inl (ValueError ''normalized_value must equal raw_value * scale'')
           else
             and_then (check_unit f) (\<lambda>_.
               case ff_provider_concept f of
                 None \<Rightarrow> Inr f
               | Some c \<Rightarrow>
                   let t = py_strip c in
                   if 128 < length t then Inl (ValueError ''provider_concept exceeds bounds'')
                   else Inr (f\<lparr>ff_provider_concept := (if t = [] then None else Some t)\<rparr>)))))"

text \<open>\<open>build_fact\<close>: the argument carries every field but the normalised value.\<close>

definition build_fact :: "financial_fact \<Rightarrow> financial_fact res" where
  "build_fact f =
     and_then (dec_mult (ff_raw_value f) (dec_of_int (scale_int (ff_scale f)))) (\<lambda>v.
       fact_post_init (f\<lparr>ff_value := v\<rparr>))"

end
