(* ===== verification/Fact_Conflicts.thy ===== *)
theory Fact_Conflicts
  imports Financial
begin

text \<open>
  Conflicts between facts of several sources (\<open>domain/financial/conflicts.py\<close>): which fact of a group
  is selected, or that none is, and the survivors of a list of facts.
\<close>

section \<open>Resolving one group\<close>

datatype conflict_rule = Rule_VALUES_AGREE | Rule_HIGHER_AUTHORITY_TIER | Rule_UNRESOLVED

record fact_conflict =
  fc_company_id :: company_id
  fc_concept :: financial_concept
  fc_period :: reporting_period
  fc_candidates :: "financial_fact list"
  fc_rule :: conflict_rule
  fc_selected :: "financial_fact option"
  fc_detail :: string

fun check_candidates :: "fact_conflict \<Rightarrow> financial_fact list \<Rightarrow> unit res" where
  "check_candidates c [] = Inr ()"
| "check_candidates c (f # fs) =
     (if ff_company_id f \<noteq> fc_company_id c then Inl (ValueError ''candidate company_id mismatch'')
      else if ff_concept f \<noteq> fc_concept c then Inl (ValueError ''candidate concept mismatch'')
      else if display_label (ff_period f) \<noteq> display_label (fc_period c)
      then Inl (ValueError ''candidate period label mismatch'')
      else check_candidates c fs)"

definition conflict_post_init :: "fact_conflict \<Rightarrow> fact_conflict res" where
  "conflict_post_init c =
     (if length (fc_candidates c) < 2
      then Inl (ValueError ''conflict requires at least two candidate facts'')
      else and_then (check_candidates c (fc_candidates c)) (\<lambda>_.
        if fc_rule c = Rule_UNRESOLVED \<and> fc_selected c \<noteq> None
        then Inl (ValueError ''unresolved conflicts must not select a fact'')
        else if fc_rule c \<noteq> Rule_UNRESOLVED \<and> fc_selected c = None
        then Inl (ValueError ''resolved conflicts require a selected fact'')
        else if fc_rule c \<noteq> Rule_UNRESOLVED \<and> (\<exists>f \<in> set (fc_candidates c). ff_period f \<noteq> fc_period c)
        then Inl (ValueError ''resolved conflicts require exact period equality'')
        else Inr c))"

definition conflict_key :: "financial_fact \<Rightarrow> string \<times> string \<times> string" where
  "conflict_key f = (company_id_text (ff_company_id f), concept_value (ff_concept f), display_label (ff_period f))"

text \<open>\<open>len({...}) > 1\<close> and \<open>len({...}) == 1\<close> of a non-empty sequence\<close>

definition several :: "'a list \<Rightarrow> bool" where
  "several xs \<longleftrightarrow> (\<exists>x \<in> set xs. x \<noteq> hd xs)"

definition same_value :: "decimal list \<Rightarrow> bool" where
  "same_value vs \<longleftrightarrow> list_all (dec_eq (hd vs)) vs"

definition mismatch_reasons :: "financial_fact list \<Rightarrow> string list" where
  "mismatch_reasons fs =
     (if several (map ff_unit fs) then [''unit mismatch''] else []) @
     (if several (map ff_currency fs) then [''currency mismatch''] else []) @
     (if several (map ff_period fs) then [''exact period mismatch''] else [])"

text \<open>\<open>min(ordered, key=tier)\<close>: the first fact of the least tier.\<close>

definition best_tier :: "financial_fact list \<Rightarrow> nat" where
  "best_tier fs = Min (tier_int ` ff_tier ` set fs)"

definition first_best :: "financial_fact list \<Rightarrow> financial_fact option" where
  "first_best fs = find (\<lambda>f. tier_int (ff_tier f) = best_tier fs) fs"

definition winners :: "financial_fact list \<Rightarrow> financial_fact list" where
  "winners fs = filter (\<lambda>f. tier_int (ff_tier f) = best_tier fs) fs"

text \<open>Rule, selected fact and detail of a group of candidates.\<close>

definition judge_conflict :: "financial_fact list \<Rightarrow> conflict_rule \<times> financial_fact option \<times> string" where
  "judge_conflict fs =
     (if mismatch_reasons fs \<noteq> []
      then (Rule_UNRESOLVED, None, py_join '', '' (mismatch_reasons fs) @
              ''; not resolved by numeric coincidence or retrieval order'')
      else if same_value (map ff_value fs)
      then (Rule_VALUES_AGREE, first_best fs,
            ''candidate normalized values agree; higher authority tier preferred on ties'')
      else if several (map ff_tier fs) \<and> same_value (map ff_value (winners fs))
      then (Rule_HIGHER_AUTHORITY_TIER, first_best fs,
            ''selected tier-'' @ nat_text (best_tier fs) @
            '' authoritative value; lower-authority disagreeing candidates retained for audit'')
      else (Rule_UNRESOLVED, None,
            ''conflicting normalized values without a unique higher-authority winner; '' @
            ''not silently resolved by retrieval order''))"

definition resolve_fact_conflict :: "financial_fact list \<Rightarrow> fact_conflict res" where
  "resolve_fact_conflict fs =
     (if length fs < 2 then Inl (ValueError ''resolve_fact_conflict requires at least two candidates'')
      else if several (map conflict_key fs)
      then Inl (ValueError ''candidates must share company, concept, and period label'')
      else case judge_conflict fs of (rule, selected, detail) \<Rightarrow>
        conflict_post_init
          \<lparr>fc_company_id = ff_company_id (hd fs), fc_concept = ff_concept (hd fs),
           fc_period = ff_period (hd fs), fc_candidates = fs, fc_rule = rule, fc_selected = selected,
           fc_detail = detail\<rparr>)"

section \<open>Survivors of a list\<close>

text \<open>The dictionary of groups: keys in order of first occurrence.\<close>

fun bucket_add :: "financial_fact \<Rightarrow> financial_fact list list \<Rightarrow> financial_fact list list" where
  "bucket_add f [] = [[f]]"
| "bucket_add f (g # gs) = (if conflict_key (hd g) = conflict_key f then (g @ [f]) # gs else g # bucket_add f gs)"

definition buckets :: "financial_fact list \<Rightarrow> financial_fact list list" where
  "buckets fs = fold bucket_add fs []"

fun judge_groups ::
    "financial_fact list list \<Rightarrow> financial_fact list \<Rightarrow> fact_conflict list
      \<Rightarrow> (financial_fact list \<times> fact_conflict list) res"
where
  "judge_groups [] ss cs = Inr (ss, cs)"
| "judge_groups (g # gs) ss cs =
     (if length g = 1 then judge_groups gs (ss @ g) cs
      else and_then (resolve_fact_conflict g) (\<lambda>c.
        judge_groups gs (ss @ (case fc_selected c of None \<Rightarrow> [] | Some f \<Rightarrow> [f])) (cs @ [c])))"

definition detect_fact_conflicts :: "financial_fact list \<Rightarrow> (financial_fact list \<times> fact_conflict list) res" where
  "detect_fact_conflicts fs = judge_groups (buckets fs) [] []"

end
