(* ===== verification/Financial_Package.thy ===== *)
theory Financial_Package
  imports Fact_Conflicts
begin

text \<open>
  Statements and the financial package of one company (\<open>domain/financial/statements.py\<close>). A package may
  carry the package of the prior period, so packages are a datatype over the record of their fields.
\<close>

section \<open>Statements\<close>

definition income_concepts :: "financial_concept list" where
  "income_concepts = [Concept_REVENUE, Concept_COST_OF_REVENUE, Concept_GROSS_PROFIT, Concept_OPERATING_INCOME,
     Concept_EBIT, Concept_EBITDA, Concept_NET_INCOME, Concept_EPS_BASIC, Concept_EPS_DILUTED]"

definition balance_concepts :: "financial_concept list" where
  "balance_concepts = [Concept_CASH, Concept_TOTAL_ASSETS, Concept_CURRENT_ASSETS, Concept_TOTAL_LIABILITIES,
     Concept_CURRENT_LIABILITIES, Concept_TOTAL_DEBT, Concept_SHAREHOLDERS_EQUITY, Concept_SHARES_OUTSTANDING]"

definition cash_flow_concepts :: "financial_concept list" where
  "cash_flow_concepts = [Concept_OPERATING_CASH_FLOW, Concept_CAPITAL_EXPENDITURE, Concept_FREE_CASH_FLOW]"

text \<open>The three statement classes have the same fields.\<close>

record statement =
  st_company_id :: company_id
  st_period :: reporting_period
  st_currency :: currency_code
  st_facts :: "financial_fact list"

fun index_facts ::
    "financial_fact list \<Rightarrow> financial_concept list \<Rightarrow> company_id \<Rightarrow> reporting_period \<Rightarrow> financial_concept list
      \<Rightarrow> unit res"
where
  "index_facts [] allowed cid pd seen = Inr ()"
| "index_facts (f # fs) allowed cid pd seen =
     (if ff_concept f \<notin> set allowed
      then Inl (ValueError (''concept '' @ concept_value (ff_concept f) @ '' not allowed on this statement''))
      else if ff_company_id f \<noteq> cid then Inl (ValueError ''fact company_id must match statement company_id'')
      else if ff_period f \<noteq> pd then Inl (ValueError ''fact period must match statement period'')
      else if ff_concept f \<in> set seen
      then Inl (ValueError (''duplicate concept '' @ concept_value (ff_concept f) @ '' on statement''))
      else index_facts fs allowed cid pd (ff_concept f # seen))"

definition statement_post_init ::
    "financial_concept list \<Rightarrow> financial_unit list \<Rightarrow> string \<Rightarrow> statement \<Rightarrow> statement res" where
  "statement_post_init allowed units name s =
     and_then (index_facts (st_facts s) allowed (st_company_id s) (st_period s) []) (\<lambda>_.
       if \<exists>f \<in> set (st_facts s). ff_unit f \<in> set units \<and> ff_currency f \<noteq> Some (st_currency s)
       then Inl (ValueError (name @ '' fact currency must match statement currency''))
       else Inr s)"

definition income_post_init :: "statement \<Rightarrow> statement res" where
  "income_post_init = statement_post_init income_concepts [Unit_CURRENCY, Unit_PER_SHARE] ''income statement''"

definition balance_post_init :: "statement \<Rightarrow> statement res" where
  "balance_post_init = statement_post_init balance_concepts [Unit_CURRENCY] ''balance sheet''"

definition cash_flow_post_init :: "statement \<Rightarrow> statement res" where
  "cash_flow_post_init = statement_post_init cash_flow_concepts [Unit_CURRENCY] ''cash flow''"

definition statement_get :: "statement \<Rightarrow> financial_concept \<Rightarrow> financial_fact option" where
  "statement_get s c = find (\<lambda>f. ff_concept f = c) (st_facts s)"

section \<open>Packages\<close>

datatype financial_availability = Fin_AVAILABLE | Fin_UNAVAILABLE | Fin_DEGRADED | Fin_PARTIAL

datatype filing_form_type =
    Form_US_10K | Form_US_10Q | Form_US_8K | Form_IN_ANNUAL_RESULTS | Form_IN_QUARTERLY_RESULTS
  | Form_IN_ANNUAL_REPORT | Form_IN_EXCHANGE_DISCLOSURE | Form_OTHER

record filing_metadata =
  fl_filing_id :: filing_id
  fl_company_id :: company_id
  fl_form_type :: filing_form_type
  fl_period :: reporting_period
  fl_source_id :: source_id
  fl_tier :: source_authority_tier
  fl_filed_at :: "date option"
  fl_published_at :: "date option"
  fl_retrieved_at :: "datetime option"
  fl_source_url :: "string option"
  fl_reference :: "string option"
  fl_provider_name :: string

record package_fields =
  pk_company_id :: company_id
  pk_period :: reporting_period
  pk_currency :: currency_code
  pk_retrieved_at :: datetime
  pk_income :: "statement option"
  pk_balance :: "statement option"
  pk_cash_flow :: "statement option"
  pk_filing :: "filing_metadata option"
  pk_provider_name :: string
  pk_availability :: financial_availability
  pk_data_origin :: data_origin
  pk_security_id :: "security_id option"
  pk_listing_id :: "listing_id option"
  pk_conflicts :: "fact_conflict list"

datatype financial_package = Package (pkg_fields: package_fields) (pkg_prior: "financial_package option")

definition statements :: "package_fields \<Rightarrow> statement list" where
  "statements p = concat (map (\<lambda>s. case s of None \<Rightarrow> [] | Some x \<Rightarrow> [x]) [pk_income p, pk_balance p, pk_cash_flow p])"

fun check_statements :: "package_fields \<Rightarrow> statement list \<Rightarrow> unit res" where
  "check_statements p [] = Inr ()"
| "check_statements p (s # ss) =
     (if st_company_id s \<noteq> pk_company_id p then Inl (ValueError ''statement company_id must match package'')
      else if st_currency s \<noteq> pk_currency p
      then Inl (ValueError ''statement currency must match package currency'')
      else check_statements p ss)"

definition check_periods :: "package_fields \<Rightarrow> unit res" where
  "check_periods p =
     (if (case pk_income p of None \<Rightarrow> False | Some s \<Rightarrow> st_period s \<noteq> pk_period p)
      then Inl (ValueError ''income statement period must match package reporting_period'')
      else if (case pk_cash_flow p of None \<Rightarrow> False | Some s \<Rightarrow> st_period s \<noteq> pk_period p)
      then Inl (ValueError ''cash flow period must match package reporting_period'')
      else if (case pk_balance p of None \<Rightarrow> False | Some s \<Rightarrow> pd_end (st_period s) \<noteq> pd_end (pk_period p))
      then Inl (ValueError ''balance sheet period_end must match package period_end'')
      else Inr ())"

definition check_filing :: "package_fields \<Rightarrow> unit res" where
  "check_filing p =
     (case pk_filing p of
        None \<Rightarrow> Inr ()
      | Some fl \<Rightarrow>
          if fl_company_id fl \<noteq> pk_company_id p then Inl (ValueError ''filing company_id must match package'')
          else if \<exists>s \<in> set (statements p). \<exists>f \<in> set (st_facts s).
                    ff_filing_id f \<noteq> None \<and> ff_filing_id f \<noteq> Some (fl_filing_id fl)
          then Inl (ValueError ''fact filing_id must match package filing when both are set'')
          else Inr ())"

definition check_prior :: "package_fields \<Rightarrow> financial_package option \<Rightarrow> unit res" where
  "check_prior p pr =
     (case pr of
        None \<Rightarrow> Inr ()
      | Some q \<Rightarrow>
          if pk_company_id (pkg_fields q) \<noteq> pk_company_id p
          then Inl (ValueError ''prior_period_package company_id mismatch'')
          else if pk_currency (pkg_fields q) \<noteq> pk_currency p
          then Inl (ValueError ''prior_period_package currency mismatch'')
          else if pkg_prior q \<noteq> None
          then Inl (ValueError ''prior_period_package must not nest further priors'')
          else Inr ())"

definition package_post_init :: "financial_package \<Rightarrow> financial_package res" where
  "package_post_init pkg =
     (let p = pkg_fields pkg in
      if \<not> tz_aware (pk_retrieved_at p) then Inl (ValueError ''retrieved_at must be timezone-aware'')
      else if py_strip (pk_provider_name p) = [] then Inl (ValueError ''provider_name is required'')
      else if pk_listing_id p \<noteq> None \<and> pk_security_id p = None
      then Inl (ValueError ''listing_id requires security_id for identity consistency'')
      else if pk_availability p = Fin_AVAILABLE \<and> statements p = []
      then Inl (ValueError ''AVAILABLE package requires at least one statement'')
      else if pk_data_origin p = Origin_UNAVAILABLE \<and> statements p \<noteq> []
      then Inl (ValueError ''UNAVAILABLE origin must not include statements'')
      else
        and_then (check_statements p (statements p)) (\<lambda>_.
        and_then (check_periods p) (\<lambda>_.
        and_then (check_filing p) (\<lambda>_.
        and_then (check_prior p (pkg_prior pkg)) (\<lambda>_. Inr pkg)))))"

definition with_data_origin :: "financial_package \<Rightarrow> data_origin \<Rightarrow> financial_package res" where
  "with_data_origin pkg origin =
     package_post_init (Package ((pkg_fields pkg)\<lparr>pk_data_origin := origin\<rparr>) (pkg_prior pkg))"

end
