(* ===== verification/Financial_Metrics.thy ===== *)
theory Financial_Metrics
  imports Financial_Package
begin

text \<open>
  The calculation library (\<open>domain/financial/calculations.py\<close>): ten metrics of a package, each either
  computed with decimal arithmetic or omitted with the reason.
\<close>

section \<open>Outcomes\<close>

datatype metric_name =
    Metric_REVENUE_GROWTH | Metric_NET_INCOME_GROWTH | Metric_GROSS_MARGIN | Metric_OPERATING_MARGIN
  | Metric_NET_MARGIN | Metric_CURRENT_RATIO | Metric_DEBT_TO_EQUITY | Metric_OPERATING_CASH_FLOW_MARGIN
  | Metric_FREE_CASH_FLOW | Metric_FREE_CASH_FLOW_MARGIN

fun metric_name_value :: "metric_name \<Rightarrow> string" where
  "metric_name_value Metric_REVENUE_GROWTH = ''revenue_growth''"
| "metric_name_value Metric_NET_INCOME_GROWTH = ''net_income_growth''"
| "metric_name_value Metric_GROSS_MARGIN = ''gross_margin''"
| "metric_name_value Metric_OPERATING_MARGIN = ''operating_margin''"
| "metric_name_value Metric_NET_MARGIN = ''net_margin''"
| "metric_name_value Metric_CURRENT_RATIO = ''current_ratio''"
| "metric_name_value Metric_DEBT_TO_EQUITY = ''debt_to_equity''"
| "metric_name_value Metric_OPERATING_CASH_FLOW_MARGIN = ''operating_cash_flow_margin''"
| "metric_name_value Metric_FREE_CASH_FLOW = ''free_cash_flow''"
| "metric_name_value Metric_FREE_CASH_FLOW_MARGIN = ''free_cash_flow_margin''"

datatype missing_data =
    Missing_UNAVAILABLE | Missing_NOT_REPORTED | Missing_NOT_APPLICABLE | Missing_UNSUPPORTED
  | Missing_CONFLICTING | Missing_PARTIAL | Missing_INCOMPARABLE_PERIOD | Missing_UNIT_MISMATCH
  | Missing_CURRENCY_MISMATCH | Missing_ZERO_DENOMINATOR | Missing_INVALID_INPUT

record financial_metric =
  fm_name :: metric_name
  fm_value :: decimal
  fm_unit :: string
  fm_formula :: string
  fm_period :: "string option"
  fm_currency :: "string option"

record omitted_metric =
  om_name :: metric_name
  om_semantics :: missing_data
  om_detail :: string

datatype outcome = Computed financial_metric | Omitted omitted_metric

record metrics_result =
  mt_metrics :: "financial_metric list"
  mt_omissions :: "omitted_metric list"

definition omit :: "metric_name \<Rightarrow> missing_data \<Rightarrow> string \<Rightarrow> outcome" where
  "omit n m d = Omitted \<lparr>om_name = n, om_semantics = m, om_detail = d\<rparr>"

definition formula_text :: "string \<Rightarrow> string" where
  "formula_text f = ''financial-calc-1:'' @ f"

definition RATIO :: int where "RATIO = -6"
definition MONEY :: int where "MONEY = -2"

definition is_zero :: "decimal \<Rightarrow> bool" where
  "is_zero d = dec_eq d (dec_of_int 0)"

text \<open>A ratio metric: the quotient, quantized.\<close>

definition ratio_metric ::
    "metric_name \<Rightarrow> string \<Rightarrow> reporting_period \<Rightarrow> string option \<Rightarrow> decimal res \<Rightarrow> outcome res" where
  "ratio_metric n formula pd cur v =
     and_then v (\<lambda>v.
     and_then (dec_quantize v RATIO) (\<lambda>v.
       Inr (Computed \<lparr>fm_name = n, fm_value = v, fm_unit = ''ratio'', fm_formula = formula_text formula,
         fm_period = Some (display_label pd), fm_currency = cur\<rparr>)))"

definition currency_of :: "financial_fact \<Rightarrow> string option" where
  "currency_of f = map_option currency_text (ff_currency f)"

section \<open>The formulas\<close>

definition currency_fact :: "financial_fact option \<Rightarrow> currency_code \<Rightarrow> financial_fact option" where
  "currency_fact f expected =
     (case f of
        None \<Rightarrow> None
      | Some x \<Rightarrow>
          if ff_unit x \<noteq> Unit_CURRENCY then None
          else if ff_currency x \<noteq> Some expected then None
          else Some x)"

definition growth ::
    "metric_name \<Rightarrow> financial_fact option \<Rightarrow> financial_fact option \<Rightarrow> reporting_period
      \<Rightarrow> reporting_period option \<Rightarrow> outcome res"
where
  "growth n current previous current_period prior_period =
     (case (current, previous, prior_period) of
        (Some c, Some p, Some pp) \<Rightarrow>
          (case incomparability_reason current_period pp of
             Some r \<Rightarrow> Inr (omit n Missing_INCOMPARABLE_PERIOD
                (''periods not comparable: '' @ incomparability_value r))
           | None \<Rightarrow>
               if ff_currency c \<noteq> ff_currency p
               then Inr (omit n Missing_CURRENCY_MISMATCH ''current and prior currencies differ'')
               else if ff_unit c \<noteq> ff_unit p
               then Inr (omit n Missing_UNIT_MISMATCH ''current and prior units differ'')
               else if is_zero (ff_value p)
               then Inr (omit n Missing_ZERO_DENOMINATOR ''prior period value is zero'')
               else ratio_metric n (metric_name_value n @ ''=(current/prior)-1'') current_period (currency_of c)
                 (and_then (dec_div (ff_value c) (ff_value p)) (\<lambda>q. dec_sub q (dec_of_int 1))))
      | _ \<Rightarrow> Inr (omit n Missing_NOT_REPORTED ''current or prior period input missing''))"

definition margin ::
    "metric_name \<Rightarrow> financial_fact option \<Rightarrow> financial_fact option \<Rightarrow> reporting_period \<Rightarrow> string \<Rightarrow> outcome res"
where
  "margin n numerator denominator pd formula =
     (case (numerator, denominator) of
        (Some x, Some y) \<Rightarrow>
          if ff_currency x \<noteq> ff_currency y
          then Inr (omit n Missing_CURRENCY_MISMATCH ''numerator and denominator currencies differ'')
          else if ff_unit x \<noteq> Unit_CURRENCY
          then Inr (omit n Missing_UNIT_MISMATCH ''numerator must be currency unit'')
          else if ff_unit y \<noteq> Unit_CURRENCY
          then Inr (omit n Missing_UNIT_MISMATCH ''denominator must be currency unit'')
          else if is_zero (ff_value y) then Inr (omit n Missing_ZERO_DENOMINATOR ''denominator is zero'')
          else ratio_metric n formula pd (currency_of y) (dec_div (ff_value x) (ff_value y))
      | _ \<Rightarrow> Inr (omit n Missing_NOT_REPORTED ''numerator or denominator concept missing''))"

definition free_cash_flow ::
    "financial_fact option \<Rightarrow> financial_fact option \<Rightarrow> reporting_period \<Rightarrow> outcome res" where
  "free_cash_flow ocf capex pd =
     (let n = Metric_FREE_CASH_FLOW in
      case (ocf, capex) of
        (Some x, Some y) \<Rightarrow>
          if ff_currency x \<noteq> ff_currency y
          then Inr (omit n Missing_CURRENCY_MISMATCH ''OCF and CapEx currencies differ'')
          else if ff_unit x \<noteq> Unit_CURRENCY
          then Inr (omit n Missing_UNIT_MISMATCH ''operating cash flow must be currency unit'')
          else if ff_unit y \<noteq> Unit_CURRENCY
          then Inr (omit n Missing_UNIT_MISMATCH ''capital expenditure must be currency unit'')
          else
            and_then (dec_less (ff_value y) (dec_of_int 0)) (\<lambda>negative.
              if negative
              then Inr (omit n Missing_INVALID_INPUT ''CapEx must be a non-negative outflow magnitude'')
              else
                and_then (dec_sub (ff_value x) (ff_value y)) (\<lambda>v.
                and_then (dec_quantize v MONEY) (\<lambda>v.
                  Inr (Computed \<lparr>fm_name = n, fm_value = v,
                    fm_unit = (case currency_of x of None \<Rightarrow> ''currency'' | Some c \<Rightarrow> c),
                    fm_formula = formula_text ''free_cash_flow=operating_cash_flow-capital_expenditure'',
                    fm_period = Some (display_label pd), fm_currency = currency_of x\<rparr>))))
      | _ \<Rightarrow> Inr (omit n Missing_NOT_REPORTED ''operating cash flow or capital expenditure missing''))"

text \<open>The two balance-sheet ratios, with their own texts.\<close>

definition balance_ratio ::
    "metric_name \<Rightarrow> string \<Rightarrow> string \<Rightarrow> string \<Rightarrow> financial_fact option \<Rightarrow> financial_fact option
      \<Rightarrow> reporting_period \<Rightarrow> currency_code \<Rightarrow> outcome res"
where
  "balance_ratio n missing zero formula numerator denominator pd cur =
     (case (numerator, denominator) of
        (Some x, Some y) \<Rightarrow>
          if is_zero (ff_value y) then Inr (omit n Missing_ZERO_DENOMINATOR zero)
          else ratio_metric n formula pd (Some (currency_text cur)) (dec_div (ff_value x) (ff_value y))
      | _ \<Rightarrow> Inr (omit n Missing_NOT_REPORTED missing))"

definition fcf_outcome ::
    "financial_fact option \<Rightarrow> financial_fact option \<Rightarrow> financial_fact option \<Rightarrow> reporting_period \<Rightarrow> currency_code
      \<Rightarrow> outcome res"
where
  "fcf_outcome reported ocf capex pd cur =
     (case reported of
        Some f \<Rightarrow>
          and_then (dec_quantize (ff_value f) MONEY) (\<lambda>v.
            Inr (Computed \<lparr>fm_name = Metric_FREE_CASH_FLOW, fm_value = v, fm_unit = currency_text cur,
              fm_formula = formula_text ''free_cash_flow=reported_fact'',
              fm_period = Some (display_label pd), fm_currency = Some (currency_text cur)\<rparr>))
      | None \<Rightarrow> free_cash_flow ocf capex pd)"

definition fcf_margin :: "outcome \<Rightarrow> financial_fact option \<Rightarrow> reporting_period \<Rightarrow> currency_code \<Rightarrow> outcome res" where
  "fcf_margin fcf revenue pd cur =
     (let n = Metric_FREE_CASH_FLOW_MARGIN in
      case fcf of
        Omitted om \<Rightarrow> Inr (omit n Missing_NOT_APPLICABLE ''FCF unavailable; FCF margin not computed'')
      | Computed fcf \<Rightarrow>
          (case revenue of
             None \<Rightarrow> Inr (omit n Missing_NOT_REPORTED ''revenue missing for FCF margin'')
           | Some r \<Rightarrow>
               if is_zero (ff_value r) then Inr (omit n Missing_ZERO_DENOMINATOR ''revenue is zero'')
               else ratio_metric n ''free_cash_flow_margin=fcf/revenue'' pd (Some (currency_text cur))
                 (dec_div (fm_value fcf) (ff_value r))))"

section \<open>All metrics of a package\<close>

definition package_fact ::
    "package_fields \<Rightarrow> statement option \<Rightarrow> financial_concept \<Rightarrow> financial_fact option" where
  "package_fact p s c = currency_fact (case s of None \<Rightarrow> None | Some x \<Rightarrow> statement_get x c) (pk_currency p)"

definition metric_outcomes :: "financial_package \<Rightarrow> outcome list res" where
  "metric_outcomes pkg =
     (let p = pkg_fields pkg; cur = pk_currency p; pd = pk_period p;
          income = package_fact p (pk_income p);
          balance = package_fact p (pk_balance p);
          cash = package_fact p (pk_cash_flow p);
          prior_income = package_fact p (case pkg_prior pkg of None \<Rightarrow> None | Some q \<Rightarrow> pk_income (pkg_fields q));
          prior_period = map_option (\<lambda>q. pk_period (pkg_fields q)) (pkg_prior pkg);
          revenue = income Concept_REVENUE;
          ocf = cash Concept_OPERATING_CASH_FLOW
      in
      and_then (growth Metric_REVENUE_GROWTH revenue (prior_income Concept_REVENUE) pd prior_period) (\<lambda>o1.
      and_then (growth Metric_NET_INCOME_GROWTH (income Concept_NET_INCOME) (prior_income Concept_NET_INCOME)
        pd prior_period) (\<lambda>o2.
      and_then (margin Metric_GROSS_MARGIN (income Concept_GROSS_PROFIT) revenue pd
        ''gross_margin=gross_profit/revenue'') (\<lambda>o3.
      and_then (margin Metric_OPERATING_MARGIN (income Concept_OPERATING_INCOME) revenue pd
        ''operating_margin=operating_income/revenue'') (\<lambda>o4.
      and_then (margin Metric_NET_MARGIN (income Concept_NET_INCOME) revenue pd
        ''net_margin=net_income/revenue'') (\<lambda>o5.
      and_then (balance_ratio Metric_CURRENT_RATIO ''current assets or current liabilities missing''
        ''current liabilities are zero'' ''current_ratio=current_assets/current_liabilities''
        (balance Concept_CURRENT_ASSETS) (balance Concept_CURRENT_LIABILITIES) pd cur) (\<lambda>o6.
      and_then (balance_ratio Metric_DEBT_TO_EQUITY ''total debt or shareholders equity missing''
        ''shareholders equity is zero'' ''debt_to_equity=total_debt/shareholders_equity''
        (balance Concept_TOTAL_DEBT) (balance Concept_SHAREHOLDERS_EQUITY) pd cur) (\<lambda>o7.
      and_then (margin Metric_OPERATING_CASH_FLOW_MARGIN ocf revenue pd
        ''operating_cash_flow_margin=operating_cash_flow/revenue'') (\<lambda>o8.
      and_then (fcf_outcome (cash Concept_FREE_CASH_FLOW) ocf (cash Concept_CAPITAL_EXPENDITURE) pd cur) (\<lambda>o9.
      and_then (fcf_margin o9 revenue pd cur) (\<lambda>o10.
        Inr [o1, o2, o3, o4, o5, o6, o7, o8, o9, o10])))))))))))"

text \<open>\<open>_append_outcome\<close> sorts them into the two lists.\<close>

definition computed :: "outcome list \<Rightarrow> financial_metric list" where
  "computed os = concat (map (\<lambda>x. case x of Computed m \<Rightarrow> [m] | Omitted om \<Rightarrow> []) os)"

definition omissions :: "outcome list \<Rightarrow> omitted_metric list" where
  "omissions os = concat (map (\<lambda>x. case x of Computed m \<Rightarrow> [] | Omitted om \<Rightarrow> [om]) os)"

definition compute_financial_metrics_result :: "financial_package \<Rightarrow> metrics_result res" where
  "compute_financial_metrics_result pkg =
     and_then (metric_outcomes pkg) (\<lambda>os. Inr \<lparr>mt_metrics = computed os, mt_omissions = omissions os\<rparr>)"

definition compute_standard_financial_metrics :: "financial_package \<Rightarrow> financial_metric list res" where
  "compute_standard_financial_metrics pkg = and_then (compute_financial_metrics_result pkg) (\<lambda>r. Inr (mt_metrics r))"

end
