(* ===== verification/Decimal_Bounds.thy ===== *)
theory Decimal_Bounds
  imports Decimals
begin

text \<open>
  What decimal arithmetic computes: comparisons agree with the values, quantizing errs by half a unit
  of the quantum, a quotient by less than one part in \<open>10 ^ 27\<close>.
\<close>

section \<open>Values\<close>

lemma of_int_pow10: "0 \<le> k \<Longrightarrow> (of_int (pow10 k) :: rat) = 10 powi k"
  by (simp add: pow10_def power_int_def)

lemma pow10_pos [simp]: "0 < pow10 k"
  by (simp add: pow10_def)

lemma pow10_nonneg [simp]: "0 \<le> pow10 k"
  by (simp add: pow10_def)

lemma ten_powi_pos [simp]: "0 < (10 :: rat) powi k"
  by (simp add: zero_less_power_int)

lemma aligned_rat: "m \<le> e \<Longrightarrow> of_int (aligned s n e m) * 10 powi m = dec_rat (Dec s n e)"
  by (simp add: aligned_def of_int_pow10 flip: power_int_add)

lemma aligned_order:
  "aligned s n e (min e f) = aligned t k f (min e f) \<longleftrightarrow> dec_rat (Dec s n e) = dec_rat (Dec t k f)"
  "aligned s n e (min e f) < aligned t k f (min e f) \<longleftrightarrow> dec_rat (Dec s n e) < dec_rat (Dec t k f)"
proof -
  let ?a = "aligned s n e (min e f)" and ?b = "aligned t k f (min e f)" and ?p = "(10 :: rat) powi min e f"
  have *: "dec_rat (Dec s n e) = of_int ?a * ?p" "dec_rat (Dec t k f) = of_int ?b * ?p"
    by (simp_all only: aligned_rat min.cobounded1 min.cobounded2)
  have p: "0 < ?p" by simp
  show "?a = ?b \<longleftrightarrow> dec_rat (Dec s n e) = dec_rat (Dec t k f)" using p unfolding * by auto
  show "?a < ?b \<longleftrightarrow> dec_rat (Dec s n e) < dec_rat (Dec t k f)"
    using p unfolding * mult_less_cancel_right_pos [OF p] by simp
qed

lemma dec_eq_rat: "is_finite a \<Longrightarrow> is_finite b \<Longrightarrow> dec_eq a b \<longleftrightarrow> dec_rat a = dec_rat b"
  by (cases a; cases b) (simp_all only: dec_eq.simps aligned_order is_finite.simps)

lemma dec_less_rat: "is_finite a \<Longrightarrow> is_finite b \<Longrightarrow> dec_less a b = Inr (dec_rat a < dec_rat b)"
  by (cases a; cases b) (simp_all only: dec_less.simps aligned_order is_finite.simps)

section \<open>Digits\<close>

lemma num_digits_pos: "1 \<le> num_digits n"
proof (induction n rule: num_digits.induct)
  case (1 n)
  then show ?case using num_digits.simps [of n] by auto
qed

lemma pow10_add: "0 \<le> a \<Longrightarrow> 0 \<le> b \<Longrightarrow> pow10 (a + b) = pow10 a * pow10 b"
  by (simp add: pow10_def nat_add_distrib power_add)

lemma num_digits_bounds: "0 < n \<Longrightarrow> pow10 (num_digits n - 1) \<le> n \<and> n < pow10 (num_digits n)"
proof (induction n rule: num_digits.induct)
  case (1 n)
  show ?case
  proof (cases "n < 10")
    case True
    then show ?thesis using 1(2) num_digits.simps [of n] by (simp add: pow10_def)
  next
    case False
    let ?k = "num_digits (n div 10)"
    have k: "num_digits n = 1 + ?k" "1 \<le> ?k" using False num_digits.simps [of n] num_digits_pos by simp_all
    have "pow10 (?k - 1) \<le> n div 10" "n div 10 < pow10 ?k" using 1(1) False by simp_all
    moreover have "pow10 ?k = 10 * pow10 (?k - 1)" "pow10 (1 + ?k) = 10 * pow10 ?k"
      using k pow10_add [of 1 "?k - 1"] pow10_add [of 1 ?k] by (simp_all add: pow10_def)
    ultimately show ?thesis unfolding k by (simp add: mult.commute) linarith
  qed
qed

lemma num_digits_le: "0 \<le> n \<Longrightarrow> n < pow10 k \<Longrightarrow> 1 \<le> k \<Longrightarrow> num_digits n \<le> k"
proof (rule ccontr)
  assume n: "0 \<le> n" "n < pow10 k" "1 \<le> k" and "\<not> num_digits n \<le> k"
  moreover have "0 < n"
    using n calculation num_digits.simps [of n] by (cases "n = 0") auto
  ultimately have "pow10 k \<le> pow10 (num_digits n - 1)" unfolding pow10_def by (intro power_increasing) auto
  with num_digits_bounds [OF \<open>0 < n\<close>] n show False by linarith
qed

section \<open>Rounding errors\<close>

lemma pos_zdiv_less: "0 < p \<Longrightarrow> n < q * p \<Longrightarrow> n div p < (q :: int)"
  by (metis linorder_not_le order_less_le_trans mult_le_cancel_right_pos div_mult_mod_eq pos_mod_sign
      add_increasing2 order_refl)

lemma round_half_even_error: "\<bar>2 * (round_half_even n k * pow10 k - n)\<bar> \<le> pow10 k"
proof -
  obtain p q r where *: "p = pow10 k" "q = n div p" "r = n mod p" by blast
  then have n: "n = p * q + r" "0 \<le> r" "r < p" by simp_all
  have "round_half_even n k = (if p < 2 * r \<or> (2 * r = p \<and> odd q) then q + 1 else q)"
    by (simp add: round_half_even_def Let_def *)
  then show ?thesis unfolding *(1) [symmetric] using n by (auto simp: algebra_simps split: if_splits)
qed

lemma round_half_up_error: "\<bar>2 * (round_half_up n k * pow10 k - n)\<bar> \<le> pow10 k"
proof -
  obtain p q r where *: "p = pow10 k" "q = n div p" "r = n mod p" by blast
  then have n: "n = p * q + r" "0 \<le> r" "r < p" by simp_all
  have "round_half_up n k = (if p \<le> 2 * r then q + 1 else q)"
    by (simp add: round_half_up_def Let_def *)
  then show ?thesis unfolding *(1) [symmetric] using n by (auto simp: algebra_simps split: if_splits)
qed

section \<open>Rounded results\<close>

lemma dec_fix_id:
  assumes "0 \<le> n" "num_digits n \<le> prec" "Etiny \<le> e" "e \<le> 0"
  shows "dec_fix s n e = Inr (Dec s n e)"
  using assms by (auto simp: dec_fix_def Let_def prec_def Etiny_def Etop_def Emax_def)

lemma signed_diff: "\<bar>(of_int (signed s a) * x - of_int (signed s b) * y :: rat)\<bar> = \<bar>of_int a * x - of_int b * y\<bar>"
  by (simp add: signed_def abs_minus_commute)

lemma scaled_error:
  assumes "\<bar>2 * (k * pow10 j - n)\<bar> \<le> pow10 j" "0 \<le> j"
  shows "2 * \<bar>of_int k * 10 powi (e + j) - (of_int n * 10 powi e :: rat)\<bar> \<le> 10 powi (e + j)"
proof -
  have "(10 :: rat) powi (e + j) = of_int (pow10 j) * 10 powi e"
    using assms(2) by (simp add: of_int_pow10 power_int_add)
  moreover obtain z where z: "z = k * pow10 j - n" by blast
  then have "(of_int z :: rat) = of_int k * of_int (pow10 j) - of_int n" by simp
  ultimately have "of_int k * 10 powi (e + j) - of_int n * 10 powi e = of_int z * (10 :: rat) powi e"
    by (simp only: left_diff_distrib mult.assoc)
  then have "2 * \<bar>of_int k * 10 powi (e + j) - of_int n * (10 :: rat) powi e\<bar> = of_int \<bar>2 * z\<bar> * 10 powi e"
    by (simp add: abs_mult)
  also have "\<dots> \<le> of_int (pow10 j) * 10 powi e"
    using assms(1) unfolding z [symmetric] of_int_le_iff
    by (intro mult_right_mono) (simp_all only: of_int_le_iff less_imp_le ten_powi_pos)
  finally show ?thesis using assms(2) by (simp add: of_int_pow10 power_int_add mult.commute)
qed

text \<open>Quantizing moves a number by at most half a unit of the quantum.\<close>

lemma dec_quantize_error:
  assumes "dec_quantize x q = Inr d" "is_finite x" "wf_decimal x" "Etiny \<le> q" "q \<le> 0"
  shows "is_finite d \<and> wf_decimal d \<and> dec_exp d = q \<and> dec_neg d = dec_neg x \<and>
    2 * \<bar>dec_rat d - dec_rat x\<bar> \<le> 10 powi q"
proof -
  obtain s n e where x: "x = Dec s n e" "0 \<le> n" using assms(2,3) by (cases x) auto
  show ?thesis
  proof (cases "n = 0")
    case True
    then have "d = Dec s 0 q" using assms(1,4,5) dec_fix_id [of 0 q s] by (simp add: x num_digits.simps prec_def)
    then show ?thesis using x True by (simp add: signed_def)
  next
    case False
    let ?k = "if q \<le> e then n * pow10 (e - q) else round_half_up n (q - e)"
    have k: "0 \<le> ?k" using x(2) by (simp add: round_half_up_def Let_def pos_imp_zdiv_nonneg_iff)
    have "num_digits ?k \<le> prec" "dec_fix s ?k q = Inr d"
      using assms(1) False by (simp_all only: x dec_quantize.simps Let_def raise_dec_def)
        (simp_all split: if_splits)
    then have d: "d = Dec s ?k q" using dec_fix_id [OF k _ assms(4,5)] by simp
    have "2 * \<bar>of_int ?k * 10 powi q - (of_int n * 10 powi e :: rat)\<bar> \<le> 10 powi q"
    proof (cases "q \<le> e")
      case True
      then have "(10 :: rat) powi (e - q) * 10 powi q = 10 powi e" by (simp flip: power_int_add)
      then show ?thesis using True by (simp add: of_int_pow10 mult.assoc)
    next
      case False
      then show ?thesis using scaled_error [OF round_half_up_error, of "q - e" n e] by simp
    qed
    then show ?thesis using k by (simp add: d x signed_diff)
  qed
qed

text \<open>What \<open>dec_fix\<close> makes of a number: within half a unit of its last place, or of the smallest one.\<close>

lemma dec_fix_ulp:
  assumes "dec_fix s n e = Inr d" "0 \<le> n"
  shows "is_finite d \<and> wf_decimal d \<and> dec_neg d = s \<and>
    2 * \<bar>dec_rat d - dec_rat (Dec s n e)\<bar> \<le> 10 powi max (num_digits n + e - prec) Etiny"
proof (cases "n = 0")
  case True
  then show ?thesis using assms by (auto simp: dec_fix_def signed_def)
next
  case False
  let ?m = "max (num_digits n + e - prec) Etiny"
  let ?j = "?m - e" and ?k = "round_half_even n (?m - e)"
  show ?thesis
  proof (cases "e < ?m")
    case True
    have err: "2 * \<bar>of_int ?k * 10 powi ?m - (of_int n * 10 powi e :: rat)\<bar> \<le> 10 powi ?m"
      using scaled_error [OF round_half_even_error, of ?j n e] True by simp
    have k0: "0 \<le> ?k" using assms(2) by (simp add: round_half_even_def Let_def pos_imp_zdiv_nonneg_iff)
    show ?thesis
    proof (cases "prec < num_digits ?k")
      case False
      then have "d = Dec s ?k ?m" using assms(1) \<open>n \<noteq> 0\<close> True by (auto simp: dec_fix_def Let_def raise_dec_def split: if_splits)
      then show ?thesis using err k0 by (simp add: signed_diff)
    next
      case big: True
      have d: "d = Dec s (?k div 10) (?m + 1)"
        using assms(1) \<open>n \<noteq> 0\<close> True big by (auto simp: dec_fix_def Let_def raise_dec_def split: if_splits)
      have "?k \<le> pow10 prec"
      proof -
        have "n < pow10 (num_digits n)" using num_digits_bounds [of n] assms(2) False by simp
        also have "\<dots> \<le> pow10 (prec + ?j)" unfolding pow10_def by (intro power_increasing) auto
        also have "\<dots> = pow10 prec * pow10 ?j" using True by (intro pow10_add) (simp_all add: prec_def)
        finally have "n div pow10 ?j < pow10 prec"
          by (intro pos_zdiv_less) simp_all
        then show ?thesis by (auto simp: round_half_even_def Let_def)
      qed
      moreover have "pow10 prec \<le> ?k"
        using big num_digits_le [OF k0, of prec] by (fastforce simp: prec_def)
      ultimately have "?k = 10 * (?k div 10)" by (simp add: pow10_def prec_def)
      then have "(of_int ?k :: rat) = 10 * of_int (?k div 10)" by (metis of_int_mult of_int_numeral)
      moreover have "(10 :: rat) powi (?m + 1) = 10 powi ?m * 10" by (rule power_int_add_1) simp
      ultimately have "of_int (?k div 10) * 10 powi (?m + 1) = of_int ?k * (10 :: rat) powi ?m" by simp
      then show ?thesis using err k0 by (simp add: d signed_diff pos_imp_zdiv_nonneg_iff)
    qed
  next
    case False
    then have "d = Dec s n e" using assms(1) \<open>n \<noteq> 0\<close> by (auto simp: dec_fix_def Let_def raise_dec_def split: if_splits)
    then show ?thesis using assms(2) by simp
  qed
qed

lemma abs_dec_rat: "0 \<le> n \<Longrightarrow> \<bar>dec_rat (Dec s n e)\<bar> = of_int n * 10 powi e"
  by (simp add: signed_def abs_mult)

lemma digits_value: "0 < n \<Longrightarrow> 10 powi (num_digits n - 1 + e) \<le> (of_int n * 10 powi e :: rat)"
proof -
  assume n: "0 < n"
  have "(of_int (pow10 (num_digits n - 1)) :: rat) * 10 powi e \<le> of_int n * 10 powi e"
    using num_digits_bounds [OF n] by (intro mult_right_mono) (simp_all only: of_int_le_iff less_imp_le ten_powi_pos)
  then show ?thesis using num_digits_pos [of n] by (simp add: of_int_pow10 power_int_add)
qed

lemma abs_scale: "\<bar>u * p - v * p\<bar> = \<bar>u - v\<bar> * \<bar>p :: rat\<bar>"
  by (metis abs_mult left_diff_distrib)

lemma half_bound: "2 * a \<le> m \<Longrightarrow> m \<le> u + t \<Longrightarrow> u \<le> v / c \<Longrightarrow> 0 < t \<Longrightarrow> a \<le> v / (2 * c) + (t :: rat)"
proof -
  assume "2 * a \<le> m" "m \<le> u + t" "u \<le> v / c" "0 < t"
  moreover have "v / (2 * c) = v / c / 2" by simp
  ultimately show ?thesis by linarith
qed

lemma dec_fix_error:
  assumes "dec_fix s n e = Inr d" "0 \<le> n"
  shows "\<bar>dec_rat d - dec_rat (Dec s n e)\<bar> \<le> of_int n * 10 powi e / (2 * 10 ^ 27) + 10 powi Etiny"
proof (cases "n = 0")
  case True
  then show ?thesis using assms by (auto simp: dec_fix_def signed_def)
next
  case False
  let ?u = "num_digits n + e - prec"
  have "(10 :: rat) powi ?u * 10 ^ 27 = 10 powi (num_digits n - 1 + e)"
  proof -
    have "(10 :: rat) powi ?u * 10 powi 27 = 10 powi (?u + 27)" by (rule power_int_add [symmetric]) simp
    then show ?thesis by (simp add: prec_def algebra_simps)
  qed
  then have "(10 :: rat) powi ?u \<le> of_int n * 10 powi e / 10 ^ 27"
    using digits_value [of n e] False assms(2) by (simp add: field_simps)
  moreover have "(10 :: rat) powi max ?u Etiny \<le> 10 powi ?u + 10 powi Etiny"
    by (auto simp: max_def less_imp_le)
  moreover have "2 * \<bar>dec_rat d - dec_rat (Dec s n e)\<bar> \<le> 10 powi max ?u Etiny" using dec_fix_ulp [OF assms] by blast
  ultimately show ?thesis using half_bound ten_powi_pos by blast
qed

lemma strip_zeros_value:
  "strip_zeros m n e ideal = (n', e') \<Longrightarrow> of_int n' * 10 powi e' = (of_int n * 10 powi e :: rat) \<and> (0 \<le> n \<longrightarrow> 0 \<le> n')"
proof (induction m n e ideal rule: strip_zeros.induct)
  case (2 k n e ideal)
  show ?case
  proof (cases "e < ideal \<and> n mod 10 = 0")
    case True
    then have "n = 10 * (n div 10)" by auto
    then have "(of_int n :: rat) = 10 * of_int (n div 10)" by (metis of_int_mult of_int_numeral)
    moreover have "(10 :: rat) powi (e + 1) = 10 powi e * 10" by (rule power_int_add_1) simp
    ultimately show ?thesis using 2 True by (simp add: pos_imp_zdiv_nonneg_iff)
  next
    case False
    then show ?thesis using 2 by auto
  qed
qed auto

text \<open>The quotient, up to the place where its digits stop: one more digit than the context keeps.\<close>

lemma divided_form:
  assumes "0 < a" "0 < b" "pow10 prec * b \<le> a"
  obtains n' e' where "divided s a b x ideal = dec_fix s n' e'" "0 \<le> n'"
    "\<bar>of_int n' * 10 powi e' - of_int a / of_int b * 10 powi x\<bar> \<le> of_int a / of_int b * 10 powi x / (10 ^ 28 :: rat)"
proof -
  let ?q = "a div b" and ?E = "10 powi x :: rat"
  have q: "0 \<le> ?q" using assms(1,2) by (simp add: pos_imp_zdiv_nonneg_iff)
  have "of_int (pow10 prec * b) \<le> (of_int a :: rat)" using assms(3) by (simp only: of_int_le_iff)
  then have large: "10 ^ 28 \<le> (of_int a / of_int b :: rat)"
    using assms(2) by (simp add: pow10_def prec_def field_simps)
  have "of_int a = of_int b * of_int ?q + (of_int (a mod b) :: rat)" by (metis div_mult_mod_eq mult.commute of_int_add of_int_mult)
  then have A: "of_int a / of_int b = of_int ?q + (of_int (a mod b) / of_int b :: rat)"
    using assms(2) by (simp add: field_simps)
  show thesis
  proof (cases "a mod b = 0")
    case True
    obtain n' e' where strip: "strip_zeros (nat (ideal - x)) ?q x ideal = (n', e')" by fastforce
    have "of_int n' * 10 powi e' = of_int ?q * ?E" "0 \<le> n'" using strip_zeros_value [OF strip] q by blast+
    moreover have "divided s a b x ideal = dec_fix s n' e'" using True strip by (simp add: divided_def)
    ultimately show thesis using that [of n' e'] A True large by simp
  next
    case False
    let ?n = "if ?q mod 5 = 0 then ?q + 1 else ?q"
    have fixed: "divided s a b x ideal = dec_fix s ?n x" using False by (simp add: divided_def Let_def)
    have "0 \<le> (of_int (a mod b) / of_int b :: rat)" "of_int (a mod b) / of_int b \<le> (1 :: rat)"
      using assms(2) by (simp_all add: less_imp_le)
    then have near: "\<bar>of_int ?n - of_int a / of_int b\<bar> \<le> (1 :: rat)" unfolding A by auto
    have "\<bar>of_int ?n * ?E - of_int a / of_int b * ?E\<bar> \<le> ?E"
      unfolding abs_scale using mult_right_mono [OF near, of ?E] by simp
    also have "?E \<le> of_int a / of_int b * ?E / 10 ^ 28"
      using mult_right_mono [OF large, of ?E] by (subst pos_le_divide_eq) (simp_all add: mult.commute less_imp_le)
    finally show thesis using that [OF fixed] q by simp
  qed
qed

lemma combined_linear:
  "z \<le> y + x \<Longrightarrow> v \<le> q + x \<Longrightarrow> 0 \<le> x \<Longrightarrow> x * 10000000000000000000000000000 \<le> q \<Longrightarrow> y * (2 * 1000000000000000000000000000) \<le> v + t * (2 * 1000000000000000000000000000) \<Longrightarrow>
     z * 1000000000000000000000000000 \<le> q + t * (1000000000000000000000000000 :: rat)"
  by linarith

lemma combined_error:
  assumes "\<bar>v - q\<bar> \<le> q / 10 ^ 28" "\<bar>d - v\<bar> \<le> v / (2 * 10 ^ 27) + t"
  shows "\<bar>d - q\<bar> \<le> q / 10 ^ 27 + (t :: rat)"
proof -
  let ?x = "\<bar>v - q\<bar>" and ?y = "\<bar>d - v\<bar>"
  have "?x * 10000000000000000000000000000 \<le> q" "?y * (2 * 1000000000000000000000000000) \<le> v + t * (2 * 1000000000000000000000000000)"
    using assms by (simp_all add: field_simps)
  moreover have "\<bar>d - q\<bar> \<le> ?y + ?x" "v \<le> q + ?x" "0 \<le> ?x" by linarith+
  ultimately have "\<bar>d - q\<bar> * 1000000000000000000000000000 \<le> q + t * 1000000000000000000000000000" by (intro combined_linear [of _ ?y ?x v])
  then show ?thesis by (simp add: field_simps)
qed

lemma quotient_form:
  assumes "0 < n" "0 < k"
  obtains n' e' where "quotient s n e k f = dec_fix s n' e'" "0 \<le> n'"
    "\<bar>of_int n' * 10 powi e' - of_int n * 10 powi e / (of_int k * 10 powi f)\<bar>
      \<le> of_int n * 10 powi e / (of_int k * 10 powi f) / (10 ^ 28 :: rat)"
proof -
  define shift where "shift = num_digits k - num_digits n + prec + 1"
  define x where "x = e - f - shift"
  define a where "a = (if 0 \<le> shift then n * pow10 shift else n)"
  define b where "b = (if 0 \<le> shift then k else k * pow10 (- shift))"
  define Q where "Q = (of_int n * 10 powi e / (of_int k * 10 powi f) :: rat)"
  have ab: "0 < a" "0 < b" using assms by (simp_all add: a_def b_def)
  have quo: "of_int a / of_int b = (of_int n / of_int k :: rat) * 10 powi shift"
    by (simp add: a_def b_def of_int_pow10 power_int_minus field_simps)
  have Q: "Q = of_int a / of_int b * 10 powi x"
  proof -
    have "(10 :: rat) powi e = 10 powi shift * 10 powi x * 10 powi f"
      by (simp add: x_def flip: power_int_add)
    then show ?thesis unfolding quo Q_def by (simp add: field_simps)
  qed
  have large: "pow10 prec * b \<le> a"
  proof -
    have nk: "pow10 (num_digits n - 1) \<le> n" "k < pow10 (num_digits k)"
      using num_digits_bounds assms by blast+
    note nd = num_digits_pos [of n] num_digits_pos [of k]
    show ?thesis
    proof (cases "0 \<le> shift")
      case True
      have "pow10 prec * pow10 (num_digits k) = pow10 (num_digits n - 1) * pow10 shift"
        using nd True by (simp add: shift_def prec_def flip: pow10_add)
      then have "pow10 prec * k \<le> pow10 (num_digits n - 1) * pow10 shift"
        using nk(2) mult_left_mono [of k "pow10 (num_digits k)" "pow10 prec"] by simp
      also have "\<dots> \<le> n * pow10 shift" using nk(1) by (intro mult_right_mono) simp_all
      finally show ?thesis using True by (simp add: a_def b_def)
    next
      case False
      have "pow10 prec * (pow10 (num_digits k) * pow10 (- shift)) = pow10 (num_digits n - 1)"
        using nd False by (simp add: shift_def prec_def flip: pow10_add)
      moreover have "pow10 prec * (k * pow10 (- shift)) \<le> pow10 prec * (pow10 (num_digits k) * pow10 (- shift))"
        using nk(2) by (intro mult_left_mono mult_right_mono) simp_all
      ultimately show ?thesis using nk(1) False by (simp add: a_def b_def)
    qed
  qed
  have "quotient s n e k f = divided s a b x (e - f)"
    by (simp only: quotient_def Let_def a_def b_def x_def shift_def)
  with divided_form [OF ab large, of s x "e - f"] show thesis using that unfolding Q [symmetric] Q_def by metis
qed

lemma quotient_error:
  assumes "quotient s n e k f = Inr d" "0 < n" "0 < k"
  shows "is_finite d \<and> wf_decimal d \<and> dec_neg d = s \<and>
    \<bar>dec_rat d - (if s then -1 else 1) * (of_int n * 10 powi e / (of_int k * 10 powi f))\<bar> \<le>
      of_int n * 10 powi e / (of_int k * 10 powi f) / 10 ^ 27 + 10 powi Etiny"
proof -
  define Q where "Q = (of_int n * 10 powi e / (of_int k * 10 powi f) :: rat)"
  obtain n' e' where res: "dec_fix s n' e' = Inr d" "0 \<le> n'"
    and near: "\<bar>of_int n' * 10 powi e' - Q\<bar> \<le> Q / 10 ^ 28"
    using quotient_form [OF assms(2,3), of s e f] assms(1) unfolding Q_def by metis
  have "\<bar>dec_rat d - (if s then -1 else 1) * Q\<bar> \<le> Q / 10 ^ 27 + 10 powi Etiny"
  proof -
    let ?v = "of_int n' * 10 powi e' :: rat"
    have "dec_rat (Dec s n' e') = (if s then -1 else 1) * ?v" by (simp add: signed_def)
    then have "\<bar>dec_rat d - (if s then -1 else 1) * ?v\<bar> \<le> ?v / (2 * 10 ^ 27) + 10 powi Etiny"
      using dec_fix_error [OF res] by (simp only:)
    moreover have "\<bar>(if s then -1 else 1) * dec_rat d - ?v\<bar> = \<bar>dec_rat d - (if s then -1 else 1) * ?v\<bar>"
      "\<bar>(if s then -1 else 1) * dec_rat d - Q\<bar> = \<bar>dec_rat d - (if s then -1 else 1) * Q\<bar>"
      by (cases s; simp add: abs_minus_commute)+
    ultimately show ?thesis using combined_error [OF near, of "(if s then -1 else 1) * dec_rat d"] by simp
  qed
  then show ?thesis using dec_fix_ulp [OF res] by (simp only: Q_def)
qed

definition tiny :: rat where
  "tiny = 10 powi Etiny"

lemma dec_div_error:
  assumes "dec_div a b = Inr d" "is_finite a" "is_finite b" "wf_decimal a" "wf_decimal b" "dec_rat b \<noteq> 0"
  shows "is_finite d \<and> wf_decimal d \<and>
    \<bar>dec_rat d - dec_rat a / dec_rat b\<bar> \<le> \<bar>dec_rat a / dec_rat b\<bar> / 10 ^ 27 + tiny"
proof -
  obtain s n e t k f where ab: "a = Dec s n e" "b = Dec t k f" "0 \<le> n" "0 < k"
    using assms(2-6) by (cases a; cases b) (auto simp: signed_def split: if_splits)
  show ?thesis
  proof (cases "n = 0")
    case True
    then have "dec_fix (s \<noteq> t) 0 (e - f) = Inr d" using assms(1) ab by simp
    then show ?thesis using True ab by (auto simp: dec_fix_def signed_def tiny_def less_imp_le)
  next
    case False
    let ?Q = "of_int n * 10 powi e / (of_int k * 10 powi f) :: rat"
    have "quotient (s \<noteq> t) n e k f = Inr d" using assms(1) ab False by simp
    note q = quotient_error [OF this] ab False
    have Q: "dec_rat a / dec_rat b = (if s \<noteq> t then -1 else 1) * ?Q" "0 \<le> ?Q"
      using ab by (simp_all add: signed_def)
    have "\<bar>(if s \<noteq> t then -1 else 1) * ?Q\<bar> = ?Q" using Q(2) by (simp only: abs_mult abs_of_nonneg) simp
    then have "\<bar>dec_rat a / dec_rat b\<bar> = ?Q" unfolding Q(1) .
    with q Q(1) show ?thesis unfolding tiny_def by (simp only:)
  qed
qed

end
