(* ===== verification/Metric_Accuracy.thy ===== *)
theory Metric_Accuracy
  imports Financial_Metrics Decimal_Bounds
begin

text \<open>
  How far the computed metrics are from the exact quotients and differences of the facts: the errors of
  division, subtraction and quantisation composed, and the exact metrics as rational numbers.
\<close>

section \<open>Rounding errors of the formulas\<close>

lemma tiny_bound: "0 < tiny" "tiny \<le> 1 / 1000000000000000000000000000"
proof -
  have "(10 :: rat) powi Etiny \<le> 10 powi (-27)" by (rule power_int_increasing) (simp_all add: Etiny_def)
  then show "tiny \<le> 1 / 1000000000000000000000000000" by (simp add: tiny_def)
  show "0 < tiny" by (simp add: tiny_def)
qed

lemma dec_add_error:
  assumes "dec_add a b = Inr d" "is_finite a" "is_finite b"
  shows "is_finite d \<and> wf_decimal d \<and>
    \<bar>dec_rat d - (dec_rat a + dec_rat b)\<bar> \<le> \<bar>dec_rat a + dec_rat b\<bar> / (2 * 10 ^ 27) + tiny"
proof -
  obtain s n e t k f where ab: "a = Dec s n e" "b = Dec t k f"
    using assms(2,3) by (cases a; cases b) auto
  define m where "m = min e f"
  define i where "i = aligned s n e m + aligned t k f m"
  define g where "g = (if i = 0 then s \<and> t else i < 0)"
  have fx: "dec_fix g \<bar>i\<bar> m = Inr d" using assms(1) unfolding g_def i_def m_def by (simp add: ab Let_def)
  have sum: "dec_rat a + dec_rat b = of_int i * 10 powi m"
    unfolding ab i_def using aligned_rat [of m e s n] aligned_rat [of m f t k] by (simp add: m_def algebra_simps)
  moreover have "dec_rat (Dec g \<bar>i\<bar> m) = of_int i * 10 powi m" by (auto simp: g_def signed_def)
  moreover have "\<bar>of_int i * 10 powi m\<bar> = of_int \<bar>i\<bar> * (10 :: rat) powi m" by (simp add: abs_mult)
  ultimately show ?thesis
    using dec_fix_error [OF fx] dec_fix_ulp [OF fx] by (simp add: tiny_def)
qed

lemma dec_rat_negate [simp]: "dec_rat (dec_negate b) = - dec_rat b" "is_finite (dec_negate b) = is_finite b"
  by (cases b; simp add: signed_def)+

lemma dec_sub_error:
  assumes "dec_sub a b = Inr d" "is_finite a" "is_finite b"
  shows "is_finite d \<and> wf_decimal d \<and>
    \<bar>dec_rat d - (dec_rat a - dec_rat b)\<bar> \<le> \<bar>dec_rat a - dec_rat b\<bar> / (2 * 10 ^ 27) + tiny"
  using dec_add_error [of a "dec_negate b" d] assms by (simp add: dec_sub_def)

definition near :: "rat \<Rightarrow> rat \<Rightarrow> rat \<Rightarrow> bool" where
  "near e d x \<longleftrightarrow> \<bar>d - x\<bar> \<le> e"

text \<open>Magnitudes for which 28 digits are enough.\<close>

definition moderate :: "rat \<Rightarrow> bool" where
  "moderate x \<longleftrightarrow> \<bar>x\<bar> \<le> 10 ^ 20"

text \<open>The arithmetic of the compositions, over plain variables.\<close>

lemma division_linear:
  "\<bar>q - x\<bar> \<le> \<bar>x\<bar> / 10 ^ 27 + t \<Longrightarrow> moderate x \<Longrightarrow> t \<le> 1 / 1000000000000000000000000000 \<Longrightarrow>
     2 * \<bar>d - q\<bar> \<le> 1 / 1000000 \<Longrightarrow> near (1 / 1000000) d x"
  unfolding near_def moderate_def by (simp add: abs_le_iff abs_if split: if_splits)

lemma relative_step:
  "a \<le> b / 1000000000000000000000000000 + t \<Longrightarrow> b \<le> 100000000000000000001 \<Longrightarrow>
     t \<le> 1 / 1000000000000000000000000000 \<Longrightarrow> a \<le> 1 / (5000000 :: rat)"
  "a \<le> b / 2000000000000000000000000000 + t \<Longrightarrow> b \<le> 100000000000000000001 \<Longrightarrow>
     t \<le> 1 / 1000000000000000000000000000 \<Longrightarrow> a \<le> 1 / (5000000 :: rat)"
  by (simp_all add: field_simps)

lemma growth_linear:
  assumes "\<bar>q - x\<bar> \<le> \<bar>x\<bar> / 10 ^ 27 + t" "\<bar>s - (q - 1)\<bar> \<le> \<bar>q - 1\<bar> / (2 * 10 ^ 27) + t" "moderate (x - 1)"
    "t \<le> 1 / 1000000000000000000000000000" "2 * \<bar>d - s\<bar> \<le> 1 / 1000000"
  shows "near (1 / 1000000) d (x - 1)"
proof -
  have x: "\<bar>x - 1\<bar> \<le> 100000000000000000000" using assms(3) by (simp add: moderate_def)
  then have "\<bar>x\<bar> \<le> 100000000000000000001" by (simp add: abs_le_iff)
  then have q: "\<bar>q - x\<bar> \<le> 1 / 5000000" using assms(1,4) relative_step(1) [of _ "\<bar>x\<bar>" t] by simp
  then have "\<bar>q - 1\<bar> \<le> 100000000000000000001" using x unfolding abs_le_iff by linarith
  then have "\<bar>s - (q - 1)\<bar> \<le> 1 / 5000000" using assms(2,4) relative_step(2) [of _ "\<bar>q - 1\<bar>" t] by simp
  moreover have "\<bar>d - s\<bar> \<le> 1 / 2000000" using assms(5) by simp
  ultimately show ?thesis using q unfolding near_def abs_le_iff by linarith
qed

lemma money_linear:
  "\<bar>q - x\<bar> \<le> \<bar>x\<bar> / (2 * 10 ^ 27) + t \<Longrightarrow> moderate x \<Longrightarrow> t \<le> 1 / 1000000000000000000000000000 \<Longrightarrow>
     2 * \<bar>d - q\<bar> \<le> 1 / 100 \<Longrightarrow> near (1 / 100) d x"
  unfolding near_def moderate_def by (simp add: abs_le_iff abs_if split: if_splits)

text \<open>A quotient of a rounded numerator; \<open>g\<close> is the numerator's distance over the denominator.\<close>

lemma rounded_linear:
  "\<bar>q - y\<bar> \<le> \<bar>y\<bar> / 10 ^ 27 + t \<Longrightarrow> \<bar>y - x\<bar> \<le> g \<Longrightarrow> moderate x \<Longrightarrow> t \<le> 1 / 1000000000000000000000000000 \<Longrightarrow>
     2 * \<bar>d - q\<bar> \<le> 1 / 1000000 \<Longrightarrow> near (1 / 1000000 + 2 * g) d x"
  unfolding near_def moderate_def by (simp add: abs_le_iff abs_if split: if_splits)

lemma quantize_ratio:
  "dec_quantize x RATIO = Inr d \<Longrightarrow> is_finite x \<Longrightarrow> wf_decimal x \<Longrightarrow>
     is_finite d \<and> wf_decimal d \<and> 2 * \<bar>dec_rat d - dec_rat x\<bar> \<le> 1 / 1000000"
  using dec_quantize_error [of x RATIO d] by (simp add: RATIO_def Etiny_def)

lemma quantize_money:
  "dec_quantize x MONEY = Inr d \<Longrightarrow> is_finite x \<Longrightarrow> wf_decimal x \<Longrightarrow>
     is_finite d \<and> wf_decimal d \<and> 2 * \<bar>dec_rat d - dec_rat x\<bar> \<le> 1 / 100"
  using dec_quantize_error [of x MONEY d] by (simp add: MONEY_def Etiny_def)

section \<open>The exact metrics\<close>

text \<open>The value of a fact of the package in its currency, 0 when there is none.\<close>

definition fact_rat :: "financial_fact option \<Rightarrow> rat" where
  "fact_rat f = (case f of None \<Rightarrow> 0 | Some x \<Rightarrow> dec_rat (ff_value x))"

definition prior_statement :: "financial_package \<Rightarrow> statement option" where
  "prior_statement pkg = (case pkg_prior pkg of None \<Rightarrow> None | Some q \<Rightarrow> pk_income (pkg_fields q))"

definition income_rat :: "financial_package \<Rightarrow> financial_concept \<Rightarrow> rat" where
  "income_rat pkg c = fact_rat (package_fact (pkg_fields pkg) (pk_income (pkg_fields pkg)) c)"

definition prior_rat :: "financial_package \<Rightarrow> financial_concept \<Rightarrow> rat" where
  "prior_rat pkg c = fact_rat (package_fact (pkg_fields pkg) (prior_statement pkg) c)"

definition balance_rat :: "financial_package \<Rightarrow> financial_concept \<Rightarrow> rat" where
  "balance_rat pkg c = fact_rat (package_fact (pkg_fields pkg) (pk_balance (pkg_fields pkg)) c)"

definition cash_rat :: "financial_package \<Rightarrow> financial_concept \<Rightarrow> rat" where
  "cash_rat pkg c = fact_rat (package_fact (pkg_fields pkg) (pk_cash_flow (pkg_fields pkg)) c)"

text \<open>A reported free cash flow takes precedence over the difference.\<close>

definition exact_fcf :: "financial_package \<Rightarrow> rat" where
  "exact_fcf pkg =
     (if package_fact (pkg_fields pkg) (pk_cash_flow (pkg_fields pkg)) Concept_FREE_CASH_FLOW \<noteq> None
      then cash_rat pkg Concept_FREE_CASH_FLOW
      else cash_rat pkg Concept_OPERATING_CASH_FLOW - cash_rat pkg Concept_CAPITAL_EXPENDITURE)"

fun exact_metric :: "financial_package \<Rightarrow> metric_name \<Rightarrow> rat" where
  "exact_metric pkg Metric_REVENUE_GROWTH = income_rat pkg Concept_REVENUE / prior_rat pkg Concept_REVENUE - 1"
| "exact_metric pkg Metric_NET_INCOME_GROWTH =
     income_rat pkg Concept_NET_INCOME / prior_rat pkg Concept_NET_INCOME - 1"
| "exact_metric pkg Metric_GROSS_MARGIN = income_rat pkg Concept_GROSS_PROFIT / income_rat pkg Concept_REVENUE"
| "exact_metric pkg Metric_OPERATING_MARGIN =
     income_rat pkg Concept_OPERATING_INCOME / income_rat pkg Concept_REVENUE"
| "exact_metric pkg Metric_NET_MARGIN = income_rat pkg Concept_NET_INCOME / income_rat pkg Concept_REVENUE"
| "exact_metric pkg Metric_CURRENT_RATIO =
     balance_rat pkg Concept_CURRENT_ASSETS / balance_rat pkg Concept_CURRENT_LIABILITIES"
| "exact_metric pkg Metric_DEBT_TO_EQUITY =
     balance_rat pkg Concept_TOTAL_DEBT / balance_rat pkg Concept_SHAREHOLDERS_EQUITY"
| "exact_metric pkg Metric_OPERATING_CASH_FLOW_MARGIN =
     cash_rat pkg Concept_OPERATING_CASH_FLOW / income_rat pkg Concept_REVENUE"
| "exact_metric pkg Metric_FREE_CASH_FLOW = exact_fcf pkg"
| "exact_metric pkg Metric_FREE_CASH_FLOW_MARGIN = exact_fcf pkg / income_rat pkg Concept_REVENUE"

text \<open>
  Half a unit of the last digit kept, and as much again for the 28-digit arithmetic before it. The free
  cash flow margin divides the free cash flow already rounded to cents.
\<close>

fun metric_tolerance :: "financial_package \<Rightarrow> metric_name \<Rightarrow> rat" where
  "metric_tolerance pkg Metric_FREE_CASH_FLOW = 1 / 100"
| "metric_tolerance pkg Metric_FREE_CASH_FLOW_MARGIN = 1 / 1000000 + 1 / 50 / \<bar>income_rat pkg Concept_REVENUE\<bar>"
| "metric_tolerance pkg _ = 1 / 1000000"

text \<open>What \<open>fact_post_init\<close> leaves of a fact: finite values.\<close>

definition finite_fact :: "financial_fact option \<Rightarrow> bool" where
  "finite_fact f \<longleftrightarrow> (case f of None \<Rightarrow> True | Some x \<Rightarrow> is_finite (ff_value x) \<and> wf_decimal (ff_value x))"

lemma finite_factD: "finite_fact (Some x) \<Longrightarrow> is_finite (ff_value x) \<and> wf_decimal (ff_value x)"
  by (simp add: finite_fact_def)

definition finite_statement :: "statement option \<Rightarrow> bool" where
  "finite_statement s \<longleftrightarrow> (case s of None \<Rightarrow> True | Some x \<Rightarrow> list_all (\<lambda>f. finite_fact (Some f)) (st_facts x))"

definition finite_package :: "financial_package \<Rightarrow> bool" where
  "finite_package pkg \<longleftrightarrow> finite_statement (pk_income (pkg_fields pkg)) \<and> finite_statement (pk_balance (pkg_fields pkg))
     \<and> finite_statement (pk_cash_flow (pkg_fields pkg)) \<and> finite_statement (prior_statement pkg)"

lemma package_fact_finite: "finite_statement s \<Longrightarrow> finite_fact (package_fact p s c)"
  by (auto simp: finite_statement_def package_fact_def currency_fact_def statement_get_def finite_fact_def
      find_Some_iff list_all_length split: option.splits)

lemma is_zero_rat: "is_finite d \<Longrightarrow> is_zero d \<longleftrightarrow> dec_rat d = 0"
  using dec_eq_rat [of d "dec_of_int 0"] by (simp add: is_zero_def dec_of_int_def signed_def)

lemma dec_rat_one: "dec_rat (dec_of_int 1) = 1" "is_finite (dec_of_int 1)"
  by (simp_all add: dec_of_int_def signed_def)

section \<open>Arithmetic errors\<close>

definition arithmetic_error :: "error \<Rightarrow> bool" where
  "arithmetic_error e \<longleftrightarrow> e = OtherException ''InvalidOperation'' [] \<or> e = OtherException ''Overflow'' []"

lemma dec_fix_Inl: "dec_fix s n e = Inl x \<Longrightarrow> arithmetic_error x"
  by (auto simp: dec_fix_def Let_def raise_dec_def arithmetic_error_def split: if_splits)

lemma dec_add_Inl: "dec_add a b = Inl x \<Longrightarrow> arithmetic_error x"
  by (cases a; cases b) (auto simp: Let_def raise_dec_def arithmetic_error_def split: if_splits dest: dec_fix_Inl)

lemma dec_sub_Inl: "dec_sub a b = Inl x \<Longrightarrow> arithmetic_error x"
  unfolding dec_sub_def by (rule dec_add_Inl)

lemma quotient_Inl: "quotient s n e k f = Inl x \<Longrightarrow> arithmetic_error x"
  by (auto simp: quotient_def divided_def Let_def split: if_splits prod.splits dest: dec_fix_Inl)

lemma dec_mult_Inl: "dec_mult a b = Inl x \<Longrightarrow> arithmetic_error x"
  by (cases a; cases b) (auto simp: raise_dec_def arithmetic_error_def split: if_splits dest: dec_fix_Inl)

lemma dec_div_Inl: "dec_div a b = Inl x \<Longrightarrow> is_finite b \<Longrightarrow> \<not> is_zero b \<Longrightarrow> arithmetic_error x"
  by (cases a; cases b)
    (auto simp: Let_def raise_dec_def arithmetic_error_def is_zero_rat signed_def split: if_splits
      dest: dec_fix_Inl quotient_Inl)

lemma dec_quantize_Inl: "dec_quantize d q = Inl x \<Longrightarrow> arithmetic_error x"
  by (cases d) (auto simp: Let_def raise_dec_def arithmetic_error_def split: if_splits dest: dec_fix_Inl)

section \<open>Each formula is close\<close>

lemma divided_close:
  assumes "dec_div (ff_value x) (ff_value y) = Inr q" "dec_quantize q RATIO = Inr d" "finite_fact (Some x)" "finite_fact (Some y)"
    "\<not> is_zero (ff_value y)" "moderate (dec_rat (ff_value x) / dec_rat (ff_value y))"
  shows "near (1 / 1000000) (dec_rat d) (dec_rat (ff_value x) / dec_rat (ff_value y))"
proof -
  note fin = finite_factD [OF assms(3)] finite_factD [OF assms(4)]
  have "is_finite q \<and> wf_decimal q \<and> \<bar>dec_rat q - dec_rat (ff_value x) / dec_rat (ff_value y)\<bar>
      \<le> \<bar>dec_rat (ff_value x) / dec_rat (ff_value y)\<bar> / 10 ^ 27 + tiny"
    using assms(1,5) fin is_zero_rat by (intro dec_div_error) auto
  then show ?thesis
    using quantize_ratio [OF assms(2)] division_linear [OF _ assms(6) tiny_bound(2)] by blast
qed

lemma margin_close:
  "margin n a b pd f = Inr (Computed m) \<Longrightarrow> finite_fact a \<Longrightarrow> finite_fact b \<Longrightarrow>
     moderate (fact_rat a / fact_rat b) \<Longrightarrow> near (1 / 1000000) (dec_rat (fm_value m)) (fact_rat a / fact_rat b)"
  by (auto simp: margin_def ratio_metric_def and_then_Inr_iff omit_def fact_rat_def split: option.splits if_splits
      intro!: divided_close simp del: power_divide)

lemma balance_ratio_close:
  "balance_ratio n t z f a b pd cur = Inr (Computed m) \<Longrightarrow> finite_fact a \<Longrightarrow> finite_fact b \<Longrightarrow>
     moderate (fact_rat a / fact_rat b) \<Longrightarrow> near (1 / 1000000) (dec_rat (fm_value m)) (fact_rat a / fact_rat b)"
  by (auto simp: balance_ratio_def ratio_metric_def and_then_Inr_iff omit_def fact_rat_def split: option.splits if_splits
      intro!: divided_close)

lemma growth_value_close:
  assumes q: "dec_div x y = Inr q" and s: "dec_sub q (dec_of_int 1) = Inr s" and d: "dec_quantize s RATIO = Inr d"
    and fin: "is_finite x" "is_finite y" "wf_decimal x" "wf_decimal y" "dec_rat y \<noteq> 0" "moderate (dec_rat x / dec_rat y - 1)"
  shows "near (1 / 1000000) (dec_rat d) (dec_rat x / dec_rat y - 1)"
proof -
  have qe: "is_finite q \<and> wf_decimal q \<and> \<bar>dec_rat q - dec_rat x / dec_rat y\<bar> \<le> \<bar>dec_rat x / dec_rat y\<bar> / 10 ^ 27 + tiny"
    using q fin by (intro dec_div_error) auto
  then have se: "is_finite s \<and> wf_decimal s \<and> \<bar>dec_rat s - (dec_rat q - 1)\<bar> \<le> \<bar>dec_rat q - 1\<bar> / (2 * 10 ^ 27) + tiny"
    using dec_sub_error [OF s] dec_rat_one by simp
  have "2 * \<bar>dec_rat d - dec_rat s\<bar> \<le> 1 / 1000000" using quantize_ratio [OF d] se by blast
  with qe se fin(6) show ?thesis using growth_linear [OF _ _ _ tiny_bound(2)] by blast
qed

lemma growth_close:
  assumes "growth n a b pd pp = Inr (Computed m)" "finite_fact a" "finite_fact b" "moderate (fact_rat a / fact_rat b - 1)"
  shows "near (1 / 1000000) (dec_rat (fm_value m)) ((fact_rat a / fact_rat b - 1))"
proof -
  obtain x y q s where ab: "a = Some x" "b = Some y" "\<not> is_zero (ff_value y)"
    and q: "dec_div (ff_value x) (ff_value y) = Inr q" and s: "dec_sub q (dec_of_int 1) = Inr s"
    and d: "dec_quantize s RATIO = Inr (fm_value m)"
    using assms(1) by (auto simp: growth_def ratio_metric_def and_then_Inr_iff omit_def split: option.splits if_splits)
  note fin = finite_factD [OF assms(2) [unfolded ab]] finite_factD [OF assms(3) [unfolded ab]]
  show ?thesis
    using growth_value_close [OF q s d] fin ab(3) is_zero_rat [of "ff_value y"] assms(4) by (simp add: ab fact_rat_def)
qed

lemma fcf_close:
  assumes "fcf_outcome r a b pd cur = Inr (Computed m)" "finite_fact r" "finite_fact a" "finite_fact b"
    "moderate (if r \<noteq> None then fact_rat r else fact_rat a - fact_rat b)"
  shows "is_finite (fm_value m) \<and> wf_decimal (fm_value m) \<and>
    near (1 / 100) (dec_rat (fm_value m)) ((if r \<noteq> None then fact_rat r else fact_rat a - fact_rat b))"
proof (cases r)
  case (Some x)
  then have "dec_quantize (ff_value x) MONEY = Inr (fm_value m)"
    using assms(1) by (auto simp: fcf_outcome_def and_then_Inr_iff)
  with Some show ?thesis
    using quantize_money [of "ff_value x"] finite_factD assms(2) by (auto simp: fact_rat_def near_def)
next
  case None
  obtain x y q where ab: "a = Some x" "b = Some y" and q: "dec_sub (ff_value x) (ff_value y) = Inr q"
    and d: "dec_quantize q MONEY = Inr (fm_value m)"
    using assms(1) None
    by (auto simp: fcf_outcome_def free_cash_flow_def and_then_Inr_iff omit_def Let_def split: option.splits if_splits)
  note fin = finite_factD [OF assms(3) [unfolded ab]] finite_factD [OF assms(4) [unfolded ab]]
  note qe = dec_sub_error [OF q]
  have "moderate (dec_rat (ff_value x) - dec_rat (ff_value y))" using assms(5) None ab by (simp add: fact_rat_def)
  then show ?thesis
    using qe fin quantize_money [OF d] money_linear [OF _ _ tiny_bound(2)]
    by (auto simp: None ab fact_rat_def)
qed

lemma fcf_margin_close:
  assumes "fcf_margin (Computed f) b pd cur = Inr (Computed m)" "is_finite (fm_value f)" "wf_decimal (fm_value f)"
    "finite_fact b" "near (1 / 100) (dec_rat (fm_value f)) x" "moderate (x / fact_rat b)"
  shows "near (1 / 1000000 + 1 / 50 / \<bar>fact_rat b\<bar>) (dec_rat (fm_value m)) (x / fact_rat b)"
proof -
  obtain y q where y: "b = Some y" "\<not> is_zero (ff_value y)" and q: "dec_div (fm_value f) (ff_value y) = Inr q"
    and d: "dec_quantize q RATIO = Inr (fm_value m)"
    using assms(1) by (auto simp: fcf_margin_def Let_def ratio_metric_def and_then_Inr_iff omit_def split: option.splits if_splits)
  note fin = finite_factD [OF assms(4) [unfolded y]]
  have qe: "is_finite q \<and> wf_decimal q \<and> \<bar>dec_rat q - dec_rat (fm_value f) / fact_rat b\<bar>
      \<le> \<bar>dec_rat (fm_value f) / fact_rat b\<bar> / 10 ^ 27 + tiny"
    using dec_div_error [OF q] fin y assms(2,3) is_zero_rat by (simp add: fact_rat_def)
  have "\<bar>dec_rat (fm_value f) / fact_rat b - x / fact_rat b\<bar> = \<bar>dec_rat (fm_value f) - x\<bar> / \<bar>fact_rat b\<bar>"
    by (simp flip: diff_divide_distrib)
  also have "\<dots> \<le> 1 / 100 / \<bar>fact_rat b\<bar>"
    using assms(5) by (intro divide_right_mono) (simp_all add: near_def)
  finally have "near (1 / 1000000 + 2 * (1 / 100 / \<bar>fact_rat b\<bar>)) (dec_rat (fm_value m)) (x / fact_rat b)"
    using qe quantize_ratio [OF d] rounded_linear [OF _ _ assms(6) tiny_bound(2)] by blast
  then show ?thesis by simp
qed

end
