(* ===== verification/Financial_Samples.thy ===== *)
theory Financial_Samples
  imports Financial_Metrics Sample_Data
begin

text \<open>Concrete facts and packages for the witnesses of the financial theories.\<close>

definition sample_year :: "int \<Rightarrow> reporting_period" where
  "sample_year y = \<lparr>pd_basis = Basis_FISCAL_YEAR, pd_fiscal_year = y, pd_end = (y, 12, 31), pd_start = Some (y, 1, 1),
     pd_quarter = None, pd_as_of = None, pd_label = None\<rparr>"

definition sample_currency :: currency_code where
  "sample_currency = CurrencyCode ''USD''"

definition money_fact :: "financial_concept \<Rightarrow> int \<Rightarrow> decimal \<Rightarrow> source_authority_tier \<Rightarrow> char \<Rightarrow> financial_fact" where
  "money_fact c y v tier src = \<lparr>ff_company_id = sample_company_id, ff_concept = c, ff_period = sample_year y,
     ff_raw_value = v, ff_value = v, ff_unit = Unit_CURRENCY, ff_scale = Scale_ONES,
     ff_source_id = SourceId (uuid_of src), ff_tier = tier, ff_retrieved_at = sample_time,
     ff_currency = Some sample_currency, ff_filing_id = None, ff_provider_concept = None\<rparr>"

definition sample_statement :: "int \<Rightarrow> (financial_concept \<times> decimal) list \<Rightarrow> statement" where
  "sample_statement y cs = \<lparr>st_company_id = sample_company_id, st_period = sample_year y, st_currency = sample_currency,
     st_facts = map (\<lambda>(c, v). money_fact c y v TIER_1_AUTHORITATIVE (CHR ''1'')) cs\<rparr>"

definition sample_fields :: "int \<Rightarrow> (financial_concept \<times> decimal) list \<Rightarrow> (financial_concept \<times> decimal) list \<Rightarrow> package_fields"
where
  "sample_fields y income cash = \<lparr>pk_company_id = sample_company_id, pk_period = sample_year y,
     pk_currency = sample_currency, pk_retrieved_at = sample_time, pk_income = Some (sample_statement y income),
     pk_balance = None, pk_cash_flow = Some (sample_statement y cash), pk_filing = None, pk_provider_name = ''fixture'',
     pk_availability = Fin_AVAILABLE, pk_data_origin = Origin_FIXTURE, pk_security_id = None, pk_listing_id = None,
     pk_conflicts = []\<rparr>"

definition sample_package :: financial_package where
  "sample_package = Package
     (sample_fields 2025 [(Concept_REVENUE, dec_of_int 900), (Concept_GROSS_PROFIT, dec_of_int 400)]
       [(Concept_OPERATING_CASH_FLOW, dec_of_int 300), (Concept_CAPITAL_EXPENDITURE, Dec False 1001 (-1))])
     (Some (Package (sample_fields 2024 [(Concept_REVENUE, dec_of_int 700)] []) None))"

text \<open>A ratio of more than 22 digits before the point.\<close>

definition extreme_package :: financial_package where
  "extreme_package = Package
     (sample_fields 2025 [(Concept_REVENUE, Dec False 1 (-6)), (Concept_GROSS_PROFIT, Dec False 1 20)] []) None"

end
