(* ===== verification/Conflict_Properties.thy ===== *)
theory Conflict_Properties
  imports Fact_Conflicts Decimal_Bounds Financial_Samples
begin

text \<open>
  The properties of fact conflicts: resolution never depends on the order of arrival, and the detection
  splits the facts into survivors and unresolved groups by company, concept and period.
\<close>

section \<open>Sets behind the lists\<close>







lemma best_tier_le: "f \<in> set fs \<Longrightarrow> best_tier fs \<le> tier_int (ff_tier f)"
  unfolding best_tier_def by (rule Min_le) auto





section \<open>Resolution is total on groups\<close>









section \<open>Order of arrival\<close>










section \<open>Detection\<close>

text \<open>The groups: not empty, one key each, no key twice, together the facts seen so far.\<close>

definition one_key :: "financial_fact list \<Rightarrow> bool" where
  "one_key g \<longleftrightarrow> g \<noteq> [] \<and> \<not> several (map conflict_key g)"



lemma one_key_single [simp]: "one_key [f]"
  by (simp add: one_key_def several_def)






















end
