(* ===== verification/Claims.thy ===== *)
theory Claims
  imports Financial
begin

text \<open>
  Claims and the evidence for them (\<open>domain/verification/claim.py\<close>, \<open>evidence.py\<close>): the constructors, the
  keyword and polarity heuristics, the comparison of values, and the classification of a claim's evidence.
\<close>

section \<open>Values\<close>

text \<open>The \<open>str | Decimal | datetime\<close> of an expected or extracted value.\<close>

datatype claim_value = Val_Text string | Val_Decimal decimal | Val_Time datetime

text \<open>Aware datetimes compare as instants, in microseconds; \<open>(a - b).days\<close> is the floor of their distance.\<close>

definition instant :: "datetime \<Rightarrow> int" where
  "instant t = (ordinal (int (dt_year t), int (dt_month t), int (dt_day t)) * 86400
      + int (dt_hour t) * 3600 + int (dt_minute t) * 60 + int (dt_second t)
      - (case dt_offset t of None \<Rightarrow> 0 | Some z \<Rightarrow> z)) * 1000000 + int (dt_micro t)"

definition days_between :: "datetime \<Rightarrow> datetime \<Rightarrow> int" where
  "days_between a b = (instant a - instant b) div 86400000000"

text \<open>\<open>str(datetime)\<close>\<close>

definition datetime_text :: "datetime \<Rightarrow> string" where
  "datetime_text t = map (\<lambda>c. if c = CHR ''T'' then CHR '' '' else c) (isoformat t)"

fun value_text :: "claim_value \<Rightarrow> string" where
  "value_text (Val_Text s) = s"
| "value_text (Val_Decimal d) = dec_text d"
| "value_text (Val_Time t) = datetime_text t"

text \<open>\<open>==\<close> of two values\<close>

fun value_eq :: "claim_value \<Rightarrow> claim_value \<Rightarrow> bool" where
  "value_eq (Val_Text s) (Val_Text t) = (s = t)"
| "value_eq (Val_Decimal a) (Val_Decimal b) = dec_eq a b"
| "value_eq (Val_Time a) (Val_Time b) = (if tz_aware a = tz_aware b then instant a = instant b else False)"
| "value_eq _ _ = False"

section \<open>Decimal numerals\<close>

text \<open>\<open>Decimal(text)\<close>: \<open>None\<close> is the \<open>InvalidOperation\<close> of a text that is no numeral of a representable size.\<close>

definition is_digit :: "char \<Rightarrow> bool" where
  "is_digit c \<longleftrightarrow> c \<in> set ''0123456789''"

fun digit_value :: "char \<Rightarrow> int" where
  "digit_value c = int (length (takeWhile (\<lambda>d. d \<noteq> c) ''0123456789''))"

definition digits_value_of :: "string \<Rightarrow> int" where
  "digits_value_of s = foldl (\<lambda>n c. 10 * n + digit_value c) 0 s"

fun signed_text :: "string \<Rightarrow> bool \<times> string" where
  "signed_text (c # cs) = (if c = CHR ''-'' then (True, cs) else if c = CHR ''+'' then (False, cs) else (False, c # cs))"
| "signed_text [] = (False, [])"

definition parse_exponent :: "string \<Rightarrow> int option" where
  "parse_exponent s =
     (case s of
        [] \<Rightarrow> Some 0
      | c # cs \<Rightarrow>
          if c \<noteq> CHR ''e'' \<and> c \<noteq> CHR ''E'' then None
          else case signed_text cs of (neg, ds) \<Rightarrow>
            if ds = [] \<or> \<not> list_all is_digit ds then None
            else Some (if neg then - digits_value_of ds else digits_value_of ds))"

definition MAX_EMAX :: int where "MAX_EMAX = 999999999999999999"
definition MIN_ETINY :: int where "MIN_ETINY = -1999999999999999997"

definition parse_finite :: "bool \<Rightarrow> string \<Rightarrow> decimal option" where
  "parse_finite neg s =
     (let ip = takeWhile is_digit s; r = dropWhile is_digit s;
          dotted = (r \<noteq> [] \<and> hd r = CHR ''.'');
          fp = (if dotted then takeWhile is_digit (tl r) else []);
          r = (if dotted then dropWhile is_digit (tl r) else r);
          n = digits_value_of (ip @ fp)
      in
      if ip = [] \<and> fp = [] then None
      else case parse_exponent r of
        None \<Rightarrow> None
      | Some x \<Rightarrow>
          let e = x - int (length fp) in
          if e < MIN_ETINY \<or> MAX_EMAX < e + num_digits n - 1 then None else Some (Dec neg n e))"

definition parse_decimal :: "string \<Rightarrow> decimal option" where
  "parse_decimal text =
     (case signed_text (filter (\<lambda>c. c \<noteq> CHR ''_'') (py_strip text)) of (neg, s) \<Rightarrow>
        let l = py_lower s in
        if l = ''inf'' \<or> l = ''infinity'' then Some (Dec_Inf neg)
        else if take 3 l = ''nan'' \<and> list_all is_digit (drop 3 l) \<or> take 4 l = ''snan'' \<and> list_all is_digit (drop 4 l)
        then Some Dec_NaN
        else parse_finite neg s)"

text \<open>\<open>_coerce_finite_decimal\<close>\<close>

fun coerce_finite_decimal :: "claim_value option \<Rightarrow> decimal option" where
  "coerce_finite_decimal (Some (Val_Decimal d)) = (if is_finite d then Some d else None)"
| "coerce_finite_decimal (Some (Val_Text s)) =
     (let t = py_strip s in
      if t = [] then None
      else case parse_decimal t of
        None \<Rightarrow> None
      | Some d \<Rightarrow> if is_finite d then Some d else None)"
| "coerce_finite_decimal _ = None"

section \<open>Claims\<close>

datatype claim_type = Claim_FACTUAL | Claim_NUMERIC | Claim_DATE | Claim_SOURCE_AUTHORITY

fun claim_type_value :: "claim_type \<Rightarrow> string" where
  "claim_type_value Claim_FACTUAL = ''factual''"
| "claim_type_value Claim_NUMERIC = ''numeric''"
| "claim_type_value Claim_DATE = ''date''"
| "claim_type_value Claim_SOURCE_AUTHORITY = ''source_authority''"

datatype claim_id = ClaimId (claim_id_text: uuid)

definition mk_claim_id :: "uuid \<Rightarrow> claim_id res" where
  "mk_claim_id u = (if \<not> uuid_is_v4 u then Inl (ValueError ''claim_id must be a UUIDv4'') else Inr (ClaimId u))"

record claim =
  cl_claim_id :: claim_id
  cl_type :: claim_type
  cl_text :: string
  cl_company_id :: string
  cl_run_id :: string
  cl_task_id :: "string option"
  cl_expected :: "claim_value option"
  cl_unit :: "string option"
  cl_currency :: "string option"
  cl_period :: "string option"
  cl_as_of :: "datetime option"
  cl_created_at :: "datetime option"
  cl_metadata :: "(string \<times> string) list"

fun naive_value :: "claim_value option \<Rightarrow> bool" where
  "naive_value (Some (Val_Time t)) = (\<not> tz_aware t)"
| "naive_value _ = False"

text \<open>The clock is read when \<open>created_at\<close> is missing; \<open>clk\<close> is its reading.\<close>

definition claim_post_init :: "datetime \<Rightarrow> claim \<Rightarrow> claim res" where
  "claim_post_init clk c =
     (if naive_stamp (cl_created_at c) then Inl (ValueError ''created_at must be timezone-aware'')
      else if naive_value (cl_expected c) then Inl (ValueError ''datetime expected_value must be timezone-aware'')
      else if naive_stamp (cl_as_of c) then Inl (ValueError ''expected_as_of must be timezone-aware'')
      else
        let text = norm_text (cl_text c) in
        if text = [] \<or> 5000 < length text then Inl (ValueError ''claim text empty or exceeds bounds'')
        else Inr (c\<lparr>cl_created_at := Some (case cl_created_at c of None \<Rightarrow> clk | Some t \<Rightarrow> t), cl_text := text\<rparr>))"

text \<open>\<open>replace\<close> runs the constructor again.\<close>

definition with_expected_value :: "datetime \<Rightarrow> claim \<Rightarrow> claim_value \<Rightarrow> claim res" where
  "with_expected_value clk c v = claim_post_init clk (c\<lparr>cl_expected := Some v\<rparr>)"

definition with_expected_context ::
    "datetime \<Rightarrow> claim \<Rightarrow> string option \<Rightarrow> string option \<Rightarrow> string option \<Rightarrow> datetime option \<Rightarrow> claim res" where
  "with_expected_context clk c unit currency period as_of =
     claim_post_init clk (c\<lparr>cl_unit := unit, cl_currency := currency, cl_period := period, cl_as_of := as_of\<rparr>)"

section \<open>Evidence\<close>

record evidence =
  ev_id :: string
  ev_source_id :: string
  ev_tier :: source_authority_tier
  ev_data_origin :: data_origin
  ev_claim_type :: string
  ev_value :: "claim_value option"
  ev_unit :: "string option"
  ev_currency :: "string option"
  ev_period :: "string option"
  ev_as_of :: "datetime option"
  ev_retrieved_at :: datetime
  ev_snippet :: string

definition claim_types :: "claim_type list" where
  "claim_types = [Claim_FACTUAL, Claim_NUMERIC, Claim_DATE, Claim_SOURCE_AUTHORITY]"

text \<open>The constructor, without the optional URL, which is checked and carried but never read; a missing
  \<open>retrieved_at\<close> has been replaced by the reading of the clock.\<close>

definition evidence_checks :: "evidence \<Rightarrow> evidence res" where
  "evidence_checks r =
     (let i = py_strip (ev_id r); s = py_strip (ev_source_id r) in
      if i = [] \<or> 128 < length i then Inl (ValueError ''evidence_id empty or exceeds bounds'')
      else if s = [] \<or> 128 < length s then Inl (ValueError ''source_id empty or exceeds bounds'')
      else if ev_claim_type r \<notin> claim_type_value ` set claim_types
      then Inl (ValueError ''claim_type is not recognized'')
      else if \<not> tz_aware (ev_retrieved_at r) then Inl (ValueError ''retrieved_at must be timezone-aware'')
      else if naive_stamp (ev_as_of r) then Inl (ValueError ''as_of must be timezone-aware'')
      else if naive_value (ev_value r) then Inl (ValueError ''datetime extracted_value must be timezone-aware'')
      else Inr (r\<lparr>ev_id := i, ev_source_id := s, ev_snippet := take 2000 (norm_text (ev_snippet r))\<rparr>))"

definition stop_words :: "string list" where
  "stop_words = [''the'', ''a'', ''an'', ''and'', ''or'', ''but'', ''in'', ''on'', ''at'', ''to'', ''for'', ''of'',
     ''with'', ''by'', ''is'', ''was'', ''were'', ''are'', ''be'', ''been'', ''being'', ''have'', ''has'', ''had'',
     ''do'', ''does'', ''did'', ''will'', ''would'', ''could'', ''should'', ''may'', ''might'', ''must'', ''can'',
     ''this'', ''that'', ''these'', ''those'']"

definition content_words :: "string \<Rightarrow> string list" where
  "content_words s = remdups (filter (\<lambda>w. w \<notin> set stop_words) (py_split (py_lower s)))"

definition supports_claim :: "evidence \<Rightarrow> string \<Rightarrow> claim_type \<Rightarrow> bool" where
  "supports_claim r text t =
     (if ev_claim_type r \<noteq> claim_type_value t then False
      else
        let kw = content_words text; snippet = content_words (ev_snippet r) in
        if kw = [] then False
        else max 1 (length kw div 2) \<le> length (filter (\<lambda>w. w \<in> set snippet) kw))"

section \<open>Polarity\<close>

datatype polarity = Polarity_CLEAR | Polarity_CONFLICT | Polarity_AMBIGUOUS

definition negation_markers :: "string list" where
  "negation_markers = [''not'', ''never'', ''no'', ''cannot'', ''neither'', ''nor'', ''denies'', ''denied'', ''false'',
     ''incorrect'']"

definition hedge_markers :: "string list" where
  "hedge_markers = [''may'', ''might'', ''could'', ''allegedly'', ''reportedly'', ''possibly'', ''rumored'',
     ''unconfirmed'', ''purportedly'', ''supposedly'', ''reputedly'']"

definition is_token_strip :: "char \<Rightarrow> bool" where
  "is_token_strip c \<longleftrightarrow> c \<in> set ''.,;:!?()[]{}'' \<or> c = CHR 0x22 \<or> c = CHR 0x27"

definition tokenize :: "string \<Rightarrow> string list" where
  "tokenize text =
     map (\<lambda>t. rev (dropWhile is_token_strip (rev (dropWhile is_token_strip t)))) (py_split (py_lower text))"

definition ends_with :: "string \<Rightarrow> string \<Rightarrow> bool" where
  "ends_with s t \<longleftrightarrow> length t \<le> length s \<and> drop (length s - length t) s = t"

definition negation_count :: "string list \<Rightarrow> nat" where
  "negation_count ts = length (filter (\<lambda>t. t \<in> set negation_markers \<or> ends_with t (''n'' @ [CHR 0x27] @ ''t'')) ts)"

definition hedge_count :: "string list \<Rightarrow> nat" where
  "hedge_count ts = length (filter (\<lambda>t. t \<in> set hedge_markers) ts)"

definition assess_polarity :: "string \<Rightarrow> string \<Rightarrow> polarity" where
  "assess_polarity text snippet =
     (let a = tokenize text; b = tokenize snippet; m = negation_count a; n = negation_count b in
      if 0 < m \<and> 0 < n then Polarity_AMBIGUOUS
      else if m \<noteq> n then Polarity_CONFLICT
      else if 0 < hedge_count a \<or> 0 < hedge_count b then Polarity_AMBIGUOUS
      else Polarity_CLEAR)"

section \<open>Classification\<close>

datatype match_outcome = Match_SUPPORTING | Match_CONTRADICTING | Match_NEUTRAL

text \<open>The truth value of an optional text.\<close>

definition truthy :: "string option \<Rightarrow> bool" where
  "truthy s = (case s of None \<Rightarrow> False | Some t \<Rightarrow> t \<noteq> [])"

definition context_matches :: "claim \<Rightarrow> evidence \<Rightarrow> bool" where
  "context_matches c r \<longleftrightarrow>
     (\<not> truthy (cl_unit c) \<or> map_option py_lower (ev_unit r) = map_option py_lower (cl_unit c)) \<and>
     (\<not> truthy (cl_currency c) \<or> map_option py_lower (ev_currency r) = map_option py_lower (cl_currency c)) \<and>
     (\<not> truthy (cl_period c) \<or> ev_period r = cl_period c)"

definition infinite_value :: "claim_value option \<Rightarrow> bool" where
  "infinite_value v = (case v of Some (Val_Decimal d) \<Rightarrow> \<not> is_finite d | _ \<Rightarrow> False)"

definition evaluate_match :: "claim \<Rightarrow> evidence \<Rightarrow> match_outcome" where
  "evaluate_match c r =
     (case cl_expected c of
        None \<Rightarrow>
          if cl_type c = Claim_NUMERIC then Match_CONTRADICTING
          else (case assess_polarity (cl_text c) (ev_snippet r) of
                  Polarity_CONFLICT \<Rightarrow> Match_CONTRADICTING
                | Polarity_AMBIGUOUS \<Rightarrow> Match_NEUTRAL
                | Polarity_CLEAR \<Rightarrow> Match_SUPPORTING)
      | Some v \<Rightarrow>
          if cl_type c = Claim_NUMERIC
          then (case (coerce_finite_decimal (Some v), coerce_finite_decimal (ev_value r)) of
                  (Some a, Some b) \<Rightarrow>
                    if \<not> dec_eq a b then Match_CONTRADICTING
                    else if context_matches c r then Match_SUPPORTING else Match_CONTRADICTING
                | _ \<Rightarrow> Match_CONTRADICTING)
          else if infinite_value (Some v) \<or> infinite_value (ev_value r) then Match_CONTRADICTING
          else case ev_value r of
            None \<Rightarrow> Match_CONTRADICTING
          | Some u \<Rightarrow>
              if py_lower (py_strip (value_text u)) = py_lower (py_strip (value_text v)) \<and> context_matches c r
              then Match_SUPPORTING else Match_CONTRADICTING)"

record evidence_bundle =
  bn_claim_id :: string
  bn_refs :: "evidence list"
  bn_supporting :: "evidence list"
  bn_contradicting :: "evidence list"
  bn_neutral :: "evidence list"

definition bundle_post_init :: "evidence_bundle \<Rightarrow> evidence_bundle res" where
  "bundle_post_init b =
     (let i = py_strip (bn_claim_id b) in
      if i = [] \<or> 128 < length i then Inl (ValueError ''claim_id empty or exceeds bounds'')
      else if \<not> distinct (map ev_id (bn_refs b)) then Inl (ValueError ''duplicate evidence_id in evidence bundle'')
      else Inr (b\<lparr>bn_claim_id := i\<rparr>))"

text \<open>The branch of the loop of \<open>classify\<close> that takes a reference.\<close>

definition outcome_for :: "claim \<Rightarrow> evidence \<Rightarrow> match_outcome" where
  "outcome_for c r = (if supports_claim r (cl_text c) (cl_type c) then evaluate_match c r else Match_NEUTRAL)"

definition classify :: "claim \<Rightarrow> evidence list \<Rightarrow> evidence_bundle res" where
  "classify c refs =
     bundle_post_init
       \<lparr>bn_claim_id = claim_id_text (cl_claim_id c), bn_refs = refs,
        bn_supporting = filter (\<lambda>r. outcome_for c r = Match_SUPPORTING) refs,
        bn_contradicting = filter (\<lambda>r. outcome_for c r = Match_CONTRADICTING) refs,
        bn_neutral = filter (\<lambda>r. outcome_for c r = Match_NEUTRAL) refs\<rparr>"

end
