(* ===== verification/Verification.thy ===== *)
theory Verification
  imports Claims
begin

text \<open>
  The verification engine and its results (\<open>domain/verification/engine.py\<close>, \<open>result.py\<close>,
  \<open>application/verify_claims.py\<close>). A record \<open>readings\<close> holds what a call reads from outside: the clock at
  the start, at every contradiction record and at the critic request, and the id of that request.
\<close>

section \<open>Results\<close>

datatype verification_status =
  Verif_VERIFIED | Verif_PARTIALLY_VERIFIED | Verif_CONTRADICTED | Verif_CONFLICTING | Verif_UNVERIFIABLE | Verif_STALE

fun verification_status_value :: "verification_status \<Rightarrow> string" where
  "verification_status_value Verif_VERIFIED = ''verified''"
| "verification_status_value Verif_PARTIALLY_VERIFIED = ''partially_verified''"
| "verification_status_value Verif_CONTRADICTED = ''contradicted''"
| "verification_status_value Verif_CONFLICTING = ''conflicting''"
| "verification_status_value Verif_UNVERIFIABLE = ''unverifiable''"
| "verification_status_value Verif_STALE = ''stale''"

datatype critic_status = Critic_SUFFICIENT | Critic_RESEARCH | Critic_EXHAUSTED

datatype confidence_factor =
    Factor_SOURCE_AUTHORITY | Factor_EVIDENCE_RECENCY | Factor_EVIDENCE_CONSISTENCY | Factor_EVIDENCE_COMPLETENESS
  | Factor_NO_CONTRADICTIONS | Factor_CROSS_SOURCE_AGREEMENT | Factor_PERIOD_MATCH | Factor_UNIT_CURRENCY_MATCH

fun factor_value :: "confidence_factor \<Rightarrow> string" where
  "factor_value Factor_SOURCE_AUTHORITY = ''source_authority''"
| "factor_value Factor_EVIDENCE_RECENCY = ''evidence_recency''"
| "factor_value Factor_EVIDENCE_CONSISTENCY = ''evidence_consistency''"
| "factor_value Factor_EVIDENCE_COMPLETENESS = ''evidence_completeness''"
| "factor_value Factor_NO_CONTRADICTIONS = ''no_contradictions''"
| "factor_value Factor_CROSS_SOURCE_AGREEMENT = ''cross_source_agreement''"
| "factor_value Factor_PERIOD_MATCH = ''explicit_period_match''"
| "factor_value Factor_UNIT_CURRENCY_MATCH = ''explicit_unit_currency_match''"

record contradiction =
  ct_claim_id :: string
  ct_supporting :: "string list"
  ct_contradicting :: "string list"
  ct_description :: string
  ct_detected_at :: datetime

definition contradiction_post_init :: "contradiction \<Rightarrow> contradiction res" where
  "contradiction_post_init c =
     (if \<not> tz_aware (ct_detected_at c) then Inl (ValueError ''detected_at must be timezone-aware'')
      else
        let d = norm_text (ct_description c) in
        if d = [] \<or> 1000 < length d then Inl (ValueError ''contradiction description empty or exceeds bounds'')
        else Inr (c\<lparr>ct_description := d\<rparr>))"

record critic_request =
  cq_id :: string
  cq_claim_id :: string
  cq_reason :: string
  cq_capability :: string
  cq_query :: string
  cq_priority :: int
  cq_max_attempts :: int
  cq_created_at :: datetime

definition critic_request_post_init :: "critic_request \<Rightarrow> critic_request res" where
  "critic_request_post_init q =
     (let reason = norm_text (cq_reason q); query = norm_text (cq_query q); cap = norm_text (cq_capability q) in
      if \<not> tz_aware (cq_created_at q) then Inl (ValueError ''created_at must be timezone-aware'')
      else if reason = [] \<or> 500 < length reason then Inl (ValueError ''critic reason empty or exceeds bounds'')
      else if query = [] \<or> 500 < length query then Inl (ValueError ''critic query empty or exceeds bounds'')
      else if cap = [] \<or> 128 < length cap then Inl (ValueError ''critic capability empty or exceeds bounds'')
      else if cq_priority q \<notin> {1, 2, 3} then Inl (ValueError ''critic priority must be 1, 2, or 3'')
      else if cq_max_attempts q < 1 \<or> 10 < cq_max_attempts q
      then Inl (ValueError ''critic max_attempts must be between 1 and 10'')
      else Inr (q\<lparr>cq_reason := reason, cq_query := query, cq_capability := cap\<rparr>))"

record critic_assessment =
  as_claim_id :: string
  as_status :: critic_status
  as_attempts_used :: int
  as_max_attempts :: int
  as_requests :: "critic_request list"

definition assessment_post_init :: "critic_assessment \<Rightarrow> critic_assessment res" where
  "assessment_post_init a =
     (if py_strip (as_claim_id a) = [] then Inl (ValueError ''critic assessment claim_id must not be empty'')
      else if as_max_attempts a < 1 \<or> 10 < as_max_attempts a
      then Inl (ValueError ''critic assessment max_attempts must be between 1 and 10'')
      else if as_attempts_used a < 0 \<or> as_max_attempts a < as_attempts_used a
      then Inl (ValueError ''critic assessment attempts_used is outside the budget'')
      else if as_status a = Critic_RESEARCH \<and> (as_max_attempts a \<le> as_attempts_used a \<or> as_requests a = [])
      then Inl (ValueError ''research-required assessment needs budget and requests'')
      else if as_status a \<noteq> Critic_RESEARCH \<and> as_requests a \<noteq> []
      then Inl (ValueError ''terminal critic assessment must not contain requests'')
      else if as_status a = Critic_EXHAUSTED \<and> as_attempts_used a \<noteq> as_max_attempts a
      then Inl (ValueError ''exhausted assessment must consume the attempt budget'')
      else Inr a)"

definition remaining_attempts :: "critic_assessment \<Rightarrow> int" where
  "remaining_attempts a = as_max_attempts a - as_attempts_used a"

definition should_research :: "critic_assessment \<Rightarrow> bool" where
  "should_research a \<longleftrightarrow> as_status a = Critic_RESEARCH"

record verification_result =
  vr_claim_id :: string
  vr_status :: verification_status
  vr_confidence :: decimal
  vr_factors :: "confidence_factor list"
  vr_bundle_id :: string
  vr_contradictions :: "contradiction list"
  vr_requests :: "critic_request list"
  vr_rationale :: string
  vr_score_version :: string
  vr_verified_at :: datetime

text \<open>\<open>a <= b\<close> of decimals, and the chained \<open>0 <= a <= 1\<close>\<close>

definition dec_le :: "decimal \<Rightarrow> decimal \<Rightarrow> bool res" where
  "dec_le a b = and_then (dec_less b a) (\<lambda>x. Inr (\<not> x))"

definition in_unit_interval :: "decimal \<Rightarrow> bool res" where
  "in_unit_interval d =
     and_then (dec_le (dec_of_int 0) d) (\<lambda>x. if x then dec_le d (dec_of_int 1) else Inr False)"

definition verification_post_init :: "verification_result \<Rightarrow> verification_result res" where
  "verification_post_init r =
     (if \<not> tz_aware (vr_verified_at r) then Inl (ValueError ''verified_at must be timezone-aware'')
      else and_then (in_unit_interval (vr_confidence r)) (\<lambda>ok.
        let t = norm_text (vr_rationale r); v = py_strip (vr_score_version r) in
        if \<not> ok then Inl (ValueError ''confidence_score must be between 0.0 and 1.0'')
        else if t = [] \<or> 2000 < length t then Inl (ValueError ''rationale empty or exceeds bounds'')
        else if v = [] \<or> 128 < length v then Inl (ValueError ''score_version empty or exceeds bounds'')
        else Inr (r\<lparr>vr_rationale := t, vr_score_version := v\<rparr>)))"

definition is_verified :: "verification_result \<Rightarrow> bool" where
  "is_verified r \<longleftrightarrow> vr_status r \<in> {Verif_VERIFIED, Verif_PARTIALLY_VERIFIED}"

definition is_definitively_verified :: "verification_result \<Rightarrow> bool" where
  "is_definitively_verified r \<longleftrightarrow> vr_status r = Verif_VERIFIED"

definition has_contradictions :: "verification_result \<Rightarrow> bool" where
  "has_contradictions r \<longleftrightarrow> 0 < length (vr_contradictions r)"

definition needs_critic :: "verification_result \<Rightarrow> bool" where
  "needs_critic r \<longleftrightarrow> vr_status r \<in> {Verif_UNVERIFIABLE, Verif_CONFLICTING, Verif_STALE, Verif_CONTRADICTED}"

section \<open>The engine\<close>

record verification_engine =
  en_max_age_days :: int
  en_min_verified :: decimal
  en_min_partial :: decimal
  en_score_version :: string
  en_weights :: "(source_authority_tier \<times> decimal) list"

definition default_weights :: "(source_authority_tier \<times> decimal) list" where
  "default_weights = [(TIER_1_AUTHORITATIVE, Dec False 10 (-1)), (TIER_2_STRUCTURED_FINANCIAL, Dec False 7 (-1)),
     (TIER_3_REPUTABLE_NEWS, Dec False 5 (-1)), (TIER_4_GENERAL_WEB, Dec False 2 (-1))]"

fun check_weights :: "decimal list \<Rightarrow> unit res" where
  "check_weights [] = Inr ()"
| "check_weights (w # ws) =
     and_then (in_unit_interval w) (\<lambda>ok.
       if \<not> ok then Inl (ValueError ''tier_weights must be between 0 and 1'') else check_weights ws)"

definition thresholds_ordered :: "verification_engine \<Rightarrow> bool res" where
  "thresholds_ordered e =
     and_then (dec_le (dec_of_int 0) (en_min_partial e)) (\<lambda>x. if \<not> x then Inr False else
     and_then (dec_le (en_min_partial e) (en_min_verified e)) (\<lambda>y. if \<not> y then Inr False else
       dec_le (en_min_verified e) (dec_of_int 1)))"

text \<open>The weights are the argument \<open>None\<close> or a dictionary.\<close>

definition engine_post_init ::
    "(source_authority_tier \<times> decimal) list option \<Rightarrow> verification_engine \<Rightarrow> verification_engine res" where
  "engine_post_init weights e =
     (if en_max_age_days e < 0 then Inl (ValueError ''max_evidence_age_days must be non-negative'')
      else if py_strip (en_score_version e) = [] \<or> 128 < length (en_score_version e)
      then Inl (ValueError ''score_version empty or exceeds bounds'')
      else and_then (thresholds_ordered e) (\<lambda>ok.
        if \<not> ok then Inl (ValueError ''confidence thresholds must be ordered within 0 and 1'')
        else if weights = Some [] then Inl (ValueError ''tier_weights must not be empty'')
        else
          let ws = (case weights of None \<Rightarrow> default_weights | Some ws \<Rightarrow> ws) in
          and_then (check_weights (map snd ws)) (\<lambda>_. Inr (e\<lparr>en_weights := ws\<rparr>))))"

definition default_engine :: verification_engine where
  "default_engine = \<lparr>en_max_age_days = 365, en_min_verified = Dec False 7 (-1), en_min_partial = Dec False 4 (-1),
     en_score_version = ''phase8-deterministic-v1'', en_weights = default_weights\<rparr>"

record readings =
  rd_now :: datetime
  rd_detected :: "nat \<Rightarrow> datetime"
  rd_request_id :: string
  rd_requested :: datetime

section \<open>Confidence\<close>

text \<open>\<open>max\<close> keeps the first of the greatest.\<close>

fun dec_max :: "decimal \<Rightarrow> decimal list \<Rightarrow> decimal res" where
  "dec_max m [] = Inr m"
| "dec_max m (d # ds) = and_then (dec_less m d) (\<lambda>b. dec_max (if b then d else m) ds)"

definition tier_weight :: "verification_engine \<Rightarrow> evidence \<Rightarrow> decimal" where
  "tier_weight e r = (case map_of (en_weights e) (ev_tier r) of None \<Rightarrow> dec_of_int 0 | Some w \<Rightarrow> w)"

definition max_tier_weight :: "verification_engine \<Rightarrow> evidence list \<Rightarrow> decimal res" where
  "max_tier_weight e rs = dec_max (tier_weight e (hd rs)) (map (tier_weight e) (tl rs))"

definition within_age :: "verification_engine \<Rightarrow> datetime \<Rightarrow> datetime \<Rightarrow> bool" where
  "within_age e now t \<longleftrightarrow> 0 \<le> days_between now t \<and> days_between now t \<le> en_max_age_days e"

definition recent :: "verification_engine \<Rightarrow> datetime \<Rightarrow> evidence \<Rightarrow> bool" where
  "recent e now r \<longleftrightarrow>
     (case ev_as_of r of None \<Rightarrow> False | Some t \<Rightarrow> within_age e now t) \<or> within_age e now (ev_retrieved_at r)"

definition dec_count :: "'a list \<Rightarrow> decimal" where
  "dec_count xs = dec_of_int (int (length xs))"

text \<open>The optional bonuses, each a factor and its component.\<close>

definition cross_source :: "evidence_bundle \<Rightarrow> bool" where
  "cross_source b \<longleftrightarrow>
     list_ex (\<lambda>r. ev_tier r = TIER_1_AUTHORITATIVE) (bn_supporting b) \<and>
     list_ex (\<lambda>r. ev_tier r = TIER_2_STRUCTURED_FINANCIAL) (bn_supporting b)"

definition complete_numbers :: "claim \<Rightarrow> evidence_bundle \<Rightarrow> bool" where
  "complete_numbers c b \<longleftrightarrow> cl_type c = Claim_NUMERIC \<and>
     list_all (\<lambda>r. ev_value r \<noteq> None \<and> (truthy (ev_unit r) \<or> truthy (cl_unit c))
       \<and> (truthy (ev_currency r) \<or> truthy (cl_currency c))) (bn_supporting b)"

definition period_match :: "claim \<Rightarrow> evidence_bundle \<Rightarrow> bool" where
  "period_match c b \<longleftrightarrow> truthy (cl_period c) \<and> list_ex (\<lambda>r. ev_period r = cl_period c) (bn_supporting b)"

definition unit_currency_match :: "claim \<Rightarrow> evidence_bundle \<Rightarrow> bool" where
  "unit_currency_match c b \<longleftrightarrow> (truthy (cl_unit c) \<or> truthy (cl_currency c)) \<and>
     list_all (\<lambda>r. (\<not> truthy (cl_unit c) \<or> ev_unit r = cl_unit c)
       \<and> (\<not> truthy (cl_currency c) \<or> ev_currency r = cl_currency c)) (bn_supporting b)"

definition bonuses :: "claim \<Rightarrow> evidence_bundle \<Rightarrow> (confidence_factor \<times> decimal) list" where
  "bonuses c b =
     (if cross_source b then [(Factor_CROSS_SOURCE_AGREEMENT, Dec False 1 (-1))] else []) @
     (if complete_numbers c b then [(Factor_EVIDENCE_COMPLETENESS, Dec False 1 (-1))] else []) @
     (if period_match c b then [(Factor_PERIOD_MATCH, Dec False 5 (-2))] else []) @
     (if unit_currency_match c b then [(Factor_UNIT_CURRENCY_MATCH, Dec False 5 (-2))] else [])"

text \<open>\<open>min(max(d, 0), 1)\<close>\<close>

definition clamp :: "decimal \<Rightarrow> decimal res" where
  "clamp d =
     and_then (dec_less d (dec_of_int 0)) (\<lambda>b. let d = (if b then dec_of_int 0 else d) in
     and_then (dec_less (dec_of_int 1) d) (\<lambda>b. Inr (if b then dec_of_int 1 else d)))"

definition compute_confidence ::
    "verification_engine \<Rightarrow> claim \<Rightarrow> evidence_bundle \<Rightarrow> datetime \<Rightarrow> (decimal \<times> confidence_factor list) res" where
  "compute_confidence e c b now =
     (let rs = bn_supporting b; fresh = filter (recent e now) rs; clean = (bn_contradicting b = []) in
      if rs = [] then Inr (dec_of_int 0, [])
      else
        and_then (max_tier_weight e rs) (\<lambda>w.
        and_then (dec_le (Dec False 7 (-1)) w) (\<lambda>authoritative.
        and_then (dec_div (dec_count fresh) (dec_count rs)) (\<lambda>ratio.
        and_then (dec_mult ratio (Dec False 3 (-1))) (\<lambda>recency.
        and_then (dec_div (dec_count rs) (dec_count (bn_refs b))) (\<lambda>consistency.
        and_then (dec_mult consistency (if clean then Dec False 3 (-1) else Dec False 1 (-1))) (\<lambda>agreement.
        and_then (dec_sum ([w, recency, agreement] @ map snd (bonuses c b)) (dec_of_int 0)) (\<lambda>total.
        and_then (clamp total) (\<lambda>score.
          Inr (score,
            (if authoritative then [Factor_SOURCE_AUTHORITY] else []) @
            (if fresh \<noteq> [] then [Factor_EVIDENCE_RECENCY] else []) @
            (if clean then [Factor_NO_CONTRADICTIONS] else []) @ map fst (bonuses c b)))))))))))"

section \<open>Status\<close>

definition is_stale :: "verification_engine \<Rightarrow> evidence_bundle \<Rightarrow> datetime \<Rightarrow> bool" where
  "is_stale e b now \<longleftrightarrow>
     \<not> list_ex (\<lambda>r. within_age e now (case ev_as_of r of None \<Rightarrow> ev_retrieved_at r | Some t \<Rightarrow> t)) (bn_supporting b)"

definition determine_status ::
    "verification_engine \<Rightarrow> evidence_bundle \<Rightarrow> decimal \<Rightarrow> datetime \<Rightarrow> verification_status res" where
  "determine_status e b conf now =
     (if bn_refs b = [] then Inr Verif_UNVERIFIABLE
      else if bn_supporting b \<noteq> [] \<and> bn_contradicting b \<noteq> [] then Inr Verif_CONFLICTING
      else if bn_supporting b \<noteq> []
      then
        and_then (dec_le (en_min_verified e) conf) (\<lambda>high.
          if high then Inr (if is_stale e b now then Verif_STALE else Verif_VERIFIED)
          else
            and_then (dec_le (en_min_partial e) conf) (\<lambda>partial.
              Inr (if is_stale e b now then Verif_STALE
                   else if partial then Verif_PARTIALLY_VERIFIED else Verif_UNVERIFIABLE)))
      else if bn_contradicting b \<noteq> [] then Inr Verif_CONTRADICTED
      else Inr Verif_UNVERIFIABLE)"

section \<open>Contradictions and critic requests\<close>

definition contradicts :: "evidence \<Rightarrow> evidence \<Rightarrow> bool" where
  "contradicts s r \<longleftrightarrow> ev_claim_type s = ev_claim_type r \<and>
     (case (ev_value s, ev_value r) of (Some a, Some b) \<Rightarrow> \<not> value_eq a b | _ \<Rightarrow> False)"

definition optional_text :: "claim_value option \<Rightarrow> string" where
  "optional_text v = (case v of None \<Rightarrow> ''None'' | Some x \<Rightarrow> value_text x)"

definition contradiction_of :: "claim \<Rightarrow> datetime \<Rightarrow> evidence \<Rightarrow> evidence \<Rightarrow> contradiction" where
  "contradiction_of c t s r =
     \<lparr>ct_claim_id = claim_id_text (cl_claim_id c), ct_supporting = [ev_id s], ct_contradicting = [ev_id r],
      ct_description = ''Evidence '' @ ev_id s @ '' ('' @ ev_source_id s @ '') claims '' @ optional_text (ev_value s) @
        '' but '' @ ev_id r @ '' ('' @ ev_source_id r @ '') claims '' @ optional_text (ev_value r) @
        '' for '' @ claim_type_value (cl_type c) @ '' claim'',
      ct_detected_at = t\<rparr>"

fun record_contradictions ::
    "readings \<Rightarrow> claim \<Rightarrow> nat \<Rightarrow> (evidence \<times> evidence) list \<Rightarrow> contradiction list res" where
  "record_contradictions rd c k [] = Inr []"
| "record_contradictions rd c k ((s, r) # ps) =
     and_then (contradiction_post_init (contradiction_of c (rd_detected rd k) s r)) (\<lambda>x.
     and_then (record_contradictions rd c (Suc k) ps) (\<lambda>xs. Inr (x # xs)))"

definition detect_contradictions :: "readings \<Rightarrow> claim \<Rightarrow> evidence_bundle \<Rightarrow> contradiction list res" where
  "detect_contradictions rd c b =
     record_contradictions rd c 0
       (filter (\<lambda>(s, r). contradicts s r) (List.product (bn_supporting b) (bn_contradicting b)))"

fun claim_type_capability :: "claim_type \<Rightarrow> string" where
  "claim_type_capability Claim_NUMERIC = ''financials''"
| "claim_type_capability _ = ''general''"

fun critic_reason :: "verification_engine \<Rightarrow> claim \<Rightarrow> verification_status \<Rightarrow> string" where
  "critic_reason e c Verif_PARTIALLY_VERIFIED = ''Evidence only partially supports '' @ claim_type_value (cl_type c) @
     '' claim; seek stronger or additional corroboration''"
| "critic_reason e c Verif_UNVERIFIABLE =
     ''Insufficient evidence to verify '' @ claim_type_value (cl_type c) @ '' claim''"
| "critic_reason e c Verif_CONFLICTING =
     ''Conflicting evidence found for '' @ claim_type_value (cl_type c) @ '' claim; need authoritative source''"
| "critic_reason e c Verif_STALE =
     ''Evidence is older than '' @ int_text (en_max_age_days e) @ '' days; need fresh data''"
| "critic_reason e c Verif_CONTRADICTED =
     ''Evidence contradicts '' @ claim_type_value (cl_type c) @ '' claim; verify with authoritative source''"
| "critic_reason e c Verif_VERIFIED = []"

fun critic_query :: "claim \<Rightarrow> verification_status \<Rightarrow> string" where
  "critic_query c Verif_PARTIALLY_VERIFIED = ''Find stronger corroborating evidence for: '' @ cl_text c"
| "critic_query c Verif_UNVERIFIABLE = ''Find evidence for: '' @ cl_text c"
| "critic_query c Verif_CONFLICTING = ''Resolve contradiction for: '' @ cl_text c"
| "critic_query c Verif_STALE = ''Find recent data for: '' @ cl_text c"
| "critic_query c Verif_CONTRADICTED = ''Verify with authoritative source: '' @ cl_text c"
| "critic_query c Verif_VERIFIED = []"

definition generate_critic_requests ::
    "readings \<Rightarrow> verification_engine \<Rightarrow> claim \<Rightarrow> verification_status \<Rightarrow> critic_request list res" where
  "generate_critic_requests rd e c st =
     (if st = Verif_VERIFIED then Inr []
      else
        and_then (critic_request_post_init
          \<lparr>cq_id = rd_request_id rd, cq_claim_id = claim_id_text (cl_claim_id c), cq_reason = critic_reason e c st,
           cq_capability = claim_type_capability (cl_type c), cq_query = critic_query c st, cq_priority = 1,
           cq_max_attempts = 2, cq_created_at = rd_requested rd\<rparr>) (\<lambda>q. Inr [q]))"

definition build_rationale ::
    "claim \<Rightarrow> evidence_bundle \<Rightarrow> decimal \<Rightarrow> confidence_factor list \<Rightarrow> verification_status \<Rightarrow> string" where
  "build_rationale c b conf factors st =
     py_join '' | ''
       ([''Evaluated claim '' @ [CHR 0x27] @ take 100 (cl_text c) @ ''...'' @ [CHR 0x27] @ '' (type: '' @
           claim_type_value (cl_type c) @ '')'',
         ''Status: '' @ verification_status_value st,
         ''Confidence: '' @ dec_fixed2 conf,
         ''Evidence: '' @ nat_text (length (bn_refs b)) @ '' total ('' @ nat_text (length (bn_supporting b)) @
           '' supporting, '' @ nat_text (length (bn_contradicting b)) @ '' contradicting)''] @
        (if factors = [] then [] else [''Factors: '' @ py_join '', '' (map factor_value factors)]) @
        (if bn_contradicting b = [] then []
         else [''Contradictions found: '' @ nat_text (length (bn_contradicting b))]))"

section \<open>The operations\<close>

text \<open>Evidence retrieved after the verification time counts as neutral.\<close>

definition from_future :: "datetime \<Rightarrow> evidence \<Rightarrow> bool" where
  "from_future now r \<longleftrightarrow> instant now < instant (ev_retrieved_at r)"

definition without_future :: "datetime \<Rightarrow> evidence_bundle \<Rightarrow> evidence_bundle res" where
  "without_future now b =
     (let ids = map ev_id (filter (from_future now) (bn_refs b)) in
      if ids = [] then Inr b
      else bundle_post_init
        \<lparr>bn_claim_id = bn_claim_id b, bn_refs = bn_refs b,
         bn_supporting = filter (\<lambda>r. ev_id r \<notin> set ids) (bn_supporting b),
         bn_contradicting = filter (\<lambda>r. ev_id r \<notin> set ids) (bn_contradicting b),
         bn_neutral = filter (\<lambda>r. ev_id r \<in> set ids \<or> r \<in> set (bn_neutral b)) (bn_refs b)\<rparr>)"

definition verify ::
    "readings \<Rightarrow> verification_engine \<Rightarrow> claim \<Rightarrow> evidence_bundle \<Rightarrow> datetime option \<Rightarrow> verification_result res" where
  "verify rd e c given when =
     (let now = (case when of None \<Rightarrow> rd_now rd | Some t \<Rightarrow> t) in
      if naive_stamp when then Inl (ValueError ''verification time must be timezone-aware'')
      else if bn_claim_id given \<noteq> claim_id_text (cl_claim_id c)
      then Inl (ValueError ''evidence bundle claim_id does not match claim'')
      else
        and_then (classify c (bn_refs given)) (\<lambda>b.
        and_then (without_future now b) (\<lambda>b.
        and_then (compute_confidence e c b now) (\<lambda>(conf, factors).
        and_then (determine_status e b conf now) (\<lambda>st.
        and_then (detect_contradictions rd c b) (\<lambda>cs.
        and_then (generate_critic_requests rd e c st) (\<lambda>qs.
          verification_post_init
            \<lparr>vr_claim_id = claim_id_text (cl_claim_id c), vr_status = st, vr_confidence = conf,
             vr_factors = factors, vr_bundle_id = bn_claim_id b, vr_contradictions = cs, vr_requests = qs,
             vr_rationale = build_rationale c b conf factors st, vr_score_version = en_score_version e,
             vr_verified_at = now\<rparr>)))))))"

definition assess_critic :: "verification_result \<Rightarrow> int \<Rightarrow> int \<Rightarrow> critic_assessment res" where
  "assess_critic r used limit =
     (let a = \<lparr>as_claim_id = vr_claim_id r, as_status = Critic_SUFFICIENT, as_attempts_used = used,
        as_max_attempts = limit, as_requests = []\<rparr> in
      if limit < 1 \<or> 10 < limit then Inl (ValueError ''critic max_attempts must be between 1 and 10'')
      else if used < 0 \<or> limit < used then Inl (ValueError ''critic attempts_used is outside the budget'')
      else if is_definitively_verified r then assessment_post_init a
      else if used = limit then assessment_post_init (a\<lparr>as_status := Critic_EXHAUSTED\<rparr>)
      else
        and_then (map_res (\<lambda>q. critic_request_post_init (q\<lparr>cq_max_attempts := limit\<rparr>)) (vr_requests r)) (\<lambda>qs.
          if qs = [] then Inl (ValueError ''non-terminal verification result has no critic request'')
          else assessment_post_init (a\<lparr>as_status := Critic_RESEARCH, as_requests := qs\<rparr>)))"

text \<open>\<open>VerifyClaimUseCase.execute\<close>: the only outcome it returns is OK; errors escape.\<close>

definition verify_claim :: "readings \<Rightarrow> verification_engine \<Rightarrow> claim \<Rightarrow> evidence list \<Rightarrow> verification_result res" where
  "verify_claim rd e c refs = and_then (classify c refs) (\<lambda>b. verify rd e c b None)"

end
