(* ===== verification/Decimal_Total.thy ===== *)
theory Decimal_Total
  imports Metric_Accuracy
begin

text \<open>
  When decimal arithmetic does not raise: for operands whose exact result is of moderate size. The bound is
  far below the context's, and every count, weight and ratio of the program is under it.
\<close>

definition huge :: rat where
  "huge = 10 powi 2000"

lemma huge_powi: "10 powi e \<le> huge \<Longrightarrow> e \<le> 2000"
proof (rule ccontr)
  assume le: "10 powi e \<le> huge" and "\<not> e \<le> 2000"
  then have "2000 < e" by simp
  then have "(10 :: rat) powi 2000 < 10 powi e" by (rule power_int_strict_increasing) simp
  then have "huge < 10 powi e" unfolding huge_def .
  with le show False by (simp only: not_le [symmetric]) simp
qed

lemma huge_large: "1000 \<le> huge"
proof -
  have "(10 :: rat) powi 3 \<le> huge" unfolding huge_def by (rule power_int_increasing) simp_all
  then show ?thesis by simp
qed

lemma dec_fix_total:
  assumes "0 \<le> n" "of_int n * 10 powi e \<le> huge"
  obtains d where "dec_fix s n e = Inr d"
proof (cases "n = 0")
  case True
  then show thesis using that by (simp add: dec_fix_def)
next
  case False
  then have "10 powi (num_digits n - 1 + e) \<le> huge" using digits_value [of n e] assms by linarith
  from huge_powi [OF this] have "max (num_digits n + e - prec) Etiny + 1 \<le> Etop"
    by (simp add: prec_def Etop_def Etiny_def)
  then have "\<not> isl (dec_fix s n e)"
    using False unfolding dec_fix_def Let_def raise_dec_def by (simp split: if_splits)
  then show thesis using that by (cases "dec_fix s n e") simp_all
qed

lemma dec_add_total:
  assumes "is_finite a" "is_finite b" "\<bar>dec_rat a + dec_rat b\<bar> \<le> huge"
  obtains d where "dec_add a b = Inr d"
proof -
  obtain s n e t k f where ab: "a = Dec s n e" "b = Dec t k f"
    using assms(1,2) by (cases a; cases b) auto
  define m where "m = min e f"
  define i where "i = aligned s n e m + aligned t k f m"
  define g where "g = (if i = 0 then s \<and> t else i < 0)"
  have "dec_rat a + dec_rat b = of_int i * 10 powi m"
    unfolding ab i_def using aligned_rat [of m e s n] aligned_rat [of m f t k] by (simp add: m_def algebra_simps)
  then have "of_int \<bar>i\<bar> * 10 powi m \<le> huge" using assms(3) by (simp add: abs_mult)
  then obtain d where "dec_fix g \<bar>i\<bar> m = Inr d" using dec_fix_total [of "\<bar>i\<bar>" m g] by auto
  then show thesis using that unfolding g_def i_def m_def by (simp add: ab Let_def)
qed

lemma dec_mult_total:
  assumes "is_finite a" "is_finite b" "wf_decimal a" "wf_decimal b" "\<bar>dec_rat a * dec_rat b\<bar> \<le> huge"
  obtains d where "dec_mult a b = Inr d"
proof -
  obtain s n e t k f where ab: "a = Dec s n e" "b = Dec t k f" "0 \<le> n" "0 \<le> k"
    using assms(1-4) by (cases a; cases b) auto
  have "\<bar>dec_rat a * dec_rat b\<bar> = of_int (n * k) * (10 powi (e + f))"
    using ab by (simp add: abs_mult signed_def power_int_add)
  then have "of_int (n * k) * 10 powi (e + f) \<le> huge" using assms(5) by metis
  moreover have "0 \<le> n * k" using ab by simp
  ultimately obtain d where "dec_fix (s \<noteq> t) (n * k) (e + f) = Inr d" using dec_fix_total [of "n * k"] by blast
  then show thesis using that by (simp add: ab)
qed

lemma dec_mult_error:
  assumes "dec_mult a b = Inr d" "is_finite a" "is_finite b" "wf_decimal a" "wf_decimal b"
  shows "is_finite d \<and> wf_decimal d \<and>
    \<bar>dec_rat d - dec_rat a * dec_rat b\<bar> \<le> \<bar>dec_rat a * dec_rat b\<bar> / (2 * 10 ^ 27) + tiny"
proof -
  obtain s n e t k f where ab: "a = Dec s n e" "b = Dec t k f" "0 \<le> n" "0 \<le> k"
    using assms(2-5) by (cases a; cases b) auto
  have fx: "dec_fix (s \<noteq> t) (n * k) (e + f) = Inr d" using assms(1) ab by simp
  have nk: "0 \<le> n * k" using ab by simp
  have "dec_rat (Dec (s \<noteq> t) (n * k) (e + f)) = dec_rat a * dec_rat b"
    using ab by (simp add: signed_def power_int_add)
  moreover have "\<bar>dec_rat a * dec_rat b\<bar> = of_int (n * k) * (10 powi (e + f))"
    using ab by (simp add: abs_mult signed_def power_int_add)
  ultimately show ?thesis using dec_fix_error [OF fx nk] dec_fix_ulp [OF fx nk] by (simp add: tiny_def)
qed

lemma dec_div_total:
  assumes "is_finite a" "is_finite b" "wf_decimal a" "wf_decimal b" "dec_rat b \<noteq> 0" "2 * \<bar>dec_rat a / dec_rat b\<bar> \<le> huge"
  obtains d where "dec_div a b = Inr d"
proof -
  obtain s n e t k f where ab: "a = Dec s n e" "b = Dec t k f" "0 \<le> n" "0 < k"
    using assms(1-5) by (cases a; cases b) (auto simp: signed_def split: if_splits)
  show thesis
  proof (cases "n = 0")
    case True
    then show thesis using that ab by (simp add: dec_fix_def)
  next
    case False
    define Q where "Q = (of_int n * 10 powi e / (of_int k * 10 powi f) :: rat)"
    obtain n' e' where q: "quotient (s \<noteq> t) n e k f = dec_fix (s \<noteq> t) n' e'" "0 \<le> n'"
      and near: "\<bar>of_int n' * 10 powi e' - Q\<bar> \<le> Q / 10 ^ 28"
      using quotient_form [of n k "s \<noteq> t" e f] False ab unfolding Q_def by auto
    have "\<bar>dec_rat a / dec_rat b\<bar> = Q" using ab by (simp add: Q_def signed_def abs_mult)
    then have "2 * Q \<le> huge" "0 \<le> Q" using assms(6) by linarith+
    moreover have "Q / 10 ^ 28 \<le> Q" using calculation(2) by (simp add: field_simps)
    ultimately have "of_int n' * 10 powi e' \<le> huge" using near by linarith
    then obtain d where "dec_fix (s \<noteq> t) n' e' = Inr d" using dec_fix_total q(2) by blast
    then show thesis using that ab False q(1) by simp
  qed
qed

end
