(* ===== verification/Confidence.thy ===== *)
theory Confidence
  imports Verification Decimal_Total
begin

text \<open>
  The confidence of a claim is always computed: its arithmetic never raises for an engine its constructor
  accepted, and the result lies between 0 and 1.
\<close>

section \<open>Comparisons\<close>

lemma dec_le_rat: "is_finite a \<Longrightarrow> is_finite b \<Longrightarrow> dec_le a b = Inr (dec_rat a \<le> dec_rat b)"
  by (simp add: dec_le_def dec_less_rat not_less)

lemma dec_of_int_rat [simp]: "dec_rat (dec_of_int i) = of_int i" "is_finite (dec_of_int i)" "wf_decimal (dec_of_int i)"
  by (simp_all add: dec_of_int_def signed_def)

lemma in_unit_interval_True: "in_unit_interval d = Inr True \<Longrightarrow> is_finite d \<and> 0 \<le> dec_rat d \<and> dec_rat d \<le> 1"
proof -
  assume d: "in_unit_interval d = Inr True"
  then have "is_finite d" by (cases d) (auto simp: in_unit_interval_def dec_le_def dec_of_int_def split: if_splits)
  with d show ?thesis by (auto simp: in_unit_interval_def dec_le_rat split: if_splits)
qed

lemma in_unit_intervalI: "is_finite d \<Longrightarrow> 0 \<le> dec_rat d \<Longrightarrow> dec_rat d \<le> 1 \<Longrightarrow> in_unit_interval d = Inr True"
  by (simp add: in_unit_interval_def dec_le_rat)

definition valid_engine :: "verification_engine \<Rightarrow> bool" where
  "valid_engine e \<longleftrightarrow> list_all (\<lambda>w. in_unit_interval w = Inr True) (map snd (en_weights e))
     \<and> is_finite (en_min_partial e) \<and> is_finite (en_min_verified e)"

lemma check_weights_iff: "check_weights ws = Inr () \<longleftrightarrow> list_all (\<lambda>w. in_unit_interval w = Inr True) ws"
  by (induction ws) (auto simp: and_then_Inr_iff)

lemma dec_le_finite: "dec_le (dec_of_int 0) a = Inr True \<Longrightarrow> dec_le a b = Inr True \<Longrightarrow> dec_le b (dec_of_int 1) = Inr True
    \<Longrightarrow> is_finite a \<and> is_finite b"
  by (cases a; cases b) (auto simp: dec_le_def dec_of_int_def)

lemma engine_post_init_valid: "engine_post_init ws e0 = Inr e \<Longrightarrow> valid_engine e"
  using dec_le_finite [of "en_min_partial e0" "en_min_verified e0"]
  by (auto simp: engine_post_init_def valid_engine_def thresholds_ordered_def check_weights_iff Let_def split: if_splits)

section \<open>The components\<close>

definition small :: "decimal \<Rightarrow> bool" where
  "small d \<longleftrightarrow> is_finite d \<and> wf_decimal d \<and> \<bar>dec_rat d\<bar> \<le> 3"

lemma small_literals: "small (Dec False 1 (-1))" "small (Dec False 5 (-2))" "small (Dec False 3 (-1))"
  by (simp_all add: small_def signed_def power_int_minus)

lemma dec_max_total:
  "list_all is_finite (m # ds) \<Longrightarrow> \<exists>d. dec_max m ds = Inr d \<and> d \<in> set (m # ds)"
  by (induction ds arbitrary: m) (auto simp: dec_less_rat)

lemma rounded_small: "\<bar>d - x\<bar> \<le> \<bar>x\<bar> / c + t \<Longrightarrow> \<bar>x\<bar> \<le> b \<Longrightarrow> 1 \<le> c \<Longrightarrow> t \<le> 1 \<Longrightarrow> \<bar>d\<bar> \<le> 2 * b + (1 :: rat)"
proof -
  assume *: "\<bar>d - x\<bar> \<le> \<bar>x\<bar> / c + t" "\<bar>x\<bar> \<le> b" "1 \<le> c" "t \<le> 1"
  have "\<bar>x\<bar> / c \<le> \<bar>x\<bar> / 1" using *(3) by (intro divide_left_mono) simp_all
  then show ?thesis using * by linarith
qed

lemma tiny_one: "tiny \<le> 1"
  using tiny_bound(2) by linarith

lemma ratio_total:
  assumes "length xs \<le> length ys" "ys \<noteq> []"
  obtains d where "dec_div (dec_count xs) (dec_count ys) = Inr d" "small d"
proof -
  let ?q = "dec_rat (dec_count xs) / dec_rat (dec_count ys)"
  have q: "\<bar>?q\<bar> \<le> 1" using assms by (simp add: dec_count_def divide_le_eq)
  obtain d where d: "dec_div (dec_count xs) (dec_count ys) = Inr d"
  proof (rule dec_div_total)
    show "2 * \<bar>?q\<bar> \<le> huge" using q huge_large by linarith
  qed (use assms in \<open>simp_all add: dec_count_def\<close>)
  have "is_finite d \<and> wf_decimal d \<and> \<bar>dec_rat d - ?q\<bar> \<le> \<bar>?q\<bar> / 10 ^ 27 + tiny"
    by (rule dec_div_error [OF d]) (use assms in \<open>simp_all add: dec_count_def\<close>)
  moreover have "\<bar>dec_rat d\<bar> \<le> 2 * 1 + 1"
    by (rule rounded_small [OF _ q _ tiny_one, of _ "10 ^ 27"]) (use calculation in simp_all)
  ultimately show thesis using that d by (simp add: small_def)
qed

lemma scaled_total:
  assumes "small a" "is_finite b" "wf_decimal b" "\<bar>dec_rat b\<bar> \<le> 3 / 10"
  obtains d where "dec_mult a b = Inr d" "small d"
proof -
  have p: "\<bar>dec_rat a * dec_rat b\<bar> \<le> 9 / 10"
    unfolding abs_mult using mult_mono [of "\<bar>dec_rat a\<bar>" 3 "\<bar>dec_rat b\<bar>" "3 / 10"] assms by (simp add: small_def)
  obtain d where d: "dec_mult a b = Inr d"
    by (rule dec_mult_total [of a b]) (use assms p huge_large in \<open>auto simp: small_def\<close>)
  have e: "is_finite d \<and> wf_decimal d \<and> \<bar>dec_rat d - dec_rat a * dec_rat b\<bar> \<le> \<bar>dec_rat a * dec_rat b\<bar> / (2 * 10 ^ 27) + tiny"
    by (rule dec_mult_error [OF d]) (use assms in \<open>simp_all add: small_def\<close>)
  then have "\<bar>dec_rat d\<bar> \<le> 2 * (9 / 10) + 1"
    by (intro rounded_small [OF _ p _ tiny_one, of _ "2 * 10 ^ 27"]) simp_all
  then show thesis using that d e by (simp add: small_def)
qed

lemma dec_sum_total:
  assumes "list_all small ds" "is_finite acc" "\<bar>dec_rat acc\<bar> \<le> of_nat k" "k + 10 * length ds \<le> 100"
  shows "\<exists>d. dec_sum ds acc = Inr d \<and> is_finite d"
  using assms
proof (induction ds arbitrary: acc k)
  case (Cons x ds)
  have x: "is_finite x" "\<bar>dec_rat x\<bar> \<le> 3" "list_all small ds" "k + 10 \<le> 100"
    using Cons.prems by (simp_all, simp_all add: small_def)
  have s: "\<bar>dec_rat acc + dec_rat x\<bar> \<le> of_nat k + 3" using x(2) Cons.prems(3) by linarith
  moreover have "(of_nat k :: rat) \<le> 90" using x(4) by simp
  ultimately have h: "\<bar>dec_rat acc + dec_rat x\<bar> \<le> huge" using huge_large by linarith
  obtain d where d: "dec_add acc x = Inr d" by (rule dec_add_total [OF Cons.prems(2) x(1) h])
  note e = dec_add_error [OF d Cons.prems(2) x(1)]
  have "\<bar>dec_rat acc + dec_rat x\<bar> / (2 * 10 ^ 27) \<le> 93 / (2 * 10 ^ 27)"
    using s \<open>(of_nat k :: rat) \<le> 90\<close> by (intro divide_right_mono) (linarith, simp)
  then have "\<bar>dec_rat d - (dec_rat acc + dec_rat x)\<bar> \<le> 93 / (2 * 10 ^ 27) + 1"
    using e tiny_one by linarith
  also have "\<dots> \<le> (2 :: rat)" by simp
  finally have "\<bar>dec_rat d - (dec_rat acc + dec_rat x)\<bar> \<le> 2" .
  then have "\<bar>dec_rat d\<bar> \<le> of_nat (k + 10)" using s by simp
  then show ?case using Cons.IH [OF x(3), of d "k + 10"] d e Cons.prems(4) by simp
qed simp

lemma clamp_total: "is_finite d \<Longrightarrow> \<exists>s. clamp d = Inr s \<and> is_finite s \<and> 0 \<le> dec_rat s \<and> dec_rat s \<le> 1"
  by (auto simp: clamp_def dec_less_rat Let_def)

lemma bonuses_small: "list_all small (map snd (bonuses c b))" "length (bonuses c b) \<le> 4"
  by (simp_all add: bonuses_def small_literals)

lemma tier_weight_unit:
  assumes "valid_engine e" "list_all wf_decimal (map snd (en_weights e))"
  shows "is_finite (tier_weight e r) \<and> small (tier_weight e r)"
proof (cases "map_of (en_weights e) (ev_tier r)")
  case None
  then show ?thesis by (simp add: tier_weight_def small_def)
next
  case (Some w)
  then have "w \<in> snd ` set (en_weights e)" by (auto dest!: map_of_SomeD intro: rev_image_eqI)
  then have "in_unit_interval w = Inr True" "wf_decimal w"
    using assms by (auto simp: valid_engine_def list_all_iff)
  then show ?thesis using in_unit_interval_True [of w] Some by (auto simp: tier_weight_def small_def)
qed

lemma max_weight_total:
  assumes "valid_engine e" "list_all wf_decimal (map snd (en_weights e))" "rs \<noteq> []"
  obtains w where "max_tier_weight e rs = Inr w" "small w"
proof -
  have "list_all is_finite (tier_weight e (hd rs) # map (tier_weight e) (tl rs))"
    using tier_weight_unit [OF assms(1,2)] by (simp add: list_all_iff)
  from dec_max_total [OF this] obtain w where "max_tier_weight e rs = Inr w"
    "w \<in> set (tier_weight e (hd rs) # map (tier_weight e) (tl rs))" unfolding max_tier_weight_def by blast
  then show thesis using that tier_weight_unit [OF assms(1,2)] by auto
qed

lemma confidence_total:
  assumes "valid_engine e" "list_all wf_decimal (map snd (en_weights e))"
    "length (bn_supporting b) \<le> length (bn_refs b)"
  shows "\<exists>s fs. compute_confidence e c b now = Inr (s, fs) \<and> is_finite s \<and> 0 \<le> dec_rat s \<and> dec_rat s \<le> 1"
proof (cases "bn_supporting b = []")
  case True
  then show ?thesis by (simp add: compute_confidence_def)
next
  case False
  let ?rs = "bn_supporting b"
  let ?fresh = "filter (recent e now) ?rs"
  obtain w where w: "max_tier_weight e ?rs = Inr w" "small w" by (rule max_weight_total [OF assms(1,2) False])
  obtain a where a: "dec_le (Dec False 7 (-1)) w = Inr a" using w(2) by (auto simp: dec_le_rat small_def)
  obtain r where r: "dec_div (dec_count ?fresh) (dec_count ?rs) = Inr r" "small r"
    by (rule ratio_total [of ?fresh ?rs]) (use False in simp_all)
  obtain r' where r': "dec_mult r (Dec False 3 (-1)) = Inr r'" "small r'"
    by (rule scaled_total [OF r(2), of "Dec False 3 (-1)"]) (simp_all add: signed_def power_int_minus)
  have refs: "bn_refs b \<noteq> []" using False assms(3) by auto
  obtain k where k: "dec_div (dec_count ?rs) (dec_count (bn_refs b)) = Inr k" "small k"
    by (rule ratio_total [OF assms(3) refs])
  obtain k' where k': "dec_mult k (if bn_contradicting b = [] then Dec False 3 (-1) else Dec False 1 (-1)) = Inr k'" "small k'"
    by (rule scaled_total [OF k(2), of "if bn_contradicting b = [] then Dec False 3 (-1) else Dec False 1 (-1)"])
      (simp_all add: signed_def power_int_minus)
  have "list_all small ([w, r', k'] @ map snd (bonuses c b))" using w r' k' bonuses_small by simp
  then obtain t where t: "dec_sum ([w, r', k'] @ map snd (bonuses c b)) (dec_of_int 0) = Inr t" "is_finite t"
    using dec_sum_total [of _ "dec_of_int 0" 0] bonuses_small(2) [of c b] by fastforce
  obtain s where "clamp t = Inr s \<and> is_finite s \<and> 0 \<le> dec_rat s \<and> dec_rat s \<le> 1" using clamp_total [OF t(2)] by blast
  then show ?thesis using False w a r r' k k' t by (simp add: compute_confidence_def Let_def)
qed

end
