(* ===== verification/Verification_Properties.thy ===== *)
theory Verification_Properties
  imports Confidence Sample_Data
begin

text \<open>
  The properties of claim verification: what a VERIFIED claim rests on, the confidence, and the bounded
  critic cycle.
\<close>

section \<open>Runs of the engine\<close>

lemma classify_Inr:
  assumes "classify c refs = Inr b"
  shows "bn_refs b = refs" "bn_supporting b = filter (\<lambda>r. outcome_for c r = Match_SUPPORTING) refs"
    "bn_contradicting b = filter (\<lambda>r. outcome_for c r = Match_CONTRADICTING) refs"
    "distinct (map ev_id refs)" "py_strip (claim_id_text (cl_claim_id c)) \<noteq> []"
  using assms by (auto simp: classify_def bundle_post_init_def Let_def split: if_splits)

text \<open>With distinct ids, the evidence left out by id is exactly the evidence from the future.\<close>

lemma future_ids:
  assumes "distinct (map ev_id refs)" "r \<in> set refs"
  shows "ev_id r \<in> set (map ev_id (filter (from_future now) refs)) \<longleftrightarrow> from_future now r"
  using assms distinct_map_inj [OF assms(1)] by auto

lemma without_future_Inr:
  assumes "classify c refs = Inr b0" "without_future now b0 = Inr b"
  shows "bn_refs b = refs"
    "bn_supporting b = filter (\<lambda>r. outcome_for c r = Match_SUPPORTING \<and> \<not> from_future now r) refs"
    "bn_contradicting b = filter (\<lambda>r. outcome_for c r = Match_CONTRADICTING \<and> \<not> from_future now r) refs"
proof -
  note b0 = classify_Inr [OF assms(1)]
  note ids = future_ids [OF b0(4), of _ now]
  have kept: "filter (\<lambda>r. ev_id r \<notin> set (map ev_id (filter (from_future now) refs))) (filter P refs) =
      filter (\<lambda>r. P r \<and> \<not> from_future now r) refs" for P
    unfolding filter_filter using ids by (intro filter_cong) auto
  show "bn_refs b = refs"
    using assms(2) b0 by (auto simp: without_future_def bundle_post_init_def Let_def split: if_splits)
  have "bn_supporting b = filter (\<lambda>r. outcome_for c r = Match_SUPPORTING \<and> \<not> from_future now r) refs \<and>
      bn_contradicting b = filter (\<lambda>r. outcome_for c r = Match_CONTRADICTING \<and> \<not> from_future now r) refs"
  proof (cases "filter (from_future now) refs = []")
    case True
    then have now: "\<not> from_future now r" if "r \<in> set refs" for r using that by (metis filter_empty_conv)
    have "b = b0" using assms(2) b0(1) True by (simp add: without_future_def)
    then show ?thesis using b0(2,3) now by (auto intro!: filter_cong)
  next
    case False
    then have "bn_supporting b = filter (\<lambda>r. ev_id r \<notin> set (map ev_id (filter (from_future now) refs))) (bn_supporting b0)"
      "bn_contradicting b = filter (\<lambda>r. ev_id r \<notin> set (map ev_id (filter (from_future now) refs))) (bn_contradicting b0)"
      using assms(2) b0(1) by (auto simp: without_future_def bundle_post_init_def Let_def split: if_splits)
    then show ?thesis unfolding b0(2,3) kept by blast
  qed
  then show "bn_supporting b = filter (\<lambda>r. outcome_for c r = Match_SUPPORTING \<and> \<not> from_future now r) refs"
    "bn_contradicting b = filter (\<lambda>r. outcome_for c r = Match_CONTRADICTING \<and> \<not> from_future now r) refs" by blast+
qed

lemma verification_post_init_Inr:
  "verification_post_init x = Inr r \<Longrightarrow> vr_status r = vr_status x \<and> vr_confidence r = vr_confidence x \<and>
     vr_requests r = vr_requests x \<and> vr_verified_at r = vr_verified_at x \<and> vr_claim_id r = vr_claim_id x \<and> tz_aware (vr_verified_at r)"
  by (auto simp: verification_post_init_def Let_def split: if_splits)

lemma verify_InrE:
  assumes "verify rd e c given when = Inr r"
  obtains b0 b fs where "classify c (bn_refs given) = Inr b0" "without_future (vr_verified_at r) b0 = Inr b"
    "compute_confidence e c b (vr_verified_at r) = Inr (vr_confidence r, fs)"
    "determine_status e b (vr_confidence r) (vr_verified_at r) = Inr (vr_status r)"
    "generate_critic_requests rd e c (vr_status r) = Inr (vr_requests r)"
    "vr_claim_id r = claim_id_text (cl_claim_id c)"
  using assms unfolding verify_def Let_def
  by (auto split: if_splits prod.splits dest!: verification_post_init_Inr)

lemma determined_verified:
  "determine_status e b conf now = Inr Verif_VERIFIED \<Longrightarrow>
     bn_supporting b \<noteq> [] \<and> bn_contradicting b = [] \<and> \<not> is_stale e b now \<and> dec_le (en_min_verified e) conf = Inr True"
  by (auto simp: determine_status_def split: if_splits)

text \<open>The time the freshness of a reference is judged by.\<close>

definition reference_time :: "evidence \<Rightarrow> datetime" where
  "reference_time r = (case ev_as_of r of None \<Rightarrow> ev_retrieved_at r | Some t \<Rightarrow> t)"

text \<open>C31: a claim is VERIFIED only if some evidence of the bundle supports it that was retrieved before the
  verification and is within the age limit, no evidence retrieved by then contradicts it, and the confidence
  reaches the threshold.\<close>

theorem verified_claims_are_supported:
  assumes "verify rd e c given when = Inr r" "vr_status r = Verif_VERIFIED"
  shows "(\<exists>x \<in> set (bn_refs given). outcome_for c x = Match_SUPPORTING \<and> \<not> from_future (vr_verified_at r) x
      \<and> within_age e (vr_verified_at r) (reference_time x))
    \<and> (\<forall>x \<in> set (bn_refs given). outcome_for c x = Match_CONTRADICTING \<longrightarrow> from_future (vr_verified_at r) x)
    \<and> dec_le (en_min_verified e) (vr_confidence r) = Inr True"
proof -
  obtain b0 b where b: "classify c (bn_refs given) = Inr b0" "without_future (vr_verified_at r) b0 = Inr b"
    and d: "determine_status e b (vr_confidence r) (vr_verified_at r) = Inr Verif_VERIFIED"
    using assms by (auto elim!: verify_InrE)
  note parts = without_future_Inr [OF b]
  have v: "bn_contradicting b = []" "\<not> is_stale e b (vr_verified_at r)" "dec_le (en_min_verified e) (vr_confidence r) = Inr True"
    using determined_verified [OF d] by blast+
  have "\<forall>x \<in> set (bn_refs given). outcome_for c x = Match_CONTRADICTING \<longrightarrow> from_future (vr_verified_at r) x"
    using v(1) unfolding parts(3) filter_empty_conv by blast
  moreover have "\<exists>x \<in> set (bn_supporting b). within_age e (vr_verified_at r) (reference_time x)"
    using v(2) by (auto simp: is_stale_def list_ex_iff reference_time_def)
  ultimately show ?thesis using v(3) unfolding parts(2) by auto
qed

text \<open>C32: the confidence of a classified bundle is always computed and lies between 0 and 1, for every engine
  its constructor accepts.\<close>

theorem confidence_computed_and_bounded:
  assumes "engine_post_init ws e0 = Inr e" "list_all wf_decimal (map snd (en_weights e))"
    "classify c refs = Inr b0" "without_future now b0 = Inr b"
  shows "\<exists>s fs. compute_confidence e c b now = Inr (s, fs) \<and> 0 \<le> dec_rat s \<and> dec_rat s \<le> 1"
  using confidence_total [OF engine_post_init_valid [OF assms(1)] assms(2), of b c now]
    without_future_Inr [OF assms(3,4)] by auto

section \<open>The critic\<close>

lemma critic_request_again:
  "critic_request_post_init q = Inr q' \<Longrightarrow> 1 \<le> k \<Longrightarrow> k \<le> 10 \<Longrightarrow>
     critic_request_post_init (q'\<lparr>cq_max_attempts := k\<rparr>) = Inr (q'\<lparr>cq_max_attempts := k\<rparr>)"
  by (auto simp: critic_request_post_init_def Let_def split: if_splits)

text \<open>C33: after a verification the critic always decides: it stops at once for a VERIFIED claim, asks for research
  while attempts are left, with every request bounded by the budget, and stops when they are used up. Its budget
  never becomes negative, so the cycle ends after at most as many rounds as there are attempts.\<close>

theorem critic_cycle_is_bounded:
  assumes "verify rd e c given when = Inr r" "1 \<le> k" "k \<le> 10" "0 \<le> used" "used \<le> k"
  shows "\<exists>a. assess_critic r used k = Inr a \<and> should_research a = (vr_status r \<noteq> Verif_VERIFIED \<and> used < k)
    \<and> remaining_attempts a = k - used \<and> list_all (\<lambda>q. cq_max_attempts q = k) (as_requests a)
    \<and> (as_requests a \<noteq> []) = should_research a"
proof -
  obtain b0 where cl: "classify c (bn_refs given) = Inr b0" and id: "vr_claim_id r = claim_id_text (cl_claim_id c)"
    and q: "generate_critic_requests rd e c (vr_status r) = Inr (vr_requests r)"
    using assms(1) by (auto elim!: verify_InrE)
  have ne: "py_strip (vr_claim_id r) \<noteq> []" using classify_Inr(5) [OF cl] id by simp
  show ?thesis
  proof (cases "vr_status r = Verif_VERIFIED \<or> used = k")
    case True
    then show ?thesis
      using assms(2-5) ne
      by (auto simp: assess_critic_def assessment_post_init_def is_definitively_verified_def should_research_def
          remaining_attempts_def Let_def)
  next
    case False
    then obtain q0 q1 where "critic_request_post_init q0 = Inr q1" "vr_requests r = [q1]"
      using q by (auto simp: generate_critic_requests_def)
    then show ?thesis
      using False assms(2-5) ne critic_request_again [of q0 q1 k]
      by (auto simp: assess_critic_def assessment_post_init_def is_definitively_verified_def should_research_def
          remaining_attempts_def Let_def)
  qed
qed

section \<open>Witnesses\<close>

definition sample_claim :: claim where
  "sample_claim = \<lparr>cl_claim_id = ClaimId (uuid_of (CHR ''7'')), cl_type = Claim_NUMERIC, cl_text = ''Revenue was 100'',
     cl_company_id = uuid_of (CHR ''c''), cl_run_id = uuid_of (CHR ''a''), cl_task_id = None,
     cl_expected = Some (Val_Text ''100.0''), cl_unit = None, cl_currency = None, cl_period = None, cl_as_of = None,
     cl_created_at = Some sample_time, cl_metadata = []\<rparr>"

definition sample_item :: "char \<Rightarrow> decimal \<Rightarrow> datetime \<Rightarrow> evidence" where
  "sample_item i v t = \<lparr>ev_id = [i], ev_source_id = ''SEC'', ev_tier = TIER_1_AUTHORITATIVE,
     ev_data_origin = Origin_FIXTURE, ev_claim_type = ''numeric'', ev_value = Some (Val_Decimal v), ev_unit = None,
     ev_currency = None, ev_period = None, ev_as_of = None, ev_retrieved_at = t,
     ev_snippet = ''revenue 100 reported''\<rparr>"

definition later :: datetime where
  "later = sample_time\<lparr>dt_month := 2\<rparr>"

definition sample_readings :: readings where
  "sample_readings = \<lparr>rd_now = later, rd_detected = (\<lambda>_. later), rd_request_id = uuid_of (CHR ''8''), rd_requested = later\<rparr>"

text \<open>One supporting reference and a contradicting one from after the verification.\<close>

definition sample_bundle :: evidence_bundle where
  "sample_bundle = \<lparr>bn_claim_id = uuid_of (CHR ''7''),
     bn_refs = [sample_item (CHR ''1'') (Dec False 100 0) sample_time,
       sample_item (CHR ''2'') (Dec False 99 0) (later\<lparr>dt_year := 2027\<rparr>)],
     bn_supporting = [], bn_contradicting = [], bn_neutral = []\<rparr>"

lemma sample_verified:
  obtains r where "verify sample_readings default_engine sample_claim sample_bundle None = Inr r" "vr_status r = Verif_VERIFIED"
proof -
  have "case verify sample_readings default_engine sample_claim sample_bundle None of Inl e \<Rightarrow> False
    | Inr r \<Rightarrow> vr_status r = Verif_VERIFIED" by code_simp
  then show thesis using that by (cases "verify sample_readings default_engine sample_claim sample_bundle None") auto
qed

theorem verified_claims_are_supported_witness:
  "\<exists>r. verify sample_readings default_engine sample_claim sample_bundle None = Inr r \<and> vr_status r = Verif_VERIFIED \<and>
     dec_le (en_min_verified default_engine) (vr_confidence r) = Inr True"
proof -
  obtain r where r: "verify sample_readings default_engine sample_claim sample_bundle None = Inr r" "vr_status r = Verif_VERIFIED"
    by (rule sample_verified)
  show ?thesis using r verified_claims_are_supported [OF r] by blast
qed

theorem confidence_computed_and_bounded_witness:
  "\<exists>b0 b s fs. classify sample_claim (bn_refs sample_bundle) = Inr b0 \<and> without_future later b0 = Inr b \<and>
     compute_confidence default_engine sample_claim b later = Inr (s, fs) \<and> 0 \<le> dec_rat s \<and> dec_rat s \<le> 1"
proof -
  have e: "engine_post_init None default_engine = Inr default_engine" by code_simp
  have w: "list_all wf_decimal (map snd (en_weights default_engine))" by code_simp
  have "case classify sample_claim (bn_refs sample_bundle) of Inl e \<Rightarrow> False
    | Inr b0 \<Rightarrow> \<not> isl (without_future later b0)" by code_simp
  then obtain b0 where b0: "classify sample_claim (bn_refs sample_bundle) = Inr b0" "\<not> isl (without_future later b0)"
    by (cases "classify sample_claim (bn_refs sample_bundle)") auto
  from b0(2) obtain b where b: "without_future later b0 = Inr b" by (cases "without_future later b0") auto
  show ?thesis using b0(1) b confidence_computed_and_bounded [OF e w b0(1) b] by blast
qed

theorem critic_cycle_is_bounded_witness:
  "\<exists>r a. verify sample_readings default_engine sample_claim (sample_bundle\<lparr>bn_refs := []\<rparr>) None = Inr r \<and>
     assess_critic r 1 2 = Inr a \<and> should_research a \<and> remaining_attempts a = 1"
proof -
  have "case verify sample_readings default_engine sample_claim (sample_bundle\<lparr>bn_refs := []\<rparr>) None of Inl e \<Rightarrow> False
    | Inr r \<Rightarrow> vr_status r = Verif_UNVERIFIABLE" by code_simp
  then obtain r where r: "verify sample_readings default_engine sample_claim (sample_bundle\<lparr>bn_refs := []\<rparr>) None = Inr r"
    "vr_status r = Verif_UNVERIFIABLE"
    by (cases "verify sample_readings default_engine sample_claim (sample_bundle\<lparr>bn_refs := []\<rparr>) None") auto
  show ?thesis using r critic_cycle_is_bounded [OF r(1), of 2 1] by auto
qed

end
