(* ===== verification/Company_Names.thy ===== *)
theory Company_Names
  imports Identity
begin

text \<open>
  Company names (\<open>domain/identity/normalization.py\<close>) and the constructors that normalise them
  (\<open>aliases.py\<close>, \<open>security.py\<close>, \<open>company.py\<close>, \<open>providers.py\<close>). As everywhere, text is Latin-1: the
  eight characters whose NFKC form leaves it (the spacing accents, the micro sign and the fractions) are
  kept as they are.
\<close>

section \<open>Normalisation\<close>

definition nfkc_char :: "char \<Rightarrow> char" where
  "nfkc_char c = (let n = ord_char c in
     if n = 160 then CHR '' '' else if n = 170 then CHR ''a'' else if n = 186 then CHR ''o''
     else if n = 178 then CHR ''2'' else if n = 179 then CHR ''3'' else if n = 185 then CHR ''1'' else c)"

definition casefold :: "string \<Rightarrow> string" where
  "casefold s = concat (map (\<lambda>c. if ord_char c = 223 then ''ss'' else [py_lower_char c]) s)"

text \<open>\<open>str.isalnum\<close> of one character\<close>

definition alnum :: "char \<Rightarrow> bool" where
  "alnum c = (let n = ord_char c in
     ascii_digit c \<or> upper_letter c \<or> (97 \<le> n \<and> n \<le> 122) \<or> n \<in> {170, 178, 179, 181, 185, 186, 188, 189, 190}
     \<or> (192 \<le> n \<and> n \<noteq> 215 \<and> n \<noteq> 247))"

definition MAX_COMPANY_NAME_LENGTH :: nat where "MAX_COMPANY_NAME_LENGTH = 256"


definition normalize_display_name :: "string \<Rightarrow> string res" where
  "normalize_display_name raw =
     (if MAX_COMPANY_NAME_LENGTH < length raw then Inl (ValueError ''company name exceeds length bounds'')
      else if list_ex (\<lambda>c. ord_char c < 32 \<and> ord_char c \<noteq> 9) raw
      then Inl (ValueError ''company name contains control characters'')
      else
        let text = norm_text (map nfkc_char raw) in
        if text = [] then Inl (ValueError ''company name is empty'') else Inr text)"

text \<open>\<open>_PUNCT_RE\<close> turns every other character into a blank.\<close>

definition kept_char :: "char \<Rightarrow> bool" where
  "kept_char c \<longleftrightarrow> alnum c \<or> c = CHR ''_'' \<or> is_space c \<or> c \<in> set ''&/+.-''"

definition blank_punctuation :: "string \<Rightarrow> string" where
  "blank_punctuation s = map (\<lambda>c. if kept_char c then c else CHR '' '') s"

text \<open>
  \<open>_CORPORATE_SUFFIX_RE\<close> at the end of a text whose words are separated by one blank: two words, or one,
  after at least one other word; the leftmost match is the longer one.
\<close>

definition suffix_words :: "string list" where
  "suffix_words = [''limited'', ''ltd'', ''ltd.'', ''incorporated'', ''inc'', ''inc.'', ''corporation'', ''corp'', ''corp.'',
     ''company'', ''co'', ''co.'', ''plc'', ''llc'', ''pvtltd'', ''pvtltd.'', ''pvt.ltd'', ''pvt.ltd.'', ''.com'']"

definition suffix_pairs :: "(string \<times> string) list" where
  "suffix_pairs = [(''private'', ''limited''), (''pvt'', ''ltd''), (''pvt'', ''ltd.''), (''pvt.'', ''ltd''), (''pvt.'', ''ltd.'')]"

definition drop_suffix :: "string list \<Rightarrow> string list" where
  "drop_suffix ws =
     (let n = length ws in
      if 3 \<le> n \<and> (ws ! (n - 2), ws ! (n - 1)) \<in> set suffix_pairs then take (n - 2) ws
      else if 2 \<le> n \<and> ws ! (n - 1) \<in> set suffix_words then take (n - 1) ws
      else ws)"

definition company_match_key :: "string \<Rightarrow> string res" where
  "company_match_key raw =
     and_then (normalize_display_name raw) (\<lambda>display.
       let lowered = norm_text (blank_punctuation (casefold display));
           without = py_join '' '' (drop_suffix (py_split lowered))
       in Inr (if without = [] then lowered else without))"

section \<open>Constructors\<close>

definition alias_post_init :: "company_alias \<Rightarrow> company_alias res" where
  "alias_post_init a =
     and_then (normalize_display_name (alias_value a)) (\<lambda>display.
       if MAX_COMPANY_NAME_LENGTH < length display then Inl (ValueError ''alias exceeds length bounds'')
       else and_then (company_match_key display) (\<lambda>key. Inr (a\<lparr>alias_value := display, alias_normalized := key\<rparr>)))"

definition create_alias :: "string \<Rightarrow> alias_type \<Rightarrow> company_alias res" where
  "create_alias v t =
     and_then (normalize_display_name v) (\<lambda>display.
     and_then (company_match_key display) (\<lambda>key.
       alias_post_init \<lparr>alias_value = display, alias_type = t, alias_normalized = key\<rparr>))"

definition provider_char :: "char \<Rightarrow> bool" where
  "provider_char c \<longleftrightarrow> alnum c \<or> c = CHR ''_'' \<or> c \<in> set ''./:-''"

definition provider_post_init :: "provider_identifier \<Rightarrow> provider_identifier res" where
  "provider_post_init p =
     (let v = py_strip (provider_value p) in
      if v = [] \<or> \<not> fullmatch provider_char 1 64 v
      then Inl (ValueError ''provider identifier is empty, invalid, or exceeds bounds'')
      else Inr (p\<lparr>provider_value := v\<rparr>))"

definition security_post_init :: "security_identity \<Rightarrow> security_identity res" where
  "security_post_init s =
     and_then (normalize_display_name (security_display_name s)) (\<lambda>display.
       let s = s\<lparr>security_display_name := display\<rparr>;
           cls = map_option (\<lambda>t. py_upper (py_strip t)) (share_class s)
       in
       if (case cls of None \<Rightarrow> False | Some t \<Rightarrow> t = [] \<or> 16 < length t)
       then Inl (ValueError ''share_class is empty or exceeds bounds'')
       else if list_ex (\<lambda>l. listing_security_id l \<noteq> security_id s) (listings s)
       then Inl (ValueError ''listing security_id must match parent security'')
       else if 1 < length (filter is_primary (listings s))
       then Inl (ValueError ''a security may have at most one primary listing'')
       else Inr (s\<lparr>share_class := cls\<rparr>))"

definition company_post_init :: "company_identity \<Rightarrow> company_identity res" where
  "company_post_init c =
     and_then (normalize_display_name (legal_name c)) (\<lambda>legal.
     and_then (normalize_display_name (display_name c)) (\<lambda>display.
     and_then (company_match_key legal) (\<lambda>legal_key.
     and_then (company_match_key display) (\<lambda>display_key.
       if list_ex (\<lambda>s. security_company_id s \<noteq> company_id c) (securities c)
       then Inl (ValueError ''security company_id must match parent company'')
       else Inr (c\<lparr>legal_name := legal, display_name := display, legal_name_key := legal_key,
         display_name_key := display_key\<rparr>)))))"

end
