(* ===== verification/Company_Catalog.thy ===== *)
theory Company_Catalog
  imports Company_Names
begin

text \<open>
  The catalog of companies (\<open>CompanyCatalogPort\<close> of \<open>application/ports.py\<close>) and its in-memory adapter
  (\<open>infrastructure/company/in_memory_catalog.py\<close>). The reference dataset is an argument. The similarity of
  \<open>difflib.SequenceMatcher\<close> is computed as the library does for texts under 200 characters; scores are
  compared as fractions, which is what the rounded quotients of such small numbers amount to.
\<close>

section \<open>The port\<close>

record catalog_port =
  cp_get :: "company_id \<Rightarrow> company_identity option"
  cp_ticker :: "ticker_symbol \<Rightarrow> exchange_code option \<Rightarrow> country_code option \<Rightarrow> company_identity list"
  cp_alias :: "string \<Rightarrow> country_code option \<Rightarrow> company_identity list"
  cp_name :: "string \<Rightarrow> country_code option \<Rightarrow> company_identity list"
  cp_search :: "string \<Rightarrow> country_code option \<Rightarrow> int \<Rightarrow> company_identity list"

definition in_country :: "country_code option \<Rightarrow> company_identity \<Rightarrow> bool" where
  "in_country k c \<longleftrightarrow> (case k of None \<Rightarrow> True | Some x \<Rightarrow> company_country c = x)"

definition listed_as :: "ticker_symbol \<Rightarrow> exchange_code option \<Rightarrow> company_identity \<Rightarrow> bool" where
  "listed_as t e c \<longleftrightarrow> list_ex (\<lambda>l. listing_ticker l = t \<and>
     (case e of None \<Rightarrow> True | Some x \<Rightarrow> exchange_text (listing_exchange l) = exchange_text x)) (all_listings c)"

section \<open>Similarity\<close>

fun common_prefix :: "string \<Rightarrow> string \<Rightarrow> nat" where
  "common_prefix (x # xs) (y # ys) = (if x = y then Suc (common_prefix xs ys) else 0)"
| "common_prefix _ _ = 0"

text \<open>\<open>find_longest_match\<close>: size and positions; the earliest in \<open>a\<close>, then in \<open>b\<close>, of the longest.\<close>

definition longest_match :: "string \<Rightarrow> string \<Rightarrow> nat \<times> nat \<times> nat" where
  "longest_match a b =
     foldl (\<lambda>(k, i, j) (i', j'). let n = common_prefix (drop i' a) (drop j' b) in
         if k < n then (n, i', j') else (k, i, j))
       (0, 0, 0) (List.product [0..<length a] [0..<length b])"

lemma common_prefix_le: "common_prefix xs ys \<le> length xs"
  by (induction xs ys rule: common_prefix.induct) auto

lemma longest_match_bound:
  assumes "longest_match a b = (k, i, j)" "0 < k"
  shows "i + k \<le> length a"
proof -
  define step where "step = (\<lambda>(k, i, j) (i', j'). let n = common_prefix (drop i' a) (drop j' b) in
      if k < n then (n, i', j') else (k :: nat, i :: nat, j :: nat))"
  have "case foldl step s ps of (k, i, j) \<Rightarrow> 0 < k \<longrightarrow> i + k \<le> length a"
    if "case s of (k, i, j) \<Rightarrow> 0 < k \<longrightarrow> i + k \<le> length a" "\<forall>(i', j') \<in> set ps. i' < length a" for s ps
    using that
  proof (induction ps arbitrary: s)
    case (Cons p ps)
    obtain i' j' where p: "p = (i', j')" by fastforce
    have "common_prefix (drop i' a) (drop j' b) \<le> length a - i'" using common_prefix_le [of "drop i' a"] by simp
    then have "case step s p of (k, i, j) \<Rightarrow> 0 < k \<longrightarrow> i + k \<le> length a"
      using Cons.prems p by (auto simp: step_def Let_def split: prod.splits)
    then show ?case using Cons.IH Cons.prems(2) by simp
  qed simp
  from this [of "(0, 0, 0)" "List.product [0..<length a] [0..<length b]"]
  show ?thesis using assms unfolding longest_match_def step_def by auto
qed

function matching_size :: "string \<Rightarrow> string \<Rightarrow> nat" where
  "matching_size a b =
     (case longest_match a b of (k, i, j) \<Rightarrow>
        if k = 0 then 0
        else k + matching_size (take i a) (take j b) + matching_size (drop (i + k) a) (drop (j + k) b))"
  by pat_completeness auto
termination
  by (relation "measure (\<lambda>(a, b). length a)") (auto dest!: longest_match_bound [OF sym])

declare matching_size.simps [simp del]

text \<open>\<open>ratio()\<close> as numerator and denominator; two empty texts are equal.\<close>

definition ratio :: "string \<Rightarrow> string \<Rightarrow> nat \<times> nat" where
  "ratio a b = (if a = [] \<and> b = [] then (1, 1) else (2 * matching_size a b, length a + length b))"

definition ratio_le :: "nat \<times> nat \<Rightarrow> nat \<times> nat \<Rightarrow> bool" where
  "ratio_le p q \<longleftrightarrow> fst p * snd q \<le> fst q * snd p"

definition best_ratio :: "string \<Rightarrow> string list \<Rightarrow> nat \<times> nat" where
  "best_ratio name keys = foldl (\<lambda>m k. if ratio_le (ratio name k) m then m else ratio name k) (0, 1) keys"

definition FUZZY_RATIO_FLOOR :: "nat \<times> nat" where
  "FUZZY_RATIO_FLOOR = (22, 25)"

section \<open>The in-memory adapter\<close>

text \<open>\<open>_validated_snapshot\<close>: the sets of ids and listing keys seen so far.\<close>

record snapshot_seen =
  sn_companies :: "string list"
  sn_securities :: "string list"
  sn_listings :: "string list"
  sn_keys :: "(string \<times> string) list"

definition check_listing :: "listing_identity \<Rightarrow> snapshot_seen \<Rightarrow> snapshot_seen res" where
  "check_listing l s =
     (let lid = listing_id_text (listing_id l);
          key = (exchange_text (listing_exchange l), ticker_text (listing_ticker l)) in
      if lid \<in> set (sn_listings s) then Inl (ValueError (''duplicate ListingId in catalog: '' @ lid))
      else if key \<in> set (sn_keys s)
      then Inl (ValueError (''duplicate exchange+ticker listing in catalog: '' @ fst key @ '':'' @ snd key))
      else Inr (s\<lparr>sn_listings := lid # sn_listings s, sn_keys := key # sn_keys s\<rparr>))"

definition check_security :: "security_identity \<Rightarrow> snapshot_seen \<Rightarrow> snapshot_seen res" where
  "check_security x s =
     (let sid = security_id_text (security_id x) in
      if sid \<in> set (sn_securities s) then Inl (ValueError (''duplicate SecurityId in catalog: '' @ sid))
      else fold_res check_listing (listings x) (s\<lparr>sn_securities := sid # sn_securities s\<rparr>))"

definition check_company :: "company_identity \<Rightarrow> snapshot_seen \<Rightarrow> snapshot_seen res" where
  "check_company c s =
     (let cid = company_id_text (company_id c) in
      if cid \<in> set (sn_companies s) then Inl (ValueError (''duplicate CompanyId in catalog: '' @ cid))
      else fold_res check_security (securities c) (s\<lparr>sn_companies := cid # sn_companies s\<rparr>))"

definition validated_snapshot :: "company_identity list \<Rightarrow> company_identity list res" where
  "validated_snapshot cs =
     and_then (fold_res check_company cs \<lparr>sn_companies = [], sn_securities = [], sn_listings = [], sn_keys = []\<rparr>)
       (\<lambda>_. Inr cs)"

definition by_company_id :: "company_identity list \<Rightarrow> company_identity list" where
  "by_company_id = sort_key (\<lambda>c. company_id_text (company_id c))"

definition find_by_ticker ::
    "company_identity list \<Rightarrow> ticker_symbol \<Rightarrow> exchange_code option \<Rightarrow> country_code option \<Rightarrow> company_identity list" where
  "find_by_ticker cs t e k = by_company_id (filter (\<lambda>c. in_country k c \<and> listed_as t e c) cs)"

definition find_by_alias :: "company_identity list \<Rightarrow> string \<Rightarrow> country_code option \<Rightarrow> company_identity list" where
  "find_by_alias cs a k =
     by_company_id (filter (\<lambda>c. in_country k c \<and> list_ex (\<lambda>x. alias_normalized x = a) (aliases c)) cs)"

definition find_by_name :: "company_identity list \<Rightarrow> string \<Rightarrow> country_code option \<Rightarrow> company_identity list" where
  "find_by_name cs n k =
     by_company_id (filter (\<lambda>c. in_country k c \<and> (legal_name_key c = n \<or> display_name_key c = n)) cs)"

definition name_score :: "string \<Rightarrow> company_identity \<Rightarrow> nat \<times> nat" where
  "name_score n c = best_ratio n (legal_name_key c # display_name_key c # map alias_normalized (aliases c))"

definition fuzzy :: "string \<Rightarrow> company_identity \<Rightarrow> bool" where
  "fuzzy n c \<longleftrightarrow> ratio_le FUZZY_RATIO_FLOOR (name_score n c) \<and> \<not> ratio_le (1, 1) (name_score n c)"

text \<open>Ordered by descending score, then by id: a stable sort by score of the companies in id order.\<close>

definition score_before :: "string \<Rightarrow> company_identity \<Rightarrow> company_identity \<Rightarrow> bool" where
  "score_before n c d \<longleftrightarrow> \<not> ratio_le (name_score n c) (name_score n d)"

fun insert_by_score :: "string \<Rightarrow> company_identity \<Rightarrow> company_identity list \<Rightarrow> company_identity list" where
  "insert_by_score n c [] = [c]"
| "insert_by_score n c (d # ds) = (if score_before n d c then d # insert_by_score n c ds else c # d # ds)"

definition search_name_candidates ::
    "company_identity list \<Rightarrow> string \<Rightarrow> country_code option \<Rightarrow> int \<Rightarrow> company_identity list" where
  "search_name_candidates cs n k limit =
     take (nat limit) (foldr (insert_by_score n) (by_company_id (filter (\<lambda>c. in_country k c \<and> fuzzy n c) cs)) [])"

definition get_by_id :: "company_identity list \<Rightarrow> company_id \<Rightarrow> company_identity option" where
  "get_by_id cs i = find (\<lambda>c. company_id_text (company_id c) = company_id_text i) cs"

definition memory_port :: "company_identity list \<Rightarrow> catalog_port" where
  "memory_port cs = \<lparr>cp_get = get_by_id cs, cp_ticker = find_by_ticker cs, cp_alias = find_by_alias cs,
     cp_name = find_by_name cs, cp_search = search_name_candidates cs\<rparr>"

definition in_memory_catalog :: "company_identity list \<Rightarrow> catalog_port res" where
  "in_memory_catalog cs = and_then (validated_snapshot cs) (\<lambda>cs. Inr (memory_port cs))"

lemma set_insert_by_score: "set (insert_by_score n c ds) = insert c (set ds)"
  by (induction ds) auto

lemma set_search_candidates:
  "c \<in> set (search_name_candidates cs n k limit) \<Longrightarrow> c \<in> set cs \<and> in_country k c \<and> fuzzy n c"
proof -
  have "set (foldr (insert_by_score n) ds []) = set ds" for ds
    by (induction ds) (simp_all add: set_insert_by_score)
  then show "c \<in> set (search_name_candidates cs n k limit) \<Longrightarrow> c \<in> set cs \<and> in_country k c \<and> fuzzy n c"
    by (auto simp: search_name_candidates_def by_company_id_def dest!: in_set_takeD)
qed

section \<open>What the snapshot check accepts\<close>

text \<open>The ids and listing keys of a list, in the order the check meets them.\<close>

abbreviation listing_key :: "listing_identity \<Rightarrow> string \<times> string" where
  "listing_key l \<equiv> (exchange_text (listing_exchange l), ticker_text (listing_ticker l))"

abbreviation company_key :: "company_identity \<Rightarrow> string" where
  "company_key c \<equiv> company_id_text (company_id c)"

definition fresh_for :: "'a list \<Rightarrow> 'a list \<Rightarrow> bool" where
  "fresh_for xs seen \<longleftrightarrow> distinct xs \<and> set xs \<inter> set seen = {}"

lemma fresh_for_simps [simp]:
  "fresh_for [] seen" "fresh_for (x # xs) seen \<longleftrightarrow> x \<notin> set seen \<and> fresh_for xs (x # seen)"
  "fresh_for (xs @ ys) seen \<longleftrightarrow> fresh_for xs seen \<and> fresh_for ys (rev xs @ seen)"
  by (auto simp: fresh_for_def)

lemma check_listings_iff:
  "fold_res check_listing ls s = Inr s' \<longleftrightarrow>
     fresh_for (map (\<lambda>l. listing_id_text (listing_id l)) ls) (sn_listings s) \<and> fresh_for (map listing_key ls) (sn_keys s) \<and>
     s' = s\<lparr>sn_listings := rev (map (\<lambda>l. listing_id_text (listing_id l)) ls) @ sn_listings s,
       sn_keys := rev (map listing_key ls) @ sn_keys s\<rparr>"
  by (induction ls arbitrary: s) (auto simp: check_listing_def Let_def and_then_Inr_iff)

lemma check_securities_iff:
  "fold_res check_security xs s = Inr s' \<longleftrightarrow>
     fresh_for (map (\<lambda>x. security_id_text (security_id x)) xs) (sn_securities s) \<and>
     fresh_for (map (\<lambda>l. listing_id_text (listing_id l)) (concat (map listings xs))) (sn_listings s) \<and>
     fresh_for (map listing_key (concat (map listings xs))) (sn_keys s) \<and>
     s' = s\<lparr>sn_securities := rev (map (\<lambda>x. security_id_text (security_id x)) xs) @ sn_securities s,
       sn_listings := rev (map (\<lambda>l. listing_id_text (listing_id l)) (concat (map listings xs))) @ sn_listings s,
       sn_keys := rev (map listing_key (concat (map listings xs))) @ sn_keys s\<rparr>"
  by (induction xs arbitrary: s) (auto simp: check_security_def check_listings_iff Let_def and_then_Inr_iff)

lemma check_companies_iff:
  "fold_res check_company cs s = Inr s' \<longleftrightarrow>
     fresh_for (map company_key cs) (sn_companies s) \<and>
     fresh_for (map (\<lambda>x. security_id_text (security_id x)) (concat (map securities cs))) (sn_securities s) \<and>
     fresh_for (map (\<lambda>l. listing_id_text (listing_id l)) (concat (map all_listings cs))) (sn_listings s) \<and>
     fresh_for (map listing_key (concat (map all_listings cs))) (sn_keys s) \<and>
     s' = s\<lparr>sn_companies := rev (map company_key cs) @ sn_companies s,
       sn_securities := rev (map (\<lambda>x. security_id_text (security_id x)) (concat (map securities cs))) @ sn_securities s,
       sn_listings := rev (map (\<lambda>l. listing_id_text (listing_id l)) (concat (map all_listings cs))) @ sn_listings s,
       sn_keys := rev (map listing_key (concat (map all_listings cs))) @ sn_keys s\<rparr>"
  by (induction cs arbitrary: s)
    (auto simp: check_company_def check_securities_iff all_listings_def Let_def and_then_Inr_iff)

definition well_keyed :: "company_identity list \<Rightarrow> bool" where
  "well_keyed cs \<longleftrightarrow> distinct (map company_key cs) \<and> distinct (map security_id (concat (map securities cs))) \<and>
     distinct (map listing_id (concat (map all_listings cs))) \<and> distinct (map listing_key (concat (map all_listings cs)))"

lemma distinct_text_map:
  "distinct (map (\<lambda>x. security_id_text (security_id x)) xs) = distinct (map security_id xs)"
  "distinct (map (\<lambda>l. listing_id_text (listing_id l)) ls) = distinct (map listing_id ls)"
  by (simp_all add: distinct_map inj_on_def)

lemma validated_snapshot_iff: "validated_snapshot cs = Inr cs' \<longleftrightarrow> well_keyed cs \<and> cs' = cs"
  by (auto simp: validated_snapshot_def and_then_Inr_iff check_companies_iff well_keyed_def fresh_for_def distinct_text_map)

lemma in_memory_catalog_iff: "in_memory_catalog cs = Inr p \<longleftrightarrow> well_keyed cs \<and> p = memory_port cs"
  by (auto simp: in_memory_catalog_def and_then_Inr_iff validated_snapshot_iff)

section \<open>The order of the companies does not matter\<close>

lemma mset_concat_map: "mset xs = mset ys \<Longrightarrow> mset (concat (map f xs)) = mset (concat (map f ys))"
proof -
  have "mset (concat (map f zs)) = \<Sum>\<^sub># (image_mset (\<lambda>z. mset (f z)) (mset zs))" for zs :: "'a list"
    by (induction zs) simp_all
  then show "mset xs = mset ys \<Longrightarrow> mset (concat (map f xs)) = mset (concat (map f ys))" by simp
qed

lemma distinct_map_mset: "mset xs = mset ys \<Longrightarrow> distinct (map f xs) = distinct (map f ys)"
  by (metis mset_eq_imp_distinct_iff mset_map)

lemma well_keyed_cong:
  assumes "mset cs = mset ds"
  shows "well_keyed cs = well_keyed ds"
  unfolding well_keyed_def distinct_map_mset [OF assms, of company_key]
    distinct_map_mset [OF mset_concat_map [OF assms], of security_id securities]
    distinct_map_mset [OF mset_concat_map [OF assms], of listing_id all_listings]
    distinct_map_mset [OF mset_concat_map [OF assms], of listing_key all_listings]
  by (rule refl)

lemma by_company_id_cong:
  assumes "mset cs = mset ds" "distinct (map company_key cs)"
  shows "by_company_id (filter P cs) = by_company_id (filter P ds)"
proof -
  have "inj_on company_key (set (filter P cs))" using assms(2) by (auto simp: inj_on_def dest: distinct_map_inj)
  then show ?thesis
    using sort_key_inj_key_eq [of "filter P cs" "by_company_id (filter P ds)" company_key] assms(1)
    by (simp add: by_company_id_def)
qed

lemma get_by_id_cong:
  assumes "mset cs = mset ds" "distinct (map company_key cs)"
  shows "get_by_id cs i = get_by_id ds i"
proof (cases "\<exists>c \<in> set cs. company_key c = company_id_text i")
  case True
  then obtain c where c: "c \<in> set cs" "c \<in> set ds" "company_key c = company_id_text i" using assms(1) by (metis mset_eq_setD)
  have "distinct (map company_key ds)" using assms distinct_map_mset by metis
  then show ?thesis
    using find_unique [OF assms(2) c(1)] find_unique [OF _ c(2), of company_key] c(3) by (simp add: get_by_id_def)
next
  case False
  have "set cs = set ds" using assms(1) by (rule mset_eq_setD)
  then have "find (\<lambda>c. company_key c = company_id_text i) ds = None" "find (\<lambda>c. company_key c = company_id_text i) cs = None"
    using False unfolding find_None_iff by blast+
  then show ?thesis by (simp only: get_by_id_def)
qed

lemma memory_port_cong:
  assumes "mset cs = mset ds" "distinct (map company_key cs)"
  shows "memory_port cs = memory_port ds"
  using by_company_id_cong [OF assms] get_by_id_cong [OF assms]
  by (simp add: memory_port_def find_by_ticker_def find_by_alias_def find_by_name_def search_name_candidates_def fun_eq_iff)

end
