(* ===== verification/Resolve_Company.thy ===== *)
theory Resolve_Company
  imports Company_Catalog
begin

text \<open>
  The resolution of a company query (\<open>application/resolve_company.py\<close>) over any catalog, and the contract
  its properties ask of a catalog: the locale \<open>company_source\<close>, interpreted on the in-memory adapter.
\<close>

section \<open>The use case\<close>

definition invalid_query :: "company_query \<Rightarrow> string \<Rightarrow> resolution_result res" where
  "invalid_query q m = resolution_post_init
     \<lparr>resolution_query = q, resolution_status = Resolution_INVALID, matched_by = Match_INVALID_INPUT,
      confidence = Band_NONE, resolved_company = None, candidates = [], resolution_message = m, normalized_query = []\<rparr>"

definition not_found :: "company_query \<Rightarrow> string \<Rightarrow> resolution_result res" where
  "not_found q n = resolution_post_init
     \<lparr>resolution_query = q, resolution_status = Resolution_NOT_FOUND, matched_by = Match_NONE, confidence = Band_NONE,
      resolved_company = None, candidates = [], resolution_message = ''no matching company identity'',
      normalized_query = n\<rparr>"

definition satisfies_exchange :: "exchange_code option \<Rightarrow> company_identity \<Rightarrow> bool" where
  "satisfies_exchange e c \<longleftrightarrow>
     (case e of None \<Rightarrow> True
      | Some x \<Rightarrow> list_ex (\<lambda>l. exchange_text (listing_exchange l) = exchange_text x) (all_listings c))"

definition matching_listings ::
    "company_identity \<Rightarrow> exchange_code option \<Rightarrow> ticker_symbol option \<Rightarrow> listing_identity list" where
  "matching_listings c e t =
     filter (\<lambda>l. (case t of None \<Rightarrow> True | Some x \<Rightarrow> listing_ticker l = x) \<and>
       (case e of None \<Rightarrow> True | Some x \<Rightarrow> exchange_text (listing_exchange l) = exchange_text x)) (all_listings c)"

definition looks_like_ticker :: "string \<Rightarrow> bool" where
  "looks_like_ticker t \<longleftrightarrow> CHR '' '' \<notin> set t \<and> 1 \<le> length t \<and> length t \<le> 12 \<and>
     (let r = filter (\<lambda>c. c \<noteq> CHR ''.'' \<and> c \<noteq> CHR ''-'') t in r \<noteq> [] \<and> list_all alnum r)"

definition candidate_of ::
    "match_method \<Rightarrow> confidence_band \<Rightarrow> exchange_code option \<Rightarrow> ticker_symbol option \<Rightarrow> company_identity
      \<Rightarrow> resolution_candidate" where
  "candidate_of method band e t c = \<lparr>candidate_company = c, candidate_matched_by = method, candidate_confidence = band,
     matched_listings = matching_listings c e t\<rparr>"

text \<open>The dictionary by company id, sorted by id: of companies with one id the last stays.\<close>

definition unique_companies :: "company_identity list \<Rightarrow> company_identity list" where
  "unique_companies cs =
     by_company_id (map snd (foldl (\<lambda>d c. AList.update (company_id_text (company_id c)) c d) [] cs))"

definition finalize_exact ::
    "company_query \<Rightarrow> company_identity list \<Rightarrow> match_method \<Rightarrow> string \<Rightarrow> exchange_code option \<Rightarrow> ticker_symbol option
      \<Rightarrow> resolution_result res" where
  "finalize_exact q hits method n e t =
     (let constrained = filter (\<lambda>c. satisfies_exchange e c \<and> (t = None \<or> matching_listings c e t \<noteq> [])) hits;
          companies = unique_companies constrained; band = confidence_for method;
          found = map (candidate_of method band e t) companies
      in
      if hits = [] \<or> constrained = [] then not_found q n
      else if length companies = 1
      then resolution_post_init
        \<lparr>resolution_query = q, resolution_status = Resolution_RESOLVED, matched_by = method, confidence = band,
         resolved_company = Some (hd companies), candidates = found, resolution_message = ''company resolved'',
         normalized_query = n\<rparr>
      else resolution_post_init
        \<lparr>resolution_query = q, resolution_status = Resolution_AMBIGUOUS, matched_by = method, confidence = band,
         resolved_company = None, candidates = found,
         resolution_message = ''multiple companies matched; explicit selection required'', normalized_query = n\<rparr>)"

definition resolve_ticker :: "catalog_port \<Rightarrow> company_query \<Rightarrow> ticker_symbol \<Rightarrow> string \<Rightarrow> resolution_result res" where
  "resolve_ticker port q t n =
     (let e = query_exchange q; hits = cp_ticker port t e (query_country q) in
      if hits = [] then not_found q n
      else finalize_exact q hits (if e = None then Match_EXACT_TICKER else Match_EXACT_TICKER_EXCHANGE) n e (Some t))"

definition fuzzy_result :: "catalog_port \<Rightarrow> company_query \<Rightarrow> string \<Rightarrow> resolution_result res" where
  "fuzzy_result port q n =
     (let e = query_exchange q;
          found = map (candidate_of Match_FUZZY_CANDIDATE Band_CANDIDATE e None)
            (filter (satisfies_exchange e) (cp_search port n (query_country q) 5))
      in
      if found = [] then not_found q n
      else resolution_post_init
        \<lparr>resolution_query = q, resolution_status = Resolution_AMBIGUOUS, matched_by = Match_FUZZY_CANDIDATE,
         confidence = Band_CANDIDATE, resolved_company = None, candidates = found,
         resolution_message = ''fuzzy matches require explicit disambiguation'', normalized_query = n\<rparr>)"

text \<open>A step that found nothing passes on to the next.\<close>

definition or_else :: "resolution_result res \<Rightarrow> resolution_result res \<Rightarrow> resolution_result res" where
  "or_else r s = and_then r (\<lambda>x. if resolution_status x \<noteq> Resolution_NOT_FOUND then Inr x else s)"

definition resolve_name :: "catalog_port \<Rightarrow> company_query \<Rightarrow> string \<Rightarrow> resolution_result res" where
  "resolve_name port q key =
     (if key = [] then not_found q []
      else or_else (finalize_exact q (cp_alias port key (query_country q)) Match_EXACT_ALIAS key (query_exchange q) None)
        (or_else (finalize_exact q (cp_name port key (query_country q)) Match_EXACT_NORMALIZED_NAME key
            (query_exchange q) None)
          (fuzzy_result port q key)))"

definition ticker_of :: "company_query \<Rightarrow> string \<Rightarrow> ticker_symbol option" where
  "ticker_of q stripped =
     (case query_ticker q of
        Some t \<Rightarrow> Some t
      | None \<Rightarrow>
          let m = py_upper stripped in
          if stripped \<noteq> [] \<and> looks_like_ticker m
          then (case mk_ticker_symbol m of Inl e \<Rightarrow> None | Inr t \<Rightarrow> Some t)
          else None)"

definition resolve_company_query :: "catalog_port \<Rightarrow> company_query \<Rightarrow> resolution_result res" where
  "resolve_company_query port q =
     (let raw = raw_query q; stripped = py_strip raw in
      if MAX_QUERY_LENGTH < length raw then invalid_query q ''query exceeds length bounds''
      else if has_control_chars raw then invalid_query q ''query contains control characters''
      else if stripped = [] \<and> query_ticker q = None then invalid_query q ''query is empty''
      else
        case (if stripped = [] then Inr [] else company_match_key stripped) of
          Inl e \<Rightarrow> if is_value_error e then invalid_query q (error_text e) else Inl e
        | Inr key \<Rightarrow>
            (case ticker_of q stripped of
               None \<Rightarrow> resolve_name port q key
             | Some t \<Rightarrow>
                 and_then (resolve_ticker port q t (if key = [] then ticker_text t else key)) (\<lambda>r.
                   if resolution_status r \<noteq> Resolution_NOT_FOUND \<or> query_ticker q \<noteq> None then Inr r
                   else resolve_name port q key)))"

section \<open>The contract of a catalog\<close>

locale company_source =
  fixes port :: catalog_port and known :: "company_identity set"
  assumes ticker_hits: "c \<in> set (cp_ticker port t e k) \<Longrightarrow> c \<in> known \<and> in_country k c \<and> listed_as t e c"
    and alias_hits: "c \<in> set (cp_alias port a k) \<Longrightarrow> c \<in> known \<and> in_country k c"
    and name_hits: "c \<in> set (cp_name port n k) \<Longrightarrow> c \<in> known \<and> in_country k c"
    and search_hits: "c \<in> set (cp_search port n k limit) \<Longrightarrow> c \<in> known \<and> in_country k c"

text \<open>What a company of a result must satisfy: every explicit constraint of the query.\<close>

definition constrained_by :: "company_query \<Rightarrow> company_identity \<Rightarrow> bool" where
  "constrained_by q c \<longleftrightarrow> in_country (query_country q) c \<and> satisfies_exchange (query_exchange q) c \<and>
     (case query_ticker q of None \<Rightarrow> True | Some t \<Rightarrow> listed_as t (query_exchange q) c)"

definition named_companies :: "resolution_result \<Rightarrow> company_identity set" where
  "named_companies r = set_option (resolved_company r) \<union> candidate_company ` set (candidates r)"

lemma set_unique_companies: "set (unique_companies cs) \<subseteq> set cs"
proof -
  have "set (map snd (foldl (\<lambda>d c. AList.update (company_id_text (company_id c)) c d) d0 cs)) \<subseteq> snd ` set d0 \<union> set cs" for d0
  proof (induction cs arbitrary: d0)
    case (Cons c cs)
    have "snd ` set (AList.update (company_id_text (company_id c)) c d0) \<subseteq> insert c (snd ` set d0)"
      by (induction d0) auto
    then show ?case
      using Cons.IH [of "AList.update (company_id_text (company_id c)) c d0"]
      unfolding foldl_Cons set_map list.set by blast
  qed simp
  from this [of "[]"] show ?thesis by (simp add: unique_companies_def by_company_id_def)
qed

lemma unique_companies_nonempty: "cs \<noteq> [] \<Longrightarrow> unique_companies cs \<noteq> []"
proof -
  have "foldl (\<lambda>d c. AList.update (company_id_text (company_id c)) c d) d0 cs \<noteq> []" if "d0 \<noteq> [] \<or> cs \<noteq> []" for d0
    using that
  proof (induction cs arbitrary: d0)
    case (Cons c cs)
    have "AList.update (company_id_text (company_id c)) c d0 \<noteq> []" by (cases d0) auto
    then show ?case using Cons.IH [of "AList.update (company_id_text (company_id c)) c d0"] by simp
  qed simp
  then have d: "foldl (\<lambda>d c. AList.update (company_id_text (company_id c)) c d) [] cs \<noteq> []" if "cs \<noteq> []"
    using that by blast
  have "length (unique_companies cs) = length (foldl (\<lambda>d c. AList.update (company_id_text (company_id c)) c d) [] cs)"
    by (simp only: unique_companies_def by_company_id_def length_sort length_map)
  then show "cs \<noteq> [] \<Longrightarrow> unique_companies cs \<noteq> []" using d by fastforce
qed

section \<open>Results of a catalog\<close>

lemma named_companies_simps:
  "invalid_query q m = Inr r \<Longrightarrow> named_companies r = {} \<and> resolution_status r = Resolution_INVALID"
  "not_found q n = Inr r \<Longrightarrow> named_companies r = {} \<and> resolution_status r = Resolution_NOT_FOUND"
  by (auto simp: invalid_query_def not_found_def resolution_post_init_def named_companies_def)

lemma candidate_of_sel [simp]:
  "candidate_company (candidate_of a b e t c) = c" "candidate_matched_by (candidate_of a b e t c) = a"
  "candidate_confidence (candidate_of a b e t c) = b"
  by (simp_all add: candidate_of_def)

lemma matching_listed: "matching_listings c e (Some t) \<noteq> [] \<longleftrightarrow> listed_as t e c"
  by (auto simp: matching_listings_def listed_as_def filter_empty_conv list_ex_iff)

text \<open>Exact steps return only companies of the hits that satisfy the constraints; none is fuzzy.\<close>

lemma finalize_exact_sound:
  assumes "finalize_exact q hits method n e t = Inr r" "c \<in> named_companies r"
  shows "c \<in> set hits" "satisfies_exchange e c" "\<And>x. t = Some x \<Longrightarrow> listed_as x e c"
proof -
  let ?con = "filter (\<lambda>c. satisfies_exchange e c \<and> (t = None \<or> matching_listings c e t \<noteq> [])) hits"
  have "c \<in> set (unique_companies ?con)"
    using assms
    by (auto simp: finalize_exact_def Let_def named_companies_def resolution_post_init_def length_Suc_conv
        split: if_splits dest!: named_companies_simps(2))
  then have "c \<in> set ?con" using set_unique_companies by blast
  then show "c \<in> set hits" "satisfies_exchange e c" "\<And>x. t = Some x \<Longrightarrow> listed_as x e c"
    using matching_listed by auto
qed

lemma finalize_exact_total:
  assumes "confidence_for method = Band_EXACT"
  shows "\<exists>r. finalize_exact q hits method n e t = Inr r"
  using assms unique_companies_nonempty
  by (auto simp: finalize_exact_def Let_def not_found_def resolution_post_init_def)

text \<open>A resolved result names exactly one company, with exact confidence and by an exact method.\<close>

definition firm :: "resolution_result \<Rightarrow> bool" where
  "firm r \<longleftrightarrow> (resolution_status r = Resolution_RESOLVED \<longrightarrow>
     confidence r = Band_EXACT \<and> matched_by r \<noteq> Match_FUZZY_CANDIDATE \<and> (\<exists>c. named_companies r = {c}))"

lemma firm_when_unresolved: "resolution_status r \<noteq> Resolution_RESOLVED \<Longrightarrow> firm r"
  by (simp add: firm_def)

lemma finalize_exact_firm:
  assumes "finalize_exact q hits method n e t = Inr r" "confidence_for method = Band_EXACT"
  shows "firm r"
proof -
  have "method \<noteq> Match_FUZZY_CANDIDATE" using assms(2) by auto
  then show ?thesis
    using assms
    by (auto simp: firm_def finalize_exact_def Let_def named_companies_def resolution_post_init_def not_found_def
        length_Suc_conv split: if_splits)
qed

lemma fuzzy_result_sound:
  assumes "fuzzy_result port q n = Inr r"
  shows "c \<in> named_companies r \<Longrightarrow> c \<in> set (cp_search port n (query_country q) 5) \<and> satisfies_exchange (query_exchange q) c"
    "resolution_status r \<noteq> Resolution_RESOLVED"
  using assms
  by (auto simp: fuzzy_result_def Let_def named_companies_def resolution_post_init_def split: if_splits
      dest!: named_companies_simps(2))

lemma fuzzy_result_total: "\<exists>r. fuzzy_result port q n = Inr r"
  by (auto simp: fuzzy_result_def Let_def not_found_def resolution_post_init_def)

lemma or_else_InrE:
  assumes "or_else a b = Inr r"
  obtains "a = Inr r" "resolution_status r \<noteq> Resolution_NOT_FOUND" | "b = Inr r"
  using assms by (auto simp: or_else_def split: if_splits)

lemma or_else_total: "\<exists>r. a = Inr r \<Longrightarrow> \<exists>r. b = Inr r \<Longrightarrow> \<exists>r. or_else a b = Inr r"
  by (auto simp: or_else_def)

text \<open>The ways a resolution can go.\<close>

lemma resolve_company_cases:
  assumes "resolve_company_query port q = Inr r"
  obtains m where "invalid_query q m = Inr r"
  | t n where "resolve_ticker port q t n = Inr r" "query_ticker q = None \<or> query_ticker q = Some t"
  | key where "resolve_name port q key = Inr r" "query_ticker q = None"
  using assms
  by (auto simp: resolve_company_query_def ticker_of_def Let_def split: if_splits sum.splits option.splits)

context company_source
begin

lemma resolve_ticker_sound:
  assumes "resolve_ticker port q t n = Inr r" "c \<in> named_companies r"
  shows "c \<in> known \<and> in_country (query_country q) c \<and> satisfies_exchange (query_exchange q) c \<and> listed_as t (query_exchange q) c"
  using assms ticker_hits
  by (auto simp: resolve_ticker_def Let_def split: if_splits dest: finalize_exact_sound dest!: named_companies_simps(2))

lemma resolve_name_sound:
  assumes "resolve_name port q key = Inr r" "c \<in> named_companies r"
  shows "c \<in> known \<and> in_country (query_country q) c \<and> satisfies_exchange (query_exchange q) c"
proof (cases "key = []")
  case True
  then show ?thesis using assms by (auto simp: resolve_name_def dest!: named_companies_simps(2))
next
  case False
  have "or_else (finalize_exact q (cp_alias port key (query_country q)) Match_EXACT_ALIAS key (query_exchange q) None)
        (or_else (finalize_exact q (cp_name port key (query_country q)) Match_EXACT_NORMALIZED_NAME key
            (query_exchange q) None) (fuzzy_result port q key)) = Inr r"
    using assms(1) False by (simp add: resolve_name_def)
  then show ?thesis
  proof (elim or_else_InrE)
    assume "finalize_exact q (cp_alias port key (query_country q)) Match_EXACT_ALIAS key (query_exchange q) None = Inr r"
    from finalize_exact_sound [OF this assms(2)] show ?thesis using alias_hits by blast
  next
    assume "finalize_exact q (cp_name port key (query_country q)) Match_EXACT_NORMALIZED_NAME key (query_exchange q) None = Inr r"
    from finalize_exact_sound [OF this assms(2)] show ?thesis using name_hits by blast
  next
    assume "fuzzy_result port q key = Inr r"
    from fuzzy_result_sound(1) [OF this assms(2)] show ?thesis using search_hits by blast
  qed
qed

lemma resolve_name_firm:
  assumes "resolve_name port q key = Inr r"
  shows "firm r"
proof (cases "key = []")
  case True
  then show ?thesis using assms by (auto simp: resolve_name_def firm_def dest!: named_companies_simps(2))
next
  case False
  show ?thesis
    using assms fuzzy_result_sound(2) unfolding resolve_name_def if_not_P [OF False]
    by (elim or_else_InrE) (auto elim: finalize_exact_firm simp: firm_when_unresolved)
qed

text \<open>The whole use case, over any catalog that keeps the contract.\<close>

lemma resolve_sound:
  assumes "resolve_company_query port q = Inr r" "c \<in> named_companies r"
  shows "c \<in> known \<and> constrained_by q c"
  using assms(1)
proof (cases rule: resolve_company_cases)
  case (1 m)
  then show ?thesis using assms(2) named_companies_simps(1) by blast
next
  case (2 t n)
  from resolve_ticker_sound [OF 2(1) assms(2)] 2(2) show ?thesis by (auto simp: constrained_by_def)
next
  case (3 key)
  from resolve_name_sound [OF 3(1) assms(2)] 3(2) show ?thesis by (simp add: constrained_by_def)
qed

lemma resolve_firm:
  assumes "resolve_company_query port q = Inr r"
  shows "firm r"
  using assms
proof (cases rule: resolve_company_cases)
  case (1 m)
  then show ?thesis by (auto simp: firm_def dest: named_companies_simps(1))
next
  case (2 t n)
  then show ?thesis
    by (auto simp: resolve_ticker_def Let_def split: if_splits elim: finalize_exact_firm
        intro: firm_when_unresolved dest!: named_companies_simps(2))
next
  case (3 key)
  then show ?thesis using resolve_name_firm by blast
qed

end

section \<open>The in-memory adapter keeps the contract\<close>

interpretation memory: company_source "memory_port cs" "set cs" for cs
proof
  fix c t e k a n limit
  show "c \<in> set (cp_ticker (memory_port cs) t e k) \<Longrightarrow> c \<in> set cs \<and> in_country k c \<and> listed_as t e c"
    "c \<in> set (cp_alias (memory_port cs) a k) \<Longrightarrow> c \<in> set cs \<and> in_country k c"
    "c \<in> set (cp_name (memory_port cs) n k) \<Longrightarrow> c \<in> set cs \<and> in_country k c"
    by (auto simp: memory_port_def find_by_ticker_def find_by_alias_def find_by_name_def by_company_id_def)
  show "c \<in> set (cp_search (memory_port cs) n k limit) \<Longrightarrow> c \<in> set cs \<and> in_country k c"
    using set_search_candidates by (auto simp: memory_port_def)
qed

end
