(* ===== verification/Resolve_Properties.thy ===== *)
theory Resolve_Properties
  imports Resolve_Company Sample_Data
begin

text \<open>
  The properties of company resolution on the in-memory catalog: a result respects every constraint of the
  query, every query gets a result, and the order in which the catalog was filled does not matter.
\<close>

section \<open>Every query gets a result\<close>

lemma normalize_display_name_error: "normalize_display_name s = Inl e \<Longrightarrow> is_value_error e"
  by (auto simp: normalize_display_name_def Let_def split: if_splits)

lemma company_match_key_error: "company_match_key s = Inl e \<Longrightarrow> is_value_error e"
  using normalize_display_name_error
  by (cases "normalize_display_name s") (auto simp: company_match_key_def Let_def)

lemma fixed_results_total: "\<exists>r. invalid_query q m = Inr r" "\<exists>r. not_found q n = Inr r"
  by (simp_all add: invalid_query_def not_found_def resolution_post_init_def)

lemma resolve_ticker_total: "\<exists>r. resolve_ticker port q t n = Inr r"
  using fixed_results_total(2) finalize_exact_total by (simp add: resolve_ticker_def Let_def)

lemma resolve_name_total: "\<exists>r. resolve_name port q key = Inr r"
  using fixed_results_total(2)
  by (auto simp: resolve_name_def intro!: or_else_total finalize_exact_total fuzzy_result_total)

lemma and_then_total: "\<exists>x. a = Inr x \<Longrightarrow> (\<And>x. \<exists>r. f x = Inr r) \<Longrightarrow> \<exists>r. and_then a f = Inr r"
  by auto

lemma resolve_company_total: "\<exists>r. resolve_company_query port q = Inr r"
proof -
  have step: "\<exists>r. and_then (resolve_ticker port q t n)
      (\<lambda>r. if resolution_status r \<noteq> Resolution_NOT_FOUND \<or> query_ticker q \<noteq> None then Inr r
        else resolve_name port q key) = Inr r" for t n key
    using resolve_ticker_total resolve_name_total by (intro and_then_total) auto
  show ?thesis
    unfolding resolve_company_query_def Let_def
    using step fixed_results_total(1) resolve_name_total
    by (auto simp only: split: if_split sum.split option.split dest!: company_match_key_error)
qed

text \<open>C35: Resolving a query never raises, whatever the query and the catalog port: bounds, control characters, names
  that do not normalise and raw text that is no ticker all end in a result.\<close>

theorem resolution_always_answers: "\<exists>r. resolve_company_query port q = Inr r"
  by (rule resolve_company_total)

section \<open>Constraints\<close>

text \<open>A catalog of one company for the witnesses, and a query for its ticker.\<close>

definition sample_listing :: listing_identity where
  "sample_listing = \<lparr>listing_id = ListingId (uuid_of (CHR ''a'')), listing_security_id = SecurityId (uuid_of (CHR ''b'')),
     listing_exchange = ExchangeCode ''NASDAQ'' (Some ''XNAS''), listing_ticker = TickerSymbol ''AC'',
     listing_currency = CurrencyCode ''USD'', listing_country = CountryCode ''US'', is_primary = True,
     listing_status = Listing_ACTIVE\<rparr>"

definition acme :: company_identity where
  "acme = \<lparr>company_id = sample_company_id, legal_name = ''Ac'', display_name = ''Ac'',
     company_country = CountryCode ''US'', aliases = [],
     securities = [\<lparr>security_id = SecurityId (uuid_of (CHR ''b'')), security_company_id = sample_company_id,
       security_type = Security_COMMON_SHARE, security_display_name = ''Ac'', share_class = None,
       listings = [sample_listing]\<rparr>],
     provider_identifiers = [], sector = None, industry = None, legal_name_key = ''ac'', display_name_key = ''ac''\<rparr>"

definition ticker_query :: "string \<Rightarrow> company_query" where
  "ticker_query t = \<lparr>raw_query = t, query_country = Some (CountryCode ''US''), query_exchange = None, query_ticker = None\<rparr>"

text \<open>C34: A result of the in-memory catalog names only companies of the catalog that satisfy every explicit
  constraint of the query (country, exchange, ticker on that exchange); a resolved result names exactly one,
  found by an exact method with exact confidence, so a fuzzy match never resolves by itself.\<close>

theorem resolution_respects_constraints:
  assumes "in_memory_catalog cs = Inr port" "resolve_company_query port q = Inr r"
  shows "(\<forall>c \<in> named_companies r. c \<in> set cs \<and> constrained_by q c) \<and>
    (resolution_status r = Resolution_RESOLVED \<longrightarrow>
      confidence r = Band_EXACT \<and> matched_by r \<noteq> Match_FUZZY_CANDIDATE \<and> (\<exists>c. named_companies r = {c}))"
proof -
  have port: "port = memory_port cs" using assms(1) by (simp add: in_memory_catalog_iff)
  show ?thesis
    using memory.resolve_sound memory.resolve_firm assms(2) unfolding port firm_def by blast
qed

lemma sample_catalog: "in_memory_catalog [acme] = Inr (memory_port [acme])"
proof -
  have "well_keyed [acme]" by code_simp
  then show ?thesis by (simp add: in_memory_catalog_iff)
qed

lemma sample_resolution:
  "case resolve_company_query (memory_port [acme]) (ticker_query ''ac'') of Inl e \<Rightarrow> False
   | Inr r \<Rightarrow> resolved_company r = Some acme \<and> resolution_status r = Resolution_RESOLVED"
  by code_simp

lemma resolution_respects_constraints_witness:
  "\<exists>port r. in_memory_catalog [acme] = Inr port \<and> resolve_company_query port (ticker_query ''ac'') = Inr r \<and>
     resolved_company r = Some acme \<and> constrained_by (ticker_query ''ac'') acme \<and>
     confidence r = Band_EXACT"
proof -
  obtain r where r: "resolve_company_query (memory_port [acme]) (ticker_query ''ac'') = Inr r"
    "resolved_company r = Some acme" "resolution_status r = Resolution_RESOLVED"
    using sample_resolution by (auto split: sum.splits)
  have "acme \<in> named_companies r" using r(2) by (simp add: named_companies_def)
  then show ?thesis
    using resolution_respects_constraints [OF sample_catalog r(1)] sample_catalog r by blast
qed

section \<open>Order\<close>

text \<open>Filling the catalog in another order changes nothing: it is accepted just the same, and every query
  gets the very same result, candidates in the same order.\<close>

theorem resolution_ignores_catalog_order:
  assumes "mset cs = mset ds" "in_memory_catalog cs = Inr port"
  shows "\<exists>port'. in_memory_catalog ds = Inr port' \<and> resolve_company_query port' q = resolve_company_query port q"
proof -
  have keyed: "well_keyed cs" "port = memory_port cs" using assms(2) by (simp_all add: in_memory_catalog_iff)
  then have "memory_port ds = port" using memory_port_cong [OF assms(1)] by (simp add: well_keyed_def)
  moreover have "well_keyed ds" using keyed(1) well_keyed_cong [OF assms(1)] by simp
  ultimately show ?thesis by (simp add: in_memory_catalog_iff)
qed

definition other_company :: company_identity where
  "other_company = acme\<lparr>company_id := CompanyId (uuid_of (CHR ''d'')), securities := []\<rparr>"

lemma ambiguous_resolution:
  "case resolve_company_query (memory_port [acme, other_company]) (ticker_query ''Ac Corp'') of Inl e \<Rightarrow> False
   | Inr r \<Rightarrow> map candidate_company (candidates r) = [acme, other_company]"
  by code_simp

lemma resolution_ignores_catalog_order_witness:
  "\<exists>port. in_memory_catalog [other_company, acme] = Inr port \<and>
     (case resolve_company_query port (ticker_query ''Ac Corp'') of Inl e \<Rightarrow> False
      | Inr r \<Rightarrow> map candidate_company (candidates r) = [acme, other_company])"
proof -
  have "well_keyed [acme, other_company]" by code_simp
  then have "in_memory_catalog [acme, other_company] = Inr (memory_port [acme, other_company])"
    by (simp add: in_memory_catalog_iff)
  from resolution_ignores_catalog_order [OF _ this, of "[other_company, acme]" "ticker_query ''Ac Corp''"]
  show ?thesis using ambiguous_resolution by auto
qed

end
