(* ===== verification/Json.thy ===== *)
theory Json
  imports Base "HOL-Library.AList"
begin

text \<open>
  The part of Python's \<open>json\<close> module the program uses: \<open>json.loads\<close>, plain and with the two hooks
  of \<open>planner_output.py\<close>, and \<open>json.dumps\<close> of strings and numbers with \<open>ensure_ascii\<close>. Text that comes
  from outside is a list of code points. The nesting the interpreter can hold is an argument.
\<close>

section \<open>Values\<close>

type_synonym points = "int list"

definition points :: "string \<Rightarrow> points" where
  "points s = map of_char s"

lemma ord_char_of: "0 \<le> c \<Longrightarrow> c < 256 \<Longrightarrow> ord_char (char_of (c :: int)) = nat c"
proof -
  assume c: "0 \<le> c" "c < 256"
  have "int (ord_char (char_of c)) = of_char (char_of c :: char)" unfolding ord_char_def by (rule of_nat_of_char)
  also have "\<dots> = c" using c by simp
  finally show ?thesis by linarith
qed

text \<open>\<open>len\<close>, as an integer.\<close>

definition len :: "'a list \<Rightarrow> int" where
  "len xs = int (length xs)"

lemma len_code [code]: "len [] = 0" "len (x # xs) = len xs + 1"
  by (simp_all add: len_def)

text \<open>A floating-point number keeps the text it was read from.\<close>

datatype json =
    J_null
  | J_bool bool
  | J_int int
  | J_float points
  | J_str points
  | J_list "json list"
  | J_obj "(points \<times> json) list"

datatype json_error = Bad_json | Duplicate_keys | Too_deep

section \<open>Tokens\<close>

datatype token =
    T_open_obj | T_close_obj | T_open_list | T_close_list | T_colon | T_comma
  | T_str points
  | T_atom json
  | T_bad

definition hex_digit :: "int \<Rightarrow> int option" where
  "hex_digit c =
     (if 48 \<le> c \<and> c \<le> 57 then Some (c - 48)
      else if 97 \<le> c \<and> c \<le> 102 then Some (c - 87)
      else if 65 \<le> c \<and> c \<le> 70 then Some (c - 55)
      else None)"

fun hex_value :: "points \<Rightarrow> int option" where
  "hex_value [a, b, c, d] =
     (case (hex_digit a, hex_digit b, hex_digit c, hex_digit d) of
        (Some i, Some j, Some k, Some l) \<Rightarrow> Some (4096 * i + 256 * j + 16 * k + l)
      | _ \<Rightarrow> None)"
| "hex_value _ = None"

definition escaped_char :: "int \<Rightarrow> int option" where
  "escaped_char c =
     (if c = 34 \<or> c = 92 \<or> c = 47 then Some c
      else if c = 98 then Some 8 else if c = 102 then Some 12 else if c = 110 then Some 10
      else if c = 114 then Some 13 else if c = 116 then Some 9 else None)"

definition high_surrogate :: "int \<Rightarrow> bool" where
  "high_surrogate h \<longleftrightarrow> 55296 \<le> h \<and> h \<le> 56319"

definition low_surrogate :: "int \<Rightarrow> bool" where
  "low_surrogate l \<longleftrightarrow> 56320 \<le> l \<and> l \<le> 57343"

definition join_surrogates :: "int \<Rightarrow> int \<Rightarrow> int" where
  "join_surrogates h l = 65536 + (h - 55296) * 1024 + (l - 56320)"

definition put_char :: "int \<Rightarrow> (points \<times> points) option \<Rightarrow> (points \<times> points) option" where
  "put_char c = map_option (\<lambda>(s, rest). (c # s, rest))"

text \<open>The rest of a string after its opening quote: its characters, and what follows the closing quote.\<close>

function scan_string :: "points \<Rightarrow> (points \<times> points) option" where
  "scan_string [] = None"
| "scan_string (c # cs) =
     (if c = 34 then Some ([], cs)
      else if c < 32 then None
      else if c \<noteq> 92 then put_char c (scan_string cs)
      else if cs = [] then None
      else if hd cs \<noteq> 117
      then (case escaped_char (hd cs) of None \<Rightarrow> None | Some e \<Rightarrow> put_char e (scan_string (tl cs)))
      else
        (case hex_value (take 4 (tl cs)) of
           None \<Rightarrow> None
         | Some h \<Rightarrow>
             if high_surrogate h \<and> take 2 (drop 5 cs) = [92, 117]
             then (case hex_value (take 4 (drop 7 cs)) of
                     None \<Rightarrow> None
                   | Some l \<Rightarrow>
                       if low_surrogate l then put_char (join_surrogates h l) (scan_string (drop 11 cs))
                       else put_char h (scan_string (drop 5 cs)))
             else put_char h (scan_string (drop 5 cs))))"
  by pat_completeness auto
termination
  by (relation "measure length") auto

lemma scan_string_shorter: "scan_string cs = Some (s, rest) \<Longrightarrow> length rest < length cs"
proof (induction cs arbitrary: s rest rule: scan_string.induct)
  case (2 c cs)
  then show ?case
    by (auto simp: put_char_def split: if_splits option.splits) (force dest: less_le_trans)+
qed simp

declare scan_string.simps [simp del]

text \<open>
  A number: an integer part without leading zeros, then a fraction and an exponent when they are complete.
  Integers of more than 4300 digits are refused by \<open>int\<close>.
\<close>

definition digit :: "int \<Rightarrow> bool" where
  "digit c \<longleftrightarrow> 48 \<le> c \<and> c \<le> 57"

definition digits_value :: "points \<Rightarrow> int" where
  "digits_value ds = foldl (\<lambda>n c. 10 * n + (c - 48)) 0 ds"

definition integer_part :: "points \<Rightarrow> points" where
  "integer_part cs = (if cs \<noteq> [] \<and> hd cs = 48 then [48] else takeWhile digit cs)"

definition fraction_part :: "points \<Rightarrow> points" where
  "fraction_part cs = (if cs \<noteq> [] \<and> hd cs = 46 \<and> takeWhile digit (tl cs) \<noteq> [] then 46 # takeWhile digit (tl cs) else [])"

definition exponent_part :: "points \<Rightarrow> points" where
  "exponent_part cs =
     (if cs \<noteq> [] \<and> hd cs \<in> {69, 101}
      then let sign = (if tl cs \<noteq> [] \<and> hd (tl cs) \<in> {43, 45} then [hd (tl cs)] else []);
               ds = takeWhile digit (drop (length sign) (tl cs))
           in if ds = [] then [] else hd cs # sign @ ds
      else [])"

definition scan_number :: "points \<Rightarrow> token \<times> points" where
  "scan_number cs =
     (let sign = (if cs \<noteq> [] \<and> hd cs = 45 then [45] else []);
          r1 = drop (length sign) cs; ds = integer_part r1; r2 = drop (length ds) r1;
          fs = fraction_part r2; r3 = drop (length fs) r2; es = exponent_part r3 in
      if ds = [] then (T_bad, [])
      else if fs \<noteq> [] \<or> es \<noteq> [] then (T_atom (J_float (sign @ ds @ fs @ es)), drop (length es) r3)
      else if 4300 < len ds then (T_bad, [])
      else (T_atom (J_int (if sign = [] then digits_value ds else - digits_value ds)), r3))"

text \<open>The constants outside the JSON grammar are numbers, unless the hook refuses them.\<close>

definition literals :: "bool \<Rightarrow> (points \<times> token) list" where
  "literals strict =
     [(points ''null'', T_atom J_null), (points ''true'', T_atom (J_bool True)), (points ''false'', T_atom (J_bool False))]
     @ map (\<lambda>w. (points w, if strict then T_bad else T_atom (J_float (points w)))) [''NaN'', ''Infinity'', ''-Infinity'']"

definition scan_token :: "bool \<Rightarrow> points \<Rightarrow> token \<times> points" where
  "scan_token strict cs =
     (let c = hd cs in
      if c = 34 then (case scan_string (tl cs) of None \<Rightarrow> (T_bad, []) | Some (s, rest) \<Rightarrow> (T_str s, rest))
      else if c = 123 then (T_open_obj, tl cs) else if c = 125 then (T_close_obj, tl cs)
      else if c = 91 then (T_open_list, tl cs) else if c = 93 then (T_close_list, tl cs)
      else if c = 58 then (T_colon, tl cs) else if c = 44 then (T_comma, tl cs)
      else case find (\<lambda>(w, t). take (length w) cs = w) (literals strict) of
          Some (w, t) \<Rightarrow> (t, drop (length w) cs)
        | None \<Rightarrow> scan_number cs)"

definition json_space :: "int \<Rightarrow> bool" where
  "json_space c \<longleftrightarrow> c \<in> {32, 9, 10, 13}"

lemma scan_number_shorter: "scan_number cs = (t, rest) \<Longrightarrow> t \<noteq> T_bad \<Longrightarrow> length rest < length cs"
proof -
  assume n: "scan_number cs = (t, rest)" "t \<noteq> T_bad"
  define r1 where "r1 = drop (length (if cs \<noteq> [] \<and> hd cs = 45 then [45] else [] :: points)) cs"
  have "integer_part r1 \<noteq> [] \<Longrightarrow> r1 \<noteq> []" by (auto simp: integer_part_def)
  moreover have "length (drop (length (integer_part r1)) r1) < length cs" if "integer_part r1 \<noteq> []"
    using that calculation by (auto simp: r1_def)
  ultimately show "length rest < length cs"
    using n unfolding scan_number_def Let_def r1_def by (auto split: if_splits)
qed

lemma scan_token_shorter:
  assumes "scan_token strict (c # cs) = (t, rest)" "t \<noteq> T_bad"
  shows "length rest < length (c # cs)"
proof -
  let ?lit = "find (\<lambda>(w, t). take (length w) (c # cs) = w) (literals strict)"
  have lit: "length (drop (length w) (c # cs)) < length (c # cs)" if "?lit = Some (w, u)" for w u
  proof -
    have "(w, u) \<in> set (literals strict)" using find_SomeD [OF that] by simp
    then have "w \<noteq> []" by (auto simp: literals_def points_def)
    then show ?thesis by (cases w) simp_all
  qed
  show ?thesis
  proof (cases "c \<in> {34, 123, 125, 91, 93, 58, 44}")
    case True
    then show ?thesis
      using assms by (auto simp: scan_token_def split: option.splits dest: scan_string_shorter)
  next
    case False
    then have scan: "scan_token strict (c # cs) =
        (case ?lit of Some (w, u) \<Rightarrow> (u, drop (length w) (c # cs)) | None \<Rightarrow> scan_number (c # cs))"
      unfolding scan_token_def Let_def by simp
    show ?thesis
    proof (cases ?lit)
      case None
      then show ?thesis using scan assms scan_number_shorter [of "c # cs" t rest] by simp
    next
      case (Some p)
      then show ?thesis using scan assms lit [of "fst p" "snd p"] by (cases p) simp
    qed
  qed
qed

text \<open>The tokens up to the first thing that is none.\<close>

function tokens :: "bool \<Rightarrow> points \<Rightarrow> token list" where
  "tokens strict cs =
     (case dropWhile json_space cs of
        [] \<Rightarrow> []
      | d # ds \<Rightarrow>
          case scan_token strict (d # ds) of
            (t, rest) \<Rightarrow> if t = T_bad then [T_bad] else t # tokens strict rest)"
  by pat_completeness auto
termination
proof (relation "measure (\<lambda>(strict, cs). length cs)"; simp)
  fix strict cs d ds t rest
  assume *: "dropWhile json_space cs = d # ds" "(t, rest) = scan_token strict (d # ds)" "t \<noteq> T_bad"
  have "length rest < length (d # ds)" using scan_token_shorter [of strict d ds t rest] * by simp
  also have "\<dots> \<le> length cs" using length_dropWhile_le [of json_space cs] * by simp
  finally show "length rest < length cs" .
qed

declare tokens.simps [simp del]

section \<open>Values from tokens\<close>

text \<open>What the decoder is inside of, and what it waits for.\<close>

datatype frame = F_list "json list" | F_obj points "(points \<times> json) list"

datatype mode = M_value | M_first_item | M_key | M_first_key | M_colon points | M_ready json

text \<open>An object is closed: with the hook duplicates are refused, without it the last value of a key stays.\<close>

definition close_object :: "bool \<Rightarrow> (points \<times> json) list \<Rightarrow> json_error + json" where
  "close_object strict ps =
     (if \<not> strict then Inr (J_obj (foldl (\<lambda>d (k, v). AList.update k v d) [] ps))
      else if distinct (map fst ps) then Inr (J_obj ps) else Inl Duplicate_keys)"

definition start_value :: "nat \<Rightarrow> frame list \<Rightarrow> token \<Rightarrow> json_error + frame list \<times> mode" where
  "start_value depth st t =
     (case t of
        T_str s \<Rightarrow> Inr (st, M_ready (J_str s))
      | T_atom v \<Rightarrow> Inr (st, M_ready v)
      | T_open_list \<Rightarrow> if depth \<le> length st then Inl Too_deep else Inr (F_list [] # st, M_first_item)
      | T_open_obj \<Rightarrow> if depth \<le> length st then Inl Too_deep else Inr (F_obj [] [] # st, M_first_key)
      | _ \<Rightarrow> Inl Bad_json)"

definition finish_object :: "bool \<Rightarrow> frame list \<Rightarrow> (points \<times> json) list \<Rightarrow> json_error + frame list \<times> mode" where
  "finish_object strict st ps = (case close_object strict ps of Inl e \<Rightarrow> Inl e | Inr v \<Rightarrow> Inr (st, M_ready v))"

definition json_step ::
    "bool \<Rightarrow> nat \<Rightarrow> frame list \<Rightarrow> mode \<Rightarrow> token \<Rightarrow> json_error + frame list \<times> mode" where
  "json_step strict depth st m t =
     (case m of
        M_value \<Rightarrow> start_value depth st t
      | M_first_item \<Rightarrow>
          if t = T_close_list then Inr (tl st, M_ready (J_list [])) else start_value depth st t
      | M_first_key \<Rightarrow>
          (case t of T_close_obj \<Rightarrow> finish_object strict (tl st) [] | T_str k \<Rightarrow> Inr (st, M_colon k) | _ \<Rightarrow> Inl Bad_json)
      | M_key \<Rightarrow> (case t of T_str k \<Rightarrow> Inr (st, M_colon k) | _ \<Rightarrow> Inl Bad_json)
      | M_colon k \<Rightarrow>
          (case (t, st) of
             (T_colon, F_obj _ ps # fs) \<Rightarrow> Inr (F_obj k ps # fs, M_value)
           | _ \<Rightarrow> Inl Bad_json)
      | M_ready v \<Rightarrow>
          (case st of
             [] \<Rightarrow> Inl Bad_json
           | F_list vs # fs \<Rightarrow>
               (case t of
                  T_comma \<Rightarrow> Inr (F_list (vs @ [v]) # fs, M_value)
                | T_close_list \<Rightarrow> Inr (fs, M_ready (J_list (vs @ [v])))
                | _ \<Rightarrow> Inl Bad_json)
           | F_obj k ps # fs \<Rightarrow>
               (case t of
                  T_comma \<Rightarrow> Inr (F_obj [] (ps @ [(k, v)]) # fs, M_key)
                | T_close_obj \<Rightarrow> finish_object strict fs (ps @ [(k, v)])
                | _ \<Rightarrow> Inl Bad_json)))"

fun json_run :: "bool \<Rightarrow> nat \<Rightarrow> frame list \<Rightarrow> mode \<Rightarrow> token list \<Rightarrow> json_error + json" where
  "json_run strict depth st m [] = (case (m, st) of (M_ready v, []) \<Rightarrow> Inr v | _ \<Rightarrow> Inl Bad_json)"
| "json_run strict depth st m (t # ts) =
     (case json_step strict depth st m t of
        Inl e \<Rightarrow> Inl e
      | Inr (st', m') \<Rightarrow> json_run strict depth st' m' ts)"

definition json_loads :: "bool \<Rightarrow> nat \<Rightarrow> points \<Rightarrow> json_error + json" where
  "json_loads strict depth cs = json_run strict depth [] M_value (tokens strict cs)"

section \<open>Writing\<close>

text \<open>\<open>json.dumps\<close> with \<open>ensure_ascii\<close>, for objects of strings and integers.\<close>

definition hex_char :: "int \<Rightarrow> char" where
  "hex_char n = (if n < 10 then char_of (48 + n) else char_of (87 + n))"

definition unicode_escape :: "int \<Rightarrow> string" where
  "unicode_escape n =
     [CHR 0x5C, CHR ''u'', hex_char (n div 4096 mod 16), hex_char (n div 256 mod 16), hex_char (n div 16 mod 16),
      hex_char (n mod 16)]"

definition escape_char :: "char \<Rightarrow> string" where
  "escape_char c =
     (let n = of_char c :: int in
      if n = 34 \<or> n = 92 then [CHR 0x5C, c]
      else if n = 10 then [CHR 0x5C, CHR ''n''] else if n = 13 then [CHR 0x5C, CHR ''r'']
      else if n = 9 then [CHR 0x5C, CHR ''t''] else if n = 12 then [CHR 0x5C, CHR ''f'']
      else if n = 8 then [CHR 0x5C, CHR ''b'']
      else if 32 \<le> n \<and> n \<le> 126 then [c] else unicode_escape n)"

definition json_string :: "string \<Rightarrow> string" where
  "json_string s = [CHR 0x22] @ concat (map escape_char s) @ [CHR 0x22]"

datatype scalar = S_text string | S_number int

fun scalar_text :: "scalar \<Rightarrow> string" where
  "scalar_text (S_text s) = json_string s"
| "scalar_text (S_number i) = int_text i"

definition member_text :: "string \<times> scalar \<Rightarrow> string" where
  "member_text p = json_string (fst p) @ '': '' @ scalar_text (snd p)"

definition dumps_object :: "(string \<times> scalar) list \<Rightarrow> string" where
  "dumps_object ps = ''{'' @ py_join '', '' (map member_text ps) @ ''}''"

end
