(* ===== verification/Planner_Output.thy ===== *)
theory Planner_Output
  imports Json Budget
begin

text \<open>
  The strict parser of what a language model answers to the planning prompt
  (\<open>domain/orchestration/planner_output.py\<close>): untrusted text becomes a bounded list of task
  specifications, or one classified error with a fixed message.
\<close>

section \<open>Unicode text\<close>

text \<open>The white space of \<open>str.split\<close> and the control category Cc, on all code points.\<close>

definition point_space :: "int \<Rightarrow> bool" where
  "point_space c \<longleftrightarrow> (9 \<le> c \<and> c \<le> 13) \<or> (28 \<le> c \<and> c \<le> 32) \<or> c = 133 \<or> c = 160 \<or> c = 5760 \<or>
     (8192 \<le> c \<and> c \<le> 8202) \<or> c \<in> {8232, 8233, 8239, 8287, 12288}"

definition point_control :: "int \<Rightarrow> bool" where
  "point_control c \<longleftrightarrow> c < 32 \<or> (127 \<le> c \<and> c \<le> 159)"

text \<open>
  Strings of the model are Latin-1: a white-space character outside it becomes a blank, any other an
  inverted question mark. Lengths, white space and control characters stay what they are.
\<close>

definition latin_char :: "int \<Rightarrow> char" where
  "latin_char c = (if c < 256 then char_of c else if point_space c then CHR '' '' else CHR 0xBF)"

definition latin :: "points \<Rightarrow> string" where
  "latin s = map latin_char s"

section \<open>Task specifications\<close>

record planner_task_spec =
  spec_capability :: string
  spec_description :: string
  spec_depends_on :: "int list"
  spec_priority :: int

definition MAX_PLANNER_OUTPUT_LENGTH :: int where "MAX_PLANNER_OUTPUT_LENGTH = 32768"
definition MAX_PLANNER_TASKS :: int where "MAX_PLANNER_TASKS = max_tasks default_budget"
definition MAX_DESCRIPTION_LENGTH :: nat where "MAX_DESCRIPTION_LENGTH = 512"
definition MIN_PRIORITY :: int where "MIN_PRIORITY = 1"
definition MAX_PRIORITY :: int where "MAX_PRIORITY = 1000"
definition MAX_CAPABILITY_ID_LENGTH :: nat where "MAX_CAPABILITY_ID_LENGTH = 64"

definition malformed_json :: string where "malformed_json = ''malformed_json''"
definition invalid_structure :: string where "invalid_structure = ''invalid_structure''"
definition oversized :: string where "oversized = ''oversized''"

definition invalid_output :: "string \<Rightarrow> 'a res" where
  "invalid_output m = Inl (PlannerOutputError invalid_structure m)"

definition capability_id_ok :: "points \<Rightarrow> bool" where
  "capability_id_ok k \<longleftrightarrow> length k \<le> MAX_CAPABILITY_ID_LENGTH \<and> k \<noteq> [] \<and> 97 \<le> hd k \<and> hd k \<le> 122 \<and>
     list_all (\<lambda>c. (97 \<le> c \<and> c \<le> 122) \<or> (48 \<le> c \<and> c \<le> 57) \<or> c = 95) (tl k)"

definition checked_capability :: "json \<Rightarrow> string res" where
  "checked_capability v =
     (case v of
        J_str k \<Rightarrow> if capability_id_ok k then Inr (latin k)
          else invalid_output ''capability_id is empty, oversized, or malformed''
      | _ \<Rightarrow> invalid_output ''capability_id must be a string'')"

definition checked_description :: "json \<Rightarrow> string res" where
  "checked_description v =
     (case v of
        J_str s \<Rightarrow>
          if list_ex point_control s then invalid_output ''description must not contain control characters''
          else let d = norm_text (latin s) in
            if d = [] \<or> MAX_DESCRIPTION_LENGTH < length d
            then invalid_output ''description is empty or exceeds bounds'' else Inr d
      | _ \<Rightarrow> invalid_output ''description must be a string'')"

definition checked_ref :: "json \<Rightarrow> int res" where
  "checked_ref v =
     (case v of
        J_int i \<Rightarrow> if i < 0 then invalid_output ''depends_on entries must be non-negative'' else Inr i
      | _ \<Rightarrow> invalid_output ''depends_on entries must be integers'')"

definition checked_refs :: "json list \<Rightarrow> int list res" where
  "checked_refs vs =
     (if MAX_PLANNER_TASKS \<le> int (length vs) then invalid_output ''depends_on exceeds bounds''
      else and_then (map_res checked_ref vs) (\<lambda>refs.
        if \<not> distinct refs then invalid_output ''depends_on must not contain duplicates'' else Inr refs))"

definition checked_priority :: "json \<Rightarrow> int res" where
  "checked_priority v =
     (case v of
        J_int i \<Rightarrow>
          if i < MIN_PRIORITY \<or> MAX_PRIORITY < i
          then invalid_output (''priority must be between '' @ int_text MIN_PRIORITY @ '' and '' @ int_text MAX_PRIORITY)
          else Inr i
      | _ \<Rightarrow> invalid_output ''priority must be an integer'')"

definition spec_post_init :: "json \<Rightarrow> json \<Rightarrow> json list \<Rightarrow> json \<Rightarrow> planner_task_spec res" where
  "spec_post_init capability text refs prio =
     and_then (checked_capability capability) (\<lambda>k.
     and_then (checked_description text) (\<lambda>d.
     and_then (checked_refs refs) (\<lambda>ds.
     and_then (checked_priority prio) (\<lambda>i.
       Inr \<lparr>spec_capability = k, spec_description = d, spec_depends_on = ds, spec_priority = i\<rparr>))))"

section \<open>Output\<close>

text \<open>\<open>PlannerOutput.__post_init__\<close>; \<open>index\<close> counts the tasks.\<close>

fun check_specs :: "int \<Rightarrow> int \<Rightarrow> planner_task_spec list \<Rightarrow> unit res" where
  "check_specs n index [] = Inr ()"
| "check_specs n index (s # ss) =
     (case find (\<lambda>r. r = index \<or> n \<le> r) (spec_depends_on s) of
        Some r \<Rightarrow>
          if r = index then invalid_output (''tasks['' @ int_text index @ ''] must not depend on itself'')
          else invalid_output (''tasks['' @ int_text index @ ''] depends_on references a missing task'')
      | None \<Rightarrow> check_specs n (index + 1) ss)"

definition output_post_init :: "planner_task_spec list \<Rightarrow> planner_task_spec list res" where
  "output_post_init ss =
     (if ss = [] then invalid_output ''tasks must not be empty''
      else if MAX_PLANNER_TASKS < int (length ss) then invalid_output ''tasks exceeds maximum count''
      else and_then (check_specs (int (length ss)) 0 ss) (\<lambda>_. Inr ss))"

definition TOP_LEVEL_FIELDS :: "points list" where
  "TOP_LEVEL_FIELDS = map points [''type'', ''tasks'']"

definition TASK_FIELDS :: "points list" where
  "TASK_FIELDS = map points [''capability_id'', ''description'', ''depends_on'', ''priority'']"

text \<open>A dictionary with exactly the given keys.\<close>

definition check_fields :: "points list \<Rightarrow> string \<Rightarrow> (points \<times> json) list \<Rightarrow> unit res" where
  "check_fields keys what d =
     (if \<not> list_all (\<lambda>p. fst p \<in> set keys) d then invalid_output (what @ '' contains unknown fields'')
      else if \<not> list_all (\<lambda>k. k \<in> fst ` set d) keys then invalid_output (what @ '' is missing required fields'')
      else Inr ())"

definition field_of :: "(points \<times> json) list \<Rightarrow> string \<Rightarrow> json" where
  "field_of d k = (case map_of d (points k) of None \<Rightarrow> J_null | Some v \<Rightarrow> v)"

definition task_of_json :: "json \<Rightarrow> planner_task_spec res" where
  "task_of_json raw =
     (case raw of
        J_obj d \<Rightarrow>
          and_then (check_fields TASK_FIELDS ''task'' d) (\<lambda>_.
            case field_of d ''depends_on'' of
              J_list refs \<Rightarrow>
                spec_post_init (field_of d ''capability_id'') (field_of d ''description'') refs (field_of d ''priority'')
            | _ \<Rightarrow> invalid_output ''depends_on must be a list'')
      | _ \<Rightarrow> invalid_output ''task must be an object'')"

text \<open>\<open>_build_task\<close>: an error is prefixed with the index of its task.\<close>

definition indexed_task :: "nat \<times> json \<Rightarrow> planner_task_spec res" where
  "indexed_task p =
     (case task_of_json (snd p) of
        Inl (PlannerOutputError k m) \<Rightarrow>
          Inl (PlannerOutputError k (''tasks['' @ nat_text (fst p) @ '']: '' @ m))
      | r \<Rightarrow> r)"

definition load_output :: "nat \<Rightarrow> points \<Rightarrow> json res" where
  "load_output depth content =
     (case json_loads True depth content of
        Inr v \<Rightarrow> Inr v
      | Inl Duplicate_keys \<Rightarrow> invalid_output ''planner output contains duplicate keys''
      | Inl _ \<Rightarrow> Inl (PlannerOutputError malformed_json ''planner output is not valid JSON''))"

definition output_of_json :: "json \<Rightarrow> planner_task_spec list res" where
  "output_of_json payload =
     (case payload of
        J_obj d \<Rightarrow>
          and_then (check_fields TOP_LEVEL_FIELDS ''planner output'' d) (\<lambda>_.
            if field_of d ''type'' \<noteq> J_str (points ''research_plan'')
            then invalid_output (''planner output type must be '' @ [CHR 0x27] @ ''research_plan'' @ [CHR 0x27])
            else case field_of d ''tasks'' of
              J_list raw \<Rightarrow>
                if MAX_PLANNER_TASKS < int (length raw) then invalid_output ''tasks exceeds maximum count''
                else and_then (map_res indexed_task (enumerate 0 raw)) output_post_init
            | _ \<Rightarrow> invalid_output ''tasks must be a list'')
      | _ \<Rightarrow> invalid_output ''planner output must be a JSON object'')"

definition parse_planner_output :: "nat \<Rightarrow> points \<Rightarrow> planner_task_spec list res" where
  "parse_planner_output depth content =
     (if MAX_PLANNER_OUTPUT_LENGTH < len content
      then Inl (PlannerOutputError oversized ''planner output exceeds size bounds'')
      else if list_all point_space content
      then Inl (PlannerOutputError malformed_json ''planner output empty'')
      else and_then (load_output depth content) output_of_json)"

lemma output_of_json_Inr:
  assumes "output_of_json payload = Inr specs"
  obtains raw where "map_res indexed_task raw = Inr specs" "output_post_init specs = Inr specs"
proof (cases payload)
  case (J_obj d)
  show ?thesis
  proof (cases "field_of d ''tasks''")
    case (J_list raw)
    then show ?thesis
      using assms that J_obj
      by (auto simp: output_of_json_def invalid_output_def and_then_Inr_iff output_post_init_def split: if_splits)
  qed (use assms J_obj in \<open>auto simp: output_of_json_def invalid_output_def and_then_Inr_iff split: if_splits\<close>)
qed (use assms in \<open>simp_all add: output_of_json_def invalid_output_def\<close>)

end
