(* ===== verification/Llm_Planner.thy ===== *)
theory Llm_Planner
  imports Llm
begin

text \<open>
  The planner behind a language model (\<open>infrastructure/orchestration/llm_planner_adapter.py\<close>): one call
  of the router, the strict parser, and a plan built from server-side ids only. The resolver, the
  router and \<open>uuid4()\<close> are ports over a world of any type. The adapter is a second instance of the
  locale \<open>planner_port\<close>.
\<close>

section \<open>Failures\<close>

text \<open>\<open>_PlannerFailure\<close>, and any other exception, which the adapter catches last.\<close>

datatype planner_failure = Classified planner_outcome_status string | Raised error

definition fail_with :: "string \<Rightarrow> planner_failure + 'a" where
  "fail_with m = Inl (Classified Planner_FAILED m)"

definition raised :: "'a res \<Rightarrow> planner_failure + 'a" where
  "raised r = map_sum Raised id r"

text \<open>\<open>except\<close> of the errors \<open>caught\<close>, answered with a fixed message.\<close>

definition unless_caught :: "(error \<Rightarrow> bool) \<Rightarrow> string \<Rightarrow> 'a res \<Rightarrow> planner_failure + 'a" where
  "unless_caught caught m r =
     (case r of Inl e \<Rightarrow> if caught e then fail_with m else Inl (Raised e) | Inr x \<Rightarrow> Inr x)"

fun then_plan :: "(planner_failure + 'a) \<Rightarrow> ('a \<Rightarrow> planner_failure + 'b) \<Rightarrow> planner_failure + 'b" where
  "then_plan (Inl e) f = Inl e"
| "then_plan (Inr x) f = f x"

lemma then_plan_Inr_iff: "then_plan r f = Inr y \<longleftrightarrow> (\<exists>x. r = Inr x \<and> f x = Inr y)"
  by (cases r) auto

fun is_graph_error :: "error \<Rightarrow> bool" where
  "is_graph_error (TaskGraphError m) = True"
| "is_graph_error _ = False"

fun is_budget_error :: "error \<Rightarrow> bool" where
  "is_budget_error (BudgetExceededError m) = True"
| "is_budget_error _ = False"

section \<open>Tasks\<close>

definition capability_fault :: "capability_registry \<Rightarrow> string \<Rightarrow> string" where
  "capability_fault reg k =
     (case registry_get reg k of
        None \<Rightarrow> ''planner referenced an unknown capability''
      | Some c \<Rightarrow>
          if cap_availability c = Cap_UNAVAILABLE then ''planner referenced an unavailable capability''
          else ''planner referenced a capability that is not planner-eligible'')"

definition proposed_task ::
    "research_request \<Rightarrow> task_id list \<Rightarrow> nat \<Rightarrow> capability_descriptor \<Rightarrow> planner_task_spec \<Rightarrow> research_task" where
  "proposed_task r ids index cap spec =
     \<lparr>task_id = ids ! index, task_type = cap_task_type cap, capability_id = cap_id cap,
      description = spec_description spec, dependencies = map (\<lambda>d. ids ! nat d) (spec_depends_on spec),
      task_status = Task_PENDING, priority = spec_priority spec, required = True, attempt_count = 0,
      max_attempts = 1, task_created_at = Some (request_created_at r), task_started_at = None,
      task_completed_at = None\<rparr>"

definition build_task ::
    "capability_registry \<Rightarrow> research_request \<Rightarrow> task_id list \<Rightarrow> nat \<Rightarrow> string list \<Rightarrow> planner_task_spec
      \<Rightarrow> planner_failure + research_task" where
  "build_task reg r ids index seen spec =
     (case find (\<lambda>c. cap_id c = spec_capability spec) (planner_capabilities reg) of
        None \<Rightarrow> fail_with (capability_fault reg (spec_capability spec))
      | Some cap \<Rightarrow>
          if cap_id cap \<in> set seen then fail_with ''planner requested a duplicate capability''
          else if list_ex (\<lambda>d. d < 0 \<or> int (length ids) \<le> d \<or> d = int index) (spec_depends_on spec)
          then fail_with ''planner produced an invalid dependency reference''
          else unless_caught is_value_error ''planner task was rejected by domain validation''
            (task_post_init (proposed_task r ids index cap spec)))"

fun build_tasks ::
    "capability_registry \<Rightarrow> research_request \<Rightarrow> task_id list \<Rightarrow> nat \<Rightarrow> string list \<Rightarrow> planner_task_spec list
      \<Rightarrow> planner_failure + research_task list" where
  "build_tasks reg r ids index seen [] = Inr []"
| "build_tasks reg r ids index seen (s # ss) =
     then_plan (build_task reg r ids index seen s) (\<lambda>t.
     then_plan (build_tasks reg r ids (index + 1) (spec_capability s # seen) ss) (\<lambda>ts. Inr (t # ts)))"

text \<open>\<open>TaskId.new()\<close> for every task, before any of them is built.\<close>

fun fresh_task_ids :: "('w \<Rightarrow> uuid \<times> 'w) \<Rightarrow> nat \<Rightarrow> 'w \<Rightarrow> task_id list res \<times> 'w" where
  "fresh_task_ids fresh 0 w = (Inr [], w)"
| "fresh_task_ids fresh (Suc n) w =
     (case fresh w of
        (u, w1) \<Rightarrow>
          case mk_task_id u of
            Inl e \<Rightarrow> (Inl e, w1)
          | Inr i \<Rightarrow> map_prod (map_sum id (Cons i)) id (fresh_task_ids fresh n w1))"

section \<open>The adapter\<close>

record 'w llm_ports =
  llm_resolve :: "company_query \<Rightarrow> 'w \<Rightarrow> resolution_result res \<times> 'w"
  llm_complete :: "model_request \<Rightarrow> 'w \<Rightarrow> model_response res \<times> 'w"
  llm_fresh :: "'w \<Rightarrow> uuid \<times> 'w"

text \<open>Its configuration: the registry, the budget, the output bound, and how deep the decoder can nest.\<close>

record llm_config =
  llm_registry :: capability_registry
  llm_budget :: execution_budget
  llm_max_output_tokens :: int
  llm_depth :: nat

definition accept_resolution :: "resolution_result \<Rightarrow> planner_failure + company_id" where
  "accept_resolution x =
     (case (resolution_status x, resolved_company x) of
        (Resolution_RESOLVED, Some c) \<Rightarrow> Inr (company_id c)
      | (Resolution_INVALID, _) \<Rightarrow> Inl (Classified Planner_INVALID ''company query is invalid'')
      | _ \<Rightarrow> Inl (Classified Planner_INVALID ''company identity could not be uniquely resolved''))"

definition build_model_request :: "llm_config \<Rightarrow> research_request \<Rightarrow> uuid \<Rightarrow> model_request res" where
  "build_model_request C r u =
     and_then (mk_model_call_id u) (\<lambda>i.
     and_then (message_post_init \<lparr>message_role = Role_SYSTEM,
        message_content = system_prompt (llm_registry C) (min MAX_PLANNER_TASKS (max_tasks (llm_budget C)))\<rparr>) (\<lambda>sys.
     and_then (message_post_init \<lparr>message_role = Role_USER, message_content = user_prompt r\<rparr>) (\<lambda>usr.
       model_request_post_init \<lparr>request_call_id = i, prompt_version = LLM_PLANNER_VERSION, messages = [sys, usr],
         max_output_tokens = llm_max_output_tokens C, correlation_id = Some (request_id_text (request_id r))\<rparr>)))"

definition accept_response :: "model_request \<Rightarrow> model_response \<Rightarrow> planner_failure + points" where
  "accept_response q x =
     (if response_call_id x \<noteq> request_call_id q
      then fail_with ''planner model response did not match the request''
      else case (response_status x, response_content x) of
          (Call_SUCCEEDED, Some c) \<Rightarrow> Inr c
        | (Call_DEGRADED, _) \<Rightarrow> fail_with ''planner model response was degraded''
        | (Call_FAILED, _) \<Rightarrow>
            (if failure_kind x = Some Fail_POLICY_VIOLATION
             then Inl (Classified Planner_UNAVAILABLE ''planner model is unavailable (disabled by policy)'')
             else fail_with (''planner model call failed'' @
               (case failure_kind x of None \<Rightarrow> [] | Some k \<Rightarrow> '' ('' @ failure_kind_value k @ '')'')))
        | _ \<Rightarrow> fail_with ''planner model response was unusable'')"

fun output_fault :: "error \<Rightarrow> planner_failure" where
  "output_fault (PlannerOutputError k m) =
     Classified Planner_FAILED
       (if k = malformed_json then ''planner output was not valid JSON''
        else if k = invalid_structure then ''planner output failed structural validation''
        else ''planner output exceeded size bounds'')"
| "output_fault e = Raised e"

definition accept_output :: "nat \<Rightarrow> points \<Rightarrow> planner_failure + planner_task_spec list" where
  "accept_output depth content = map_sum output_fault id (parse_planner_output depth content)"

definition accept_tasks :: "execution_budget \<Rightarrow> research_task list \<Rightarrow> planner_failure + unit" where
  "accept_tasks b ts =
     then_plan (unless_caught is_graph_error ''planner dependency graph is invalid'' (validate_task_graph ts)) (\<lambda>_.
       unless_caught is_budget_error PLANNER_BUDGET_EXCEEDED_MESSAGE (validate_tasks b ts))"

definition llm_plan_of ::
    "research_request \<Rightarrow> company_id \<Rightarrow> research_task list \<Rightarrow> uuid \<Rightarrow> planner_failure + research_plan" where
  "llm_plan_of r cid ts u =
     unless_caught is_value_error ''planner output was rejected by plan validation''
       (and_then (mk_plan_id u) (\<lambda>i.
          plan_post_init \<lparr>plan_id = i, plan_run_id = request_run_id r, plan_objective = request_objective r,
            plan_company_id = cid, plan_tasks = ts, plan_created_at = request_created_at r,
            planner_version = LLM_PLANNER_VERSION, plan_status = Plan_READY\<rparr>))"

text \<open>\<open>_plan\<close>, in three parts: the call, the tasks of an answer, the plan.\<close>

definition ask_model ::
    "'w llm_ports \<Rightarrow> llm_config \<Rightarrow> research_request \<Rightarrow> 'w \<Rightarrow> (planner_failure + points) \<times> 'w" where
  "ask_model P C r w =
     (case llm_fresh P w of
        (u, w1) \<Rightarrow>
          case build_model_request C r u of
            Inl e \<Rightarrow> (Inl (Raised e), w1)
          | Inr q \<Rightarrow>
              case llm_complete P q w1 of
                (x, w2) \<Rightarrow> (then_plan (raised x) (accept_response q), w2))"

definition plan_answer ::
    "'w llm_ports \<Rightarrow> llm_config \<Rightarrow> research_request \<Rightarrow> company_id \<Rightarrow> points \<Rightarrow> 'w
      \<Rightarrow> (planner_failure + research_plan) \<times> 'w" where
  "plan_answer P C r cid content w =
     (case accept_output (llm_depth C) content of
        Inl e \<Rightarrow> (Inl e, w)
      | Inr specs \<Rightarrow>
          case fresh_task_ids (llm_fresh P) (length specs) w of
            (Inl e, w1) \<Rightarrow> (Inl (Raised e), w1)
          | (Inr ids, w1) \<Rightarrow>
              case then_plan (build_tasks (llm_registry C) r ids 0 [] specs) (\<lambda>ts.
                     then_plan (accept_tasks (llm_budget C) ts) (\<lambda>_. Inr ts)) of
                Inl e \<Rightarrow> (Inl e, w1)
              | Inr ts \<Rightarrow> case llm_fresh P w1 of (u, w2) \<Rightarrow> (llm_plan_of r cid ts u, w2))"

definition llm_plan ::
    "'w llm_ports \<Rightarrow> llm_config \<Rightarrow> research_request \<Rightarrow> 'w \<Rightarrow> (planner_failure + research_plan) \<times> 'w" where
  "llm_plan P C r w =
     (case llm_resolve P (request_company_query r) w of
        (x, w1) \<Rightarrow>
          case then_plan (raised x) accept_resolution of
            Inl e \<Rightarrow> (Inl e, w1)
          | Inr cid \<Rightarrow>
              case ask_model P C r w1 of
                (Inl e, w2) \<Rightarrow> (Inl e, w2)
              | (Inr content, w2) \<Rightarrow> plan_answer P C r cid content w2)"

definition llm_create_plan ::
    "'w llm_ports \<Rightarrow> llm_config \<Rightarrow> research_request \<Rightarrow> 'w \<Rightarrow> planner_outcome res \<times> 'w" where
  "llm_create_plan P C r w =
     (case llm_plan P C r w of
        (Inl (Classified st m), w1) \<Rightarrow> (outcome_of st m None (Some LLM_PLANNER_VERSION), w1)
      | (Inl (Raised e), w1) \<Rightarrow>
          (outcome_of Planner_FAILED ''planner failed unexpectedly'' None (Some LLM_PLANNER_VERSION), w1)
      | (Inr p, w1) \<Rightarrow>
          (outcome_of Planner_OK ''research plan created by llm planner'' (Some p) (Some LLM_PLANNER_VERSION), w1))"

end
