(* ===== verification/Prompt_Roundtrip.thy ===== *)
theory Prompt_Roundtrip
  imports Llm
begin

text \<open>
  Reading back what \<open>build_user_prompt\<close> writes: the escaped request block of the prompt is read by
  \<open>json.loads\<close> as exactly the fields of the request, and holds no \<open><\<close> at all.
\<close>

section \<open>Characters\<close>

lemma points_simps [simp]:
  "points [] = []" "points (c # s) = of_char c # points s" "points (s @ t) = points s @ points t"
  by (simp_all add: points_def)

lemma escape_angle_simps [simp]:
  "escape_angle [] = []" "escape_angle (s @ t) = escape_angle s @ escape_angle t"
  by (simp_all add: escape_angle_def)

lemma escape_angle_Cons [simp]:
  "escape_angle (c # s) = (if c = CHR ''<'' then CHR 0x5C # ''u003c'' else [c]) @ escape_angle s"
  by (simp add: escape_angle_def)

lemma escape_angle_free: "CHR ''<'' \<notin> set s \<Longrightarrow> escape_angle s = s"
  by (induction s) auto

lemma no_angle: "CHR ''<'' \<notin> set (escape_angle s)"
  by (induction s) auto

lemma of_hex_char:
  assumes "0 \<le> d" "d < 16"
  shows "of_char (hex_char d) = (if d < 10 then 48 + d else 87 + d)" "hex_char d \<noteq> CHR ''<''"
proof -
  show "of_char (hex_char d) = (if d < 10 then 48 + d else 87 + d)" using assms by (simp add: hex_char_def)
  then have "of_char (hex_char d) \<noteq> (of_char CHR ''<'' :: int)" using assms by (auto split: if_splits)
  then show "hex_char d \<noteq> CHR ''<''" by metis
qed

lemma hex_digit_char: "0 \<le> d \<Longrightarrow> d < 16 \<Longrightarrow> hex_digit (of_char (hex_char d)) = Some d"
  by (simp add: of_hex_char hex_digit_def)

lemma hex_value_chars:
  assumes "0 \<le> a" "a < 16" "0 \<le> b" "b < 16" "0 \<le> c" "c < 16" "0 \<le> d" "d < 16"
  shows "hex_value (points [hex_char a, hex_char b, hex_char c, hex_char d]) =
    Some (4096 * a + 256 * b + 16 * c + d)"
  using assms by (simp add: hex_digit_char)

lemma hex_sum:
  fixes n :: int
  assumes "0 \<le> n" "n < 256"
  shows "4096 * (n div 4096 mod 16) + 256 * (n div 256 mod 16) + 16 * (n div 16 mod 16) + n mod 16 = n"
proof -
  have "n div 4096 = 0" "n div 256 = 0" "n div 16 < 16" "0 \<le> n div 16" using assms by auto
  moreover from this have "n div 16 mod 16 = n div 16" by (intro mod_pos_pos_trivial)
  ultimately show ?thesis by simp
qed

lemma scan_escape:
  assumes "hex_value [a, b, c, d] = Some n" "\<not> high_surrogate n"
  shows "scan_string (92 # 117 # a # b # c # d # xs) = put_char n (scan_string xs)"
  using assms by (simp add: scan_string.simps(2) [of 92])

lemma scan_unicode_escape:
  assumes "0 \<le> n" "n < 256"
  shows "scan_string (points (unicode_escape n) @ xs) = put_char n (scan_string xs)"
proof -
  have hex: "hex_value (points [hex_char (n div 4096 mod 16), hex_char (n div 256 mod 16), hex_char (n div 16 mod 16),
      hex_char (n mod 16)]) = Some n"
    using hex_value_chars [of "n div 4096 mod 16" "n div 256 mod 16" "n div 16 mod 16" "n mod 16"]
    unfolding hex_sum [OF assms] by simp
  have "\<not> high_surrogate n" using assms by (simp add: high_surrogate_def)
  from scan_escape [OF hex [unfolded points_simps] this] show ?thesis
    by (simp add: unicode_escape_def)
qed

text \<open>One escaped character, then the whole string up to its closing quote.\<close>

definition escaped :: "char \<Rightarrow> string" where
  "escaped c = escape_angle (escape_char c)"

lemma scan_plain: "c \<noteq> 34 \<Longrightarrow> c \<noteq> 92 \<Longrightarrow> 32 \<le> c \<Longrightarrow> scan_string (c # xs) = put_char c (scan_string xs)"
  by (simp add: scan_string.simps(2) [of c])

lemma scan_short_escape:
  assumes "e \<noteq> 117" "escaped_char e = Some c"
  shows "scan_string (92 # e # xs) = put_char c (scan_string xs)"
  using assms by (simp add: scan_string.simps(2) [of 92])

lemma char_eq_ord: "c = d \<longleftrightarrow> of_char c = (of_char d :: int)"
  by (metis char_of_char)

lemma escape_char_cases:
  obtains (quoted) "of_char c \<in> {34, 92 :: int}" "escape_char c = [CHR 0x5C, c]"
  | (short) e where "escape_char c = [CHR 0x5C, e]" "of_char e \<noteq> (117 :: int)" "escaped_char (of_char e) = Some (of_char c)"
      "e \<noteq> CHR ''<''"
  | (plain) "of_char c \<notin> {34, 92 :: int}" "32 \<le> (of_char c :: int)" "escape_char c = [c]"
  | (coded) "escape_char c = unicode_escape (of_char c)"
proof -
  consider "of_char c \<in> {34, 92 :: int}" | "of_char c \<in> {10, 13, 9, 12, 8 :: int}"
    | "of_char c \<notin> {34, 92, 10, 13, 9, 12, 8 :: int}" by blast
  then show ?thesis
  proof cases
    case 1
    then show ?thesis using quoted by (auto simp: escape_char_def)
  next
    case 2
    then show ?thesis
      by (auto simp: escape_char_def intro!: short simp: escaped_char_def)
  next
    case 3
    then show ?thesis
      using plain coded by (cases "32 \<le> (of_char c :: int) \<and> (of_char c :: int) \<le> 126") (auto simp: escape_char_def)
  qed
qed

lemma char_bounds: "0 \<le> (of_char c :: int)" "(of_char c :: int) < 256"
proof -
  have "(of_char c :: int) mod 256 = of_char c" by (metis of_char_of char_of_char)
  then show "0 \<le> (of_char c :: int)" "(of_char c :: int) < 256"
    using pos_mod_sign [of 256 "of_char c :: int"] pos_mod_bound [of 256 "of_char c :: int"] by simp_all
qed

lemma unicode_escape_plain: "0 \<le> n \<Longrightarrow> n < 256 \<Longrightarrow> escape_angle (unicode_escape n) = unicode_escape n"
proof (rule escape_angle_free)
  have h: "CHR ''<'' \<noteq> hex_char (k mod 16)" for k :: int using of_hex_char(2) [of "k mod 16"] by auto
  show "CHR ''<'' \<notin> set (unicode_escape n)"
    using h [of "n div 4096"] h [of "n div 256"] h [of "n div 16"] h [of n] unfolding unicode_escape_def by simp
qed

lemma scan_escaped: "scan_string (points (escaped c) @ xs) = put_char (of_char c) (scan_string xs)"
proof (cases rule: escape_char_cases [of c])
  case quoted
  then show ?thesis
    by (cases "c = CHR ''<''") (auto simp: escaped_def scan_short_escape escaped_char_def)
next
  case (short e)
  then show ?thesis by (simp add: escaped_def scan_short_escape)
next
  case plain
  show ?thesis
  proof (cases "c = CHR ''<''")
    case True
    then have "points (escaped c) = points (unicode_escape (of_char c))" using plain
      by (simp add: escaped_def unicode_escape_def hex_char_def)
    then show ?thesis using scan_unicode_escape char_bounds by simp
  next
    case False
    then show ?thesis using plain by (simp add: escaped_def scan_plain)
  qed
next
  case coded
  then show ?thesis
    using scan_unicode_escape char_bounds by (simp add: escaped_def unicode_escape_plain)
qed

lemma escape_angle_concat: "escape_angle (concat (map f s)) = concat (map (\<lambda>c. escape_angle (f c)) s)"
  by (induction s) simp_all

lemma scan_whole: "scan_string (points (concat (map escaped s)) @ 34 # xs) = Some (points s, xs)"
proof (induction s)
  case Nil
  then show ?case by (simp add: scan_string.simps(2) [of 34])
next
  case (Cons c s)
  then show ?case by (simp add: scan_escaped put_char_def)
qed

section \<open>Tokens\<close>

lemma tokens_space: "tokens strict (32 # xs) = tokens strict xs"
  by (subst (1 2) tokens.simps) (simp add: json_space_def)

lemma tokens_scan:
  assumes "\<not> json_space c" "scan_token strict (c # xs) = (t, rest)" "t \<noteq> T_bad"
  shows "tokens strict (c # xs) = t # tokens strict rest"
  using assms by (subst tokens.simps) simp

lemma tokens_punctuation:
  "tokens strict (123 # xs) = T_open_obj # tokens strict xs" "tokens strict (125 # xs) = T_close_obj # tokens strict xs"
  "tokens strict (58 # xs) = T_colon # tokens strict xs" "tokens strict (44 # xs) = T_comma # tokens strict xs"
  by (rule tokens_scan; simp add: json_space_def scan_token_def)+

lemma tokens_string:
  "tokens strict (34 # points (concat (map escaped s)) @ 34 # xs) = T_str (points s) # tokens strict xs"
  by (rule tokens_scan) (simp_all add: json_space_def scan_token_def scan_whole)

text \<open>Numerals.\<close>

lemma digit_char_point: "d < 10 \<Longrightarrow> (of_char (digit_char d) :: int) = 48 + int d"
proof -
  assume d: "d < 10"
  have "(of_char (digit_char d) :: int) = int (of_char (digit_char d))" by (simp add: of_nat_of_char)
  also have "of_char (digit_char d) = 48 + d" using d by (simp add: digit_char_def)
  finally show "(of_char (digit_char d) :: int) = 48 + int d" by simp
qed

lemma nat_text_points:
  "list_all digit (points (nat_text n)) \<and> digits_value (points (nat_text n)) = int n \<and> nat_text n \<noteq> [] \<and>
   (0 < n \<longrightarrow> hd (points (nat_text n)) \<noteq> 48)"
proof (induction n rule: nat_text.induct)
  case (1 n)
  show ?case
  proof (cases "n < 10")
    case True
    then show ?thesis
      by (auto simp: nat_text.simps [of n] digit_char_point digit_def digits_value_def)
  next
    case False
    have "n mod 10 < 10" by simp
    moreover have "10 * int (n div 10) + int (n mod 10) = int n" by (simp add: zdiv_int zmod_int)
    moreover note digit_char_point [OF calculation(1)]
    ultimately show ?thesis
      using 1 [OF False] False by (auto simp: nat_text.simps [of n] digit_def digits_value_def hd_append)
  qed
qed

lemma length_nat_text: "n < 10 ^ Suc k \<Longrightarrow> length (nat_text n) \<le> Suc k"
proof (induction k arbitrary: n)
  case 0
  then show ?case by (simp add: nat_text.simps [of n])
next
  case (Suc k)
  show ?case
  proof (cases "n < 10")
    case True
    then show ?thesis by (simp add: nat_text.simps [of n])
  next
    case False
    have "n div 10 < 10 ^ Suc k" using Suc.prems by (simp add: less_mult_imp_div_less)
    then show ?thesis using Suc.IH [of "n div 10"] False by (simp add: nat_text.simps [of n])
  qed
qed

definition ends_number :: "points \<Rightarrow> bool" where
  "ends_number xs \<longleftrightarrow> xs \<noteq> [] \<and> \<not> digit (hd xs) \<and> hd xs \<notin> {46, 69, 101}"

lemma scan_numeral:
  assumes "0 < n" "n < 10000" "ends_number xs"
  shows "scan_number (points (nat_text n) @ xs) = (T_atom (J_int (int n)), xs)"
proof -
  obtain d ds where t: "points (nat_text n) = d # ds" using nat_text_points [of n] by (cases "nat_text n") auto
  have *: "list_all digit (d # ds)" "d \<noteq> 48" "digits_value (d # ds) = int n"
    using nat_text_points [of n] assms(1) unfolding t by auto
  have neg: "d \<noteq> 45" using *(1) by (auto simp: digit_def)
  have "takeWhile digit (d # ds @ xs) = d # ds"
    using *(1) assms(3) by (auto simp: takeWhile_append ends_number_def list_all_iff neq_Nil_conv)
  then have int: "integer_part (d # ds @ xs) = d # ds" using *(2) by (simp add: integer_part_def)
  have "fraction_part xs = []" "exponent_part xs = []"
    using assms(3) by (auto simp: fraction_part_def exponent_part_def ends_number_def)
  moreover have "len (d # ds) \<le> 4300"
    using length_nat_text [of n 3] assms(2) arg_cong [OF t, of length] by (simp add: len_def points_def)
  ultimately show ?thesis
    using int neg *(3) by (simp add: t scan_number_def)
qed

lemma tokens_numeral:
  assumes "0 < n" "n < 10000" "ends_number xs"
  shows "tokens strict (points (nat_text n) @ xs) = T_atom (J_int (int n)) # tokens strict xs"
proof -
  obtain d ds where t: "points (nat_text n) = d # ds" using nat_text_points [of n] by (cases "nat_text n") auto
  then have d: "digit d" using nat_text_points [of n] by simp
  have "find (\<lambda>(w, t). take (length w) (d # ds @ xs) = w) (literals strict) = None"
    using d by (auto simp: find_None_iff literals_def digit_def)
  moreover have "d \<notin> {34, 123, 125, 91, 93, 58, 44}" using d by (auto simp: digit_def)
  ultimately have "scan_token strict (d # ds @ xs) = (T_atom (J_int (int n)), xs)"
    using scan_numeral [OF assms] by (simp add: t scan_token_def)
  moreover have "\<not> json_space d" using d by (auto simp: digit_def json_space_def)
  ultimately show ?thesis using tokens_scan by (simp add: t)
qed

section \<open>Objects\<close>

fun scalar_json :: "scalar \<Rightarrow> json" where
  "scalar_json (S_text s) = J_str (points s)"
| "scalar_json (S_number i) = J_int i"

fun scalar_ok :: "scalar \<Rightarrow> bool" where
  "scalar_ok (S_text s) \<longleftrightarrow> True"
| "scalar_ok (S_number i) \<longleftrightarrow> 0 < i \<and> i < 10000"

fun scalar_token :: "scalar \<Rightarrow> token" where
  "scalar_token (S_text s) = T_str (points s)"
| "scalar_token (S_number i) = T_atom (J_int i)"

definition member_json :: "string \<times> scalar \<Rightarrow> points \<times> json" where
  "member_json p = (points (fst p), scalar_json (snd p))"

lemma escape_json_string: "escape_angle (json_string s) = [CHR 0x22] @ concat (map escaped s) @ [CHR 0x22]"
  by (simp add: json_string_def escape_angle_concat escaped_def [abs_def])

lemma escape_numeral: "escape_angle (nat_text n) = nat_text n"
proof (rule escape_angle_free)
  have "c \<noteq> CHR ''<''" if "c \<in> set (nat_text n)" for c
    using nat_text_points [of n] that by (auto simp: list_all_iff points_def digit_def)
  then show "CHR ''<'' \<notin> set (nat_text n)" by blast
qed

lemma tokens_scalar:
  assumes "scalar_ok v" "ends_number xs"
  shows "tokens strict (points (escape_angle (scalar_text v)) @ xs) = scalar_token v # tokens strict xs"
proof (cases v)
  case (S_text s)
  then show ?thesis using tokens_string [of strict s xs] by (simp add: escape_json_string)
next
  case (S_number i)
  then have "0 < nat i" "nat i < 10000" using assms(1) by auto
  with S_number show ?thesis
    using tokens_numeral [of "nat i" xs strict] assms by (simp add: int_text_def escape_numeral)
qed

lemma tokens_member:
  assumes "scalar_ok (snd p)" "ends_number xs"
  shows "tokens strict (points (escape_angle (member_text p)) @ xs) =
    T_str (points (fst p)) # T_colon # scalar_token (snd p) # tokens strict xs"
proof -
  have "points (escape_angle (member_text p)) @ xs =
      34 # points (concat (map escaped (fst p))) @ 34 # 58 # 32 # points (escape_angle (scalar_text (snd p))) @ xs"
    by (simp add: member_text_def escape_json_string)
  then show ?thesis
    by (simp only: tokens_string tokens_punctuation tokens_space tokens_scalar [OF assms])
qed

lemma run_member:
  assumes "m \<in> {M_key, M_first_key}"
  shows "json_run strict depth [F_obj k0 acc] m (T_str k # T_colon # scalar_token v # ts) =
    json_run strict depth [F_obj k acc] (M_ready (scalar_json v)) ts"
  using assms by (cases v) (auto simp: json_step_def start_value_def)

lemma run_ready:
  "json_run strict depth [F_obj k acc] (M_ready v) (T_comma # ts) =
     json_run strict depth [F_obj [] (acc @ [(k, v)])] M_key ts"
  "distinct (map fst (acc @ [(k, v)])) \<Longrightarrow>
     json_run True depth [F_obj k acc] (M_ready v) [T_close_obj] = Inr (J_obj (acc @ [(k, v)]))"
  by (simp_all add: json_step_def finish_object_def close_object_def)

lemma run_members:
  assumes "ps \<noteq> []" "list_all (\<lambda>p. scalar_ok (snd p)) ps" "m \<in> {M_key, M_first_key}"
    "distinct (map fst (acc @ map member_json ps))"
  shows "json_run True depth [F_obj k0 acc] m
      (tokens True (points (escape_angle (py_join '', '' (map member_text ps) @ ''}'')))) =
    Inr (J_obj (acc @ map member_json ps))"
  using assms
proof (induction ps arbitrary: k0 acc m)
  case (Cons p ps)
  note run = run_member [OF Cons.prems(3)]
  show ?case
  proof (cases ps)
    case Nil
    have "tokens True (points (escape_angle (member_text p)) @ [125]) =
        [T_str (points (fst p)), T_colon, scalar_token (snd p), T_close_obj]"
      using tokens_member [of p "[125]" True] Cons.prems(2) tokens_punctuation(2) [of True "[]"]
      by (simp add: ends_number_def digit_def tokens.simps [of True "[]"])
    then show ?thesis
      using Cons.prems(4) Nil
      by (simp add: run run_ready member_json_def del: json_run.simps)
  next
    case (Cons q qs)
    let ?rest = "points (escape_angle (py_join '', '' (map member_text ps) @ ''}''))"
    have "tokens True (points (escape_angle (member_text p)) @ 44 # 32 # ?rest) =
        T_str (points (fst p)) # T_colon # scalar_token (snd p) # T_comma # tokens True ?rest"
      using tokens_member [of p "44 # 32 # ?rest" True] Cons.prems(2)
      by (simp add: ends_number_def digit_def tokens_punctuation tokens_space)
    moreover have "points (escape_angle (py_join '', '' (map member_text (p # ps)) @ ''}'')) =
        points (escape_angle (member_text p)) @ 44 # 32 # ?rest"
      using Cons by simp
    moreover have "json_run True depth [F_obj [] (acc @ [member_json p])] M_key (tokens True ?rest) =
        Inr (J_obj ((acc @ [member_json p]) @ map member_json ps))"
      using Cons.IH [of M_key "acc @ [member_json p]" "[]"] Cons.prems(2,4) Cons by simp
    ultimately show ?thesis by (simp add: run run_ready member_json_def del: json_run.simps)
  qed
qed simp

lemma loads_dumps:
  assumes "ps \<noteq> []" "list_all (\<lambda>p. scalar_ok (snd p)) ps" "distinct (map fst ps)" "0 < depth"
  shows "json_loads True depth (points (escape_angle (dumps_object ps))) = Inr (J_obj (map member_json ps))"
proof -
  have "inj points" by (auto simp: inj_def points_def intro: list.inj_map_strong)
  then have d: "distinct (map fst (map member_json ps))"
    using assms(3) by (simp add: member_json_def comp_def distinct_map inj_on_def)
  have "points (escape_angle (dumps_object ps)) =
      123 # points (escape_angle (py_join '', '' (map member_text ps) @ ''}''))"
    by (simp add: dumps_object_def)
  then show ?thesis
    using run_members [OF assms(1,2), of M_first_key "[]" depth "[]"] d assms(4)
    by (simp add: json_loads_def tokens_punctuation json_step_def start_value_def)
qed

lemma inj_points: "inj points"
  by (auto simp: inj_def points_def intro: list.inj_map_strong)

lemma member_keys: "distinct (map fst (map member_json ps)) = distinct (map fst ps)"
  by (simp add: member_json_def comp_def distinct_map inj_on_def inj_eq [OF inj_points])

section \<open>The fields of a request\<close>

lemma prompt_fields_ok:
  assumes "request_post_init r0 = Inr r"
  shows "distinct (map fst (prompt_fields r))" "list_all (\<lambda>p. scalar_ok (snd p)) (prompt_fields r)"
    "(''query'', S_text (request_raw_query r)) \<in> set (prompt_fields r)"
proof -
  have "case time_horizon_days r of None \<Rightarrow> True | Some d \<Rightarrow> 1 \<le> d \<and> d \<le> 3650"
    using assms by (auto simp: request_post_init_def and_then_Inr_iff split: if_splits option.splits)
  then show "list_all (\<lambda>p. scalar_ok (snd p)) (prompt_fields r)"
    by (auto simp: prompt_fields_def List.map_filter_simps list_all_iff split: option.splits)
  show "distinct (map fst (prompt_fields r))" "(''query'', S_text (request_raw_query r)) \<in> set (prompt_fields r)"
    by (auto simp: prompt_fields_def List.map_filter_simps split: option.splits)
qed

end
