(* ===== verification/Tool_Calls.thy ===== *)
theory Tool_Calls
  imports Llm
begin

text \<open>
  Tools asked for by a language model: the parser of structured output
  (\<open>domain/llm/structured_output.py\<close>) and the service that runs one capability for it
  (\<open>application/tool_call_execution.py\<close>). Company resolution, the capability executor and \<open>uuid4()\<close> are
  ports over a world of any type.
\<close>

section \<open>Structured output\<close>

definition strip_points :: "points \<Rightarrow> points" where
  "strip_points s = rev (dropWhile point_space (rev (dropWhile point_space s)))"

record tool_payload =
  tool_name :: points
  tool_arguments :: "(points \<times> json) list"

definition check_argument :: "points \<times> json \<Rightarrow> unit \<Rightarrow> unit res" where
  "check_argument p u =
     (case p of (k, v) \<Rightarrow>
        if strip_points k = [] \<or> 64 < len k
        then Inl (ValueError ''tool_call argument key is empty or exceeds bounds'')
        else if list_ex (\<lambda>c. c < 32) k
        then Inl (ValueError ''tool_call argument key must not contain control characters'')
        else (case v of
            J_list _ \<Rightarrow> Inl (ValueError ''tool_call argument value must be a scalar'')
          | J_obj _ \<Rightarrow> Inl (ValueError ''tool_call argument value must be a scalar'')
          | J_str s \<Rightarrow> if 512 < len s then Inl (ValueError ''tool_call argument value exceeds bounds'') else Inr ()
          | _ \<Rightarrow> Inr ()))"

definition payload_post_init :: "tool_payload \<Rightarrow> tool_payload res" where
  "payload_post_init p =
     (let name = strip_points (tool_name p) in
      if name = [] \<or> 128 < len name then Inl (ValueError ''tool_name is empty or exceeds bounds'')
      else if list_ex (\<lambda>c. c < 32) name
      then Inl (ValueError ''tool_name must not contain control characters'')
      else if 16 < len (tool_arguments p)
      then Inl (ValueError ''tool_call arguments exceed maximum count'')
      else and_then (fold_res check_argument (tool_arguments p) ()) (\<lambda>_. Inr (p\<lparr>tool_name := name\<rparr>)))"

datatype structured_output = Final_answer points | Tool_call tool_payload

definition final_answer :: "points \<Rightarrow> structured_output res" where
  "final_answer s =
     (if strip_points s = [] then Inl (ValueError ''final_answer output requires non-empty text'')
      else if 32768 < len s then Inl (ValueError ''final_answer text exceeds bounds'')
      else Inr (Final_answer (strip_points s)))"

definition structured_of_json :: "json \<Rightarrow> structured_output res" where
  "structured_of_json payload =
     (case payload of
        J_obj d \<Rightarrow>
          if field_of d ''type'' = J_str (points ''final_answer'')
          then (case field_of d ''text'' of
              J_str s \<Rightarrow> final_answer s
            | _ \<Rightarrow> Inl (ValueError (''final_answer output requires a string '' @ [CHR 0x27] @ ''text'' @ [CHR 0x27] @ '' field'')))
          else if field_of d ''type'' = J_str (points ''tool_call'')
          then (case field_of d ''tool_name'' of
              J_str name \<Rightarrow>
                (case map_of d (points ''arguments'') of
                   None \<Rightarrow> map_sum id Tool_call (payload_post_init \<lparr>tool_name = name, tool_arguments = []\<rparr>)
                 | Some (J_obj a) \<Rightarrow> map_sum id Tool_call (payload_post_init \<lparr>tool_name = name, tool_arguments = a\<rparr>)
                 | Some _ \<Rightarrow> Inl (ValueError (''tool_call output requires an '' @ [CHR 0x27] @ ''arguments'' @ [CHR 0x27] @
                     '' object'')))
            | _ \<Rightarrow> Inl (ValueError (''tool_call output requires a string '' @ [CHR 0x27] @ ''tool_name'' @ [CHR 0x27] @
                '' field'')))
          else Inl (ValueError (''structured output '' @ [CHR 0x27] @ ''type'' @ [CHR 0x27] @ '' must be '' @ [CHR 0x27] @
             ''final_answer'' @ [CHR 0x27] @ '' or '' @ [CHR 0x27] @ ''tool_call'' @ [CHR 0x27]))
      | _ \<Rightarrow> Inl (ValueError ''structured output must be a JSON object''))"

text \<open>Nesting beyond what the interpreter holds raises \<open>RecursionError\<close>, which is no \<open>ValueError\<close>.\<close>

definition parse_structured :: "nat \<Rightarrow> points \<Rightarrow> structured_output res" where
  "parse_structured depth content =
     (if list_all point_space content
      then Inl (ValueError ''structured output content must be a non-empty string'')
      else if 32768 < len content then Inl (ValueError ''structured output content exceeds bounds'')
      else case json_loads False depth content of
          Inr v \<Rightarrow> structured_of_json v
        | Inl Too_deep \<Rightarrow> Inl (OtherException ''RecursionError'' ''maximum recursion depth exceeded'')
        | Inl _ \<Rightarrow> Inl (ValueError ''structured output is not valid JSON''))"

section \<open>Results\<close>

datatype tool_status = Tool_FINAL_ANSWER | Tool_SUCCEEDED | Tool_REJECTED | Tool_FAILED

record tool_result =
  tool_call_id :: tool_call_id
  tool_status :: tool_status
  tool_message :: string
  final_text :: "points option"
  tool_task_result :: "task_result option"
  tool_error_code :: "string option"

definition tool_result_shape :: "tool_result \<Rightarrow> unit res" where
  "tool_result_shape x =
     (case tool_status x of
        Tool_FINAL_ANSWER \<Rightarrow>
          if (case final_text x of None \<Rightarrow> True | Some s \<Rightarrow> strip_points s = [])
          then Inl (ValueError ''final_answer result requires non-empty final_text'')
          else if tool_task_result x \<noteq> None \<or> tool_error_code x \<noteq> None
          then Inl (ValueError ''final_answer result must not carry task_result/error_code'')
          else Inr ()
      | Tool_SUCCEEDED \<Rightarrow>
          if final_text x \<noteq> None then Inl (ValueError ''succeeded result must not carry final_text'')
          else (case tool_task_result x of
              None \<Rightarrow> Inl (ValueError ''succeeded result requires a task_result'')
            | Some r \<Rightarrow> if result_status r \<notin> {Res_SUCCESS, Res_PARTIAL}
                then Inl (ValueError ''succeeded result requires a successful/partial task_result'') else Inr ())
      | Tool_REJECTED \<Rightarrow>
          if final_text x \<noteq> None \<or> tool_task_result x \<noteq> None
          then Inl (ValueError ''rejected result must not carry final_text/task_result'')
          else if tool_error_code x = None then Inl (ValueError ''rejected result requires an error_code'')
          else Inr ()
      | Tool_FAILED \<Rightarrow>
          if final_text x \<noteq> None then Inl (ValueError ''failed result must not carry final_text'')
          else if tool_task_result x = None \<and> tool_error_code x = None
          then Inl (ValueError ''failed result requires a task_result or an error_code'')
          else Inr ())"

definition tool_result_post_init :: "tool_result \<Rightarrow> tool_result res" where
  "tool_result_post_init x =
     (let m = py_strip (tool_message x); code = map_option norm_code (tool_error_code x) in
      if m = [] \<or> 500 < length m then Inl (ValueError ''result message empty or exceeds bounds'')
      else if (case code of None \<Rightarrow> False | Some c \<Rightarrow> c = [] \<or> 64 < length c)
      then Inl (ValueError ''error_code empty or exceeds bounds'')
      else and_then (tool_result_shape x) (\<lambda>_. Inr (x\<lparr>tool_message := m, tool_error_code := code\<rparr>)))"

definition rejected :: "tool_call_id \<Rightarrow> string \<Rightarrow> string \<Rightarrow> tool_result res" where
  "rejected i m code = tool_result_post_init
     \<lparr>tool_call_id = i, tool_status = Tool_REJECTED, tool_message = m, final_text = None, tool_task_result = None,
      tool_error_code = Some code\<rparr>"

definition tool_failed :: "tool_call_id \<Rightarrow> string \<Rightarrow> string \<Rightarrow> tool_result res" where
  "tool_failed i m code = tool_result_post_init
     \<lparr>tool_call_id = i, tool_status = Tool_FAILED, tool_message = m, final_text = None, tool_task_result = None,
      tool_error_code = Some code\<rparr>"

definition tool_ran :: "tool_call_id \<Rightarrow> task_result \<Rightarrow> tool_result res" where
  "tool_ran i r = tool_result_post_init
     (if result_status r \<in> {Res_SUCCESS, Res_PARTIAL}
      then \<lparr>tool_call_id = i, tool_status = Tool_SUCCEEDED, tool_message = result_message r, final_text = None,
        tool_task_result = Some r, tool_error_code = None\<rparr>
      else \<lparr>tool_call_id = i, tool_status = Tool_FAILED, tool_message = result_message r, final_text = None,
        tool_task_result = Some r, tool_error_code = Some (case error_code r of
          None \<Rightarrow> ''capability_execution_failed''
        | Some c \<Rightarrow> if c = [] then ''capability_execution_failed'' else c)\<rparr>)"

section \<open>Arguments\<close>

definition ALLOWED_ARGUMENT_KEYS :: "points list" where
  "ALLOWED_ARGUMENT_KEYS = map points [''raw_query'', ''country'', ''exchange'', ''ticker'']"

definition optional_argument :: "(points \<times> json) list \<Rightarrow> string \<Rightarrow> string option res" where
  "optional_argument d k =
     (case field_of d k of
        J_null \<Rightarrow> Inr None
      | J_str s \<Rightarrow>
          if strip_points s = []
          then Inl (ValueError (''tool_call argument '' @ [CHR 0x27] @ k @ [CHR 0x27] @
            '' must be a non-empty string when provided''))
          else Inr (Some (latin s))
      | _ \<Rightarrow> Inl (ValueError (''tool_call argument '' @ [CHR 0x27] @ k @ [CHR 0x27] @
            '' must be a non-empty string when provided'')))"

fun optional_code :: "(string \<Rightarrow> 'a res) \<Rightarrow> string option \<Rightarrow> 'a option res" where
  "optional_code f None = Inr None"
| "optional_code f (Some s) = and_then (f s) (\<lambda>x. Inr (Some x))"

definition build_company_query :: "(points \<times> json) list \<Rightarrow> company_query res" where
  "build_company_query d =
     (if \<not> list_all (\<lambda>p. fst p \<in> set ALLOWED_ARGUMENT_KEYS) d
      then Inl (ValueError ''tool_call arguments include unsupported fields'')
      else case field_of d ''raw_query'' of
          J_str raw \<Rightarrow>
            if strip_points raw = []
            then Inl (ValueError (''tool_call arguments require a non-empty '' @ [CHR 0x27] @ ''raw_query'' @ [CHR 0x27]))
            else if MAX_QUERY_LENGTH < length raw
            then Inl (ValueError (''tool_call '' @ [CHR 0x27] @ ''raw_query'' @ [CHR 0x27] @ '' exceeds bounds''))
            else
              and_then (optional_argument d ''country'') (\<lambda>country.
              and_then (optional_argument d ''exchange'') (\<lambda>exchange.
              and_then (optional_argument d ''ticker'') (\<lambda>ticker.
              and_then (optional_code mk_country_code country) (\<lambda>country.
              and_then (optional_code (\<lambda>s. mk_exchange_code s None) exchange) (\<lambda>exchange.
              and_then (optional_code mk_ticker_symbol ticker) (\<lambda>ticker.
                Inr \<lparr>raw_query = latin raw, query_country = country, query_exchange = exchange,
                  query_ticker = ticker\<rparr>))))))
        | _ \<Rightarrow> Inl (ValueError (''tool_call arguments require a non-empty '' @ [CHR 0x27] @ ''raw_query'' @ [CHR 0x27])))"

section \<open>The service\<close>

record 'w tool_ports =
  tool_resolve :: "company_query \<Rightarrow> 'w \<Rightarrow> resolution_result res \<times> 'w"
  tool_execute :: "research_task \<Rightarrow> company_identity \<Rightarrow> company_query \<Rightarrow> 'w \<Rightarrow> task_result res \<times> 'w"
  tool_fresh :: "'w \<Rightarrow> uuid \<times> 'w"

definition tool_task :: "capability_descriptor \<Rightarrow> uuid \<Rightarrow> research_task res" where
  "tool_task cap u =
     and_then (mk_task_id u) (\<lambda>i.
       task_post_init \<lparr>task_id = i, task_type = cap_task_type cap, capability_id = cap_id cap,
         description = ''tool_call:'' @ cap_id cap, dependencies = [], task_status = Task_PENDING, priority = 100,
         required = True, attempt_count = 0, max_attempts = 1, task_created_at = None, task_started_at = None,
         task_completed_at = None\<rparr>)"

text \<open>The part of \<open>_execute_tool_call\<close> after the company is resolved.\<close>

definition run_tool ::
    "'w tool_ports \<Rightarrow> tool_call_id \<Rightarrow> capability_descriptor \<Rightarrow> company_identity \<Rightarrow> company_query \<Rightarrow> 'w
      \<Rightarrow> tool_result res \<times> 'w" where
  "run_tool P i cap company q w =
     (case tool_fresh P w of
        (u, w1) \<Rightarrow>
          case tool_task cap u of
            Inl e \<Rightarrow> (Inl e, w1)
          | Inr t \<Rightarrow>
              case tool_execute P t company q w1 of
                (Inl e, w2) \<Rightarrow> (tool_failed i ''tool call execution failed unexpectedly'' ''tool_execution_failed'', w2)
              | (Inr r, w2) \<Rightarrow> (tool_ran i r, w2))"

definition execute_tool_call ::
    "'w tool_ports \<Rightarrow> capability_registry \<Rightarrow> tool_call_id \<Rightarrow> tool_payload \<Rightarrow> 'w \<Rightarrow> tool_result res \<times> 'w" where
  "execute_tool_call P reg i p w =
     (case find (\<lambda>c. points (cap_id c) = tool_name p) reg of
        None \<Rightarrow> (rejected i ''requested tool is not a registered capability'' ''unknown_tool'', w)
      | Some cap \<Rightarrow>
          if cap_availability cap = Cap_UNAVAILABLE
          then (rejected i ''requested capability is currently unavailable'' ''capability_unavailable'', w)
          else case build_company_query (tool_arguments p) of
              Inl e \<Rightarrow>
                (if is_value_error e then rejected i ''tool_call arguments failed validation'' ''invalid_arguments''
                 else Inl e, w)
            | Inr q \<Rightarrow>
                case tool_resolve P q w of
                  (Inl e, w1) \<Rightarrow> (tool_failed i ''tool call execution failed unexpectedly'' ''tool_execution_failed'', w1)
                | (Inr x, w1) \<Rightarrow>
                    case (resolution_status x, resolved_company x) of
                      (Resolution_RESOLVED, Some company) \<Rightarrow> run_tool P i cap company q w1
                    | _ \<Rightarrow> (tool_failed i ''company could not be resolved for this tool call'' ''company_resolution_failed'', w1))"

definition handle_model_output ::
    "'w tool_ports \<Rightarrow> capability_registry \<Rightarrow> nat \<Rightarrow> points \<Rightarrow> 'w \<Rightarrow> tool_result res \<times> 'w" where
  "handle_model_output P reg depth content w =
     (case tool_fresh P w of
        (u, w1) \<Rightarrow>
          case mk_tool_call_id u of
            Inl e \<Rightarrow> (Inl e, w1)
          | Inr i \<Rightarrow>
              case parse_structured depth content of
                Inl e \<Rightarrow>
                  (if is_value_error e
                   then rejected i ''model output was malformed or did not match a recognized shape''
                     ''malformed_structured_output''
                   else Inl e, w1)
              | Inr (Final_answer s) \<Rightarrow>
                  (tool_result_post_init
                     \<lparr>tool_call_id = i, tool_status = Tool_FINAL_ANSWER,
                      tool_message = ''model returned a final answer (no tool call)'', final_text = Some s,
                      tool_task_result = None, tool_error_code = None\<rparr>, w1)
              | Inr (Tool_call p) \<Rightarrow> execute_tool_call P reg i p w1)"

end
