(* ===== verification/Tool_Properties.thy ===== *)
theory Tool_Properties
  imports Tool_Calls Samples
begin

text \<open>
  The properties of tool calls: what a model's output can make the service do, and the only ways in which
  the service raises.
\<close>

section \<open>Results of the service\<close>

lemma tool_result_fields:
  "tool_result_post_init x = Inr y \<Longrightarrow>
     tool_status y = tool_status x \<and> tool_task_result y = tool_task_result x \<and> final_text y = final_text x"
  by (auto simp: tool_result_post_init_def Let_def and_then_Inr_iff split: if_splits)

lemma rejected_Inr:
  "rejected i m code = Inr x \<Longrightarrow> tool_status x = Tool_REJECTED \<and> tool_task_result x = None"
  "tool_failed i m code = Inr x \<Longrightarrow> tool_status x = Tool_FAILED \<and> tool_task_result x = None"
  by (auto simp: rejected_def tool_failed_def dest!: tool_result_fields)

lemma tool_ran_Inr:
  "tool_ran i r = Inr x \<Longrightarrow> tool_task_result x = Some r \<and>
     tool_status x = (if result_status r \<in> {Res_SUCCESS, Res_PARTIAL} then Tool_SUCCEEDED else Tool_FAILED)"
  by (auto simp: tool_ran_def split: if_splits dest!: tool_result_fields)

lemma tool_task_Inr:
  "tool_task cap u = Inr t \<Longrightarrow> task_type t = cap_task_type cap \<and> capability_id t = py_strip (cap_id cap)"
  by (auto simp: tool_task_def task_post_init_def Let_def and_then_Inr_iff split: if_splits)

text \<open>One run of a capability for a tool call: the company was resolved for the query just before.\<close>

definition ran_for ::
    "'w tool_ports \<Rightarrow> capability_registry \<Rightarrow> company_query \<Rightarrow> 'w \<Rightarrow> task_result \<Rightarrow> 'w \<Rightarrow> bool" where
  "ran_for P reg q w r w' \<longleftrightarrow>
     (\<exists>cap \<in> set reg. \<exists>resolution company w1 t. cap_availability cap \<noteq> Cap_UNAVAILABLE \<and>
        tool_resolve P q w = (Inr resolution, w1) \<and> resolution_status resolution = Resolution_RESOLVED \<and>
        resolved_company resolution = Some company \<and> task_type t = cap_task_type cap \<and>
        capability_id t = py_strip (cap_id cap) \<and> tool_execute P t company q (snd (tool_fresh P w1)) = (Inr r, w'))"

lemma run_tool_Inr:
  assumes "run_tool P i cap company q w = (Inr x, w')"
  shows "tool_status x \<in> {Tool_SUCCEEDED, Tool_FAILED} \<and>
    (\<forall>r. tool_task_result x = Some r \<longrightarrow> (tool_status x = Tool_SUCCEEDED \<longleftrightarrow> result_status r \<in> {Res_SUCCESS, Res_PARTIAL}) \<and>
      (\<exists>t. task_type t = cap_task_type cap \<and> capability_id t = py_strip (cap_id cap) \<and>
         tool_execute P t company q (snd (tool_fresh P w)) = (Inr r, w')))"
  using assms
  by (auto simp: run_tool_def split: prod.splits sum.splits if_splits dest!: rejected_Inr tool_ran_Inr tool_task_Inr)

lemma execute_tool_call_Inr:
  assumes "execute_tool_call P reg i p w = (Inr x, w')"
  shows "(tool_status x = Tool_REJECTED \<longrightarrow> w' = w) \<and> tool_status x \<noteq> Tool_FINAL_ANSWER \<and>
    (\<forall>r. tool_task_result x = Some r \<longrightarrow> (tool_status x = Tool_SUCCEEDED \<longleftrightarrow> result_status r \<in> {Res_SUCCESS, Res_PARTIAL}) \<and>
      (\<exists>q. build_company_query (tool_arguments p) = Inr q \<and> ran_for P reg q w r w'))"
proof (cases "find (\<lambda>c. points (cap_id c) = tool_name p) reg")
  case None
  then show ?thesis using assms by (auto simp: execute_tool_call_def dest!: rejected_Inr)
next
  case (Some cap)
  have cap: "cap \<in> set reg" using find_SomeD [OF Some] by blast
  show ?thesis
  proof (cases "cap_availability cap = Cap_UNAVAILABLE")
    case True
    then show ?thesis using assms Some by (auto simp: execute_tool_call_def dest!: rejected_Inr)
  next
    case avail: False
    show ?thesis
    proof (cases "build_company_query (tool_arguments p)")
      case (Inl e)
      then show ?thesis using assms Some avail
        by (auto simp: execute_tool_call_def split: if_splits dest!: rejected_Inr)
    next
      case (Inr q)
      obtain y w1 where y: "tool_resolve P q w = (y, w1)" by fastforce
      consider (found) resolution company where "y = Inr resolution" "resolution_status resolution = Resolution_RESOLVED"
          "resolved_company resolution = Some company"
        | (lost) "\<forall>resolution. y = Inr resolution \<longrightarrow>
            resolution_status resolution \<noteq> Resolution_RESOLVED \<or> resolved_company resolution = None"
        by blast
      then show ?thesis
      proof cases
        case found
        then have "run_tool P i cap company q w1 = (Inr x, w')" using assms Some avail Inr y
          by (simp add: execute_tool_call_def)
        note run = run_tool_Inr [OF this]
        have "ran_for P reg q w r w'" if "tool_task_result x = Some r" for r
        proof -
          obtain t where "task_type t = cap_task_type cap" "capability_id t = py_strip (cap_id cap)"
            "tool_execute P t company q (snd (tool_fresh P w1)) = (Inr r, w')" using run \<open>tool_task_result x = Some r\<close> by blast
          moreover have "tool_resolve P q w = (Inr resolution, w1)" using y found(1) by simp
          ultimately show ?thesis unfolding ran_for_def using cap avail found(2,3) by blast
        qed
        then show ?thesis using run Inr by auto
      next
        case lost
        then have "\<exists>m code. execute_tool_call P reg i p w = (tool_failed i m code, w1)"
          using Some avail Inr y
          by (cases y) (auto simp: execute_tool_call_def split: resolution_status.splits option.splits)
        then show ?thesis using assms rejected_Inr(2) by fastforce
      qed
    qed
  qed
qed

text \<open>C24: Whatever text a model returns, its tool call is contained. A rejected output or a final answer touches
  nothing but the id counter; a result of a capability comes from exactly one run of the executor, for a
  registered capability that is not unavailable, for a company that was just resolved uniquely from a query
  built from validated arguments; and the call succeeded exactly when that run did.\<close>

theorem tool_calls_are_contained:
  assumes "handle_model_output P reg depth content w = (Inr x, w')"
  shows "(tool_status x \<in> {Tool_REJECTED, Tool_FINAL_ANSWER} \<longrightarrow> w' = snd (tool_fresh P w)) \<and>
    (\<forall>r. tool_task_result x = Some r \<longrightarrow> (tool_status x = Tool_SUCCEEDED \<longleftrightarrow> result_status r \<in> {Res_SUCCESS, Res_PARTIAL}) \<and>
      (\<exists>p q. parse_structured depth content = Inr (Tool_call p) \<and> build_company_query (tool_arguments p) = Inr q \<and>
         ran_for P reg q (snd (tool_fresh P w)) r w'))"
proof -
  obtain u w1 where u: "tool_fresh P w = (u, w1)" by fastforce
  then obtain i where i: "mk_tool_call_id u = Inr i" using assms by (auto simp: handle_model_output_def split: sum.splits)
  show ?thesis
  proof (cases "parse_structured depth content")
    case (Inl e)
    then show ?thesis using assms u i by (auto simp: handle_model_output_def split: if_splits dest!: rejected_Inr)
  next
    case (Inr out)
    show ?thesis
    proof (cases out)
      case (Final_answer s)
      then show ?thesis using assms u i Inr by (auto simp: handle_model_output_def dest!: tool_result_fields)
    next
      case (Tool_call p)
      then have "execute_tool_call P reg i p w1 = (Inr x, w')" using assms u i Inr by (simp add: handle_model_output_def)
      from execute_tool_call_Inr [OF this] show ?thesis using u Tool_call Inr by simp
    qed
  qed
qed

text \<open>A model that asks for a market snapshot, and ports that find the company and run the capability.\<close>

definition sample_tool_output :: points where
  "sample_tool_output = points (''{\"type\": \"tool_call\", \"tool_name\": \"market_intelligence\", '' @
     ''\"arguments\": {\"raw_query\": \"Acme\"}}'')"

definition sample_tools :: "nat tool_ports" where
  "sample_tools = \<lparr>tool_resolve = (\<lambda>q n. (Inr sample_resolution, n)),
     tool_execute = (\<lambda>t c q n. (Inr (sample_result (task_id t)), n + 10)),
     tool_fresh = (\<lambda>n. (uuid_of (CHR ''1''), n + 1))\<rparr>"

lemma sample_tool_run:
  "case handle_model_output sample_tools default_capability_registry 50 sample_tool_output 0 of
     (Inr x, n) \<Rightarrow> tool_status x = Tool_SUCCEEDED \<and> tool_task_result x \<noteq> None \<and> n = 12 | (Inl _, n) \<Rightarrow> False"
  by code_simp

theorem tool_calls_are_contained_witness:
  "\<exists>x r. handle_model_output sample_tools default_capability_registry 50 sample_tool_output 0 = (Inr x, 12) \<and>
    tool_status x = Tool_SUCCEEDED \<and> tool_task_result x = Some r \<and>
    (\<exists>q. ran_for sample_tools default_capability_registry q 1 r 12)"
proof -
  obtain x r where x: "handle_model_output sample_tools default_capability_registry 50 sample_tool_output 0 = (Inr x, 12)"
    "tool_status x = Tool_SUCCEEDED" "tool_task_result x = Some r"
    using sample_tool_run by (auto split: prod.splits sum.splits)
  have "snd (tool_fresh sample_tools 0) = 1" by (simp add: sample_tools_def)
  then show ?thesis using tool_calls_are_contained [OF x(1)] x by auto
qed

section \<open>What the service raises\<close>

lemma strip_points_Nil: "strip_points s = [] \<longleftrightarrow> list_all point_space s"
proof (cases "dropWhile point_space s")
  case Nil
  then have "strip_points s = []" by (simp only: strip_points_def rev.simps dropWhile.simps)
  moreover have "list_all point_space s" using Nil by (simp add: dropWhile_eq_Nil_conv list_all_iff)
  ultimately show ?thesis by simp
next
  case (Cons y ys)
  then have "\<not> point_space y" "y \<in> set s"
    using hd_dropWhile [of point_space s] set_dropWhileD [of y point_space s] by auto
  moreover have "strip_points s \<noteq> []"
    using calculation(1) Cons by (auto simp: strip_points_def dropWhile_eq_Nil_conv)
  ultimately show ?thesis by (auto simp: list_all_iff)
qed

lemma strip_points_idem_Nil: "strip_points s \<noteq> [] \<Longrightarrow> strip_points (strip_points s) \<noteq> []"
proof -
  assume s: "strip_points s \<noteq> []"
  let ?r = "dropWhile point_space (rev (dropWhile point_space s))"
  have "?r \<noteq> []" "strip_points s = rev ?r" using s by (simp_all add: strip_points_def)
  then have "hd ?r \<in> set (strip_points s)" by simp
  moreover have "\<not> point_space (hd ?r)" using \<open>?r \<noteq> []\<close> by (rule hd_dropWhile)
  ultimately have "\<not> list_all point_space (strip_points s)" by (auto simp: list_all_iff)
  then show "strip_points (strip_points s) \<noteq> []" by (simp add: strip_points_Nil)
qed

definition tool_messages :: "string list" where
  "tool_messages =
     [''requested tool is not a registered capability'', ''requested capability is currently unavailable'',
      ''tool_call arguments failed validation'', ''tool call execution failed unexpectedly'',
      ''company could not be resolved for this tool call'',
      ''model output was malformed or did not match a recognized shape'',
      ''model returned a final answer (no tool call)'']"

definition tool_codes :: "string list" where
  "tool_codes = [''unknown_tool'', ''capability_unavailable'', ''invalid_arguments'', ''tool_execution_failed'',
     ''company_resolution_failed'', ''malformed_structured_output'']"

lemma tool_texts:
  "m \<in> set tool_messages \<Longrightarrow> py_strip m \<noteq> [] \<and> length (py_strip m) \<le> 500"
  "c \<in> set tool_codes \<Longrightarrow> norm_code c \<noteq> [] \<and> length (norm_code c) \<le> 64"
proof -
  have "list_all (\<lambda>m. py_strip m \<noteq> [] \<and> length (py_strip m) \<le> 500) tool_messages"
    "list_all (\<lambda>c. norm_code c \<noteq> [] \<and> length (norm_code c) \<le> 64) tool_codes" by code_simp+
  then show "m \<in> set tool_messages \<Longrightarrow> py_strip m \<noteq> [] \<and> length (py_strip m) \<le> 500"
    "c \<in> set tool_codes \<Longrightarrow> norm_code c \<noteq> [] \<and> length (norm_code c) \<le> 64" by (simp_all add: list_all_iff)
qed

lemma fixed_results_returned:
  assumes "m \<in> set tool_messages" "c \<in> set tool_codes"
  shows "\<exists>x. rejected i m c = Inr x" "\<exists>x. tool_failed i m c = Inr x"
  using tool_texts(1) [OF assms(1)] tool_texts(2) [OF assms(2)]
  by (simp_all add: rejected_def tool_failed_def tool_result_post_init_def tool_result_shape_def Let_def not_less)

lemma tool_ran_returned:
  assumes "result_post_init r = Inr r" "length (result_message r) \<le> 500"
  shows "\<exists>x. tool_ran i r = Inr x"
proof -
  have r: "py_strip (result_message r) = result_message r" "result_message r \<noteq> []"
    "error_code r = Some c \<Longrightarrow> norm_code c = c \<and> c \<noteq> [] \<and> length c \<le> 64" for c
    using assms(1)
    by (cases r; auto simp: result_post_init_def Let_def split: if_splits)+
  have "norm_code ''capability_execution_failed'' = ''capability_execution_failed''" by code_simp
  then show ?thesis
    using r assms(2)
    by (cases "error_code r")
      (auto simp: tool_ran_def tool_result_post_init_def tool_result_shape_def Let_def)
qed

lemma final_parsed: "parse_structured depth content = Inr (Final_answer s) \<Longrightarrow> strip_points s \<noteq> []"
proof -
  have fin: "strip_points s \<noteq> []" if "final_answer t = Inr (Final_answer s)" for t
    using that strip_points_idem_Nil by (auto simp: final_answer_def split: if_splits)
  have sum: False if "map_sum id Tool_call f = Inr (Final_answer s)" for f using that by (cases f) auto
  have "strip_points s \<noteq> []" if "structured_of_json v = Inr (Final_answer s)" for v
    using that fin sum by (cases v) (auto simp: structured_of_json_def split: if_splits json.splits option.splits)
  then show "parse_structured depth content = Inr (Final_answer s) \<Longrightarrow> strip_points s \<noteq> []"
    by (auto simp: parse_structured_def split: if_splits sum.splits json_error.splits)
qed

lemma structured_errors:
  "structured_of_json v = Inl e \<Longrightarrow> is_value_error e"
proof -
  have arg: "is_value_error e" if "fold_res check_argument d () = Inl e" for d e
    using that by (induction d) (auto simp: and_then_Inl_iff check_argument_def split: if_splits json.splits)
  have pay: "is_value_error e" if "payload_post_init p = Inl e" for p e
    using that arg by (auto simp: payload_post_init_def Let_def and_then_Inl_iff split: if_splits)
  have ans: "is_value_error e" if "final_answer t = Inl e" for t e
    using that by (auto simp: final_answer_def split: if_splits)
  have sum: "f = Inl e" if "map_sum id Tool_call f = Inl e" for f e using that by (cases f) auto
  show "structured_of_json v = Inl e \<Longrightarrow> is_value_error e"
    using ans pay
    by (cases v) (auto simp: structured_of_json_def split: if_splits json.splits option.splits dest!: sum)
qed

lemma parse_structured_errors:
  "parse_structured depth content = Inl e \<Longrightarrow>
     is_value_error e \<or> json_loads False depth content = Inl Too_deep \<and>
       e = OtherException ''RecursionError'' ''maximum recursion depth exceeded''"
  using structured_errors
  by (auto simp: parse_structured_def split: if_splits sum.splits json_error.splits)

lemma code_errors:
  "mk_country_code s = Inl e \<Longrightarrow> is_value_error e" "mk_exchange_code s m = Inl e \<Longrightarrow> is_value_error e"
  "mk_ticker_symbol s = Inl e \<Longrightarrow> is_value_error e"
  by (auto simp: mk_country_code_def mk_exchange_code_def mk_ticker_symbol_def Let_def split: if_splits option.splits)

lemma build_company_query_errors: "build_company_query d = Inl e \<Longrightarrow> is_value_error e"
proof -
  have opt: "is_value_error e" if "optional_argument d k = Inl e" for k e
    using that by (auto simp: optional_argument_def split: json.splits if_splits)
  have code: "is_value_error e" if "optional_code f x = Inl e" "\<And>s e. f s = Inl e \<Longrightarrow> is_value_error e" for f x e
    using that by (cases x) (auto simp: and_then_Inl_iff)
  show "build_company_query d = Inl e \<Longrightarrow> is_value_error e"
    by (cases "field_of d ''raw_query''")
      (auto simp: build_company_query_def and_then_Inl_iff split: if_splits dest!: opt intro: code code_errors)
qed

lemma run_tool_returns:
  assumes "\<And>w. uuid_is_v4 (fst (tool_fresh P w))" "list_all (\<lambda>c. \<forall>u. uuid_is_v4 u \<longrightarrow> (\<exists>t. tool_task c u = Inr t)) reg"
    "\<And>t c q w r w'. tool_execute P t c q w = (Inr r, w') \<Longrightarrow> result_post_init r = Inr r \<and> length (result_message r) \<le> 500"
    "cap \<in> set reg"
  shows "\<exists>x. fst (run_tool P i cap company q w) = Inr x"
proof -
  obtain v w2 where v: "tool_fresh P w = (v, w2)" by fastforce
  then obtain t where t: "tool_task cap v = Inr t" using assms(1) [of w] assms(2,4) by (auto simp: list_all_iff)
  obtain y w3 where y: "tool_execute P t company q w2 = (y, w3)" by fastforce
  show ?thesis
  proof (cases y)
    case (Inl f)
    then show ?thesis using v t y fixed_results_returned(2)
      by (simp add: run_tool_def tool_messages_def tool_codes_def)
  next
    case (Inr r)
    then show ?thesis using v t y assms(3) [of t company q w2 r w3] tool_ran_returned by (simp add: run_tool_def)
  qed
qed

lemma execute_tool_call_returns:
  assumes "\<And>w. uuid_is_v4 (fst (tool_fresh P w))" "list_all (\<lambda>c. \<forall>u. uuid_is_v4 u \<longrightarrow> (\<exists>t. tool_task c u = Inr t)) reg"
    "\<And>t c q w r w'. tool_execute P t c q w = (Inr r, w') \<Longrightarrow> result_post_init r = Inr r \<and> length (result_message r) \<le> 500"
  shows "\<exists>x. fst (execute_tool_call P reg i p w1) = Inr x"
proof (cases "find (\<lambda>c. points (cap_id c) = tool_name p) reg")
  case None
  then show ?thesis using fixed_results_returned(1)
    by (simp add: execute_tool_call_def tool_messages_def tool_codes_def)
next
  case (Some cap)
  have cap: "cap \<in> set reg" using find_SomeD [OF Some] by blast
  have run: "\<exists>x. fst (run_tool P i cap company q w) = Inr x" for company q w
    by (rule run_tool_returns [OF assms(1,2) _ cap]) (rule assms(3))
  show ?thesis
  proof (cases "build_company_query (tool_arguments p)")
    case (Inl f)
    then show ?thesis using Some build_company_query_errors [OF Inl] fixed_results_returned(1)
      by (simp add: execute_tool_call_def tool_messages_def tool_codes_def)
  next
    case (Inr q)
    obtain y w2 where "tool_resolve P q w1 = (y, w2)" by fastforce
    then show ?thesis using Some Inr run fixed_results_returned
      by (cases y) (auto simp: execute_tool_call_def tool_messages_def tool_codes_def
          split: resolution_status.splits option.splits)
  qed
qed

text \<open>C25: The service raises for one input only. With a registry of usable ids, version 4 uuids and an executor whose
  results are valid and say at most 500 characters, no output of a model makes it raise except JSON nested
  deeper than the interpreter can hold: the \<open>RecursionError\<close> of the decoder is no \<open>ValueError\<close>.\<close>

theorem tool_service_raises_only_on_nesting:
  assumes "\<And>w. uuid_is_v4 (fst (tool_fresh P w))" "list_all (\<lambda>c. \<forall>u. uuid_is_v4 u \<longrightarrow> (\<exists>t. tool_task c u = Inr t)) reg"
    "\<And>t c q w r w'. tool_execute P t c q w = (Inr r, w') \<Longrightarrow> result_post_init r = Inr r \<and> length (result_message r) \<le> 500"
    "handle_model_output P reg depth content w = (Inl e, w')"
  shows "json_loads False depth content = Inl Too_deep \<and>
    e = OtherException ''RecursionError'' ''maximum recursion depth exceeded''"
proof -
  have exec: "\<exists>x. fst (execute_tool_call P reg i p w1) = Inr x" for i p w1
    by (rule execute_tool_call_returns [OF assms(1,2)]) (rule assms(3))
  obtain u w1 where u: "tool_fresh P w = (u, w1)" by fastforce
  then have "uuid_is_v4 u" using assms(1) [of w] by simp
  then obtain i where i: "mk_tool_call_id u = Inr i" by (auto simp: mk_tool_call_id_def require_uuid_v4_def)
  show ?thesis
  proof (cases "parse_structured depth content")
    case (Inl f)
    have "\<exists>x. rejected i ''model output was malformed or did not match a recognized shape''
        ''malformed_structured_output'' = Inr x"
      by (rule fixed_results_returned) (simp_all add: tool_messages_def tool_codes_def)
    then show ?thesis using assms(4) u i Inl parse_structured_errors [OF Inl]
      by (auto simp: handle_model_output_def split: if_splits)
  next
    case (Inr out)
    show ?thesis
    proof (cases out)
      case (Final_answer s)
      have "''model returned a final answer (no tool call)'' \<in> set tool_messages" by (simp add: tool_messages_def)
      note plain = tool_texts(1) [OF this]
      have "strip_points s \<noteq> []" using Inr Final_answer final_parsed by blast
      then show ?thesis using assms(4) u i Inr Final_answer plain
        by (simp add: handle_model_output_def tool_result_post_init_def tool_result_shape_def Let_def)
    next
      case (Tool_call p)
      then show ?thesis using assms(4) u i Inr exec [of i p w1] by (auto simp: handle_model_output_def)
    qed
  qed
qed

definition nested_output :: points where
  "nested_output = points ''[[[]]]''"

theorem tool_service_raises_only_on_nesting_witness:
  "\<exists>e w'. handle_model_output sample_tools default_capability_registry 2 nested_output 0 = (Inl e, w') \<and>
    e = OtherException ''RecursionError'' ''maximum recursion depth exceeded''"
proof -
  have "case handle_model_output sample_tools default_capability_registry 2 nested_output 0 of
      (Inl e, n) \<Rightarrow> True | (Inr _, n) \<Rightarrow> False"
    by code_simp
  then obtain e w' where run: "handle_model_output sample_tools default_capability_registry 2 nested_output 0 = (Inl e, w')"
    by (auto split: prod.splits sum.splits)
  have uuid: "\<And>w. uuid_is_v4 (fst (tool_fresh sample_tools w))" by (simp add: sample_tools_def) code_simp
  have "\<exists>t. tool_task c u = Inr t" if "c \<in> set default_capability_registry" "uuid_is_v4 u" for c u
  proof -
    have "list_all (\<lambda>c. norm_text (''tool_call:'' @ cap_id c) \<noteq> [] \<and> length (norm_text (''tool_call:'' @ cap_id c)) \<le> 512 \<and>
        \<not> has_control_chars (norm_text (''tool_call:'' @ cap_id c)) \<and> py_strip (cap_id c) \<noteq> []) default_capability_registry"
      by code_simp
    then show ?thesis
      using that by (simp add: list_all_iff tool_task_def mk_task_id_def task_post_init_def Let_def not_less)
  qed
  then have reg: "list_all (\<lambda>c. \<forall>u. uuid_is_v4 u \<longrightarrow> (\<exists>t. tool_task c u = Inr t)) default_capability_registry"
    by (simp add: list_all_iff)
  have exec: "result_post_init r = Inr r \<and> length (result_message r) \<le> 500"
    if "tool_execute sample_tools t c q w = (Inr r, w')" for t c q w r w'
  proof -
    have "py_strip ''ok'' = ''ok''" by code_simp
    then show ?thesis using that by (auto simp: sample_tools_def sample_result_def result_post_init_def)
  qed
  have "json_loads False 2 nested_output = Inl Too_deep \<and>
      e = OtherException ''RecursionError'' ''maximum recursion depth exceeded''"
    by (rule tool_service_raises_only_on_nesting [OF uuid reg _ run]) (rule exec)
  then show ?thesis using run by blast
qed

end
