(* ===== verification/Text_Forms.thy ===== *)
theory Text_Forms
  imports Identity
begin

text \<open>
  Texts of the standard library that messages and ids are made of: \<open>repr\<close> of a string and the parsing of a
  UUID as \<open>uuid.UUID(text)\<close> does it.
\<close>

section \<open>Representations\<close>

definition repr_hex_char :: "nat \<Rightarrow> char" where
  "repr_hex_char d = (if d < 10 then char_of (48 + d) else char_of (87 + d))"

definition repr_char :: "char \<Rightarrow> char \<Rightarrow> string" where
  "repr_char q c = (let n = ord_char c; b = char_of (92 :: nat) in
     if c = q \<or> c = b then [b, c]
     else if n = 9 then [b, CHR ''t''] else if n = 10 then [b, CHR ''n''] else if n = 13 then [b, CHR ''r'']
     else if n < 32 \<or> (127 \<le> n \<and> n \<le> 160) \<or> n = 173
     then [b, CHR ''x'', repr_hex_char (n div 16), repr_hex_char (n mod 16)]
     else [c])"

text \<open>\<open>repr(text)\<close> on Latin-1 text, as the \<open>!r\<close> of a message prints it.\<close>

definition py_repr :: "string \<Rightarrow> string" where
  "py_repr s = (let single = char_of (39 :: nat); double = char_of (34 :: nat);
       q = (if single \<in> set s \<and> double \<notin> set s then double else single)
     in q # concat (map (repr_char q) s) @ [q])"

section \<open>UUIDs\<close>

text \<open>\<open>text.replace(old, '')\<close> for a non-empty \<open>old\<close>.\<close>

function remove_all :: "string \<Rightarrow> string \<Rightarrow> string" where
  "remove_all old [] = []"
| "remove_all old (c # cs) =
     (if old \<noteq> [] \<and> take (length old) (c # cs) = old then remove_all old (drop (length old) (c # cs))
      else c # remove_all old cs)"
  by pat_completeness auto
termination
  by (relation "measure (length \<circ> snd)") auto

text \<open>\<open>text.strip(chars)\<close>\<close>

definition strip_chars :: "string \<Rightarrow> string \<Rightarrow> string" where
  "strip_chars chars s =
     rev (dropWhile (\<lambda>c. c \<in> set chars) (rev (dropWhile (\<lambda>c. c \<in> set chars) s)))"

definition hex_digit_value :: "char \<Rightarrow> int option" where
  "hex_digit_value c = (let n = int (ord_char c) in
     if 48 \<le> n \<and> n \<le> 57 then Some (n - 48)
     else if 97 \<le> n \<and> n \<le> 102 then Some (n - 87)
     else if 65 \<le> n \<and> n \<le> 70 then Some (n - 55)
     else None)"

text \<open>Digits with single underscores between them; \<open>wants\<close> says that a digit has to follow.\<close>

fun hex_digits_value :: "int \<Rightarrow> bool \<Rightarrow> string \<Rightarrow> int option" where
  "hex_digits_value acc wants [] = (if wants then None else Some acc)"
| "hex_digits_value acc wants (c # cs) =
     (if c = CHR ''_'' then (if wants then None else hex_digits_value acc True cs)
      else case hex_digit_value c of
        None \<Rightarrow> None
      | Some d \<Rightarrow> hex_digits_value (16 * acc + d) False cs)"

text \<open>\<open>int(text, 16)\<close>: white space around, a sign, a prefix \<open>0x\<close> that one underscore may follow.\<close>

definition after_prefix :: "string \<Rightarrow> string" where
  "after_prefix s =
     (if take 2 s = ''0x'' \<or> take 2 s = ''0X'' then (if take 1 (drop 2 s) = ''_'' then drop 3 s else drop 2 s) else s)"

definition int_base16 :: "string \<Rightarrow> int option" where
  "int_base16 s = (let t = py_strip s in
     if take 1 t = ''-'' then map_option uminus (hex_digits_value 0 True (after_prefix (tl t)))
     else hex_digits_value 0 True (after_prefix (if take 1 t = ''+'' then tl t else t)))"

definition hex_text :: "nat \<Rightarrow> int \<Rightarrow> string" where
  "hex_text k v = map (\<lambda>i. repr_hex_char (nat (v div 16 ^ (k - 1 - i) mod 16))) [0..<k]"

definition uuid_text :: "int \<Rightarrow> uuid" where
  "uuid_text v = (let t = hex_text 32 v in
     take 8 t @ ''-'' @ take 4 (drop 8 t) @ ''-'' @ take 4 (drop 12 t) @ ''-'' @ take 4 (drop 16 t) @ ''-'' @ drop 20 t)"

definition parse_uuid :: "string \<Rightarrow> uuid res" where
  "parse_uuid raw =
     (let hex = remove_all ''-'' (strip_chars ''{}'' (remove_all ''uuid:'' (remove_all ''urn:'' raw))) in
      if length hex \<noteq> 32 then Inl (ValueError ''badly formed hexadecimal UUID string'')
      else case int_base16 hex of
        None \<Rightarrow> Inl (ValueError (''invalid literal for int() with base 16: '' @ py_repr hex))
      | Some v \<Rightarrow>
          if v < 0 \<or> 2 ^ 128 \<le> v then Inl (ValueError ''int is out of range (need a 128-bit value)'')
          else Inr (uuid_text v))"

lemma length_hex_text [simp]: "length (hex_text k v) = k"
  by (simp add: hex_text_def)

lemma parse_uuid_length: "parse_uuid raw = Inr u \<Longrightarrow> length u = 36"
  by (auto simp: parse_uuid_def uuid_text_def Let_def split: if_splits option.splits)

lemma parse_uuid_error: "parse_uuid raw = Inl e \<Longrightarrow> is_value_error e"
  by (auto simp: parse_uuid_def Let_def split: if_splits option.splits)

definition listing_id_from_string :: "string \<Rightarrow> listing_id res" where
  "listing_id_from_string raw = and_then (parse_uuid raw) mk_listing_id"

definition company_id_from_string :: "string \<Rightarrow> company_id res" where
  "company_id_from_string raw = and_then (parse_uuid raw) mk_company_id"

definition security_id_from_string :: "string \<Rightarrow> security_id res" where
  "security_id_from_string raw = and_then (parse_uuid raw) mk_security_id"

definition source_id_from_string :: "string \<Rightarrow> source_id res" where
  "source_id_from_string raw = and_then (parse_uuid raw) mk_source_id"

lemma from_string_error:
  "listing_id_from_string raw = Inl e \<Longrightarrow> is_value_error e"
  by (auto simp: listing_id_from_string_def and_then_Inl_iff mk_listing_id_def require_uuid_v4_def
      dest: parse_uuid_error split: if_splits)

text \<open>The canonical text of an id is read back.\<close>

lemma parse_uuid_example:
  "parse_uuid ''{urn:uuid:A0000000-0000-4000-8000-00000000000F}'' = Inr ''a0000000-0000-4000-8000-00000000000f''"
  by code_simp

end
