(* ===== verification/Watchlist.thy ===== *)
theory Watchlist
  imports Create_Workflow Resolve_Company Text_Forms
begin

text \<open>
  Watchlists (\<open>domain/watchlist/model.py\<close>), their use case (\<open>application/manage_watchlist.py\<close>) and the
  in-memory store (\<open>infrastructure/watchlist/in_memory_store.py\<close>). A monitoring check creates one workflow
  per entry, through the use case of \<open>Create_Workflow\<close>; entries are resolved by \<open>Resolve_Company\<close>.
\<close>

section \<open>The domain\<close>

datatype watchlist_id = WatchlistId (watchlist_id_text: uuid)

definition mk_watchlist_id :: "uuid \<Rightarrow> watchlist_id res" where
  "mk_watchlist_id u = (if \<not> uuid_is_v4 u then Inl (ValueError ''watchlist_id must be a UUIDv4'')
     else Inr (WatchlistId u))"

datatype monitoring_capability = Monitor_MARKET | Monitor_FINANCIAL | Monitor_NEWS | Monitor_REGULATORY

definition monitoring_capability_of :: "string \<Rightarrow> monitoring_capability res" where
  "monitoring_capability_of s =
     (if s = ''market'' then Inr Monitor_MARKET else if s = ''financial'' then Inr Monitor_FINANCIAL
      else if s = ''news'' then Inr Monitor_NEWS else if s = ''regulatory'' then Inr Monitor_REGULATORY
      else Inl (ValueError (py_repr s @ '' is not a valid MonitoringCapability'')))"

record monitoring_policy =
  policy_capabilities :: "monitoring_capability list"
  policy_interval_hours :: int
  policy_enabled :: bool

definition policy_post_init :: "monitoring_policy \<Rightarrow> monitoring_policy res" where
  "policy_post_init p =
     (if policy_capabilities p = []
      then Inl (ValueError ''monitoring policy requires at least one capability'')
      else if \<not> distinct (policy_capabilities p) then Inl (ValueError ''monitoring capabilities must be unique'')
      else if policy_interval_hours p < 1 \<or> policy_interval_hours p > 24 * 30
      then Inl (ValueError ''interval_hours out of bounds'')
      else Inr p)"

record watchlist_entry =
  we_company_id :: company_id
  we_raw_query :: string
  we_exchange :: "exchange_code option"
  we_note :: "string option"

definition entry_post_init :: "watchlist_entry \<Rightarrow> watchlist_entry res" where
  "entry_post_init e =
     (let q = norm_text (we_raw_query e) in
      if q = [] \<or> length q > 200
      then Inl (ValueError ''watchlist entry raw_query empty or exceeds bounds'')
      else case we_note e of
        None \<Rightarrow> Inr (e\<lparr>we_raw_query := q\<rparr>)
      | Some n \<Rightarrow>
          let note = norm_text n in
          if length note > 256 then Inl (ValueError ''watchlist entry note exceeds bounds'')
          else if has_control_chars note
          then Inl (ValueError ''watchlist entry note must not contain control characters'')
          else Inr (e\<lparr>we_raw_query := q, we_note := (if note = [] then None else Some note)\<rparr>))"

record watchlist =
  wl_id :: watchlist_id
  wl_name :: string
  wl_created_at :: datetime
  wl_updated_at :: datetime
  wl_entries :: "watchlist_entry list"
  wl_policy :: "monitoring_policy option"

definition watchlist_post_init :: "watchlist \<Rightarrow> watchlist res" where
  "watchlist_post_init w =
     (if \<not> tz_aware (wl_created_at w) \<or> \<not> tz_aware (wl_updated_at w)
      then Inl (ValueError ''watchlist timestamps must be timezone-aware'')
      else if has_control_chars (wl_name w)
      then Inl (ValueError ''watchlist name must not contain control characters'')
      else let name = norm_text (wl_name w) in
        if name = [] \<or> length name > 128 then Inl (ValueError ''watchlist name empty or exceeds bounds'')
        else if \<not> distinct (map (\<lambda>e. company_id_text (we_company_id e)) (wl_entries w))
        then Inl (ValueError ''duplicate company on watchlist'')
        else Inr (w\<lparr>wl_name := name\<rparr>))"

definition with_entries :: "watchlist \<Rightarrow> watchlist_entry list \<Rightarrow> datetime \<Rightarrow> watchlist res" where
  "with_entries w es now = watchlist_post_init (w\<lparr>wl_entries := es, wl_updated_at := now\<rparr>)"

text \<open>What every constructed watchlist satisfies: a company is on it at most once.\<close>

definition watchlist_ok :: "watchlist \<Rightarrow> bool" where
  "watchlist_ok w \<longleftrightarrow> tz_aware (wl_created_at w) \<and> tz_aware (wl_updated_at w) \<and>
     norm_text (wl_name w) = wl_name w \<and> wl_name w \<noteq> [] \<and> length (wl_name w) \<le> 128 \<and>
     distinct (map we_company_id (wl_entries w))"

lemma watchlist_post_init_ok:
  assumes "watchlist_post_init w = Inr w'"
  shows "watchlist_ok w' \<and> wl_id w' = wl_id w \<and> wl_entries w' = wl_entries w \<and> wl_policy w' = wl_policy w"
proof -
  have "distinct (map (\<lambda>e. company_id_text (we_company_id e)) (wl_entries w)) = distinct (map we_company_id (wl_entries w))"
    by (simp add: distinct_map inj_on_def)
  then show ?thesis
    using assms by (auto simp: watchlist_post_init_def watchlist_ok_def Let_def simp del: distinct_map split: if_splits)
qed

lemma with_entries_ok:
  "with_entries w es now = Inr w' \<Longrightarrow> watchlist_ok w' \<and> wl_id w' = wl_id w \<and> wl_entries w' = es"
  using watchlist_post_init_ok by (fastforce simp: with_entries_def)

section \<open>The store\<close>

type_synonym watchlist_items = "(string \<times> watchlist) list"

definition watch_key :: "watchlist \<Rightarrow> string" where
  "watch_key w = watchlist_id_text (wl_id w)"

definition watch_save :: "watchlist \<Rightarrow> watchlist_items \<Rightarrow> watchlist_items" where
  "watch_save w d = AList.update (watch_key w) w d"

definition watch_get :: "watchlist_id \<Rightarrow> watchlist_items \<Rightarrow> watchlist option" where
  "watch_get i d = map_of d (watchlist_id_text i)"

definition watch_list_all :: "int \<Rightarrow> int \<Rightarrow> watchlist_items \<Rightarrow> watchlist list res" where
  "watch_list_all limit offset d =
     (if limit < 1 \<or> limit > 200 then Inl (WatchlistStoreError ''limit must be between 1 and 200'')
      else if offset < 0 then Inl (WatchlistStoreError ''offset must be non-negative'')
      else Inr (take (nat limit) (drop (nat offset)
        (sort_key (\<lambda>w. (isoformat (wl_created_at w), watch_key w)) (map snd d)))))"

lemma watch_list_all_stored:
  assumes "watch_list_all limit offset d = Inr ws" "wf_dict watch_key d" "w \<in> set ws"
  shows "watch_get (wl_id w) d = Some w"
proof -
  have "w \<in> set (map snd d)"
    using assms(1,3) by (auto simp: watch_list_all_def split: if_splits dest!: in_set_takeD in_set_dropD)
  then show ?thesis using wf_dict_values [OF assms(2)] by (simp add: watch_get_def watch_key_def)
qed

section \<open>The use case\<close>

datatype watch_status = Watch_OK | Watch_INVALID | Watch_NOT_FOUND | Watch_CONFLICT

record entry_input =
  input_query :: string
  input_exchange :: "string option"

record create_watchlist_query =
  ck_name :: string
  ck_entries :: "entry_input list"
  ck_capabilities :: "string list"
  ck_interval_hours :: int

record watch_result =
  wr_status :: watch_status
  wr_message :: string
  wr_watchlist :: "watchlist option"
  wr_workflows :: "operation_result list"
  wr_evaluated_at :: "datetime option"

record 'w watch_ports =
  watch_catalog :: catalog_port
  watch_clock :: "'w \<Rightarrow> datetime \<times> 'w"
  watch_fresh :: "'w \<Rightarrow> uuid \<times> 'w"
  watch_store_save :: "watchlist \<Rightarrow> ('w, unit) action"
  watch_store_get :: "watchlist_id \<Rightarrow> 'w \<Rightarrow> watchlist option \<times> 'w"
  watch_create :: "create_workflow_query \<Rightarrow> ('w, operation_result) action"
  watch_notifications :: "(notification_event \<Rightarrow> ('w, unit) action) option"

text \<open>\<open>ExchangeCode(item.exchange) if item.exchange else None\<close>\<close>

definition exchange_input :: "string option \<Rightarrow> exchange_code option res" where
  "exchange_input x = (case x of None \<Rightarrow> Inr None
     | Some s \<Rightarrow> if s = [] then Inr None else map_sum id Some (mk_exchange_code s None))"

definition entry_for :: "catalog_port \<Rightarrow> entry_input \<Rightarrow> watchlist_entry res" where
  "entry_for port item =
     and_then (exchange_input (input_exchange item)) (\<lambda>x.
     and_then (resolve_company_query port
         \<lparr>raw_query = input_query item, query_country = None, query_exchange = x, query_ticker = None\<rparr>)
       (\<lambda>r. case resolved_company r of
          None \<Rightarrow> Inl (ValueError (''cannot resolve watchlist entry q='' @ py_repr (input_query item)))
        | Some c \<Rightarrow> entry_post_init
            \<lparr>we_company_id = company_id c, we_raw_query = input_query item, we_exchange = x, we_note = None\<rparr>))"

definition watchlist_parts ::
    "catalog_port \<Rightarrow> create_watchlist_query \<Rightarrow> (monitoring_policy \<times> watchlist_entry list) res" where
  "watchlist_parts port q =
     and_then (map_res monitoring_capability_of (ck_capabilities q)) (\<lambda>caps.
     and_then (policy_post_init \<lparr>policy_capabilities = caps, policy_interval_hours = ck_interval_hours q,
         policy_enabled = True\<rparr>) (\<lambda>policy.
     and_then (map_res (entry_for port) (ck_entries q)) (\<lambda>es. Inr (policy, es))))"

text \<open>The body of the \<open>try\<close> block.\<close>

definition new_watchlist ::
    "'w watch_ports \<Rightarrow> create_watchlist_query \<Rightarrow> datetime \<Rightarrow> ('w, watchlist) action" where
  "new_watchlist P q now =
     bind_act (lift_res (watchlist_parts (watch_catalog P) q)) (\<lambda>(policy, es).
     bind_act (ask (watch_fresh P)) (\<lambda>u.
     lift_res (and_then (mk_watchlist_id u) (\<lambda>i. watchlist_post_init
       \<lparr>wl_id = i, wl_name = ck_name q, wl_created_at = now, wl_updated_at = now, wl_entries = es,
        wl_policy = Some policy\<rparr>))))"

definition watch_reply :: "watch_status \<Rightarrow> string \<Rightarrow> watchlist option \<Rightarrow> operation_result list \<Rightarrow> datetime \<Rightarrow> watch_result" where
  "watch_reply st msg w ops now =
     \<lparr>wr_status = st, wr_message = msg, wr_watchlist = w, wr_workflows = ops, wr_evaluated_at = Some now\<rparr>"

definition create_watchlist :: "'w watch_ports \<Rightarrow> create_watchlist_query \<Rightarrow> ('w, watch_result) action" where
  "create_watchlist P q =
     bind_act (ask (watch_clock P)) (\<lambda>now s.
       case new_watchlist P q now s of
         (Inl e, s') \<Rightarrow>
           if is_value_error e then (Inr (watch_reply Watch_INVALID (error_text e) None [] now), s')
           else (Inl e, s')
       | (Inr w, s') \<Rightarrow>
           bind_act (watch_store_save P w) (\<lambda>_.
             return_act (watch_reply Watch_OK ''watchlist created'' (Some w) [] now)) s')"

definition get_watchlist :: "'w watch_ports \<Rightarrow> watchlist_id \<Rightarrow> ('w, watch_result) action" where
  "get_watchlist P i =
     bind_act (ask (watch_clock P)) (\<lambda>now.
     bind_act (ask (watch_store_get P i)) (\<lambda>found.
       return_act (case found of
         None \<Rightarrow> watch_reply Watch_NOT_FOUND ''watchlist not found'' None [] now
       | Some w \<Rightarrow> watch_reply Watch_OK ''watchlist loaded'' (Some w) [] now)))"

text \<open>A loop that collects the results of an action.\<close>

fun map_act :: "('a \<Rightarrow> ('w, 'b) action) \<Rightarrow> 'a list \<Rightarrow> ('w, 'b list) action" where
  "map_act f [] = return_act []"
| "map_act f (x # xs) = bind_act (f x) (\<lambda>y. bind_act (map_act f xs) (\<lambda>ys. return_act (y # ys)))"

definition monitoring_query :: "watchlist_entry \<Rightarrow> create_workflow_query" where
  "monitoring_query e =
     \<lparr>cw_company_query = \<lparr>raw_query = we_raw_query e, query_country = None, query_exchange = we_exchange e,
        query_ticker = None\<rparr>,
      cw_objective = Objective_MARKET_ANALYSIS, cw_objective_text = None, cw_jurisdiction = None,
      cw_time_horizon_days = None, cw_require_approval = False\<rparr>"

definition announce_check :: "'w watch_ports \<Rightarrow> watchlist \<Rightarrow> nat \<Rightarrow> datetime \<Rightarrow> ('w, unit) action" where
  "announce_check P w n now =
     (case watch_notifications P of
        None \<Rightarrow> return_act ()
      | Some publish \<Rightarrow>
          catch_act
            (bind_act (ask (watch_fresh P)) (\<lambda>u.
             bind_act (lift_res (and_then (mk_notification_id u) (\<lambda>nid. event_post_init
               \<lparr>ne_id = nid, ne_type = Notify_MONITORING_CHECK_CREATED, ne_created_at = now,
                ne_workflow_id = None, ne_company_id = None,
                ne_message = ''explicit monitoring check created workflows'',
                ne_metadata = [(''watchlist_id'', watchlist_id_text (wl_id w)),
                               (''workflow_count'', nat_text n)]\<rparr>))) publish))
            (\<lambda>_. return_act ()))"

definition evaluate_watchlist :: "'w watch_ports \<Rightarrow> watchlist_id \<Rightarrow> ('w, watch_result) action" where
  "evaluate_watchlist P i =
     bind_act (ask (watch_clock P)) (\<lambda>now.
     bind_act (ask (watch_store_get P i)) (\<lambda>found.
       case found of
         None \<Rightarrow> return_act (watch_reply Watch_NOT_FOUND ''watchlist not found'' None [] now)
       | Some w \<Rightarrow>
           if \<not> (case wl_policy w of None \<Rightarrow> False | Some p \<Rightarrow> policy_enabled p)
           then return_act (watch_reply Watch_CONFLICT ''monitoring policy disabled'' (Some w) [] now)
           else
             bind_act (map_act (\<lambda>e. watch_create P (monitoring_query e)) (wl_entries w)) (\<lambda>ops.
             bind_act (announce_check P w (length ops) now) (\<lambda>_.
             return_act (watch_reply Watch_OK ''monitoring check created workflows'' (Some w) ops now)))))"

end
