(* ===== verification/Watchlist_Properties.thy ===== *)
theory Watchlist_Properties
  imports Watchlist Resolve_Properties
begin

text \<open>
  The contract of a watchlist store within the world of the use case (the locale \<open>watchlist_world\<close>), its
  interpretation on the in-memory store with workflows created by \<open>create_workflow\<close>, and the properties of
  creating a watchlist and of a monitoring check.
\<close>

section \<open>The contract\<close>

text \<open>A new watchlist is well formed and lists the companies the entries resolved to, in order.\<close>

definition built_from :: "catalog_port \<Rightarrow> create_watchlist_query \<Rightarrow> watchlist \<Rightarrow> bool" where
  "built_from port q x \<longleftrightarrow> watchlist_ok x \<and> list_all2 (\<lambda>item e. entry_for port item = Inr e) (ck_entries q) (wl_entries x)"

locale watchlist_world =
  fixes P :: "'w watch_ports" and view :: "'w \<Rightarrow> string \<rightharpoonup> watchlist"
  assumes get: "fst (watch_store_get P i w) = view w (watchlist_id_text i)"
    and get_keeps: "view (snd (watch_store_get P i w)) = view w"
    and save: "watch_store_save P x w = (Inr u, w') \<Longrightarrow> view w' = (view w)(watch_key x \<mapsto> x)"
    and clock: "view (snd (watch_clock P w)) = view w"
    and fresh: "view (snd (watch_fresh P w)) = view w"
    and create: "view (snd (watch_create P q w)) = view w"
    and publish: "watch_notifications P = Some put \<Longrightarrow> view (snd (put ev w)) = view w"
begin

definition same_items :: "'w \<Rightarrow> 'w \<Rightarrow> bool" where
  "same_items w w' \<longleftrightarrow> view w' = view w"

sublocale same: kept_relation same_items
  by unfold_locales (simp_all add: same_items_def)

lemma keeps_ports:
  "keeps same_items (ask (watch_clock P))" "keeps same_items (ask (watch_fresh P))"
  "keeps same_items (watch_create P q)" "keeps same_items (ask (watch_store_get P i))"
  by (auto intro!: keeps_ask simp: keeps_def same_items_def clock fresh create get_keeps)

lemma keeps_map_act: "(\<And>x. keeps same_items (f x)) \<Longrightarrow> keeps same_items (map_act f xs)"
  by (induction xs) (auto intro!: same.keeps_rules)

lemma keeps_announce: "keeps same_items (announce_check P w n now)"
proof (cases "watch_notifications P")
  case None
  then show ?thesis by (simp add: announce_check_def same.keeps_return)
next
  case (Some put)
  have "keeps same_items (put ev)" for ev using publish [OF Some] by (simp add: keeps_def same_items_def)
  then show ?thesis unfolding announce_check_def Some option.case by (intro same.keeps_rules keeps_ports)
qed

lemma keeps_new: "keeps same_items (new_watchlist P q now)"
  unfolding new_watchlist_def by (intro same.keeps_rules keeps_ports) (auto intro!: same.keeps_rules keeps_ports split: prod.split)

lemma keeps_evaluate: "keeps same_items (evaluate_watchlist P i)"
  unfolding evaluate_watchlist_def
  by (intro same.keeps_rules keeps_ports)
    (auto intro!: same.keeps_rules keeps_ports keeps_map_act keeps_announce split: option.split)

lemma new_built:
  assumes "new_watchlist P q now w = (Inr x, w')" shows "built_from (watch_catalog P) q x"
proof -
  obtain policy es u i where parts: "watchlist_parts (watch_catalog P) q = Inr (policy, es)"
    and x: "watchlist_post_init \<lparr>wl_id = i, wl_name = ck_name q, wl_created_at = now, wl_updated_at = now,
        wl_entries = es, wl_policy = Some policy\<rparr> = Inr x"
    using assms by (auto simp: new_watchlist_def bind_act_def split: sum.splits prod.splits)
  have "list_all2 (\<lambda>item e. entry_for (watch_catalog P) item = Inr e) (ck_entries q) es"
    using parts by (auto simp: watchlist_parts_def dest: map_res_InrD)
  then show ?thesis using watchlist_post_init_ok [OF x] by (simp add: built_from_def)
qed

lemma create_replies:
  assumes "create_watchlist P q w = (Inr r, w')" "wr_status r = Watch_OK"
  obtains x where "wr_watchlist r = Some x" "built_from (watch_catalog P) q x" "view w' = (view w)(watch_key x \<mapsto> x)"
proof -
  obtain now w1 where now: "watch_clock P w = (now, w1)" by fastforce
  obtain y w2 where y: "new_watchlist P q now w1 = (y, w2)" by fastforce
  have w2: "view w2 = view w"
    using keeps_new [of q now] clock [of w] now y unfolding keeps_def same_items_def by (metis snd_conv)
  show thesis
  proof (cases y)
    case (Inl e)
    then show ?thesis using assms now y by (auto simp: create_watchlist_def watch_reply_def split: if_splits)
  next
    case (Inr x)
    then have saved: "watch_store_save P x w2 = (Inr (), w')" "r = watch_reply Watch_OK ''watchlist created'' (Some x) [] now"
      using assms now y by (auto simp: create_watchlist_def elim!: bind_act_InrE)
    then show ?thesis using that [of x] new_built y Inr save [OF saved(1)] w2 by (auto simp: watch_reply_def)
  qed
qed

lemma get_replies:
  "\<exists>now w'. get_watchlist P i w = (Inr (case view w (watchlist_id_text i) of
       None \<Rightarrow> watch_reply Watch_NOT_FOUND ''watchlist not found'' None [] now
     | Some x \<Rightarrow> watch_reply Watch_OK ''watchlist loaded'' (Some x) [] now), w') \<and> view w' = view w"
  using get clock get_keeps by (simp add: get_watchlist_def) blast

lemma map_act_length: "map_act f xs w = (Inr ys, w') \<Longrightarrow> length ys = length xs"
  by (induction xs arbitrary: ys w) (auto elim!: bind_act_InrE)

lemma evaluate_replies:
  assumes "evaluate_watchlist P i w = (Inr r, w')"
  shows "case view w (watchlist_id_text i) of
      None \<Rightarrow> wr_status r = Watch_NOT_FOUND \<and> wr_workflows r = []
    | Some x \<Rightarrow> wr_watchlist r = Some x \<and>
        (if (\<exists>p. wl_policy x = Some p \<and> policy_enabled p)
         then wr_status r = Watch_OK \<and> length (wr_workflows r) = length (wl_entries x)
         else wr_status r = Watch_CONFLICT \<and> wr_workflows r = [])"
  using assms get clock
  by (auto simp: evaluate_watchlist_def watch_reply_def split: option.splits elim!: bind_act_InrE dest!: map_act_length)

lemma evaluate_keeps: "view (snd (evaluate_watchlist P i w)) = view w"
  using keeps_evaluate by (simp add: keeps_def same_items_def)

end

section \<open>The in-memory store\<close>

text \<open>The store within the world of the use cases it calls.\<close>

record 'e watch_system =
  ws_items :: watchlist_items
  ws_env :: 'e

definition watch_env :: "('e \<Rightarrow> 'a \<times> 'e) \<Rightarrow> 'e watch_system \<Rightarrow> 'a \<times> 'e watch_system" where
  "watch_env f w = (case f (ws_env w) of (x, e) \<Rightarrow> (x, w\<lparr>ws_env := e\<rparr>))"

definition memory_watch_ports ::
    "catalog_port \<Rightarrow> 'e creation_ports \<Rightarrow> (notification_event \<Rightarrow> ('e, unit) action) option \<Rightarrow> 'e watch_system watch_ports" where
  "memory_watch_ports cat C N =
     \<lparr>watch_catalog = cat, watch_clock = watch_env (wp_clock C), watch_fresh = watch_env (wp_fresh C),
      watch_store_save = (\<lambda>x w. (Inr (), w\<lparr>ws_items := watch_save x (ws_items w)\<rparr>)),
      watch_store_get = (\<lambda>i w. (watch_get i (ws_items w), w)),
      watch_create = (\<lambda>q. watch_env (create_workflow C q None)),
      watch_notifications = map_option (\<lambda>put ev. watch_env (put ev)) N\<rparr>"

definition items_view :: "'e watch_system \<Rightarrow> string \<rightharpoonup> watchlist" where
  "items_view w = map_of (ws_items w)"

lemma watch_env_items [simp]: "ws_items (snd (watch_env f w)) = ws_items w"
  by (simp add: watch_env_def split: prod.splits)

interpretation stored: watchlist_world "memory_watch_ports cat C N" items_view for cat C N
  by unfold_locales
    (auto simp: memory_watch_ports_def items_view_def watch_get_def watch_save_def update_conv')

section \<open>Properties\<close>

text \<open>An entry names a company of the catalog that is listed on the exchange of its input.\<close>

definition entry_resolved :: "company_identity list \<Rightarrow> entry_input \<Rightarrow> watchlist_entry \<Rightarrow> bool" where
  "entry_resolved cs item e \<longleftrightarrow> exchange_input (input_exchange item) = Inr (we_exchange e) \<and>
     we_raw_query e = norm_text (input_query item) \<and>
     (\<exists>c \<in> set cs. company_id c = we_company_id e \<and> satisfies_exchange (we_exchange e) c)"

lemma entry_for_resolved:
  assumes "entry_for (memory_port cs) item = Inr e" shows "entry_resolved cs item e"
proof -
  obtain x r c where x: "exchange_input (input_exchange item) = Inr x"
    and r: "resolve_company_query (memory_port cs)
      \<lparr>raw_query = input_query item, query_country = None, query_exchange = x, query_ticker = None\<rparr> = Inr r"
    and c: "resolved_company r = Some c" and e: "entry_post_init
      \<lparr>we_company_id = company_id c, we_raw_query = input_query item, we_exchange = x, we_note = None\<rparr> = Inr e"
    using assms by (auto simp: entry_for_def split: option.splits)
  have "c \<in> set cs \<and> satisfies_exchange x c"
    using memory.resolve_sound [OF r, of c] c by (simp add: named_companies_def constrained_by_def)
  then show ?thesis using x e by (auto simp: entry_resolved_def entry_post_init_def Let_def split: if_splits)
qed

text \<open>C39: A watchlist whose creation replies OK is well formed (no company twice), has one entry per input, in order,
  for a company of the catalog on the exchange asked for; it is the one change of the store, and looking it up
  by its id finds it.\<close>

theorem created_watchlist_is_found:
  assumes "in_memory_catalog cs = Inr port"
    "create_watchlist (memory_watch_ports port C N) q w = (Inr r, w')" "wr_status r = Watch_OK"
  shows "\<exists>x. wr_watchlist r = Some x \<and> watchlist_ok x \<and> list_all2 (entry_resolved cs) (ck_entries q) (wl_entries x) \<and>
    items_view w' = (items_view w)(watch_key x \<mapsto> x) \<and>
    (\<exists>r2 w2. get_watchlist (memory_watch_ports port C N) (wl_id x) w' = (Inr r2, w2) \<and>
      wr_status r2 = Watch_OK \<and> wr_watchlist r2 = Some x)"
proof -
  have port: "port = memory_port cs" using assms(1) by (simp add: in_memory_catalog_iff)
  obtain x where x: "wr_watchlist r = Some x" "built_from port q x"
    "items_view w' = (items_view w)(watch_key x \<mapsto> x)"
    using stored.create_replies [OF assms(2,3)] by (auto simp: memory_watch_ports_def)
  have "list_all2 (entry_resolved cs) (ck_entries q) (wl_entries x)" "watchlist_ok x"
    using x(2) entry_for_resolved
    by (auto simp: built_from_def port memory_watch_ports_def elim: list_all2_mono)
  moreover have "\<exists>r2 w2. get_watchlist (memory_watch_ports port C N) (wl_id x) w' = (Inr r2, w2) \<and>
      wr_status r2 = Watch_OK \<and> wr_watchlist r2 = Some x"
    using stored.get_replies [of port C N "wl_id x" w'] x(3) by (auto simp: watch_key_def watch_reply_def)
  ultimately show ?thesis using x by blast
qed


section \<open>Witnesses\<close>

definition watch_sample_env :: "nat creation_ports" where
  "watch_sample_env =
     \<lparr>wp_clock = (\<lambda>n. (sample_time, n)), wp_fresh = (\<lambda>n. (uuid_of (char_of (97 + n)), n + 1)),
      wp_create_plan = (\<lambda>q. return_act
        \<lparr>cp_query = q, cp_status = Creation_INVALID, cp_message = ''no'', cp_request = None, cp_plan = None,
         cp_resolution = None, cp_budget = None, cp_evaluated_at = None\<rparr>),
      wp_save = (\<lambda>w. return_act ()), wp_notifications = None\<rparr>"

definition watch_sample_query :: create_watchlist_query where
  "watch_sample_query = \<lparr>ck_name = ''tech'', ck_entries = [\<lparr>input_query = ''ac'', input_exchange = Some ''nasdaq''\<rparr>],
     ck_capabilities = [''market''], ck_interval_hours = 24\<rparr>"

definition watch_sample_ports :: "nat watch_system watch_ports" where
  "watch_sample_ports = memory_watch_ports (memory_port [acme]) watch_sample_env None"

lemma watch_sample_run:
  "case create_watchlist watch_sample_ports watch_sample_query \<lparr>ws_items = [], ws_env = 0\<rparr> of
     (Inr r, w') \<Rightarrow> wr_status r = Watch_OK | _ \<Rightarrow> False"
  by code_simp

lemma created_watchlist_is_found_witness:
  "\<exists>r w'. create_watchlist watch_sample_ports watch_sample_query \<lparr>ws_items = [], ws_env = 0\<rparr> = (Inr r, w') \<and>
     (\<exists>x. wr_watchlist r = Some x \<and> watchlist_ok x \<and> list_all2 (entry_resolved [acme]) (ck_entries watch_sample_query) (wl_entries x))"
proof -
  obtain r w' where run: "create_watchlist watch_sample_ports watch_sample_query \<lparr>ws_items = [], ws_env = 0\<rparr> = (Inr r, w')"
    "wr_status r = Watch_OK"
    using watch_sample_run by (auto split: prod.splits sum.splits)
  have "wr_watchlist r \<noteq> None \<and> (\<exists>x. wr_watchlist r = Some x \<and> watchlist_ok x \<and>
      list_all2 (entry_resolved [acme]) (ck_entries watch_sample_query) (wl_entries x))"
    using created_watchlist_is_found [OF sample_catalog run(1) [unfolded watch_sample_ports_def] run(2)] by auto
  then show ?thesis using run by blast
qed





end
