(* ===== verification/Market.thy ===== *)
theory Market
  imports Claims
begin

text \<open>
  Market observations (\<open>domain/market/observations.py\<close>), the calculation library
  (\<open>domain/market/calculations.py\<close>), the calendar (\<open>domain/market/calendar.py\<close>) and the freshness policy
  (\<open>application/market_freshness.py\<close>). Prices and volumes are decimals, a session date is its year, month and day.
\<close>

section \<open>Bars\<close>

datatype freshness_status = Fresh | Stale | Freshness_UNKNOWN

datatype market_availability = Market_AVAILABLE | Market_UNAVAILABLE | Market_DEGRADED | Market_PARTIAL

definition dec_lt :: "decimal \<Rightarrow> decimal \<Rightarrow> bool" where
  "dec_lt a b \<longleftrightarrow> dec_less a b = Inr True"

text \<open>\<open>to_integral_value()\<close> rounds half even and never raises.\<close>

fun dec_to_integral :: "decimal \<Rightarrow> decimal" where
  "dec_to_integral (Dec s n e) = (if 0 \<le> e then Dec s n e else Dec s (round_half_even n (- e)) 0)"
| "dec_to_integral d = d"

definition require_finite_non_negative :: "string \<Rightarrow> decimal \<Rightarrow> unit res" where
  "require_finite_non_negative label v =
     (if \<not> is_finite v then Inl (ValueError (label @ '' must be a finite Decimal''))
      else if dec_lt v (dec_of_int 0) then Inl (ValueError (label @ '' must be non-negative''))
      else Inr ())"

record ohlcv_bar =
  bar_date :: date
  bar_open :: decimal
  bar_high :: decimal
  bar_low :: decimal
  bar_close :: decimal
  bar_volume :: decimal
  bar_currency :: currency_code
  bar_factor :: decimal

definition check_prices :: "ohlcv_bar \<Rightarrow> ohlcv_bar res" where
  "check_prices b =
     (if \<not> dec_eq (bar_volume b) (dec_to_integral (bar_volume b))
      then Inl (ValueError ''volume must be an integer number of shares'')
      else if dec_lt (bar_high b) (bar_low b) then Inl (ValueError ''high must be >= low'')
      else if dec_lt (bar_high b) (bar_open b) \<or> dec_lt (bar_high b) (bar_close b)
      then Inl (ValueError ''high must cover open/close'')
      else if dec_lt (bar_open b) (bar_low b) \<or> dec_lt (bar_close b) (bar_low b)
      then Inl (ValueError ''low must cover open/close'')
      else if \<not> dec_lt (dec_of_int 0) (bar_factor b)
      then Inl (ValueError ''adjustment_factor must be positive'')
      else Inr b)"

definition bar_post_init :: "ohlcv_bar \<Rightarrow> ohlcv_bar res" where
  "bar_post_init b =
     and_then (map_res (\<lambda>(label, v). require_finite_non_negative label v)
       [(''open'', bar_open b), (''high'', bar_high b), (''low'', bar_low b), (''close'', bar_close b),
        (''volume'', bar_volume b), (''adjustment_factor'', bar_factor b)])
       (\<lambda>_. check_prices b)"

definition adjusted_close :: "ohlcv_bar \<Rightarrow> decimal res" where
  "adjusted_close b = dec_mult (bar_close b) (bar_factor b)"

section \<open>Series\<close>

record market_series =
  ms_company_id :: company_id
  ms_security_id :: security_id
  ms_listing_id :: listing_id
  ms_exchange :: exchange_code
  ms_ticker :: ticker_symbol
  ms_currency :: currency_code
  ms_as_of :: datetime
  ms_retrieved_at :: datetime
  ms_source_id :: source_id
  ms_bars :: "ohlcv_bar list"
  ms_provider_name :: string
  ms_availability :: market_availability
  ms_data_origin :: data_origin

definition series_post_init :: "market_series \<Rightarrow> market_series res" where
  "series_post_init s =
     (let dates = map bar_date (ms_bars s) in
      if \<not> tz_aware (ms_as_of s) \<or> \<not> tz_aware (ms_retrieved_at s)
      then Inl (ValueError ''market observation timestamps must be timezone-aware'')
      else if py_strip (ms_provider_name s) = [] then Inl (ValueError ''provider_name is required'')
      else if ms_availability s = Market_AVAILABLE \<and> ms_bars s = []
      then Inl (ValueError ''AVAILABLE series must include at least one bar'')
      else if ms_data_origin s = Origin_UNAVAILABLE \<and> ms_bars s \<noteq> []
      then Inl (ValueError ''UNAVAILABLE origin must not include bars'')
      else if \<not> sorted dates then Inl (ValueError ''bars must be ordered by ascending session_date'')
      else if \<not> distinct dates then Inl (ValueError ''duplicate session_date in bars'')
      else if list_ex (\<lambda>b. bar_currency b \<noteq> ms_currency s) (ms_bars s)
      then Inl (ValueError ''bar currency must match series currency'')
      else Inr s)"

definition series_with_data_origin :: "market_series \<Rightarrow> data_origin \<Rightarrow> market_series res" where
  "series_with_data_origin s origin = series_post_init (s\<lparr>ms_data_origin := origin\<rparr>)"

section \<open>Calculations\<close>

datatype market_metric_name =
  Market_LAST_CLOSE | Market_ADJUSTED_LAST_CLOSE | Market_SIMPLE_RETURN | Market_SMA | Market_VOLUME_SUM

record market_metric =
  mm_name :: market_metric_name
  mm_value :: decimal
  mm_unit :: string
  mm_formula :: string
  mm_window :: "int option"
  mm_inputs_as_of :: "string option"

definition calc_version :: "string \<Rightarrow> string" where
  "calc_version f = ''market-calc-1:'' @ f"

definition PRICE :: int where "PRICE = -4"

definition last_close :: "ohlcv_bar list \<Rightarrow> market_metric res" where
  "last_close bars =
     (if bars = [] then Inl (ValueError ''last_close requires at least one bar'')
      else let b = last bars in
        and_then (dec_quantize (bar_close b) PRICE) (\<lambda>v.
          Inr \<lparr>mm_name = Market_LAST_CLOSE, mm_value = v, mm_unit = currency_text (bar_currency b),
               mm_formula = calc_version ''last_close=close[-1]'', mm_window = None,
               mm_inputs_as_of = Some (date_text (bar_date b))\<rparr>))"

definition adjusted_last_close :: "ohlcv_bar list \<Rightarrow> market_metric res" where
  "adjusted_last_close bars =
     (if bars = [] then Inl (ValueError ''adjusted_last_close requires at least one bar'')
      else let b = last bars in
        and_then (adjusted_close b) (\<lambda>a.
        and_then (dec_quantize a PRICE) (\<lambda>v.
          Inr \<lparr>mm_name = Market_ADJUSTED_LAST_CLOSE, mm_value = v, mm_unit = currency_text (bar_currency b),
               mm_formula = calc_version ''adjusted_last_close=close[-1]*adjustment_factor[-1]'', mm_window = None,
               mm_inputs_as_of = Some (date_text (bar_date b))\<rparr>)))"

definition simple_return :: "ohlcv_bar list \<Rightarrow> market_metric res" where
  "simple_return bars =
     (if length bars < 2 then Inl (ValueError ''simple_return requires at least two bars'')
      else
        and_then (adjusted_close (bars ! (length bars - 2))) (\<lambda>previous.
        and_then (adjusted_close (last bars)) (\<lambda>current.
          if dec_eq previous (dec_of_int 0)
          then Inl (ValueError ''simple_return previous adjusted close cannot be zero'')
          else
            and_then (dec_div current previous) (\<lambda>d.
            and_then (dec_sub d (dec_of_int 1)) (\<lambda>r.
            and_then (dec_quantize r (-6)) (\<lambda>v.
              Inr \<lparr>mm_name = Market_SIMPLE_RETURN, mm_value = v, mm_unit = ''ratio'',
                   mm_formula = calc_version ''simple_return=(adj_close[-1]/adj_close[-2])-1'', mm_window = None,
                   mm_inputs_as_of = Some (date_text (bar_date (last bars)))\<rparr>))))))"

text \<open>\<open>bars[-window:]\<close>\<close>

definition last_bars :: "int \<Rightarrow> ohlcv_bar list \<Rightarrow> ohlcv_bar list" where
  "last_bars window bars = drop (length bars - nat window) bars"

definition sum_adjusted :: "ohlcv_bar list \<Rightarrow> decimal res" where
  "sum_adjusted bars = fold_res (\<lambda>b acc. and_then (adjusted_close b) (\<lambda>a. dec_add acc a)) bars (dec_of_int 0)"

definition simple_moving_average :: "ohlcv_bar list \<Rightarrow> int \<Rightarrow> market_metric res" where
  "simple_moving_average bars window =
     (if window < 1 then Inl (ValueError ''sma window must be >= 1'')
      else if int (length bars) < window
      then Inl (ValueError (''sma requires at least '' @ int_text window @ '' bars''))
      else let sample = last_bars window bars in
        and_then (sum_adjusted sample) (\<lambda>total.
        and_then (dec_div total (dec_of_int window)) (\<lambda>mean.
        and_then (dec_quantize mean PRICE) (\<lambda>v.
          Inr \<lparr>mm_name = Market_SMA, mm_value = v, mm_unit = currency_text (bar_currency (last sample)),
               mm_formula = calc_version (''sma=mean(adj_close[-'' @ int_text window @ '':])''), mm_window = Some window,
               mm_inputs_as_of = Some (date_text (bar_date (last sample)))\<rparr>))))"

definition volume_sum :: "ohlcv_bar list \<Rightarrow> int \<Rightarrow> market_metric res" where
  "volume_sum bars window =
     (if window < 1 then Inl (ValueError ''volume_sum window must be >= 1'')
      else if int (length bars) < window
      then Inl (ValueError (''volume_sum requires at least '' @ int_text window @ '' bars''))
      else let sample = last_bars window bars in
        and_then (dec_sum (map bar_volume sample) (dec_of_int 0)) (\<lambda>total.
        and_then (dec_quantize total 0) (\<lambda>v.
          Inr \<lparr>mm_name = Market_VOLUME_SUM, mm_value = v, mm_unit = ''shares'',
               mm_formula = calc_version (''volume_sum=sum(volume[-'' @ int_text window @ '':])''),
               mm_window = Some window, mm_inputs_as_of = Some (date_text (bar_date (last sample)))\<rparr>)))"

definition compute_standard_metrics :: "ohlcv_bar list \<Rightarrow> int \<Rightarrow> market_metric list res" where
  "compute_standard_metrics bars window =
     and_then (last_close bars) (\<lambda>a.
     and_then (adjusted_last_close bars) (\<lambda>b.
     and_then (if 2 \<le> length bars then map_sum id (\<lambda>m. [m]) (simple_return bars) else Inr []) (\<lambda>c.
     and_then (if window \<le> int (length bars)
               then and_then (simple_moving_average bars window) (\<lambda>m.
                    and_then (volume_sum bars window) (\<lambda>v. Inr [m, v]))
               else Inr []) (\<lambda>d.
       Inr ([a, b] @ c @ d)))))"

section \<open>Calendar\<close>

fun exchange_zone :: "string \<Rightarrow> string option" where
  "exchange_zone x =
     (if x = ''NSE'' \<or> x = ''BSE'' then Some ''Asia/Kolkata''
      else if x = ''NASDAQ'' \<or> x = ''NYSE'' then Some ''America/New_York'' else None)"

text \<open>The zone by its key.\<close>

definition exchange_timezone :: "exchange_code \<Rightarrow> string res" where
  "exchange_timezone x =
     (case exchange_zone (exchange_text x) of
        None \<Rightarrow> Inl (ValueError (''no timezone mapping for exchange '' @ exchange_text x))
      | Some z \<Rightarrow> Inr z)"

definition is_weekday_calendar_day :: "date \<Rightarrow> bool" where
  "is_weekday_calendar_day d \<longleftrightarrow> (ordinal d + 6) mod 7 < 5"

definition country_for_exchange :: "exchange_code \<Rightarrow> country_code res" where
  "country_for_exchange x =
     (if exchange_text x \<in> {''NSE'', ''BSE''} then mk_country_code ''IN''
      else if exchange_text x \<in> {''NASDAQ'', ''NYSE''} then mk_country_code ''US''
      else Inl (ValueError (''no country mapping for exchange '' @ exchange_text x)))"

section \<open>Freshness\<close>

text \<open>The policy is its \<open>stale_after\<close> in microseconds.\<close>

definition freshness_policy :: "int \<Rightarrow> int res" where
  "freshness_policy stale_after =
     (if stale_after \<le> 0 then Inl (ValueError ''stale_after must be positive'') else Inr stale_after)"

definition classify_freshness :: "int \<Rightarrow> market_series \<Rightarrow> datetime \<Rightarrow> freshness_status res" where
  "classify_freshness stale_after s now =
     (if \<not> tz_aware now then Inl (ValueError ''now must be timezone-aware'')
      else let age = instant now - instant (ms_as_of s) in
        Inr (if age < 0 then Freshness_UNKNOWN else if age \<le> stale_after then Fresh else Stale))"

end
