(* ===== verification/Market_Data.thy ===== *)
theory Market_Data
  imports Market Actions
begin

text \<open>
  The market-data port and its adapters: fixtures in memory (\<open>infrastructure/market/in_memory.py\<close>), a primary
  source with a fallback (\<open>fallback.py\<close>) and a cache with a time to live (\<open>cache.py\<close>). The locale
  \<open>market_source\<close> is what a source promises; fixtures keep it, and fallback and cache hand it on.
\<close>

type_synonym 'w market_port = "listing_identity \<Rightarrow> company_id \<Rightarrow> ('w, market_series option) action"

section \<open>Symbols\<close>

definition yahoo_chart_symbol :: "listing_identity \<Rightarrow> string" where
  "yahoo_chart_symbol l =
     (let t = ticker_text (listing_ticker l); x = exchange_text (listing_exchange l) in
      if x = ''NSE'' then t @ ''.NS'' else if x = ''BSE'' then t @ ''.BO'' else t)"

definition prefer_yahoo_provider_identifier :: "provider_identifier list \<Rightarrow> listing_identity \<Rightarrow> string" where
  "prefer_yahoo_provider_identifier ids l =
     (case find (\<lambda>i. provider i = Provider_YAHOO_FINANCE) ids of
        Some i \<Rightarrow> provider_value i | None \<Rightarrow> yahoo_chart_symbol l)"

section \<open>Fixtures\<close>

definition relabel :: "market_series \<Rightarrow> data_origin \<Rightarrow> market_series option res" where
  "relabel s origin = map_sum id Some (series_with_data_origin s origin)"

definition memory_market :: "(string \<times> market_series) list \<Rightarrow> 'w market_port" where
  "memory_market d l c =
     lift_res (case map_of d (listing_id_text (listing_id l)) of
        None \<Rightarrow> Inr None
      | Some s \<Rightarrow>
          if ms_listing_id s \<noteq> listing_id l \<or> ms_company_id s \<noteq> c then Inr None
          else if ms_data_origin s \<noteq> Origin_FIXTURE then relabel s Origin_FIXTURE
          else Inr (Some s))"

section \<open>Fallback\<close>

definition usable :: "market_series option \<Rightarrow> bool" where
  "usable x = (case x of None \<Rightarrow> False | Some s \<Rightarrow> ms_availability s \<noteq> Market_UNAVAILABLE \<and> ms_bars s \<noteq> [])"

text \<open>\<open>_safe_get\<close>: any exception of a source counts as no series.\<close>

definition safe_get :: "'w market_port \<Rightarrow> 'w market_port" where
  "safe_get p l c = catch_act (p l c) (\<lambda>_. return_act None)"

definition fallback_market :: "'w market_port \<Rightarrow> 'w market_port \<Rightarrow> 'w market_port" where
  "fallback_market primary secondary l c =
     bind_act (safe_get primary l c) (\<lambda>x.
       if usable x then return_act x
       else bind_act (safe_get secondary l c) (\<lambda>y.
         return_act (if usable y then y else if x \<noteq> None then x else y)))"

section \<open>The cache\<close>

text \<open>
  An expiry is the instant with whether its clock was timezone-aware, since Python refuses to compare a
  naive with an aware time. The two sections under the lock are atomic; the call of the source between them
  is any action on the whole world, entries included, so other threads may run there.
\<close>

record cache_entry =
  ce_series :: market_series
  ce_aware :: bool
  ce_expires :: int

record 'e market_cache =
  mc_entries :: "(string \<times> cache_entry) list"
  mc_env :: 'e

definition cache_ttl :: "int \<Rightarrow> int res" where
  "cache_ttl ttl = (if ttl \<le> 0 then Inl (ValueError ''cache ttl must be positive'') else Inr ttl)"

definition cache_key :: "company_id \<Rightarrow> listing_id \<Rightarrow> string" where
  "cache_key c l = company_id_text c @ '':'' @ listing_id_text l"

definition label_cached :: "market_series \<Rightarrow> market_series option res" where
  "label_cached s = (if ms_data_origin s = Origin_LIVE then relabel s Origin_CACHED_LIVE else Inr (Some s))"

text \<open>The entry that has not expired, if there is one.\<close>

definition live_entry :: "string \<Rightarrow> datetime \<Rightarrow> 'e market_cache \<Rightarrow> cache_entry option res" where
  "live_entry key now w =
     (case map_of (mc_entries w) key of
        None \<Rightarrow> Inr None
      | Some e \<Rightarrow>
          if ce_aware e \<noteq> tz_aware now
          then Inl (TypeError (''can'' @ [char_of (39 :: nat)] @ ''t compare offset-naive and offset-aware datetimes''))
          else Inr (if instant now < ce_expires e then Some e else None))"

definition keep_series :: "string \<Rightarrow> market_series option \<Rightarrow> datetime \<Rightarrow> int \<Rightarrow> 'e market_cache \<Rightarrow> 'e market_cache" where
  "keep_series key x now ttl w =
     w\<lparr>mc_entries := (case x of
         Some s \<Rightarrow> AList.update key \<lparr>ce_series = s, ce_aware = tz_aware now, ce_expires = instant now + ttl\<rparr> (mc_entries w)
       | None \<Rightarrow> AList.delete key (mc_entries w))\<rparr>"

definition cache_env :: "('e \<Rightarrow> 'a \<times> 'e) \<Rightarrow> 'e market_cache \<Rightarrow> 'a \<times> 'e market_cache" where
  "cache_env f w = (case f (mc_env w) of (x, e) \<Rightarrow> (x, w\<lparr>mc_env := e\<rparr>))"

text \<open>The second section: another thread may have filled the entry meanwhile.\<close>

definition settle_cache ::
    "('e \<Rightarrow> datetime \<times> 'e) \<Rightarrow> int \<Rightarrow> string \<Rightarrow> market_series option \<Rightarrow> ('e market_cache, market_series option) action" where
  "settle_cache clk ttl key x =
     bind_act (ask (cache_env clk)) (\<lambda>now.
     bind_act (\<lambda>w. (live_entry key now w, w)) (\<lambda>hit.
       case hit of
         Some e \<Rightarrow> lift_res (label_cached (ce_series e))
       | None \<Rightarrow> (\<lambda>w. (Inr x, keep_series key x now ttl w))))"

definition caching_market ::
    "('e \<Rightarrow> datetime \<times> 'e) \<Rightarrow> int \<Rightarrow> 'e market_cache market_port \<Rightarrow> 'e market_cache market_port" where
  "caching_market clk ttl inner l c =
     bind_act (ask (cache_env clk)) (\<lambda>now.
       if \<not> tz_aware now then lift_res (Inl (ValueError ''cache clock must return timezone-aware datetime''))
       else
         bind_act (\<lambda>w. (live_entry (cache_key c (listing_id l)) now w, w)) (\<lambda>hit.
           case hit of
             Some e \<Rightarrow> lift_res (label_cached (ce_series e))
           | None \<Rightarrow> bind_act (inner l c) (settle_cache clk ttl (cache_key c (listing_id l)))))"

definition clear_cache :: "'e market_cache \<Rightarrow> 'e market_cache" where
  "clear_cache w = w\<lparr>mc_entries := []\<rparr>"

section \<open>What a source promises\<close>

text \<open>A series for the listing and the company that were asked for, as its constructor accepts it.\<close>

definition honest :: "listing_identity \<Rightarrow> company_id \<Rightarrow> market_series \<Rightarrow> bool" where
  "honest l c s \<longleftrightarrow> ms_listing_id s = listing_id l \<and> ms_company_id s = c \<and> series_post_init s = Inr s"

locale market_source =
  fixes get :: "'w market_port" and good :: "'w \<Rightarrow> bool"
  assumes keeps_good: "good w \<Longrightarrow> uuid_is_v4 (company_id_text c) \<Longrightarrow> good (snd (get l c w))"
    and answers: "good w \<Longrightarrow> uuid_is_v4 (company_id_text c) \<Longrightarrow> get l c w = (Inr (Some s), w') \<Longrightarrow> honest l c s"
begin

lemma safe_answers:
  "good w \<Longrightarrow> uuid_is_v4 (company_id_text c) \<Longrightarrow> safe_get get l c w = (Inr (Some s), w') \<Longrightarrow> honest l c s"
  using answers by (auto simp: safe_get_def catch_act_def split: prod.splits sum.splits)

lemma safe_keeps: "good w \<Longrightarrow> uuid_is_v4 (company_id_text c) \<Longrightarrow> good (snd (safe_get get l c w))"
  using keeps_good [of w c l] by (auto simp: safe_get_def catch_act_def split: prod.splits sum.splits)

lemma safe_returns: "\<exists>x w'. safe_get get l c w = (Inr x, w') \<and> (good w \<and> uuid_is_v4 (company_id_text c) \<longrightarrow> good w')"
  using safe_keeps [of w c l] by (auto simp: safe_get_def catch_act_def split: prod.splits sum.splits)

end

lemma raise_else: "(if b then Inl e else r) = Inr x \<longleftrightarrow> \<not> b \<and> r = Inr x"
  by simp

lemma series_post_init_same: "series_post_init s = Inr s' \<Longrightarrow> s' = s"
  unfolding series_post_init_def Let_def unfolding raise_else by blast

lemma relabel_honest:
  assumes "relabel s origin = Inr (Some s')" "honest l c s" shows "honest l c s'"
proof -
  have s: "series_post_init (s\<lparr>ms_data_origin := origin\<rparr>) = Inr s'"
    using assms(1) by (cases "series_with_data_origin s origin") (simp_all add: relabel_def series_with_data_origin_def)
  with series_post_init_same [OF s] show ?thesis using assms(2) by (simp add: honest_def)
qed

lemma label_cached_honest: "label_cached s = Inr (Some s') \<Longrightarrow> honest l c s \<Longrightarrow> honest l c s'"
  by (auto simp: label_cached_def intro: relabel_honest split: if_splits)

definition fixtures_ok :: "(string \<times> market_series) list \<Rightarrow> bool" where
  "fixtures_ok d \<longleftrightarrow> list_all (\<lambda>(k, s). series_post_init s = Inr s) d"

interpretation fixtures: market_source "memory_market d" "\<lambda>_. fixtures_ok d" for d
proof
  fix w w' :: 'a and l c s
  show "fixtures_ok d \<Longrightarrow> fixtures_ok d" .
  assume d: "fixtures_ok d" "memory_market d l c w = (Inr (Some s), w')"
  then obtain x where x: "map_of d (listing_id_text (listing_id l)) = Some x" "ms_listing_id x = listing_id l"
    "ms_company_id x = c" "s = x \<or> relabel x Origin_FIXTURE = Inr (Some s)"
    by (auto simp: memory_market_def split: option.splits if_splits)
  then have "honest l c x" using d(1) by (auto simp: honest_def fixtures_ok_def list_all_iff dest!: map_of_SomeD)
  then show "honest l c s" using x(4) relabel_honest by blast
qed

section \<open>Fallback and cache hand the promise on\<close>

lemma fallback_run:
  assumes "market_source primary good" "market_source secondary good" "uuid_is_v4 (company_id_text c)"
  obtains x w1 y w2 where "safe_get primary l c w = (Inr x, w1)" "safe_get secondary l c w1 = (Inr y, w2)"
    "good w \<longrightarrow> good w1 \<and> good w2"
    "fallback_market primary secondary l c w =
      (if usable x then (Inr x, w1) else (Inr (if usable y then y else if x \<noteq> None then x else y), w2))"
proof -
  obtain x w1 where 1: "safe_get primary l c w = (Inr x, w1)" "good w \<longrightarrow> good w1"
    using market_source.safe_returns [OF assms(1)] assms(3) by blast
  obtain y w2 where 2: "safe_get secondary l c w1 = (Inr y, w2)" "good w1 \<longrightarrow> good w2"
    using market_source.safe_returns [OF assms(2)] assms(3) by blast
  show thesis by (rule that [OF 1(1) 2(1)]) (use 1 2 in \<open>auto simp: fallback_market_def bind_act_def\<close>)
qed

lemma fallback_source:
  assumes "market_source primary good" "market_source secondary good"
  shows "market_source (fallback_market primary secondary) good"
proof
  fix w w' l c s
  assume w: "good w" and c: "uuid_is_v4 (company_id_text c)"
  show "good (snd (fallback_market primary secondary l c w))"
    by (rule fallback_run [OF assms c, of l w]) (use w in auto)
  assume run: "fallback_market primary secondary l c w = (Inr (Some s), w')"
  show "honest l c s"
  proof (rule fallback_run [OF assms c, of l w])
    fix x w1 y w2
    assume 1: "safe_get primary l c w = (Inr x, w1)" and 2: "safe_get secondary l c w1 = (Inr y, w2)"
      and good: "good w \<longrightarrow> good w1 \<and> good w2"
      and eq: "fallback_market primary secondary l c w =
        (if usable x then (Inr x, w1) else (Inr (if usable y then y else if x \<noteq> None then x else y), w2))"
    have "x = Some s \<or> y = Some s" using eq run by (auto split: if_splits)
    then show ?thesis
      using market_source.safe_answers [OF assms(1) w c] market_source.safe_answers [OF assms(2) _ c] 1 2 good w by blast
  qed
qed

text \<open>Every entry holds a series for the company and the listing of its key.\<close>

definition entry_ok :: "string \<Rightarrow> cache_entry \<Rightarrow> bool" where
  "entry_ok k e \<longleftrightarrow> uuid_is_v4 (company_id_text (ms_company_id (ce_series e))) \<and>
     k = cache_key (ms_company_id (ce_series e)) (ms_listing_id (ce_series e)) \<and>
     series_post_init (ce_series e) = Inr (ce_series e)"

definition cache_ok :: "'e market_cache \<Rightarrow> bool" where
  "cache_ok w \<longleftrightarrow> list_all (\<lambda>(k, e). entry_ok k e) (mc_entries w)"

lemma cache_key_inj:
  assumes "cache_key c l = cache_key c' l'" "uuid_is_v4 (company_id_text c)" "uuid_is_v4 (company_id_text c')"
  shows "c = c' \<and> l = l'"
  using assms by (auto simp: cache_key_def uuid_is_v4_def)

lemma cached_entry:
  assumes "cache_ok w" "map_of (mc_entries w) (cache_key c (listing_id l)) = Some e" "uuid_is_v4 (company_id_text c)"
  shows "honest l c (ce_series e)"
proof -
  have "entry_ok (cache_key c (listing_id l)) e"
    using assms(1,2) by (auto simp: cache_ok_def list_all_iff dest!: map_of_SomeD)
  then show ?thesis
    using cache_key_inj [of c "listing_id l" "ms_company_id (ce_series e)" "ms_listing_id (ce_series e)"] assms(3)
    by (simp add: entry_ok_def honest_def)
qed

lemma keep_series_ok:
  assumes "cache_ok w" "uuid_is_v4 (company_id_text c)" "\<forall>s. x = Some s \<longrightarrow> honest l c s"
  shows "cache_ok (keep_series (cache_key c (listing_id l)) x now ttl w)"
proof -
  have upd: "list_all (\<lambda>(k, e). entry_ok k e) d \<Longrightarrow> entry_ok k e \<Longrightarrow> list_all (\<lambda>(k, e). entry_ok k e) (AList.update k e d)"
    for d k e by (induction d) auto
  have del: "list_all (\<lambda>(k, e). entry_ok k e) d \<Longrightarrow> list_all (\<lambda>(k, e). entry_ok k e) (AList.delete k d)"
    for d k by (induction d) (auto simp: AList.delete_eq)
  show ?thesis
  proof (cases x)
    case None
    then show ?thesis using assms(1) del by (simp add: keep_series_def cache_ok_def)
  next
    case (Some s)
    then have "entry_ok (cache_key c (listing_id l)) \<lparr>ce_series = s, ce_aware = tz_aware now, ce_expires = instant now + ttl\<rparr>"
      using assms(2,3) by (auto simp: entry_ok_def honest_def)
    then show ?thesis using assms(1) upd Some by (simp add: keep_series_def cache_ok_def)
  qed
qed

lemma live_entry_found: "live_entry k now w = Inr (Some e) \<Longrightarrow> map_of (mc_entries w) k = Some e \<and> instant now < ce_expires e"
  by (auto simp: live_entry_def split: option.splits if_splits)

lemma cache_env_entries [simp]: "mc_entries (snd (cache_env f w)) = mc_entries w"
  by (simp add: cache_env_def split: prod.splits)

lemma settle_cache_ok:
  assumes "cache_ok w" "uuid_is_v4 (company_id_text c)" "\<forall>s. x = Some s \<longrightarrow> honest l c s"
  shows "cache_ok (snd (settle_cache clk ttl (cache_key c (listing_id l)) x w))"
    "settle_cache clk ttl (cache_key c (listing_id l)) x w = (Inr (Some s), w') \<Longrightarrow> honest l c s"
proof -
  obtain now w1 where now: "cache_env clk w = (now, w1)" by fastforce
  then have w1: "cache_ok w1" using cache_env_entries [of clk w] assms(1) by (simp add: cache_ok_def)
  then show "cache_ok (snd (settle_cache clk ttl (cache_key c (listing_id l)) x w))"
    using keep_series_ok [OF w1 assms(2,3)] now
    by (auto simp: settle_cache_def bind_act_def split: sum.split option.split)
  assume "settle_cache clk ttl (cache_key c (listing_id l)) x w = (Inr (Some s), w')"
  then show "honest l c s"
    using now assms(3) cached_entry [OF w1 _ assms(2)] label_cached_honest
    by (auto simp: settle_cache_def bind_act_def live_entry_def split: sum.splits option.splits if_splits)
qed

lemma cached_source:
  fixes inner :: "'e market_cache market_port"
  assumes inner: "market_source inner (\<lambda>w. cache_ok w \<and> other)"
  shows "market_source (caching_market clk ttl inner) (\<lambda>w. cache_ok w \<and> other)"
proof
  fix w w' :: "'e market_cache" and l c s
  assume good: "cache_ok w \<and> other" and c: "uuid_is_v4 (company_id_text c)"
  then have w: "cache_ok w" and other by simp_all
  obtain now w1 where now: "cache_env clk w = (now, w1)" by fastforce
  then have w1: "cache_ok w1" using cache_env_entries [of clk w] w by (simp add: cache_ok_def)
  obtain x w2 where x: "inner l c w1 = (x, w2)" by fastforce
  then have w2: "cache_ok w2" using market_source.keeps_good [OF inner _ c, of w1 l] w1 \<open>other\<close> by simp
  have honest: "x = Inr (Some s) \<Longrightarrow> honest l c s" for s using market_source.answers [OF inner _ c] x w1 \<open>other\<close> by blast
  have "cache_ok (snd (caching_market clk ttl inner l c w))"
  proof (cases x)
    case (Inl e)
    then show ?thesis using now w1 x w2 by (simp add: caching_market_def bind_act_def split: sum.split option.split)
  next
    case (Inr y)
    have "cache_ok (snd (settle_cache clk ttl (cache_key c (listing_id l)) y w2))"
      using settle_cache_ok(1) [OF w2 c] honest Inr by blast
    then show ?thesis using now w1 x Inr by (simp add: caching_market_def bind_act_def split: sum.split option.split)
  qed
  then show "cache_ok (snd (caching_market clk ttl inner l c w)) \<and> other" using \<open>other\<close> by simp
  assume run: "caching_market clk ttl inner l c w = (Inr (Some s), w')"
  then have aware: "tz_aware now" using now by (simp add: caching_market_def split: if_splits)
  consider e where "live_entry (cache_key c (listing_id l)) now w1 = Inr (Some e)" "label_cached (ce_series e) = Inr (Some s)"
    | y where "x = Inr y" "settle_cache clk ttl (cache_key c (listing_id l)) y w2 = (Inr (Some s), w')"
    using run now x aware by (simp add: caching_market_def bind_act_def split: sum.splits option.splits)
  then show "honest l c s"
  proof cases
    case (1 e)
    then show ?thesis using cached_entry [OF w1 _ c] live_entry_found label_cached_honest by blast
  next
    case (2 y)
    then show ?thesis using settle_cache_ok(2) [OF w2 c _ 2(2)] honest by blast
  qed
qed

text \<open>The stack without a live source, and with one.\<close>

definition market_stack ::
    "('e \<Rightarrow> datetime \<times> 'e) \<Rightarrow> int \<Rightarrow> 'e market_cache market_port option \<Rightarrow> (string \<times> market_series) list
      \<Rightarrow> 'e market_cache market_port" where
  "market_stack clk ttl live d =
     caching_market clk ttl (case live of None \<Rightarrow> memory_market d | Some p \<Rightarrow> fallback_market p (memory_market d))"

lemma memory_source: "market_source (memory_market d) (\<lambda>w. P w \<and> fixtures_ok d)"
  by unfold_locales (auto simp: memory_market_def intro: fixtures.answers)

lemma stack_source:
  assumes "\<And>p. live = Some p \<Longrightarrow> market_source p (\<lambda>w. cache_ok w \<and> fixtures_ok d)"
  shows "market_source (market_stack clk ttl live d) (\<lambda>w. cache_ok w \<and> fixtures_ok d)"
  using assms memory_source [of d cache_ok]
  by (auto simp: market_stack_def intro: cached_source fallback_source split: option.split)

interpretation offline: market_source "market_stack clk ttl None d" "\<lambda>w. cache_ok w \<and> fixtures_ok d" for clk ttl d
  by (rule stack_source) simp

end
