(* ===== verification/Market_Snapshot.thy ===== *)
theory Market_Snapshot
  imports Market_Data Resolve_Company Text_Forms
begin

text \<open>
  The market snapshot use case (\<open>application/market_snapshot.py\<close>, \<open>application/market_contracts.py\<close>): resolve
  the company, select a listing, load observations from any market-data port, compute the metrics. Source
  metadata (\<open>domain/sources.py\<close>) comes first; its URL, which the use case never sets, is left out.
\<close>

section \<open>Source metadata\<close>

datatype source_type =
    Source_REGULATORY_FILING | Source_EXCHANGE_DISCLOSURE | Source_COMPANY_INVESTOR_RELATIONS
  | Source_FINANCIAL_STATEMENT | Source_MARKET_DATA | Source_NEWS | Source_REGULATORY_ANNOUNCEMENT
  | Source_INDUSTRY_SOURCE | Source_GENERAL_WEB | Source_OTHER

record source_metadata =
  sm_source_id :: source_id
  sm_name :: string
  sm_type :: source_type
  sm_tier :: source_authority_tier
  sm_publisher :: "string option"
  sm_published_at :: "datetime option"
  sm_retrieved_at :: "datetime option"
  sm_company_id :: "company_id option"
  sm_security_id :: "security_id option"
  sm_listing_id :: "listing_id option"
  sm_content_type :: "string option"
  sm_integrity_hash :: "string option"

definition source_name_char :: "char \<Rightarrow> bool" where
  "source_name_char c \<longleftrightarrow> alnum c \<or> c \<in> set ''_ .,&/+()-''"

definition source_post_init :: "source_metadata \<Rightarrow> source_metadata res" where
  "source_post_init m =
     (let name = py_strip (sm_name m) in
      if \<not> fullmatch source_name_char 1 128 name
      then Inl (ValueError ''source name is empty, invalid, or exceeds bounds'')
      else if naive_stamp (sm_published_at m) \<or> naive_stamp (sm_retrieved_at m)
      then Inl (ValueError ''source timestamps must be timezone-aware'')
      else if sm_listing_id m \<noteq> None \<and> sm_security_id m = None
      then Inl (ValueError ''listing_id requires security_id'')
      else if sm_security_id m \<noteq> None \<and> sm_company_id m = None
      then Inl (ValueError ''security_id requires company_id'')
      else Inr (m\<lparr>sm_name := name\<rparr>))"

section \<open>Contracts\<close>

datatype snapshot_status =
    Snapshot_OK | Snapshot_UNAVAILABLE | Snapshot_DEGRADED | Snapshot_PARTIAL | Snapshot_RESOLUTION_BLOCKED
  | Snapshot_INVALID

fun snapshot_status_value :: "snapshot_status \<Rightarrow> string" where
  "snapshot_status_value Snapshot_OK = ''ok''"
| "snapshot_status_value Snapshot_UNAVAILABLE = ''unavailable''"
| "snapshot_status_value Snapshot_DEGRADED = ''degraded''"
| "snapshot_status_value Snapshot_PARTIAL = ''partial''"
| "snapshot_status_value Snapshot_RESOLUTION_BLOCKED = ''resolution_blocked''"
| "snapshot_status_value Snapshot_INVALID = ''invalid''"

record snapshot_query =
  sq_company_query :: company_query
  sq_listing_id :: "string option"
  sq_sma_window :: int

definition snapshot_query_post_init :: "snapshot_query \<Rightarrow> snapshot_query res" where
  "snapshot_query_post_init q =
     (if sq_sma_window q < 1 \<or> sq_sma_window q > 60 then Inl (ValueError ''sma_window must be between 1 and 60'')
      else Inr q)"

record snapshot_result =
  sn_query :: snapshot_query
  sn_status :: snapshot_status
  sn_message :: string
  sn_resolution :: "resolution_result option"
  sn_listing :: "listing_identity option"
  sn_series :: "market_series option"
  sn_metrics :: "market_metric list"
  sn_freshness :: freshness_status
  sn_source :: "source_metadata option"
  sn_provider_name :: "string option"
  sn_evaluated_at :: "datetime option"

definition snapshot_post_init :: "snapshot_result \<Rightarrow> snapshot_result res" where
  "snapshot_post_init r =
     (if sn_status r \<in> {Snapshot_RESOLUTION_BLOCKED, Snapshot_INVALID} \<and> (sn_series r \<noteq> None \<or> sn_metrics r \<noteq> [])
      then Inl (ValueError (snapshot_status_value (sn_status r) @
             '' results must not attach market observations or metrics''))
      else if sn_status r = Snapshot_UNAVAILABLE \<and> sn_metrics r \<noteq> []
      then Inl (ValueError ''unavailable results must not include derived metrics'')
      else if naive_stamp (sn_evaluated_at r) then Inl (ValueError ''evaluated_at must be timezone-aware'')
      else Inr r)"

section \<open>The use case\<close>

text \<open>A result without observations.\<close>

definition snapshot_reply ::
    "snapshot_query \<Rightarrow> snapshot_status \<Rightarrow> string \<Rightarrow> resolution_result \<Rightarrow> listing_identity option \<Rightarrow> string option
      \<Rightarrow> datetime \<Rightarrow> snapshot_result res" where
  "snapshot_reply q st msg r l prov now = snapshot_post_init
     \<lparr>sn_query = q, sn_status = st, sn_message = msg, sn_resolution = Some r, sn_listing = l, sn_series = None,
      sn_metrics = [], sn_freshness = Freshness_UNKNOWN, sn_source = None, sn_provider_name = prov,
      sn_evaluated_at = Some now\<rparr>"

definition select_listing :: "listing_identity list \<Rightarrow> snapshot_query \<Rightarrow> listing_identity option res" where
  "select_listing ls q =
     (if ls = [] then Inr None
      else case sq_listing_id q of
        Some (c # cs) \<Rightarrow>
          and_then (listing_id_from_string (c # cs)) (\<lambda>wanted. Inr (find (\<lambda>l. listing_id l = wanted) ls))
      | _ \<Rightarrow> Inr (Some (case find is_primary ls of Some l \<Rightarrow> l | None \<Rightarrow> hd ls)))"

definition series_matches_listing :: "market_series \<Rightarrow> listing_identity \<Rightarrow> bool" where
  "series_matches_listing s l \<longleftrightarrow>
     ms_listing_id s = listing_id l \<and> ms_security_id s = listing_security_id l \<and>
     ms_exchange s = listing_exchange l \<and> ms_ticker s = listing_ticker l \<and> ms_currency s = listing_currency l"

definition market_source_metadata :: "market_series \<Rightarrow> source_metadata res" where
  "market_source_metadata s = source_post_init
     \<lparr>sm_source_id = ms_source_id s, sm_name = ms_provider_name s @ '' market observations'',
      sm_type = Source_MARKET_DATA, sm_tier = TIER_2_STRUCTURED_FINANCIAL, sm_publisher = None,
      sm_published_at = Some (ms_as_of s), sm_retrieved_at = Some (ms_retrieved_at s),
      sm_company_id = Some (ms_company_id s), sm_security_id = Some (ms_security_id s),
      sm_listing_id = Some (ms_listing_id s),
      sm_content_type = Some ''application/vnd.financial-intelligence.ohlcv+json'', sm_integrity_hash = None\<rparr>"

definition snapshot_outcome :: "market_availability \<Rightarrow> freshness_status \<Rightarrow> snapshot_status \<times> string" where
  "snapshot_outcome a f =
     (if a = Market_PARTIAL then (Snapshot_PARTIAL, ''market observations are partial'')
      else if a = Market_DEGRADED then (Snapshot_DEGRADED, ''market observations returned in degraded mode'')
      else if f = Stale then (Snapshot_DEGRADED, ''market observations are stale'')
      else if f = Freshness_UNKNOWN
      then (Snapshot_DEGRADED, ''market observation freshness cannot be confirmed'')
      else (Snapshot_OK, ''market snapshot computed''))"

text \<open>\<open>resolution.candidates[0]\<close>\<close>

definition first_candidate :: "resolution_result \<Rightarrow> resolution_candidate res" where
  "first_candidate r =
     (case candidates r of [] \<Rightarrow> Inl (OtherException ''IndexError'' ''tuple index out of range'') | x # xs \<Rightarrow> Inr x)"

text \<open>What happens to the answer of the port.\<close>

definition snapshot_of_series ::
    "int \<Rightarrow> snapshot_query \<Rightarrow> resolution_result \<Rightarrow> company_identity \<Rightarrow> listing_identity \<Rightarrow> datetime
      \<Rightarrow> market_series option \<Rightarrow> snapshot_result res" where
  "snapshot_of_series stale_after q r c l now answer =
     (case answer of
        None \<Rightarrow> snapshot_reply q Snapshot_UNAVAILABLE
          ''market observations are unavailable for the selected listing'' r (Some l) None now
      | Some s \<Rightarrow>
          let prov = Some (ms_provider_name s) in
          if \<not> series_matches_listing s l
          then snapshot_reply q Snapshot_UNAVAILABLE
            ''market adapter returned observations that do not match the selected listing'' r (Some l) prov now
          else if ms_company_id s \<noteq> company_id c
          then snapshot_reply q Snapshot_UNAVAILABLE
            ''market adapter returned observations for a different company'' r (Some l) prov now
          else if ms_availability s = Market_UNAVAILABLE \<or> ms_bars s = []
          then snapshot_reply q Snapshot_UNAVAILABLE
            ''market observations are unavailable for the selected listing'' r (Some l) prov now
          else
            and_then (compute_standard_metrics (ms_bars s) (sq_sma_window q)) (\<lambda>metrics.
            and_then (classify_freshness stale_after s now) (\<lambda>fresh.
            and_then (market_source_metadata s) (\<lambda>src.
              case snapshot_outcome (ms_availability s) fresh of (st, msg) \<Rightarrow>
                snapshot_post_init
                  \<lparr>sn_query = q, sn_status = st, sn_message = msg, sn_resolution = Some r, sn_listing = Some l,
                   sn_series = Some s, sn_metrics = metrics, sn_freshness = fresh, sn_source = Some src,
                   sn_provider_name = prov, sn_evaluated_at = Some now\<rparr>))))"

text \<open>\<open>GetMarketSnapshot.execute\<close>\<close>

definition market_snapshot ::
    "catalog_port \<Rightarrow> 'w market_port \<Rightarrow> int \<Rightarrow> ('w \<Rightarrow> datetime \<times> 'w) \<Rightarrow> snapshot_query \<Rightarrow> ('w, snapshot_result) action" where
  "market_snapshot catalog data stale_after clk q =
     bind_act (ask clk) (\<lambda>now.
       if \<not> tz_aware now then lift_res (Inl (ValueError ''clock must return timezone-aware datetime''))
       else
         bind_act (lift_res (resolve_company_query catalog (sq_company_query q))) (\<lambda>r.
           if resolution_status r = Resolution_INVALID
           then lift_res (snapshot_reply q Snapshot_INVALID
             (if resolution_message r = [] then ''invalid company query'' else resolution_message r) r None None now)
           else if resolution_status r \<noteq> Resolution_RESOLVED
           then lift_res (snapshot_reply q Snapshot_RESOLUTION_BLOCKED
             ''market data is withheld until company identity is uniquely resolved'' r None None now)
           else case resolved_company r of
             None \<Rightarrow> lift_res (Inl AssertionError)
           | Some c \<Rightarrow>
               (case and_then (first_candidate r) (\<lambda>x. select_listing (matched_listings x) q) of
                  Inl e \<Rightarrow>
                    if is_value_error e
                    then lift_res (snapshot_reply q Snapshot_INVALID (error_text e) r None None now)
                    else lift_res (Inl e)
                | Inr None \<Rightarrow> lift_res (snapshot_reply q Snapshot_UNAVAILABLE
                    ''no listing matched the requested constraints'' r None None now)
                | Inr (Some l) \<Rightarrow>
                    bind_act (data l (company_id c)) (\<lambda>answer.
                      lift_res (snapshot_of_series stale_after q r c l now answer)))))"

end
