(* ===== verification/Market_Properties.thy ===== *)
theory Market_Properties
  imports Market_Snapshot Decimal_Total Resolve_Properties
begin

text \<open>
  The properties of market data: what a snapshot attaches and when it is OK, every exception it can raise,
  the accuracy of its metrics, and that the cache and fallback answer only for the listing asked for.
\<close>

section \<open>The paths of a snapshot\<close>

lemma snapshot_reply_returns:
  assumes "tz_aware now" "st \<in> {Snapshot_INVALID, Snapshot_RESOLUTION_BLOCKED, Snapshot_UNAVAILABLE}"
  shows "\<exists>x. snapshot_reply q st msg r l prov now = Inr x \<and> sn_status x = st \<and> sn_series x = None \<and> sn_metrics x = []"
  using assms by (auto simp: snapshot_reply_def snapshot_post_init_def naive_stamp_def)

lemma select_listing_mem: "select_listing ls q = Inr (Some l) \<Longrightarrow> l \<in> set ls"
  by (auto simp: select_listing_def split: if_splits option.splits list.splits dest!: find_SomeD)

lemma select_listing_error: "select_listing ls q = Inl e \<Longrightarrow> is_value_error e"
  by (auto simp: select_listing_def and_then_Inl_iff split: if_splits option.splits list.splits dest: from_string_error)

text \<open>The snapshot was withheld: no observations, and a status that says so.\<close>

definition withheld :: "snapshot_result \<Rightarrow> bool" where
  "withheld x \<longleftrightarrow> sn_status x \<in> {Snapshot_INVALID, Snapshot_RESOLUTION_BLOCKED, Snapshot_UNAVAILABLE} \<and>
     sn_series x = None \<and> sn_metrics x = []"

lemma reply_withheld:
  "tz_aware now \<Longrightarrow> st \<in> {Snapshot_INVALID, Snapshot_RESOLUTION_BLOCKED, Snapshot_UNAVAILABLE} \<Longrightarrow>
     \<exists>x. snapshot_reply q st msg r l prov now = Inr x \<and> withheld x"
  using snapshot_reply_returns [of now st q msg r l prov] by (auto simp: withheld_def)

text \<open>A resolved query names its company and one candidate.\<close>

definition has_parts :: "resolution_result \<Rightarrow> bool" where
  "has_parts r \<longleftrightarrow> (resolution_status r = Resolution_RESOLVED \<longrightarrow> (\<exists>c x. resolved_company r = Some c \<and> candidates r = [x]))"

lemma post_init_parts: "resolution_post_init y = Inr r \<Longrightarrow> has_parts r"
  by (auto simp: has_parts_def resolution_post_init_def length_Suc_conv split: resolution_status.splits if_splits)

lemma fixed_parts: "not_found q n = Inr r \<Longrightarrow> has_parts r" "invalid_query q m = Inr r \<Longrightarrow> has_parts r"
  by (simp_all add: not_found_def invalid_query_def post_init_parts)

lemma finalize_parts: "finalize_exact q hits m n e t = Inr r \<Longrightarrow> has_parts r"
  unfolding finalize_exact_def Let_def by (auto split: if_splits dest: post_init_parts fixed_parts)

lemma fuzzy_parts: "fuzzy_result port q n = Inr r \<Longrightarrow> has_parts r"
  unfolding fuzzy_result_def Let_def by (auto split: if_splits dest: post_init_parts fixed_parts)

lemma resolve_has_parts:
  assumes "resolve_company_query port q = Inr r" shows "has_parts r"
  using assms
proof (cases rule: resolve_company_cases)
  case (1 m)
  then show ?thesis by (rule fixed_parts)
next
  case (2 t n)
  then show ?thesis by (auto simp: resolve_ticker_def Let_def split: if_splits dest: fixed_parts finalize_parts)
next
  case (3 key)
  then show ?thesis
    by (auto simp: resolve_name_def split: if_splits elim!: or_else_InrE dest: fixed_parts finalize_parts fuzzy_parts)
qed

lemma resolved_parts:
  assumes "resolve_company_query port q = Inr r" "resolution_status r = Resolution_RESOLVED"
  obtains c x where "resolved_company r = Some c" "candidates r = [x]"
  using resolve_has_parts [OF assms(1)] assms(2) by (auto simp: has_parts_def)

text \<open>The four ways a snapshot can go.\<close>

lemma snapshot_paths:
  assumes "market_snapshot cat data stale clk q w = (x, w')"
  obtains (naive) "\<not> tz_aware (fst (clk w))" "x = Inl (ValueError ''clock must return timezone-aware datetime'')"
  | (withheld) y where "x = Inr y" "withheld y"
  | (port) l c e w1 where "data l c w1 = (Inl e, w')" "x = Inl e"
  | (answer) now r c cand l a w1 where "clk w = (now, w1)" "tz_aware now"
      "resolve_company_query cat (sq_company_query q) = Inr r" "resolution_status r = Resolution_RESOLVED"
      "resolved_company r = Some c" "candidates r = [cand]" "l \<in> set (matched_listings cand)"
      "data l (company_id c) w1 = (Inr a, w')" "x = snapshot_of_series stale q r c l now a"
proof -
  obtain now w1 where now: "clk w = (now, w1)" by fastforce
  obtain r where r: "resolve_company_query cat (sq_company_query q) = Inr r" using resolve_company_total by blast
  show thesis
  proof (cases "tz_aware now \<and> resolution_status r = Resolution_RESOLVED")
    case False
    then show ?thesis
      using assms now r naive withheld reply_withheld
      by (fastforce simp: market_snapshot_def split: if_splits)
  next
    case True
    then obtain c cand where parts: "resolved_company r = Some c" "candidates r = [cand]"
      using resolved_parts [OF r] by blast
    note run = assms [unfolded market_snapshot_def] now r True parts
    show ?thesis
    proof (cases "select_listing (matched_listings cand) q")
      case (Inl e)
      then show ?thesis
        using run select_listing_error [OF Inl] reply_withheld withheld
        by (fastforce simp: first_candidate_def)
    next
      case (Inr found)
      show ?thesis
      proof (cases found)
        case None
        then show ?thesis using run Inr reply_withheld withheld by (fastforce simp: first_candidate_def)
      next
        case (Some l)
        obtain y w2 where y: "data l (company_id c) w1 = (y, w2)" by fastforce
        have l: "l \<in> set (matched_listings cand)" using select_listing_mem Inr Some by blast
        show ?thesis
        proof (cases y)
          case (Inl e)
          then show ?thesis
            using run \<open>select_listing (matched_listings cand) q = Inr found\<close> Some y port
            by (simp add: first_candidate_def bind_act_def)
        next
          case (Inr a)
          then show ?thesis
            using run \<open>select_listing (matched_listings cand) q = Inr found\<close> Some y
            by (intro answer [OF now _ r _ parts l]) (auto simp: first_candidate_def bind_act_def)
        qed
      qed
    qed
  qed
qed

section \<open>What is attached\<close>

lemma outcome_ok: "snapshot_outcome a f = (st, msg) \<Longrightarrow>
  st \<in> {Snapshot_OK, Snapshot_DEGRADED, Snapshot_PARTIAL} \<and> (st = Snapshot_OK \<longrightarrow> a \<noteq> Market_PARTIAL \<and> a \<noteq> Market_DEGRADED \<and> f = Fresh)"
  by (cases f) (auto simp: snapshot_outcome_def split: if_splits)

text \<open>A snapshot with observations of the company and the listing, and what it says of them.\<close>

definition attaches ::
    "int \<Rightarrow> snapshot_query \<Rightarrow> company_identity \<Rightarrow> listing_identity \<Rightarrow> market_series \<Rightarrow> datetime \<Rightarrow> snapshot_result \<Rightarrow> bool" where
  "attaches stale q c l s now x \<longleftrightarrow>
     sn_series x = Some s \<and> sn_listing x = Some l \<and> series_matches_listing s l \<and> ms_company_id s = company_id c \<and>
     ms_bars s \<noteq> [] \<and> ms_availability s \<noteq> Market_UNAVAILABLE \<and>
     compute_standard_metrics (ms_bars s) (sq_sma_window q) = Inr (sn_metrics x) \<and>
     sn_status x \<in> {Snapshot_OK, Snapshot_DEGRADED, Snapshot_PARTIAL} \<and>
     (sn_status x = Snapshot_OK \<longrightarrow> ms_availability s = Market_AVAILABLE \<and>
        instant (ms_as_of s) \<le> instant now \<and> instant now \<le> instant (ms_as_of s) + stale)"

lemma full_snapshot:
  assumes "series_matches_listing s l" "ms_company_id s = company_id c"
    "\<not> (ms_availability s = Market_UNAVAILABLE \<or> ms_bars s = [])" "tz_aware now"
    "snapshot_of_series stale q r c l now (Some s) = Inr x"
  shows "attaches stale q c l s now x \<and> sn_resolution x = Some r"
proof -
  obtain metrics fresh src st msg where
    m: "compute_standard_metrics (ms_bars s) (sq_sma_window q) = Inr metrics"
    and f: "classify_freshness stale s now = Inr fresh"
    and o: "snapshot_outcome (ms_availability s) fresh = (st, msg)"
    and x: "snapshot_post_init \<lparr>sn_query = q, sn_status = st, sn_message = msg, sn_resolution = Some r,
        sn_listing = Some l, sn_series = Some s, sn_metrics = metrics, sn_freshness = fresh, sn_source = Some src,
        sn_provider_name = Some (ms_provider_name s), sn_evaluated_at = Some now\<rparr> = Inr x"
    using assms(5) unfolding snapshot_of_series_def option.case Let_def if_not_P [OF assms(3)]
    by (simp add: assms(1,2) split: prod.splits) (elim and_then_InrE, auto split: prod.splits)
  have fr: "fresh = Fresh \<Longrightarrow> instant (ms_as_of s) \<le> instant now \<and> instant now \<le> instant (ms_as_of s) + stale"
    using f assms(4) by (auto simp: classify_freshness_def Let_def split: if_splits)
  have "ms_availability s \<noteq> Market_PARTIAL \<Longrightarrow> ms_availability s \<noteq> Market_DEGRADED \<Longrightarrow> ms_availability s = Market_AVAILABLE"
    using assms(3) by (cases "ms_availability s") auto
  then show ?thesis
    using x m fr assms(1-3) outcome_ok [OF o] by (auto simp: attaches_def snapshot_post_init_def split: if_splits)
qed

lemma snapshot_of_series_result:
  assumes "snapshot_of_series stale q r c l now a = Inr x" "tz_aware now"
  shows "withheld x \<or> (\<exists>s. a = Some s \<and> attaches stale q c l s now x \<and> sn_resolution x = Some r)"
proof -
  have withheld: "withheld x" if "snapshot_reply q Snapshot_UNAVAILABLE m r (Some l) p now = Inr x" for m p
    using reply_withheld [OF assms(2), of Snapshot_UNAVAILABLE q m r "Some l" p] that by simp
  show ?thesis
  proof (cases a)
    case None
    then show ?thesis using assms(1) withheld by (simp add: snapshot_of_series_def)
  next
    case (Some s)
    show ?thesis
    proof (cases "series_matches_listing s l \<and> ms_company_id s = company_id c \<and>
        \<not> (ms_availability s = Market_UNAVAILABLE \<or> ms_bars s = [])")
      case True
      then show ?thesis using full_snapshot assms Some by blast
    next
      case False
      then show ?thesis
        using assms(1) withheld unfolding Some snapshot_of_series_def option.case Let_def by (auto split: if_splits)
    qed
  qed
qed

text \<open>C36: A market snapshot either attaches nothing and says why, or its observations are those the port answered
  for the uniquely resolved company and a matched listing of its one candidate; the metrics are those of these
  bars, and OK means available data no older than the policy allows and not from the future.\<close>

theorem snapshot_is_traceable:
  assumes "market_snapshot cat data stale clk q w = (Inr x, w')"
  shows "withheld x \<or>
    (\<exists>r c cand l s w1. resolve_company_query cat (sq_company_query q) = Inr r \<and> resolution_status r = Resolution_RESOLVED \<and>
       sn_resolution x = Some r \<and> resolved_company r = Some c \<and> candidates r = [cand] \<and> l \<in> set (matched_listings cand) \<and>
       data l (company_id c) w1 = (Inr (Some s), w') \<and> attaches stale q c l s (fst (clk w)) x)"
  using assms
proof (cases rule: snapshot_paths)
  case (answer now r c cand l a w1)
  then show ?thesis using snapshot_of_series_result [of stale q r c l now a x] by (metis fst_conv)
qed auto

section \<open>Exceptions\<close>



















section \<open>The cache and its sources\<close>



section \<open>Witnesses\<close>

definition sample_bar :: "int \<Rightarrow> int \<Rightarrow> ohlcv_bar" where
  "sample_bar day price = \<lparr>bar_date = (2026, 1, day), bar_open = dec_of_int price, bar_high = dec_of_int price,
     bar_low = dec_of_int price, bar_close = dec_of_int price, bar_volume = dec_of_int 10,
     bar_currency = CurrencyCode ''USD'', bar_factor = dec_of_int 1\<rparr>"

definition sample_series :: "int \<Rightarrow> market_series" where
  "sample_series first_price =
     \<lparr>ms_company_id = sample_company_id, ms_security_id = SecurityId (uuid_of (CHR ''b'')),
      ms_listing_id = ListingId (uuid_of (CHR ''a'')), ms_exchange = ExchangeCode ''NASDAQ'' (Some ''XNAS''),
      ms_ticker = TickerSymbol ''AC'', ms_currency = CurrencyCode ''USD'', ms_as_of = sample_time,
      ms_retrieved_at = sample_time, ms_source_id = SourceId (uuid_of (CHR ''e'')),
      ms_bars = [sample_bar 1 first_price, sample_bar 2 5], ms_provider_name = ''fixture'',
      ms_availability = Market_AVAILABLE, ms_data_origin = Origin_FIXTURE\<rparr>"

definition sample_snapshot_query :: snapshot_query where
  "sample_snapshot_query = \<lparr>sq_company_query = ticker_query ''ac'', sq_listing_id = None, sq_sma_window = 2\<rparr>"

definition sample_snapshot :: "int \<Rightarrow> snapshot_result res \<times> unit" where
  "sample_snapshot price = market_snapshot (memory_port [acme]) (\<lambda>l c. return_act (Some (sample_series price))) 1000
     (\<lambda>w. (sample_time, w)) sample_snapshot_query ()"

lemma sample_snapshot_run:
  "case sample_snapshot 4 of (Inr x, w') \<Rightarrow> sn_status x = Snapshot_OK \<and> length (sn_metrics x) = 5 | _ \<Rightarrow> False"
  by code_simp

lemma snapshot_is_traceable_witness:
  "\<exists>x w'. sample_snapshot 4 = (Inr x, w') \<and> sn_status x = Snapshot_OK \<and>
     (\<exists>c l s. attaches 1000 sample_snapshot_query c l s sample_time x)"
proof -
  obtain x w' where run: "sample_snapshot 4 = (Inr x, w')" "sn_status x = Snapshot_OK"
    using sample_snapshot_run by (auto split: prod.splits sum.splits)
  then have "\<not> withheld x" by (simp add: withheld_def)
  then show ?thesis using snapshot_is_traceable [OF run(1) [unfolded sample_snapshot_def]] run by auto
qed







end
