(* ===== verification/Spec2Isabelle.thy ===== *)
theory Spec2Isabelle
  imports Orchestration_Properties Workflow_Properties Planning_Properties Financial_Properties
    Conflict_Properties Verification_Properties Resolve_Properties Llm_Properties Tool_Properties
    Watchlist_Properties Market_Properties
begin

text \<open>
  A verification development of the equity research platform (Python, \<open>src/src/financial_intelligence\<close>).
  Paths below are relative to that package.

  \<^bold>\<open>The program.\<close> A request names a company in free text. \<open>ResolveCompany\<close> turns it into a company of the
  catalog or refuses. A planner, deterministic or behind a language model, turns request and company into a
  plan, a directed acyclic graph of research tasks. \<open>CreateResearchWorkflow\<close> stores a workflow over the plan,
  which may have to wait for approval; \<open>ManageResearchWorkflow\<close> executes, pauses, resumes, cancels and approves
  workflows. \<open>ExecuteResearchPlan\<close> runs the tasks through a capability executor within a budget. What the
  capabilities report is checked: facts of several sources are reconciled, metrics are computed in decimal
  arithmetic, claims are verified against evidence, market snapshots carry the source of their data. A language
  model may ask for one capability as a tool. Watchlists create workflows for several companies at once.

  \<^bold>\<open>Conventions.\<close> A dataclass is a record and its \<open>__post_init__\<close> a function \<open>..._post_init\<close> that returns the
  normalised record or the exception. Exceptions are values of \<open>error\<close>; \<open>error + 'a\<close> is the result of fallible
  code, and \<open>is_value_error\<close> is what \<open>except ValueError\<close> catches. Code with effects is an action (\<open>Actions\<close>):
  world to result and world, where an exception keeps the changes made before it. Ports of the program
  (executor, router, clock, id source, stores) are arguments. Definitions keep the names of the source, with a
  prefix where a name is taken.

  \<^bold>\<open>Foundations.\<close> \<open>Base\<close>: exceptions, sequencing, Python text on Latin-1 characters, timestamps, UUIDs,
  dictionaries. \<open>Text_Forms\<close>: \<open>repr\<close> and the parsing of UUIDs. \<open>Actions\<close>: actions and the relations they keep.
  \<open>Lifecycle\<close>: the interface of the two transition tables. \<open>Decimals\<close>: \<open>decimal.Decimal\<close> with 28 digits;
  \<open>Decimal_Bounds\<close>, \<open>Decimal_Total\<close>: its error bounds and when it does not raise. \<open>Json\<close>: \<open>json.loads\<close> with its
  hooks, and \<open>json.dumps\<close>.

  \<^bold>\<open>Identity and resolution.\<close> \<open>Identity\<close> (\<open>domain/identity\<close>, \<open>domain/sources.py\<close>), \<open>Company_Names\<close>,
  \<open>Company_Catalog\<close> (\<open>infrastructure/company/in_memory_catalog.py\<close>) and \<open>Resolve_Company\<close>
  (\<open>application/resolve_company.py\<close>). The locale \<open>company_source\<close> is the contract of a catalog, interpreted on
  the in-memory one. \<open>Resolve_Properties\<close>: results respect every constraint, every query is answered, the order of
  the catalog is irrelevant.

  \<^bold>\<open>Orchestration.\<close> \<open>Tasks\<close>, \<open>Task_Graph\<close>, \<open>Budget\<close>, \<open>Plan\<close> (\<open>domain/orchestration\<close>) and \<open>Engine\<close>
  (\<open>application/execute_research_plan.py\<close>). \<open>Graph_Order\<close>: validation accepts exactly the acyclic graphs and the
  order is topological. \<open>Propagation\<close>: ready and blocked tasks, failure propagation as a closure. \<open>Engine_Inv\<close>,
  \<open>Engine_Steps\<close>, \<open>Engine_Loop\<close>, \<open>Engine_Result\<close>, \<open>Engine_Frame\<close>: the invariant of the loop, one round, the loop by
  induction, the result, and what a run leaves alone. \<open>Orchestration_Properties\<close> states the properties: bounds on
  the calls, lawful calls, termination, evidence of one company, when a run is complete, pausing.

  \<^bold>\<open>Planning.\<close> \<open>Planner\<close> (capability registry, deterministic planner, its adapter), \<open>Create_Plan\<close>,
  \<open>Create_Workflow\<close> (with the approval policy and the orchestrator) and \<open>Planning_Properties\<close>. The locale
  \<open>planner_port\<close> is what a caller may rely on; the deterministic adapter and the language-model adapter
  (\<open>Llm_Properties\<close>) are its interpretations.

  \<^bold>\<open>Workflows.\<close> \<open>Workflow\<close> (\<open>domain/workflow\<close>), \<open>Workflow_Store\<close>, \<open>Research_Memory\<close>, \<open>Notification\<close>
  (domain and in-memory adapters), \<open>Manage_Workflow\<close> (\<open>application/manage_research_workflow.py\<close>).
  \<open>Workflow_Safety\<close> proves what the operations keep inside the locale \<open>workflow_ports\<close>; \<open>Workflow_System\<close>
  interprets it on the in-memory adapters, where before every adapter call any calls of other threads may run.
  The store refines an abstract map whose records only evolve along the transition table. \<open>Workflow_History\<close> is the
  step relation of whole histories, \<open>Workflow_Runs\<close> the runs without interference, \<open>Workflow_Properties\<close> the
  properties: terminal is final, no run without approval, what an operation reports was stored.

  \<^bold>\<open>Facts, metrics, claims.\<close> \<open>Financial\<close>, \<open>Financial_Package\<close>, \<open>Fact_Conflicts\<close>, \<open>Financial_Metrics\<close>
  (\<open>domain/financial\<close>) with \<open>Metric_Accuracy\<close>, \<open>Financial_Properties\<close>, \<open>Conflict_Properties\<close>: every metric is
  accounted for and close to the exact rational one, conflicts are resolved whatever their order. \<open>Claims\<close>,
  \<open>Verification\<close>, \<open>Confidence\<close>, \<open>Verification_Properties\<close> (\<open>domain/verification\<close>): what a verified claim rests on,
  and that the confidence is always computed.

  \<^bold>\<open>Language models.\<close> \<open>Planner_Output\<close>, \<open>Llm\<close>, \<open>Llm_Planner\<close>, \<open>Tool_Calls\<close> (\<open>domain/llm\<close>,
  \<open>domain/orchestration/planner_output.py\<close>, \<open>infrastructure/orchestration/llm_planner_adapter.py\<close>,
  \<open>application/tool_call_execution.py\<close>). \<open>Prompt_Roundtrip\<close>, \<open>Llm_Properties\<close>, \<open>Tool_Properties\<close>: a plan or a tool call of
  a model is contained by what the server controls, and a request cannot leave its block of the prompt.

  \<^bold>\<open>Watchlists and market data.\<close> \<open>Watchlist\<close> (domain, use case, store), over the workflow creation and the
  resolution above; \<open>Watchlist_Properties\<close> states the contract \<open>watchlist_world\<close> of a store inside the world of
  the use case and interprets it on the in-memory one. \<open>Market\<close> (\<open>domain/market\<close>, freshness policy),
  \<open>Market_Data\<close> (fixtures, fallback, cache; the contract \<open>market_source\<close> and its interpretations on the fixtures and
  the cached fixtures), \<open>Market_Snapshot\<close> (\<open>application/market_snapshot.py\<close>), \<open>Market_Properties\<close>.

  \<open>Sample_Data\<close>, \<open>Samples\<close>, \<open>Sample_Run\<close>, \<open>Financial_Samples\<close>, \<open>Workflow_Samples\<close> hold the concrete inputs of the
  witnesses.

  \<^bold>\<open>Bounds.\<close> The execution loop has the round bound \<open>max_rounds\<close> of the source, and it is proved that no run
  reaches it. The worklist loops of the graph and the text and number functions end by measures. The removal of
  trailing zeros in a decimal quotient gets the difference of the exponents as fuel, which is as many zeros as it
  may remove. The nesting a JSON decoder can hold is an argument, since the interpreter decides it.

  \<^bold>\<open>Limits of the model.\<close> Text is Latin-1, except JSON, which is code points; a character outside Latin-1 is
  folded when it becomes text, and the two Latin-1 letters whose capital lies outside stay as they are. The
  similarity of names omits the heuristic of \<open>difflib\<close> for texts of 200 characters and more. Decimals have one
  NaN. Shifting a time ignores the ends of the calendar. A URL, where a record has one, is not checked: the
  metadata of a filing and of a source are modelled without that check, and evidence with a URL that passed it. The
  creation of ids is an argument that yields UUIDs; rendering (\<open>to_dict\<close>) and logging have no counterpart.

  \<^bold>\<open>Not modelled.\<close> The web layer (\<open>api\<close>, \<open>security\<close>), configuration, composition apart from the market stack
  and the watchlist wiring, and observability are glue over libraries. The live sources and the HTTP client
  (\<open>infrastructure/http\<close>, the SEC, Indian, Yahoo and OpenRouter adapters) parse foreign payloads with floating-point
  numbers; their ports are arguments. Reference data are constants, and the models quantify over all data. News,
  industry and regulatory data, synthesis, reports, the financial snapshot, the filing pipeline and the capability
  executor remain: records of text validation and of dispatch whose caches and snapshots repeat the scheme of
  \<open>Market_Data\<close> and \<open>Market_Snapshot\<close>.
\<close>

end
